(* ===== verification/Prelude.thy ===== *)
theory Prelude
  imports Complex_Main "HOL-Library.List_Lexorder" "HOL-Library.Multiset" "HOL-Library.Sublist"
begin

text \<open>
  Shared vocabulary of the development: JavaScript strings, truthiness, the string
  operations the source uses, thrown errors, and the generic lemmas on lists and options
  that the component theories share.

  A JavaScript string is represented by the bytes of its UTF-8 encoding, a \<open>char list\<close>.
  That is the form in which the program hashes, signs and transmits it, so a digest or a
  byte count reads the list as it is; the operations that JavaScript defines on UTF-16 code
  units (\<open>length\<close>, \<open><\<close>) are defined here from the bytes. ASCII literals read the same
  under both views. Case mapping and \<open>trim\<close> act on the ASCII range only; no string of the
  program that is compared after them leaves that range.
\<close>

section \<open>Collections of facts\<close>

named_theorems js_string_simps \<open>facts that evaluate the string operations\<close>
named_theorems outcome_simps \<open>facts that evaluate thrown errors and early returns\<close>
named_theorems table_simps \<open>facts on the rows of a database table after an operation\<close>

section \<open>Thrown errors and results\<close>

text \<open>
  A thrown \<open>Error\<close> carries its message; an operation that may throw returns
  \<open>Inl\<close> of the message or \<open>Inr\<close> of its value.
\<close>

type_synonym js_error = string
type_synonym 'a res = "js_error + 'a"

definition res_bind :: "'a res \<Rightarrow> ('a \<Rightarrow> 'b res) \<Rightarrow> 'b res" where
  "res_bind r f = (case r of Inl e \<Rightarrow> Inl e | Inr x \<Rightarrow> f x)"

lemma res_bind_simps [simp, outcome_simps]:
  "res_bind (Inl e) f = Inl e"
  "res_bind (Inr x) f = f x"
  by (simp_all add: res_bind_def)

lemma res_bind_InrE:
  assumes "res_bind r f = Inr y"
  obtains x where "r = Inr x" and "f x = Inr y"
  using assms by (cases r) auto

fun map_res :: "('a \<Rightarrow> 'b res) \<Rightarrow> 'a list \<Rightarrow> 'b list res" where
  "map_res f [] = Inr []"
| "map_res f (x # xs) =
     (case f x of
        Inl e \<Rightarrow> Inl e
      | Inr y \<Rightarrow> (case map_res f xs of Inl e \<Rightarrow> Inl e | Inr ys \<Rightarrow> Inr (y # ys)))"

lemma map_res_Inr_iff:
  "map_res f xs = Inr ys \<longleftrightarrow> list_all2 (\<lambda>x y. f x = Inr y) xs ys"
proof (induction xs arbitrary: ys)
  case (Cons x xs)
  show ?case
  proof (cases "f x")
    case (Inr y)
    show ?thesis
    proof (cases "map_res f xs")
      case (Inl e)
      with Cons.IH have "\<not> list_all2 (\<lambda>x y. f x = Inr y) xs zs" for zs
        by (metis Inl_Inr_False)
      with Inl \<open>f x = Inr y\<close> show ?thesis by (simp add: list_all2_Cons1)
    next
      case (Inr zs)
      with Cons.IH have "list_all2 (\<lambda>x y. f x = Inr y) xs us \<longleftrightarrow> us = zs" for us
        by (metis sum.inject(2))
      with Inr \<open>f x = Inr y\<close> show ?thesis by (auto simp: list_all2_Cons1)
    qed
  qed (simp add: list_all2_Cons1)
qed auto

lemma map_res_total: "(\<And>x. x \<in> set xs \<Longrightarrow> f x = Inr (g x)) \<Longrightarrow> map_res f xs = Inr (map g xs)"
  by (induction xs) auto

lemma map_res_cong [fundef_cong]:
  "xs = ys \<Longrightarrow> (\<And>x. x \<in> set ys \<Longrightarrow> f x = g x) \<Longrightarrow> map_res f xs = map_res g ys"
  by (induction xs arbitrary: ys) (auto split: sum.splits)

lemma map_res_map: "map_res f (map g xs) = map_res (\<lambda>x. f (g x)) xs"
  by (induction xs) (auto split: sum.split)

section \<open>Strings\<close>

abbreviation byte :: "char \<Rightarrow> nat" where
  "byte c \<equiv> of_char c"

lemma byte_less_256: "byte c < 256"
  using of_char_mod_256 [of c] by (metis mod_less_divisor zero_less_numeral)

lemma byte_inject [simp]: "byte c = byte d \<longleftrightarrow> c = d"
  by (rule of_char_eq_iff)

lemma char_of_byte [simp]: "char_of (byte c) = c"
  by (rule char_of_char)

text \<open>\<open>s.length\<close>: a lead byte below \<open>0xF0\<close> starts one code unit, a four-byte sequence two,
  a continuation byte none.\<close>

definition byte_units :: "char \<Rightarrow> nat" where
  "byte_units c =
     (let b = byte c in
      if b < 128 then 1 else if b < 192 then 0 else if b < 240 then 1 else 2)"

definition js_length :: "string \<Rightarrow> nat" where
  "js_length s = (\<Sum>c \<leftarrow> s. byte_units c)"

text \<open>\<open>s.slice(0, n)\<close>.\<close>

fun js_slice :: "nat \<Rightarrow> string \<Rightarrow> string" where
  "js_slice n [] = []"
| "js_slice n (c # s) = (if byte_units c \<le> n then c # js_slice (n - byte_units c) s else [])"

lemma js_slice_length: "js_length (js_slice n s) \<le> n"
  by (induction n s rule: js_slice.induct) (auto simp: js_length_def)

lemma js_slice_prefix: "prefix (js_slice n s) s"
  by (induction n s rule: js_slice.induct) auto

text \<open>
  The order of \<open>a < b\<close> on strings compares UTF-16 code units. On UTF-8 bytes that is the
  lexicographic order once the lead bytes \<open>0xEE\<close> and \<open>0xEF\<close> (code points from U+E000 to
  U+FFFF) are ranked above the lead bytes of the surrogate pairs.
\<close>

definition byte_rank :: "char \<Rightarrow> nat" where
  "byte_rank c = (let b = byte c in if b = 238 \<or> b = 239 then b + 256 else b)"

definition js_key :: "string \<Rightarrow> nat list" where
  "js_key s = map byte_rank s"

definition js_less :: "string \<Rightarrow> string \<Rightarrow> bool" where
  "js_less a b \<longleftrightarrow> js_key a < js_key b"

lemma rank_aux:
  fixes m n :: nat
  assumes "m < 256" "n < 256"
    "(if m = 238 \<or> m = 239 then m + 256 else m) = (if n = 238 \<or> n = 239 then n + 256 else n)"
  shows "m = n"
  using assms by (auto split: if_splits)

lemma byte_rank_inject: "byte_rank c = byte_rank d \<longleftrightarrow> c = d"
proof
  have less: "byte c < 256" "byte d < 256" by (rule byte_less_256)+
  assume "byte_rank c = byte_rank d"
  then have "(if byte c = 238 \<or> byte c = 239 then byte c + 256 else byte c)
      = (if byte d = 238 \<or> byte d = 239 then byte d + 256 else byte d)"
    by (simp only: byte_rank_def Let_def)
  with less have "byte c = byte d" by (rule rank_aux)
  then show "c = d" by simp
qed simp

lemma js_key_inject [simp]: "js_key a = js_key b \<longleftrightarrow> a = b"
  unfolding js_key_def by (rule inj_map_eq_map) (auto simp: inj_def byte_rank_inject)

lemma inj_js_key: "inj js_key"
  by (simp add: inj_def)

lemma js_less_irrefl [simp]: "\<not> js_less a a"
  by (simp add: js_less_def)

lemma js_less_total: "js_less a b \<or> a = b \<or> js_less b a"
  unfolding js_less_def by (metis js_key_inject linorder_less_linear)

definition to_upper :: "string \<Rightarrow> string" where
  "to_upper = map (\<lambda>c. if 97 \<le> byte c \<and> byte c \<le> 122 then char_of (byte c - 32) else c)"

definition to_lower :: "string \<Rightarrow> string" where
  "to_lower = map (\<lambda>c. if 65 \<le> byte c \<and> byte c \<le> 90 then char_of (byte c + 32) else c)"

definition is_ws :: "char \<Rightarrow> bool" where
  "is_ws c \<longleftrightarrow> byte c = 32 \<or> (9 \<le> byte c \<and> byte c \<le> 13)"

definition js_trim :: "string \<Rightarrow> string" where
  "js_trim s = rev (dropWhile is_ws (rev (dropWhile is_ws s)))"

definition starts_with :: "string \<Rightarrow> string \<Rightarrow> bool" where
  "starts_with s p \<longleftrightarrow> take (length p) s = p"

lemma starts_with_iff_prefix: "starts_with s p \<longleftrightarrow> prefix p s"
  unfolding starts_with_def by (metis append_eq_conv_conj prefix_def take_is_prefix)

lemma starts_with_append [simp]: "starts_with (p @ s) p"
  by (simp add: starts_with_def)

fun js_includes :: "string \<Rightarrow> string \<Rightarrow> bool" where
  "js_includes [] p \<longleftrightarrow> p = []"
| "js_includes (c # s) p \<longleftrightarrow> starts_with (c # s) p \<or> js_includes s p"

text \<open>\<open>s.split(sep)\<close> for a one-character separator; \<open>parts.join(sep)\<close>.\<close>

fun js_split :: "char \<Rightarrow> string \<Rightarrow> string list" where
  "js_split sep [] = [[]]"
| "js_split sep (c # s) =
     (if c = sep then [] # js_split sep s
      else (case js_split sep s of [] \<Rightarrow> [[c]] | p # ps \<Rightarrow> (c # p) # ps))"

fun js_join :: "string \<Rightarrow> string list \<Rightarrow> string" where
  "js_join sep [] = []"
| "js_join sep [x] = x"
| "js_join sep (x # y # ys) = x @ sep @ js_join sep (y # ys)"

lemma js_split_not_Nil [simp]: "js_split sep s \<noteq> []"
  by (induction s) (auto split: list.splits)

lemma js_split_pieces: "p \<in> set (js_split sep s) \<Longrightarrow> sep \<notin> set p"
  by (induction s arbitrary: p) (fastforce split: if_splits list.splits)+

lemma js_join_Cons: "xs \<noteq> [] \<Longrightarrow> js_join sep (x # xs) = x @ sep @ js_join sep xs"
  by (cases xs) auto

lemma js_join_split: "js_join [sep] (js_split sep s) = s"
proof (induction s)
  case Nil
  then show ?case by simp
next
  case (Cons c s)
  obtain p ps where ps: "js_split sep s = p # ps"
    by (cases "js_split sep s") auto
  with Cons show ?case by (cases ps) auto
qed

lemma js_split_plain: "sep \<notin> set p \<Longrightarrow> js_split sep p = [p]"
  by (induction p) auto

lemma js_split_piece: "sep \<notin> set p \<Longrightarrow> js_split sep (p @ sep # s) = p # js_split sep s"
  by (induction p) auto

lemma js_split_join: "ps \<noteq> [] \<Longrightarrow> list_all (\<lambda>p. sep \<notin> set p) ps \<Longrightarrow> js_split sep (js_join [sep] ps) = ps"
  by (induction "[sep]" ps rule: js_join.induct) (simp_all add: js_split_plain js_split_piece)

section \<open>Decimal numerals\<close>

fun nat_to_string :: "nat \<Rightarrow> string" where
  "nat_to_string n =
     (if n < 10 then [char_of (48 + n)]
      else nat_to_string (n div 10) @ [char_of (48 + n mod 10)])"

declare nat_to_string.simps [simp del]

definition int_to_string :: "int \<Rightarrow> string" where
  "int_to_string i = (if i < 0 then ''-'' @ nat_to_string (nat (- i)) else nat_to_string (nat i))"

definition is_digit :: "char \<Rightarrow> bool" where
  "is_digit c \<longleftrightarrow> 48 \<le> byte c \<and> byte c \<le> 57"

definition digit_val :: "char \<Rightarrow> nat" where
  "digit_val c = byte c - 48"

definition digits_val :: "string \<Rightarrow> nat" where
  "digits_val s = foldl (\<lambda>n c. 10 * n + digit_val c) 0 s"

lemma byte_char_of_digit: "(n::nat) < 10 \<Longrightarrow> byte (char_of (48 + n)) = 48 + n"
  by (simp add: of_char_of)

lemma is_digit_char_of: "(n::nat) < 10 \<Longrightarrow> is_digit (char_of (48 + n))"
  by (simp add: is_digit_def byte_char_of_digit)

lemma digit_val_char_of: "(n::nat) < 10 \<Longrightarrow> digit_val (char_of (48 + n)) = n"
  by (simp add: digit_val_def byte_char_of_digit)

lemma nat_to_string_digits: "c \<in> set (nat_to_string n) \<Longrightarrow> is_digit c"
proof (induction n arbitrary: c rule: nat_to_string.induct)
  case (1 n)
  then show ?case
    by (subst (asm) nat_to_string.simps) (auto simp: is_digit_char_of split: if_splits)
qed

lemma nat_to_string_not_Nil [simp]: "nat_to_string n \<noteq> []"
  by (subst nat_to_string.simps) simp

lemma digits_val_nat_to_string [simp]: "digits_val (nat_to_string n) = n"
proof (induction n rule: nat_to_string.induct)
  case (1 n)
  show ?case
  proof (cases "n < 10")
    case True
    then show ?thesis
      by (subst nat_to_string.simps) (simp add: digits_val_def digit_val_char_of)
  next
    case False
    with "1.IH" have "digits_val (nat_to_string (n div 10)) = n div 10" by simp
    with False show ?thesis
      by (subst nat_to_string.simps) (simp add: digits_val_def digit_val_char_of)
  qed
qed

lemma hd_nat_to_string_zero:
  "hd (nat_to_string n) = CHR ''0'' \<Longrightarrow> n = 0"
proof (induction n rule: nat_to_string.induct)
  case (1 n)
  show ?case
  proof (cases "n < 10")
    case True
    with "1.prems" have "char_of (48 + n) = CHR ''0''"
      by (subst (asm) nat_to_string.simps) simp
    then have "byte (char_of (48 + n)) = byte (CHR ''0'')" by simp
    with True show ?thesis by (simp add: byte_char_of_digit)
  next
    case False
    with "1.prems" have "hd (nat_to_string (n div 10)) = CHR ''0''"
      by (subst (asm) nat_to_string.simps) simp
    with False "1.IH" have "n div 10 = 0" by simp
    with False show ?thesis by simp
  qed
qed

lemma nat_to_string_inject [simp]: "nat_to_string m = nat_to_string n \<longleftrightarrow> m = n"
  by (metis digits_val_nat_to_string)

section \<open>Options\<close>

text \<open>\<open>a ?? b\<close>, and truthiness of an optional string (\<open>null\<close> and the empty string are falsy).\<close>

definition nullish :: "'a option \<Rightarrow> 'a \<Rightarrow> 'a" where
  "nullish x d = (case x of None \<Rightarrow> d | Some v \<Rightarrow> v)"

lemma nullish_simps [simp]: "nullish None d = d" "nullish (Some v) d = v"
  by (simp_all add: nullish_def)

definition truthy_str :: "string option \<Rightarrow> bool" where
  "truthy_str x = (case x of None \<Rightarrow> False | Some s \<Rightarrow> s \<noteq> [])"

lemma truthy_str_simps [simp]: "\<not> truthy_str None" "truthy_str (Some s) \<longleftrightarrow> s \<noteq> []"
  by (simp_all add: truthy_str_def)

section \<open>Lists\<close>

text \<open>\<open>xs.find(p)\<close>, and the first row of a query with \<open>LIMIT 1\<close>.\<close>

definition first_row :: "'a list \<Rightarrow> 'a option" where
  "first_row xs = (case xs of [] \<Rightarrow> None | x # _ \<Rightarrow> Some x)"

lemma first_row_simps [simp]: "first_row [] = None" "first_row (x # xs) = Some x"
  by (simp_all add: first_row_def)

lemma first_row_filter: "first_row (filter P xs) = find P xs"
  by (induction xs) auto

lemma first_row_SomeD: "first_row xs = Some x \<Longrightarrow> x \<in> set xs"
  by (cases xs) auto

lemma first_row_None_iff [simp]: "first_row xs = None \<longleftrightarrow> xs = []"
  by (cases xs) auto

lemma find_SomeD: "find P xs = Some x \<Longrightarrow> x \<in> set xs \<and> P x"
  by (auto simp: find_Some_iff)

lemma find_unique:
  assumes "x \<in> set xs" "P x" "\<And>y. y \<in> set xs \<Longrightarrow> P y \<Longrightarrow> y = x"
  shows "find P xs = Some x"
proof (cases "find P xs")
  case None
  with assms(1,2) show ?thesis by (auto simp: find_None_iff)
next
  case (Some y)
  with find_SomeD [OF Some] assms(3) show ?thesis by simp
qed

text \<open>A sort by an injective key does not depend on the order of its input.\<close>

lemma filter_unique_replicate:
  assumes "P k" and "\<And>x. x \<in> set xs \<Longrightarrow> P x \<Longrightarrow> x = k"
  shows "filter P xs = replicate (count (mset xs) k) k"
  using assms(2)
proof (induction xs)
  case (Cons x xs)
  then have "filter P xs = replicate (count (mset xs) k) k" by simp
  moreover have "P x \<longleftrightarrow> x = k" using Cons.prems [of x] assms(1) by auto
  ultimately show ?case by simp
qed simp

lemma sort_key_mset_cong:
  assumes "mset xs = mset ys" and "inj_on f (set xs)"
  shows "sort_key f xs = sort_key f ys"
proof (rule properties_for_sort_key)
  have s: "set xs = set ys" using assms(1) by (rule mset_eq_setD)
  show "mset (sort_key f ys) = mset xs" using assms(1) by simp
  show "sorted (map f (sort_key f ys))" by simp
  fix k assume "k \<in> set (sort_key f ys)"
  then have k: "k \<in> set xs" using s by simp
  have u: "x = k" if "x \<in> set xs" "f k = f x" for x
    using that assms(2) k by (auto simp: inj_on_def)
  have "filter (\<lambda>x. f k = f x) (sort_key f ys) = replicate (count (mset (sort_key f ys)) k) k"
    by (rule filter_unique_replicate) (auto intro: u simp: s)
  moreover have "filter (\<lambda>x. f k = f x) xs = replicate (count (mset xs) k) k"
    by (rule filter_unique_replicate) (auto intro: u)
  ultimately show "filter (\<lambda>x. f k = f x) (sort_key f ys) = filter (\<lambda>x. f k = f x) xs"
    using assms(1) by simp
qed

lemma distinct_mset_setI: "distinct xs \<Longrightarrow> distinct ys \<Longrightarrow> set xs = set ys \<Longrightarrow> mset xs = mset ys"
  by (simp add: set_eq_iff_mset_eq_distinct)

end
