(* ===== verification/Encoding.thy ===== *)
theory Encoding
  imports Prelude
begin

text \<open>
  Node's \<open>Buffer\<close> encodings used by the console: \<open>toString("hex")\<close> and
  \<open>toString("base64")\<close>, and the lenient \<open>Buffer.from(s, "hex")\<close> and
  \<open>Buffer.from(s, "base64")\<close>. A buffer is the \<open>char list\<close> of its bytes. The base64 reader
  accepts both alphabets, skips every other character, stops at the padding and drops an
  incomplete last byte. The round trips are what the key, signature and ciphertext code
  relies on.
\<close>

section \<open>Hexadecimal\<close>

definition hex_char :: "nat \<Rightarrow> char" where
  "hex_char n = (if n < 10 then char_of (48 + n) else char_of (87 + n))"

definition hex_digit_val :: "char \<Rightarrow> nat option" where
  "hex_digit_val c = (let b = byte c in
     if 48 \<le> b \<and> b \<le> 57 then Some (b - 48)
     else if 65 \<le> b \<and> b \<le> 70 then Some (b - 55)
     else if 97 \<le> b \<and> b \<le> 102 then Some (b - 87) else None)"

definition to_hex :: "string \<Rightarrow> string" where
  "to_hex bs = concat (map (\<lambda>c. [hex_char (byte c div 16), hex_char (byte c mod 16)]) bs)"

fun from_hex :: "string \<Rightarrow> string" where
  "from_hex (a # b # s) =
     (case (hex_digit_val a, hex_digit_val b) of
        (Some x, Some y) \<Rightarrow> char_of (16 * x + y) # from_hex s
      | _ \<Rightarrow> [])"
| "from_hex s = []"

definition is_hex :: "char \<Rightarrow> bool" where
  "is_hex c \<longleftrightarrow> hex_digit_val c \<noteq> None"

lemma byte_char_of: "n < 256 \<Longrightarrow> byte (char_of n) = n"
  by (simp add: of_char_of)

lemma hex_digit_val_hex_char: "n < 16 \<Longrightarrow> hex_digit_val (hex_char n) = Some n"
  by (auto simp: hex_char_def hex_digit_val_def byte_char_of)

lemma hex_char_inject: "m < 16 \<Longrightarrow> n < 16 \<Longrightarrow> hex_char m = hex_char n \<longleftrightarrow> m = n"
  by (metis hex_digit_val_hex_char option.inject)

lemma length_to_hex [simp]: "length (to_hex bs) = 2 * length bs"
  by (induction bs) (auto simp: to_hex_def)

lemma to_hex_Cons: "to_hex (c # bs) = hex_char (byte c div 16) # hex_char (byte c mod 16) # to_hex bs"
  by (simp add: to_hex_def)

lemma nibbles: "byte c div 16 < 16" "byte c mod 16 < 16" "16 * (byte c div 16) + byte c mod 16 = byte c"
proof -
  show "byte c div 16 < 16" using byte_less_256 [of c] by (intro less_mult_imp_div_less) simp
qed (rule mod_less_divisor, simp, rule mult_div_mod_eq)

lemma from_hex_to_hex: "from_hex (to_hex bs) = bs"
  by (induction bs) (simp_all add: to_hex_def hex_digit_val_hex_char nibbles)

lemma to_hex_inject: "to_hex a = to_hex b \<longleftrightarrow> a = b"
  by (metis from_hex_to_hex)

lemma to_hex_chars: "c \<in> set (to_hex bs) \<Longrightarrow> is_hex c"
  by (induction bs) (auto simp: to_hex_def is_hex_def hex_digit_val_hex_char nibbles)

section \<open>Base64\<close>

definition b64_char :: "nat \<Rightarrow> char" where
  "b64_char n = char_of
     (if n < 26 then 65 + n else if n < 52 then 71 + n else if n < 62 then n - 4
      else if n = 62 then 43 else 47)"

definition b64_val :: "char \<Rightarrow> nat option" where
  "b64_val c = (let b = byte c in
     if 65 \<le> b \<and> b \<le> 90 then Some (b - 65)
     else if 97 \<le> b \<and> b \<le> 122 then Some (b - 71)
     else if 48 \<le> b \<and> b \<le> 57 then Some (b + 4)
     else if b = 43 \<or> b = 45 then Some 62
     else if b = 47 \<or> b = 95 then Some 63 else None)"

fun b64_encode :: "string \<Rightarrow> string" where
  "b64_encode [] = []"
| "b64_encode [a] =
     [b64_char (byte a div 4), b64_char (byte a mod 4 * 16), CHR ''='', CHR ''='']"
| "b64_encode [a, b] =
     [b64_char (byte a div 4), b64_char (byte a mod 4 * 16 + byte b div 16),
      b64_char (byte b mod 16 * 4), CHR ''='']"
| "b64_encode (a # b # c # s) =
     b64_char (byte a div 4) # b64_char (byte a mod 4 * 16 + byte b div 16)
       # b64_char (byte b mod 16 * 4 + byte c div 64) # b64_char (byte c mod 64) # b64_encode s"

text \<open>The six-bit values of the text, up to the padding.\<close>

fun sextets :: "string \<Rightarrow> nat list" where
  "sextets [] = []"
| "sextets (c # s) =
     (if c = CHR ''='' then []
      else case b64_val c of None \<Rightarrow> sextets s | Some v \<Rightarrow> v # sextets s)"

fun join_sextets :: "nat list \<Rightarrow> string" where
  "join_sextets (p # q # r # s # vs) =
     char_of (p * 4 + q div 16) # char_of (q mod 16 * 16 + r div 4)
       # char_of (r mod 4 * 64 + s) # join_sextets vs"
| "join_sextets [p, q, r] = [char_of (p * 4 + q div 16), char_of (q mod 16 * 16 + r div 4)]"
| "join_sextets [p, q] = [char_of (p * 4 + q div 16)]"
| "join_sextets vs = []"

definition b64_decode :: "string \<Rightarrow> string" where
  "b64_decode s = join_sextets (sextets s)"

lemma b64_val_char: "n < 64 \<Longrightarrow> b64_val (b64_char n) = Some n"
  by (auto simp: b64_char_def b64_val_def byte_char_of Let_def)

lemma b64_char_not_pad: "n < 64 \<Longrightarrow> b64_char n \<noteq> CHR ''=''"
proof
  assume "n < 64" "b64_char n = CHR ''=''"
  then have "b64_val (CHR ''='') = Some n" using b64_val_char by metis
  then show False by (simp add: b64_val_def)
qed

lemma sextets_b64_char: "n < 64 \<Longrightarrow> sextets (b64_char n # s) = n # sextets s"
  by (simp add: b64_char_not_pad b64_val_char)

lemma sextet_bounds:
  "byte a div 4 < 64" "byte a mod 4 * 16 < 64" "byte a mod 4 * 16 + byte b div 16 < 64"
  "byte b mod 16 * 4 < 64" "byte b mod 16 * 4 + byte c div 64 < 64" "byte c mod 64 < 64"
  using byte_less_256 [of a] byte_less_256 [of b] byte_less_256 [of c] by linarith+

lemma top_bits: "byte b div 16 < 16" "byte c div 64 < 4"
  using byte_less_256 by (auto intro!: less_mult_imp_div_less)

lemma top_bits_simps [simp]:
  "byte b div 16 div 16 = 0" "byte b div 16 mod 16 = byte b div 16"
  "byte c div 64 div 4 = 0" "byte c div 64 mod 4 = byte c div 64"
  using top_bits by (simp_all only: div_less mod_less)

lemma sextets_pad: "sextets (CHR ''='' # s) = []"
  by simp

theorem b64_decode_encode: "b64_decode (b64_encode bs) = bs"
  by (induction bs rule: b64_encode.induct)
    (simp_all add: b64_decode_def sextets_b64_char sextet_bounds sextets_pad del: sextets.simps(2))

lemma b64_encode_inject: "b64_encode a = b64_encode b \<longleftrightarrow> a = b"
  by (metis b64_decode_encode)

end
