(* ===== verification/JsNum.thy ===== *)
theory JsNum
  imports Prelude "HOL-Library.Log_Nat"
begin

text \<open>
  JavaScript numbers. A finite IEEE-754 double is represented by its exact rational value
  (the sign of zero is not kept; no code of the program reads it). Conversions from text
  round to the nearest double, ties to even, so a numeral that overflows becomes an infinity
  and a numeral with too many digits becomes its neighbour.

  \<open>js_number\<close> is \<open>Number(s)\<close> (and unary \<open>+s\<close>) on a string, \<open>js_parse_int\<close> is
  \<open>parseInt(s)\<close>, \<open>num_to_string\<close> is the text of a number in a template literal and in
  \<open>JSON.stringify\<close>.
\<close>

section \<open>Doubles\<close>

datatype jsnum = NaN | PInf | NInf | Fin rat

definition pow2 :: "int \<Rightarrow> rat" where
  "pow2 e = (if 0 \<le> e then 2 ^ nat e else 1 / 2 ^ nat (- e))"

definition ilog2 :: "rat \<Rightarrow> int" where
  "ilog2 q = (case quotient_of q of (n, d) \<Rightarrow>
     let e = int (floorlog 2 (nat n)) - int (floorlog 2 (nat d))
     in if pow2 e \<le> q then e else e - 1)"

definition round_half_even :: "rat \<Rightarrow> int" where
  "round_half_even q =
     (let f = \<lfloor>q\<rfloor>; r = q - of_int f
      in if r < 1/2 then f else if 1/2 < r then f + 1 else if even f then f else f + 1)"

definition round_double :: "rat \<Rightarrow> jsnum" where
  "round_double q =
     (if q = 0 then Fin 0
      else let a = \<bar>q\<bar>;
               u = pow2 (max (ilog2 a) (- 1022) - 52);
               r = of_int (round_half_even (a / u)) * u
           in if pow2 1024 \<le> r then (if 0 < q then PInf else NInf) else Fin (sgn q * r))"

text \<open>Integers below \<open>2^53\<close> in magnitude are doubles.\<close>

lemma pow2_pos: "0 < pow2 e"
  by (simp add: pow2_def)

lemma pow2_nonneg_exp: "0 \<le> e \<Longrightarrow> pow2 e = 2 ^ nat e"
  by (simp add: pow2_def)

lemma ilog2_of_nat:
  assumes "0 < n"
  shows "ilog2 (of_nat n) = int (floorlog 2 n) - 1"
proof -
  have q: "quotient_of (of_nat n :: rat) = (int n, 1)"
    using quotient_of_rat_of_int [of "int n"] by simp
  have one: "floorlog 2 (nat 1) = 1"
    by (simp add: floorlog_def)
  have "n < 2 ^ floorlog 2 n"
    using floorlog_bounds [of n 2] assms by simp
  moreover have "2 ^ (floorlog 2 n - 1) \<le> n"
    using floorlog_bounds [of n 2] assms by simp
  moreover have "0 < floorlog 2 n"
    using assms by (simp add: floorlog_def)
  ultimately have "pow2 (int (floorlog 2 n) - 1) \<le> of_nat n"
    by (simp add: pow2_def nat_diff_distrib)
  with q one show ?thesis by (simp add: ilog2_def Let_def)
qed

lemma round_half_even_int [simp]: "round_half_even (of_int k) = k"
  by (simp add: round_half_even_def)

lemma round_double_int_pos:
  assumes "0 < n" "n < 2 ^ 53"
  shows "round_double (of_nat n) = Fin (of_nat n)"
proof -
  let ?l = "floorlog 2 n"
  have pos: "0 < ?l" using assms(1) by (simp add: floorlog_def)
  have up: "?l \<le> 53"
  proof (rule ccontr)
    assume "\<not> ?l \<le> 53"
    then have "(2::nat) ^ 53 \<le> 2 ^ (?l - 1)" by (intro power_increasing) auto
    also have "\<dots> \<le> n" using floorlog_bounds [of n 2] assms(1) by simp
    finally show False using assms(2) by simp
  qed
  let ?e = "max (ilog2 (of_nat n)) (- 1022) - 52"
  have e: "?e = int ?l - 53"
    using pos by (simp add: ilog2_of_nat assms(1))
  have u: "pow2 ?e = 1 / 2 ^ (53 - ?l)"
    using up by (simp add: e pow2_def nat_diff_distrib)
  then have "of_nat n / pow2 ?e = of_int (int (n * 2 ^ (53 - ?l)))"
    by simp
  then have r: "of_int (round_half_even (of_nat n / pow2 ?e)) * pow2 ?e = (of_nat n :: rat)"
    by (simp only: round_half_even_int) (simp add: u)
  have "(of_nat n :: rat) < 2 ^ 53"
    using assms(2) by (metis of_nat_less_iff of_nat_numeral of_nat_power)
  also have "\<dots> \<le> pow2 1024" by (simp add: pow2_def)
  finally have "\<not> pow2 1024 \<le> (of_nat n :: rat)" by simp
  with r assms(1) show ?thesis
    by (simp add: round_double_def Let_def sgn_if)
qed

lemma round_double_int:
  assumes "\<bar>i\<bar> < 2 ^ 53"
  shows "round_double (of_int i) = Fin (of_int i)"
proof (cases "i = 0")
  case True
  then show ?thesis by (simp add: round_double_def)
next
  case False
  have m: "round_double (- q) = (case round_double q of
      Fin r \<Rightarrow> Fin (- r) | PInf \<Rightarrow> NInf | NInf \<Rightarrow> PInf | NaN \<Rightarrow> NaN)" if "q > 0" for q
    using that by (simp add: round_double_def Let_def sgn_if)
  have n: "0 < nat \<bar>i\<bar>" "nat \<bar>i\<bar> < 2 ^ 53"
    using False assms by (auto simp: nat_less_iff)
  note r = round_double_int_pos [OF n]
  show ?thesis
  proof (cases "0 < i")
    case True
    with r show ?thesis by (simp add: of_nat_nat)
  next
    case neg: False
    then have "of_int i = - (of_nat (nat \<bar>i\<bar>) :: rat)" using False by (simp add: of_nat_nat)
    moreover have "(0::rat) < of_nat (nat \<bar>i\<bar>)" using n by simp
    ultimately show ?thesis using m r by (simp only:) simp
  qed
qed

section \<open>Reading numbers\<close>

definition is_integer :: "jsnum \<Rightarrow> bool" where
  "is_integer x = (case x of Fin q \<Rightarrow> snd (quotient_of q) = 1 | _ \<Rightarrow> False)"

definition is_finite :: "jsnum \<Rightarrow> bool" where
  "is_finite x = (case x of Fin _ \<Rightarrow> True | _ \<Rightarrow> False)"

definition to_int :: "jsnum \<Rightarrow> int" where
  "to_int x = (case x of Fin q \<Rightarrow> \<lfloor>q\<rfloor> | _ \<Rightarrow> 0)"

text \<open>\<open>Number.isInteger(x) && x > 0\<close>, as the id checks of the controllers write it.\<close>

definition positive_int :: "jsnum \<Rightarrow> int option" where
  "positive_int x = (if is_integer x \<and> 0 < to_int x then Some (to_int x) else None)"

lemma is_integer_of_int [simp]: "is_integer (Fin (of_int i))"
  by (simp add: is_integer_def)

lemma to_int_of_int [simp]: "to_int (Fin (of_int i)) = i"
  by (simp add: to_int_def)

lemma is_integerD:
  assumes "is_integer x" shows "x = Fin (of_int (to_int x))"
proof (cases x)
  case (Fin q)
  obtain n d where "quotient_of q = (n, d)" by (cases "quotient_of q")
  with assms Fin have "quotient_of q = (n, 1)" by (simp add: is_integer_def)
  then have "q = of_int n" using quotient_of_div by fastforce
  with Fin show ?thesis by (simp add: to_int_def)
qed (use assms in \<open>simp_all add: is_integer_def\<close>)

lemma positive_int_SomeD: "positive_int x = Some i \<Longrightarrow> 0 < i \<and> x = Fin (of_int i)"
  using is_integerD [of x] by (simp add: positive_int_def split: if_splits)

definition hex_val :: "char \<Rightarrow> nat option" where
  "hex_val c = (let b = byte c in
     if 48 \<le> b \<and> b \<le> 57 then Some (b - 48)
     else if 97 \<le> b \<and> b \<le> 102 then Some (b - 87)
     else if 65 \<le> b \<and> b \<le> 70 then Some (b - 55) else None)"

fun radix_val :: "nat \<Rightarrow> nat \<Rightarrow> string \<Rightarrow> nat option" where
  "radix_val r acc [] = Some acc"
| "radix_val r acc (c # s) =
     (case hex_val c of None \<Rightarrow> None
      | Some d \<Rightarrow> if d < r then radix_val r (r * acc + d) s else None)"

definition pow10 :: "int \<Rightarrow> rat" where
  "pow10 e = (if 0 \<le> e then 10 ^ nat e else 1 / 10 ^ nat (- e))"

text \<open>An optional exponent part; text that is no exponent is left unread.\<close>

definition scan_exponent :: "string \<Rightarrow> int \<times> string" where
  "scan_exponent s = (case s of
     [] \<Rightarrow> (0, [])
   | c # r \<Rightarrow>
       if c = CHR ''e'' \<or> c = CHR ''E'' then
         (let neg = starts_with r ''-'';
              t = (if starts_with r ''-'' \<or> starts_with r ''+'' then tl r else r);
              ds = takeWhile is_digit t
          in if ds = [] then (0, s)
             else ((if neg then - int (digits_val ds) else int (digits_val ds)), dropWhile is_digit t))
       else (0, s))"

text \<open>A decimal literal without a sign: digits, an optional fraction, an optional exponent.\<close>

definition scan_decimal :: "string \<Rightarrow> (rat \<times> string) option" where
  "scan_decimal s =
     (let ds = takeWhile is_digit s; r = dropWhile is_digit s;
          fs = (if starts_with r ''.'' then takeWhile is_digit (tl r) else []);
          r' = (if starts_with r ''.'' then dropWhile is_digit (tl r) else r)
      in if ds = [] \<and> fs = [] then None
         else (case scan_exponent r' of (e, rest) \<Rightarrow>
           Some (of_nat (digits_val (ds @ fs)) * pow10 (e - int (length fs)), rest)))"

definition js_number :: "string \<Rightarrow> jsnum" where
  "js_number s =
     (let t = js_trim s;
          radix = (\<lambda>r ds. case radix_val r 0 ds of
                     Some n \<Rightarrow> if ds = [] then NaN else round_double (of_nat n) | None \<Rightarrow> NaN)
      in if t = [] then Fin 0
         else if starts_with t ''0x'' \<or> starts_with t ''0X'' then radix 16 (drop 2 t)
         else if starts_with t ''0o'' \<or> starts_with t ''0O'' then radix 8 (drop 2 t)
         else if starts_with t ''0b'' \<or> starts_with t ''0B'' then radix 2 (drop 2 t)
         else let neg = starts_with t ''-'';
                  u = (if starts_with t ''-'' \<or> starts_with t ''+'' then tl t else t)
              in if u = ''Infinity'' then (if neg then NInf else PInf)
                 else (case scan_decimal u of
                     Some (q, []) \<Rightarrow> round_double (if neg then - q else q)
                   | _ \<Rightarrow> NaN))"

definition js_parse_int :: "string \<Rightarrow> jsnum" where
  "js_parse_int s =
     (let t = dropWhile is_ws s;
          neg = starts_with t ''-'';
          u = (if starts_with t ''-'' \<or> starts_with t ''+'' then tl t else t);
          hex = starts_with u ''0x'' \<or> starts_with u ''0X'';
          ds = (if hex then takeWhile (\<lambda>c. hex_val c \<noteq> None) (drop 2 u) else takeWhile is_digit u)
      in if ds = [] then NaN
         else (case radix_val (if hex then 16 else 10) 0 ds of
             Some n \<Rightarrow> round_double (if neg then - of_nat n else of_nat n)
           | None \<Rightarrow> NaN))"

text \<open>Decimal digits read back as the number they denote.\<close>

lemma takeWhile_digits [simp]: "takeWhile is_digit (nat_to_string n) = nat_to_string n"
  by (simp add: nat_to_string_digits)

lemma dropWhile_digits [simp]: "dropWhile is_digit (nat_to_string n) = []"
  by (simp add: nat_to_string_digits)

lemma digit_not_ws: "is_digit c \<Longrightarrow> \<not> is_ws c"
  by (auto simp: is_digit_def is_ws_def)

lemma js_trim_digits:
  assumes "\<And>c. c \<in> set s \<Longrightarrow> \<not> is_ws c"
  shows "js_trim s = s"
proof -
  have d: "dropWhile is_ws t = t" if "set t \<subseteq> set s" for t
    using that assms by (cases t) auto
  have "dropWhile is_ws s = s" "dropWhile is_ws (rev s) = rev s"
    by (rule d, simp)+
  then show ?thesis by (simp add: js_trim_def)
qed

lemma scan_decimal_nat: "scan_decimal (nat_to_string n) = Some (of_nat n, [])"
  by (simp add: scan_decimal_def starts_with_def scan_exponent_def pow10_def)

lemma not_digit_chars:
  "\<not> is_digit (CHR ''x'')" "\<not> is_digit (CHR ''X'')" "\<not> is_digit (CHR ''o'')" "\<not> is_digit (CHR ''O'')"
  "\<not> is_digit (CHR ''b'')" "\<not> is_digit (CHR ''B'')" "\<not> is_digit (CHR ''-'')" "\<not> is_digit (CHR ''+'')"
  "\<not> is_digit (CHR ''I'')" "\<not> is_digit (CHR ''.'')" "\<not> is_digit (CHR ''e'')" "\<not> is_digit (CHR ''E'')"
  by (simp_all add: is_digit_def)

lemma not_starts_with_digits:
  assumes "\<And>c. c \<in> set s \<Longrightarrow> is_digit c" and "d \<in> set p" and "\<not> is_digit d"
  shows "\<not> starts_with s p"
proof
  assume "starts_with s p"
  then have "set p \<subseteq> set s" by (auto simp: starts_with_iff_prefix prefix_def)
  with assms show False by auto
qed

lemma js_number_nat:
  assumes "n < 2 ^ 53"
  shows "js_number (nat_to_string n) = Fin (of_nat n)"
proof -
  let ?s = "nat_to_string n"
  have dig: "\<And>c. c \<in> set ?s \<Longrightarrow> is_digit c" by (rule nat_to_string_digits)
  have trim: "js_trim ?s = ?s" using dig digit_not_ws by (intro js_trim_digits) blast
  have no: "\<not> starts_with ?s p" if "d \<in> set p" "\<not> is_digit d" for d p
    using not_starts_with_digits [OF dig that] by simp
  have pre: "\<not> starts_with ?s ''0x''" "\<not> starts_with ?s ''0X''" "\<not> starts_with ?s ''0o''"
    "\<not> starts_with ?s ''0O''" "\<not> starts_with ?s ''0b''" "\<not> starts_with ?s ''0B''"
    "\<not> starts_with ?s ''-''" "\<not> starts_with ?s ''+''"
    by (rule no [of "CHR ''x''"] no [of "CHR ''X''"] no [of "CHR ''o''"] no [of "CHR ''O''"]
        no [of "CHR ''b''"] no [of "CHR ''B''"] no [of "CHR ''-''"] no [of "CHR ''+''"];
        simp add: not_digit_chars)+
  have inf: "?s \<noteq> ''Infinity''"
  proof
    assume "?s = ''Infinity''"
    then have "CHR ''I'' \<in> set ?s" by simp
    then show False using dig not_digit_chars(9) by blast
  qed
  have "round_double (of_nat n) = Fin (of_nat n)"
    using round_double_int [of "int n"] assms by simp
  with trim pre inf show ?thesis
    by (simp add: js_number_def Let_def scan_decimal_nat)
qed

lemma radix_val_digits:
  "(\<And>c. c \<in> set s \<Longrightarrow> is_digit c) \<Longrightarrow> radix_val 10 acc s = Some (foldl (\<lambda>n c. 10 * n + digit_val c) acc s)"
proof (induction s arbitrary: acc)
  case (Cons a s)
  then have "is_digit a" by simp
  then have "hex_val a = Some (digit_val a)" "digit_val a < 10" by (auto simp: hex_val_def is_digit_def digit_val_def)
  with Cons show ?case by simp
qed simp

lemma js_parse_int_nat:
  assumes "n < 2 ^ 53"
  shows "js_parse_int (nat_to_string n) = Fin (of_nat n)"
proof -
  let ?s = "nat_to_string n"
  have dig: "\<And>c. c \<in> set ?s \<Longrightarrow> is_digit c" by (rule nat_to_string_digits)
  then have ws: "dropWhile is_ws ?s = ?s" using digit_not_ws by (cases ?s) auto
  have no: "\<not> starts_with ?s p" if "d \<in> set p" "\<not> is_digit d" for d p
    using not_starts_with_digits [OF dig that] by simp
  have pre: "\<not> starts_with ?s ''0x''" "\<not> starts_with ?s ''0X''" "\<not> starts_with ?s ''-''" "\<not> starts_with ?s ''+''"
    by (rule no [of "CHR ''x''"] no [of "CHR ''X''"] no [of "CHR ''-''"] no [of "CHR ''+''"]; simp add: not_digit_chars)+
  have "radix_val 10 0 ?s = Some n"
    using radix_val_digits [of ?s 0, OF dig] digits_val_nat_to_string [of n] by (simp add: digits_val_def)
  moreover have "round_double (of_nat n) = Fin (of_nat n)"
    using round_double_int [of "int n"] assms by simp
  ultimately show ?thesis using ws pre by (simp add: js_parse_int_def Let_def)
qed

section \<open>Writing numbers\<close>

text \<open>The decimal exponent \<open>n\<close> with \<open>10^(n-1) \<le> q < 10^n\<close>.\<close>

definition dec_exponent :: "rat \<Rightarrow> int" where
  "dec_exponent q =
     (if 1 \<le> q then int (length (nat_to_string (nat \<lfloor>q\<rfloor>)))
      else 1 - int (length (nat_to_string (nat (\<lceil>1 / q\<rceil> - 1)))))"

text \<open>The shortest digits that read back as the double \<open>q\<close>.\<close>

fun shortest_from :: "nat \<Rightarrow> nat \<Rightarrow> rat \<Rightarrow> int \<times> string" where
  "shortest_from 0 k q = (dec_exponent q, nat_to_string (nat (round_half_even (q / pow10 (dec_exponent q - int k)))))"
| "shortest_from (Suc f) k q =
     (let n = dec_exponent q; s = round_half_even (q / pow10 (n - int k))
      in if round_double (of_int s * pow10 (n - int k)) = Fin q
         then (if s = 10 ^ k then (n + 1, nat_to_string (nat (s div 10))) else (n, nat_to_string (nat s)))
         else shortest_from f (Suc k) q)"

definition positive_to_string :: "rat \<Rightarrow> string" where
  "positive_to_string q =
     (case shortest_from 17 1 q of (n, ds) \<Rightarrow>
       let k = int (length ds) in
       if k \<le> n \<and> n \<le> 21 then ds @ replicate (nat (n - k)) (CHR ''0'')
       else if 0 < n \<and> n \<le> 21 then take (nat n) ds @ ''.'' @ drop (nat n) ds
       else if - 6 < n \<and> n \<le> 0 then ''0.'' @ replicate (nat (- n)) (CHR ''0'') @ ds
       else (let e = n - 1; es = (if 0 \<le> e then ''+'' else ''-'') @ nat_to_string (nat \<bar>e\<bar>)
             in if k = 1 then ds @ ''e'' @ es else take 1 ds @ ''.'' @ drop 1 ds @ ''e'' @ es))"

definition num_to_string :: "jsnum \<Rightarrow> string" where
  "num_to_string x = (case x of
     NaN \<Rightarrow> ''NaN'' | PInf \<Rightarrow> ''Infinity'' | NInf \<Rightarrow> ''-Infinity''
   | Fin q \<Rightarrow>
       if is_integer (Fin q) \<and> \<bar>q\<bar> < 10 ^ 21 then int_to_string \<lfloor>q\<rfloor>
       else if q < 0 then ''-'' @ positive_to_string (- q) else positive_to_string q)"

lemma num_to_string_int:
  assumes "\<bar>i\<bar> < 2 ^ 53"
  shows "num_to_string (Fin (of_int i)) = int_to_string i"
proof -
  have "\<bar>of_int i :: rat\<bar> = of_int \<bar>i\<bar>" by simp
  also have "\<dots> < of_int (2 ^ 53)" using assms by (simp only: of_int_less_iff)
  also have "\<dots> \<le> (10 ^ 21 :: rat)" by simp
  finally show ?thesis by (simp add: num_to_string_def)
qed

end
