(* ===== verification/Json.thy ===== *)
theory Json
  imports JsNum
begin

text \<open>
  JavaScript values and JSON text. \<open>json_parse\<close> is \<open>JSON.parse\<close> (the whole grammar of
  ECMA-404, duplicate keys resolved to the last value, \<open>None\<close> for a \<open>SyntaxError\<close>),
  \<open>json_quote\<close> the quoting of a string and \<open>json_stringify\<close> is \<open>JSON.stringify(v)\<close>
  without a replacer (\<open>None\<close> is \<open>undefined\<close>). An object is the list of its own properties
  in order; the listing of integer-like keys before the others is not modelled, and no code
  of the program reads the order of the keys of a parsed object.

  The parser spends one unit of fuel per call; \<open>json_parse\<close> starts it with twice the
  length of the text plus one, and \<open>p_fuel_enough\<close> of \<open>JsonFuel\<close> shows that no larger amount changes a result.
\<close>

section \<open>Values\<close>

datatype jsval =
    Undef
  | Null
  | Bool bool
  | Num jsnum
  | Str string
  | Arr "jsval list"
  | Obj "(string \<times> jsval) list"

definition truthy :: "jsval \<Rightarrow> bool" where
  "truthy v = (case v of
     Undef \<Rightarrow> False | Null \<Rightarrow> False | Bool b \<Rightarrow> b
   | Num x \<Rightarrow> x \<noteq> NaN \<and> x \<noteq> Fin 0
   | Str s \<Rightarrow> s \<noteq> [] | Arr _ \<Rightarrow> True | Obj _ \<Rightarrow> True)"

text \<open>Reading a property of an object; a missing one is \<open>undefined\<close>.\<close>

definition get_prop :: "jsval \<Rightarrow> string \<Rightarrow> jsval" where
  "get_prop v k = (case v of
     Obj ps \<Rightarrow> (case map_of ps k of None \<Rightarrow> Undef | Some x \<Rightarrow> x)
   | _ \<Rightarrow> Undef)"

definition obj_put :: "(string \<times> jsval) list \<Rightarrow> string \<Rightarrow> jsval \<Rightarrow> (string \<times> jsval) list" where
  "obj_put ps k v =
     (if k \<in> fst ` set ps then map (\<lambda>(k', v'). if k' = k then (k', v) else (k', v')) ps
      else ps @ [(k, v)])"

text \<open>\<open>String(v)\<close>, and \<open>Number(v)\<close>.\<close>

fun js_string :: "jsval \<Rightarrow> string" where
  "js_string Undef = ''undefined''"
| "js_string Null = ''null''"
| "js_string (Bool b) = (if b then ''true'' else ''false'')"
| "js_string (Num x) = num_to_string x"
| "js_string (Str s) = s"
| "js_string (Arr vs) =
     js_join '','' (map (\<lambda>v. case v of Undef \<Rightarrow> [] | Null \<Rightarrow> [] | _ \<Rightarrow> js_string v) vs)"
| "js_string (Obj _) = ''[object Object]''"

definition js_to_number :: "jsval \<Rightarrow> jsnum" where
  "js_to_number v = (case v of
     Undef \<Rightarrow> NaN | Null \<Rightarrow> Fin 0 | Bool b \<Rightarrow> Fin (if b then 1 else 0) | Num x \<Rightarrow> x
   | Str s \<Rightarrow> js_number s | Arr vs \<Rightarrow> js_number (js_string v) | Obj _ \<Rightarrow> NaN)"

section \<open>Writing\<close>

definition hex_digit :: "nat \<Rightarrow> char" where
  "hex_digit n = (if n < 10 then char_of (48 + n) else char_of (87 + n))"

definition quote_char :: "char \<Rightarrow> string" where
  "quote_char c = (let b = byte c in
     if b = 34 then [CHR 0x5C, CHR 0x22]
     else if b = 92 then [CHR 0x5C, CHR 0x5C]
     else if b = 8 then [CHR 0x5C, CHR ''b'']
     else if b = 12 then [CHR 0x5C, CHR ''f'']
     else if b = 10 then [CHR 0x5C, CHR ''n'']
     else if b = 13 then [CHR 0x5C, CHR ''r'']
     else if b = 9 then [CHR 0x5C, CHR ''t'']
     else if b < 32 then [CHR 0x5C, CHR ''u'', CHR ''0'', CHR ''0'', hex_digit (b div 16), hex_digit (b mod 16)]
     else [c])"

definition json_quote :: "string \<Rightarrow> string" where
  "json_quote s = [CHR 0x22] @ concat (map quote_char s) @ [CHR 0x22]"

definition json_number :: "jsnum \<Rightarrow> string" where
  "json_number x = (if is_finite x then num_to_string x else ''null'')"

text \<open>The members of an object that have a text, in order: one that is \<open>undefined\<close> is left out.\<close>

fun member_texts :: "(string \<times> string option) list \<Rightarrow> string list" where
  "member_texts [] = []"
| "member_texts ((k, t) # ms) =
     (case t of None \<Rightarrow> member_texts ms | Some t' \<Rightarrow> (json_quote k @ '':'' @ t') # member_texts ms)"

fun json_stringify :: "jsval \<Rightarrow> string option" where
  "json_stringify Undef = None"
| "json_stringify Null = Some ''null''"
| "json_stringify (Bool b) = Some (if b then ''true'' else ''false'')"
| "json_stringify (Num x) = Some (json_number x)"
| "json_stringify (Str s) = Some (json_quote s)"
| "json_stringify (Arr vs) =
     Some (''['' @ js_join '','' (map (\<lambda>v. nullish (json_stringify v) ''null'') vs) @ '']'')"
| "json_stringify (Obj ps) =
     Some (''{'' @ js_join '','' (member_texts (map (\<lambda>(k, v). (k, json_stringify v)) ps)) @ ''}'')"

section \<open>Reading\<close>

definition json_ws :: "char \<Rightarrow> bool" where
  "json_ws c \<longleftrightarrow> byte c = 32 \<or> byte c = 9 \<or> byte c = 10 \<or> byte c = 13"

definition skip_ws :: "string \<Rightarrow> string" where
  "skip_ws s = dropWhile json_ws s"

text \<open>The UTF-8 bytes of a code point; a lone surrogate keeps its three-byte form.\<close>

definition utf8_encode :: "nat \<Rightarrow> string" where
  "utf8_encode cp =
     map char_of
       (if cp < 128 then [cp]
        else if cp < 2048 then [192 + cp div 64, 128 + cp mod 64]
        else if cp < 65536 then [224 + cp div 4096, 128 + cp div 64 mod 64, 128 + cp mod 64]
        else [240 + cp div 262144, 128 + cp div 4096 mod 64, 128 + cp div 64 mod 64, 128 + cp mod 64])"

definition hex4 :: "string \<Rightarrow> nat option" where
  "hex4 s = (if length s = 4 then radix_val 16 0 s else None)"

text \<open>The rest of a string literal after its opening quote.\<close>

function p_string :: "string \<Rightarrow> (string \<times> string) option" where
  "p_string s = (case s of
     [] \<Rightarrow> None
   | c # r \<Rightarrow>
       if byte c = 34 then Some ([], r)
       else if byte c < 32 then None
       else if byte c \<noteq> 92 then map_option (\<lambda>(t, q). (c # t, q)) (p_string r)
       else (case r of
           [] \<Rightarrow> None
         | e # q \<Rightarrow>
             if e = CHR ''u'' then
               (case hex4 (take 4 q) of
                  None \<Rightarrow> None
                | Some u \<Rightarrow>
                    let q' = drop 4 q;
                        lo = (if starts_with q' [CHR 0x5C, CHR ''u''] then hex4 (take 4 (drop 2 q')) else None)
                    in (case lo of
                          Some l \<Rightarrow>
                            if 55296 \<le> u \<and> u < 56320 \<and> 56320 \<le> l \<and> l < 57344
                            then map_option (\<lambda>(t, p). (utf8_encode (65536 + (u - 55296) * 1024 + (l - 56320)) @ t, p))
                                   (p_string (drop 6 q'))
                            else map_option (\<lambda>(t, p). (utf8_encode u @ t, p)) (p_string q')
                        | None \<Rightarrow> map_option (\<lambda>(t, p). (utf8_encode u @ t, p)) (p_string q')))
             else (case map_of [(CHR 0x22, CHR 0x22), (CHR 0x5C, CHR 0x5C), (CHR ''/'', CHR ''/''),
                        (CHR ''b'', CHR 0x08), (CHR ''f'', CHR 0x0C), (CHR ''n'', CHR 0x0A),
                        (CHR ''r'', CHR 0x0D), (CHR ''t'', CHR 0x09)] e of
                 None \<Rightarrow> None
               | Some x \<Rightarrow> map_option (\<lambda>(t, p). (x # t, p)) (p_string q))))"
  by pat_completeness auto
termination by (relation "measure length") auto

declare p_string.simps [simp del]

text \<open>A JSON number: no leading zeros, digits required around a point.\<close>

definition p_number :: "string \<Rightarrow> (jsnum \<times> string) option" where
  "p_number s =
     (let neg = starts_with s ''-''; t = (if neg then tl s else s);
          ds = takeWhile is_digit t; r = dropWhile is_digit t;
          fs = (if starts_with r ''.'' then takeWhile is_digit (tl r) else []);
          r' = (if starts_with r ''.'' then dropWhile is_digit (tl r) else r)
      in if ds = [] \<or> (hd ds = CHR ''0'' \<and> 1 < length ds) \<or> (starts_with r ''.'' \<and> fs = []) then None
         else (case scan_exponent r' of (e, rest) \<Rightarrow>
           let q = of_nat (digits_val (ds @ fs)) * pow10 (e - int (length fs))
           in Some (round_double (if neg then - q else q), rest)))"

definition dedup :: "(string \<times> jsval) list \<Rightarrow> (string \<times> jsval) list" where
  "dedup ps = foldl (\<lambda>m (k, v). obj_put m k v) [] ps"

fun p_value :: "nat \<Rightarrow> string \<Rightarrow> (jsval \<times> string) option"
  and p_elems :: "nat \<Rightarrow> string \<Rightarrow> (jsval list \<times> string) option"
  and p_members :: "nat \<Rightarrow> string \<Rightarrow> ((string \<times> jsval) list \<times> string) option"
where
  "p_value 0 s = None"
| "p_value (Suc n) s =
     (case skip_ws s of
        [] \<Rightarrow> None
      | c # r \<Rightarrow>
          if c = CHR ''{'' then
            (if starts_with (skip_ws r) ''}'' then Some (Obj [], tl (skip_ws r))
             else map_option (\<lambda>(ps, q). (Obj (dedup ps), q)) (p_members n r))
          else if c = CHR ''['' then
            (if starts_with (skip_ws r) '']'' then Some (Arr [], tl (skip_ws r))
             else map_option (\<lambda>(vs, q). (Arr vs, q)) (p_elems n r))
          else if byte c = 34 then map_option (\<lambda>(t, q). (Str t, q)) (p_string r)
          else if starts_with (c # r) ''true'' then Some (Bool True, drop 4 (c # r))
          else if starts_with (c # r) ''false'' then Some (Bool False, drop 5 (c # r))
          else if starts_with (c # r) ''null'' then Some (Null, drop 4 (c # r))
          else map_option (\<lambda>(x, q). (Num x, q)) (p_number (c # r)))"
| "p_elems 0 s = None"
| "p_elems (Suc n) s =
     (case p_value n s of
        None \<Rightarrow> None
      | Some (v, r) \<Rightarrow>
          (case skip_ws r of
             [] \<Rightarrow> None
           | c # q \<Rightarrow>
               if c = CHR '','' then map_option (\<lambda>(vs, p). (v # vs, p)) (p_elems n q)
               else if c = CHR '']'' then Some ([v], q) else None))"
| "p_members 0 s = None"
| "p_members (Suc n) s =
     (case skip_ws s of
        [] \<Rightarrow> None
      | c # r \<Rightarrow>
          if byte c \<noteq> 34 then None
          else (case p_string r of
              None \<Rightarrow> None
            | Some (k, r1) \<Rightarrow>
                (if \<not> starts_with (skip_ws r1) '':'' then None
                 else (case p_value n (tl (skip_ws r1)) of
                     None \<Rightarrow> None
                   | Some (v, r2) \<Rightarrow>
                       (case skip_ws r2 of
                          [] \<Rightarrow> None
                        | d # q \<Rightarrow>
                            if d = CHR '','' then map_option (\<lambda>(ps, p). ((k, v) # ps, p)) (p_members n q)
                            else if d = CHR ''}'' then Some ([(k, v)], q) else None)))))"

definition json_parse :: "string \<Rightarrow> jsval option" where
  "json_parse s =
     (case p_value (Suc (2 * length s)) s of
        None \<Rightarrow> None
      | Some (v, r) \<Rightarrow> if skip_ws r = [] then Some v else None)"

end
