(* ===== verification/Schema.thy ===== *)
theory Schema
  imports Json
begin

text \<open>
  The console's database (\<open>webui-fastify/db/schema.ts\<close>): one record per table row, with the
  source's columns, and one table per Drizzle definition. A table is the list of its rows in
  insertion order with the next value of its auto-increment key; a query is a list function of
  those rows. Nullable columns are options, dates are milliseconds since the epoch, and the
  \<open>createdAt\<close>/\<open>updatedAt\<close> columns that no code of the console decides on are left out
  (those of \<open>ConfigVersions\<close> and \<open>Logs\<close> are kept). String comparison in SQL is equality; the collation of the server and the
  length limits of \<open>varchar\<close> columns are not modelled.

  The locale \<open>keyed_rows\<close> is the interface of a table keyed by an auto-increment column; each table
  of the schema is an instance of it.
\<close>

section \<open>Tables with an auto-increment key\<close>

record 'r table =
  rows :: "'r list"
  next_id :: int

definition empty_table :: "'r table" where
  "empty_table = \<lparr>rows = [], next_id = 1\<rparr>"

definition sql_select :: "('r \<Rightarrow> bool) \<Rightarrow> 'r table \<Rightarrow> 'r list" where
  "sql_select P t = filter P (rows t)"

definition sql_insert :: "(int \<Rightarrow> 'r) \<Rightarrow> 'r table \<Rightarrow> 'r table" where
  "sql_insert mk t = \<lparr>rows = rows t @ [mk (next_id t)], next_id = next_id t + 1\<rparr>"

definition sql_update :: "('r \<Rightarrow> bool) \<Rightarrow> ('r \<Rightarrow> 'r) \<Rightarrow> 'r table \<Rightarrow> 'r table" where
  "sql_update P f t = t\<lparr>rows := map (\<lambda>r. if P r then f r else r) (rows t)\<rparr>"

definition sql_delete :: "('r \<Rightarrow> bool) \<Rightarrow> 'r table \<Rightarrow> 'r table" where
  "sql_delete P t = t\<lparr>rows := filter (\<lambda>r. \<not> P r) (rows t)\<rparr>"

text \<open>The key invariant: keys are positive, below the counter, and no two rows share one.\<close>

definition keys_ok :: "('r \<Rightarrow> int) \<Rightarrow> 'r table \<Rightarrow> bool" where
  "keys_ok key t \<longleftrightarrow>
     distinct (map key (rows t)) \<and> (\<forall>r \<in> set (rows t). 0 < key r \<and> key r < next_id t) \<and> 0 < next_id t"

lemma rows_simps [simp, table_simps]:
  "rows empty_table = []" "next_id empty_table = 1"
  "rows (sql_insert mk t) = rows t @ [mk (next_id t)]" "next_id (sql_insert mk t) = next_id t + 1"
  "rows (sql_update P f t) = map (\<lambda>r. if P r then f r else r) (rows t)" "next_id (sql_update P f t) = next_id t"
  "rows (sql_delete P t) = filter (\<lambda>r. \<not> P r) (rows t)" "next_id (sql_delete P t) = next_id t"
  by (simp_all add: empty_table_def sql_insert_def sql_update_def sql_delete_def)

lemma select_simps [table_simps]:
  "sql_select P (sql_insert mk t) = sql_select P t @ (if P (mk (next_id t)) then [mk (next_id t)] else [])"
  "sql_select P (sql_delete Q t) = filter (\<lambda>r. \<not> Q r) (sql_select P t)"
  by (simp_all add: sql_select_def conj_commute)

lemma select_update:
  assumes "\<And>r. P (f r) = P r"
  shows "sql_select P (sql_update Q f t) = map (\<lambda>r. if Q r then f r else r) (sql_select P t)"
  using assms by (auto simp: sql_select_def filter_map comp_def intro!: arg_cong [where f = "map _"] filter_cong)

lemma set_select [simp]: "r \<in> set (sql_select P t) \<longleftrightarrow> r \<in> set (rows t) \<and> P r"
  by (auto simp: sql_select_def)

lemma sql_update_id: "(\<And>r. r \<in> set (rows t) \<Longrightarrow> P r \<Longrightarrow> f r = r) \<Longrightarrow> sql_update P f t = t"
  by (cases t) (auto simp: sql_update_def intro!: map_idI)

lemma sql_delete_none: "(\<And>r. r \<in> set (rows t) \<Longrightarrow> \<not> P r) \<Longrightarrow> sql_delete P t = t"
  by (cases t) (auto simp: sql_delete_def)

locale keyed_rows =
  fixes key :: "'r \<Rightarrow> int"
    and set_key :: "int \<Rightarrow> 'r \<Rightarrow> 'r"
  assumes key_set [simp]: "key (set_key i r) = i"
    and set_key_same [simp]: "set_key (key r) r = r"
begin

lemma empty_ok: "keys_ok key empty_table"
  by (simp add: keys_ok_def)

lemma insert_ok:
  assumes "keys_ok key t"
  shows "keys_ok key (sql_insert (\<lambda>i. set_key i r) t)"
  using assms by (fastforce simp: keys_ok_def)

lemma delete_ok:
  assumes "keys_ok key t"
  shows "keys_ok key (sql_delete P t)"
  using assms by (auto simp: keys_ok_def distinct_map inj_on_def)

lemma update_ok:
  assumes "keys_ok key t" and "\<And>r. key (f r) = key r"
  shows "keys_ok key (sql_update P f t)"
proof -
  have "map key (rows (sql_update P f t)) = map key (rows t)"
    using assms(2) by simp
  with assms show ?thesis by (auto simp: keys_ok_def simp del: map_map)
qed

lemma key_unique:
  assumes "keys_ok key t" "r \<in> set (rows t)" "s \<in> set (rows t)" "key r = key s"
  shows "r = s"
  using assms by (auto simp: keys_ok_def distinct_map inj_on_def)

lemma find_by_key:
  assumes "keys_ok key t" "r \<in> set (rows t)"
  shows "first_row (sql_select (\<lambda>s. key s = key r) t) = Some r"
  unfolding sql_select_def first_row_filter
  by (rule find_unique) (use assms key_unique in auto)

lemma insert_fresh:
  assumes "keys_ok key t"
  shows "first_row (sql_select (\<lambda>s. key s = next_id t) t) = None"
  using assms by (auto simp: keys_ok_def sql_select_def filter_empty_conv)

lemma find_inserted:
  assumes "keys_ok key t"
  shows "first_row (sql_select (\<lambda>s. key s = next_id t) (sql_insert (\<lambda>i. set_key i r) t))
    = Some (set_key (next_id t) r)"
  using insert_fresh [OF assms] by (simp add: select_simps)

lemma key_bounds: "keys_ok key t \<Longrightarrow> r \<in> set (rows t) \<Longrightarrow> 0 < key r \<and> key r < next_id t"
  by (simp add: keys_ok_def)

end

section \<open>Rows\<close>

record user =
  user_id :: int
  email :: string
  pw_hash :: "string option"
  role :: string

record session_row =
  session_id :: string
  session_email :: string
  expires_at :: int

record relay_group =
  group_pk :: int
  group_name :: "string option"
  group_description :: "string option"

record relay =
  relay_pk :: int
  group_id :: "int option"
  relay_name :: "string option"
  relay_host :: "string option"
  relay_port :: "int option"
  auth_user :: "string option"
  auth_pass :: "string option"
  auth_pass_env :: "string option"
  relay_tls :: "string option"
  allow_insecure_auth :: "bool option"
  use_mx :: "bool option"
  priority :: "int option"

record credential_set =
  set_pk :: int
  set_name :: string
  set_description :: "string option"

record smtp_credential =
  cred_pk :: int
  set_id :: int
  username :: string
  cred_hash :: string

record gateway =
  gw_pk :: int
  gateway_uid :: string
  gw_name :: "string option"
  fingerprint :: string
  pubkey :: string
  gw_status :: string
  hostname :: "string option"
  gw_os :: "string option"
  arch :: "string option"
  cpus :: "int option"
  mem_bytes :: "int option"
  ip_addrs :: "string option"
  gw_version :: "string option"
  first_seen :: "int option"
  last_seen :: "int option"
  approved_by :: "string option"
  approved_at :: "int option"
  desired_version_id :: "int option"
  applied_version_id :: "int option"
  apply_error :: "string option"
  restart_required :: bool

record config_profile =
  profile_pk :: int
  profile_kind :: string
  profile_name :: string
  profile_description :: "string option"
  profile_body :: string

record gateway_assignment =
  assign_pk :: int
  assign_gateway :: int
  assign_kind :: string
  profile_id :: "int option"
  relay_group_id :: "int option"
  credential_set_id :: "int option"

record config_version =
  version_pk :: int
  version_gateway :: int
  version :: int
  bundle_text :: string
  bundle_sha256 :: string
  version_note :: "string option"
  created_by :: "string option"
  version_created :: int

record config_deployment =
  deployment_pk :: int
  deployment_gateway :: int
  version_id :: int
  action :: string
  actor :: "string option"
  deployment_note :: "string option"

record gateway_metric =
  metric_gateway :: int
  metrics :: string
  metric_updated :: int

record log_row =
  log_pk :: int
  log_url :: "string option"
  log_path :: "string option"
  log_query :: "string option"
  src_ip :: "string option"
  src_port :: "int option"
  referer :: "string option"
  origin :: "string option"
  log_method :: "string option"
  log_user :: "string option"
  user_agent :: "string option"
  log_created :: int

record exception_row =
  exc_pk :: int
  exc_product :: "string option"
  exc_component :: "string option"
  exc_info :: "string option"

interpretation users: keyed_rows user_id "\<lambda>i r. r\<lparr>user_id := i\<rparr>" by unfold_locales simp_all
interpretation groups: keyed_rows group_pk "\<lambda>i r. r\<lparr>group_pk := i\<rparr>" by unfold_locales simp_all
interpretation relays: keyed_rows relay_pk "\<lambda>i r. r\<lparr>relay_pk := i\<rparr>" by unfold_locales simp_all
interpretation sets: keyed_rows set_pk "\<lambda>i r. r\<lparr>set_pk := i\<rparr>" by unfold_locales simp_all
interpretation creds: keyed_rows cred_pk "\<lambda>i r. r\<lparr>cred_pk := i\<rparr>" by unfold_locales simp_all
interpretation gws: keyed_rows gw_pk "\<lambda>i r. r\<lparr>gw_pk := i\<rparr>" by unfold_locales simp_all
interpretation profs: keyed_rows profile_pk "\<lambda>i r. r\<lparr>profile_pk := i\<rparr>" by unfold_locales simp_all
interpretation assigns: keyed_rows assign_pk "\<lambda>i r. r\<lparr>assign_pk := i\<rparr>" by unfold_locales simp_all
interpretation vers: keyed_rows version_pk "\<lambda>i r. r\<lparr>version_pk := i\<rparr>" by unfold_locales simp_all
interpretation deps: keyed_rows deployment_pk "\<lambda>i r. r\<lparr>deployment_pk := i\<rparr>" by unfold_locales simp_all
interpretation logs: keyed_rows log_pk "\<lambda>i r. r\<lparr>log_pk := i\<rparr>" by unfold_locales simp_all
interpretation excs: keyed_rows exc_pk "\<lambda>i r. r\<lparr>exc_pk := i\<rparr>" by unfold_locales simp_all

section \<open>The database and the environment\<close>

record database =
  users :: "user table"
  sessions :: "session_row list"
  relay_groups :: "relay_group table"
  relays :: "relay table"
  credential_sets :: "credential_set table"
  smtp_credentials :: "smtp_credential table"
  gateways :: "gateway table"
  config_profiles :: "config_profile table"
  gateway_assignments :: "gateway_assignment table"
  config_versions :: "config_version table"
  config_deployments :: "config_deployment table"
  gateway_metrics :: "gateway_metric list"
  logs :: "log_row table"
  exceptions :: "exception_row table"

definition empty_database :: database where
  "empty_database = \<lparr>users = empty_table, sessions = [], relay_groups = empty_table,
     relays = empty_table, credential_sets = empty_table, smtp_credentials = empty_table,
     gateways = empty_table, config_profiles = empty_table, gateway_assignments = empty_table,
     config_versions = empty_table, config_deployments = empty_table, gateway_metrics = [],
     logs = empty_table, exceptions = empty_table\<rparr>"

text \<open>\<open>process.env\<close>.\<close>

type_synonym env = "string \<Rightarrow> string option"

text \<open>The first of two variables that is set and not empty (\<open>a || b\<close>).\<close>

definition env_or :: "string option \<Rightarrow> string option \<Rightarrow> string option" where
  "env_or a b = (if truthy_str a then a else b)"

text \<open>
  The third-party packages the console calls: the 32-byte SHA-256 digest, Ed25519
  verification of a message under a DER key (\<open>None\<close> when the library throws), AES-256-GCM
  sealing to ciphertext and tag and opening (\<open>None\<close> when the tag does not verify), bcrypt, the
  e-mail pattern of zod and the text zod gives an issue of one of its built-in checks, and the signing
  of cookies (\<open>None\<close> when a signature is not valid). \<open>collation\<close> is the sort key the database
  server gives a text.
\<close>

record library =
  sha256 :: "string \<Rightarrow> string"
  ed25519_verify :: "string \<Rightarrow> string \<Rightarrow> string \<Rightarrow> bool option"
  gcm_seal :: "string \<Rightarrow> string \<Rightarrow> string \<Rightarrow> string \<times> string"
  gcm_open :: "string \<Rightarrow> string \<Rightarrow> string \<Rightarrow> string \<Rightarrow> string option"
  bcrypt_hash :: "string \<Rightarrow> string \<Rightarrow> string"
  bcrypt_compare :: "string \<Rightarrow> string \<Rightarrow> bool"
  email_pattern :: "string \<Rightarrow> bool"
  zod_text :: "string \<Rightarrow> string"
  sign_cookie :: "string \<Rightarrow> string"
  unsign_cookie :: "string \<Rightarrow> string option"
  collation :: "string \<Rightarrow> nat list"

end
