(* ===== verification/Samples.thy ===== *)
theory Samples
  imports Schema
begin

text \<open>
  Concrete providers and environments on which the properties with hypotheses are applied. The
  sample cipher leaves the text as it is under a constant tag, the sample digest keeps the first
  32 bytes of a padded text, the sample signature of a message is the message itself.
\<close>

definition sample_library :: library where
  "sample_library = \<lparr>
     sha256 = (\<lambda>s. take 32 (s @ replicate 32 (CHR ''.''))),
     ed25519_verify = (\<lambda>k m s. Some (s = m)),
     gcm_seal = (\<lambda>k iv p. (p, replicate 16 (CHR ''T''))),
     gcm_open = (\<lambda>k iv ct tag. if tag = replicate 16 (CHR ''T'') then Some ct else None),
     bcrypt_hash = (\<lambda>salt p. ''$2b$'' @ p),
     bcrypt_compare = (\<lambda>p h. h = ''$2b$'' @ p),
     email_pattern = (\<lambda>s. js_includes s ''@''),
     zod_text = (\<lambda>code. ''Invalid input: '' @ code),
     sign_cookie = (\<lambda>s. ''s:'' @ s),
     unsign_cookie = (\<lambda>s. if starts_with s ''s:'' then Some (drop 2 s) else None),
     collation = map of_char\<rparr>"

definition sample_env :: env where
  "sample_env = [''CONFIG_SECRET_KEY'' \<mapsto> replicate 64 (CHR ''0''), ''LOGSERVICE_URL'' \<mapsto> ''http://logs:3000/'']"

text \<open>
  A console with two gateways: the first approved and assigned a rule set, a relay group of two relays
  and a credential set, the second still pending.
\<close>

definition sample_gateway :: gateway where
  "sample_gateway = \<lparr>gw_pk = 1, gateway_uid = ''u-1'', gw_name = Some ''edge'', fingerprint = ''fp-1'',
     pubkey = replicate 43 (CHR ''A'') @ ''='', gw_status = ''approved'', hostname = Some ''edge-1'', gw_os = None, arch = None,
     cpus = None, mem_bytes = None, ip_addrs = None, gw_version = None, first_seen = Some 10,
     last_seen = Some 20, approved_by = Some ''root@x'', approved_at = Some 15, desired_version_id = None,
     applied_version_id = None, apply_error = None, restart_required = False\<rparr>"

definition sample_relay :: relay where
  "sample_relay = \<lparr>relay_pk = 1, group_id = Some 1, relay_name = Some ''primary'', relay_host = Some ''mx1'',
     relay_port = Some 25, auth_user = None, auth_pass = None, auth_pass_env = None, relay_tls = None,
     allow_insecure_auth = None, use_mx = None, priority = Some 20\<rparr>"

definition sample_database :: database where
  "sample_database = empty_database\<lparr>
     users := \<lparr>rows = [\<lparr>user_id = 1, email = ''root@x'', pw_hash = Some ''$2b$secret'', role = ''admin''\<rparr>,
                       \<lparr>user_id = 2, email = ''view@x'', pw_hash = Some ''$2b$look'', role = ''viewer''\<rparr>], next_id = 3\<rparr>,
     gateways := \<lparr>rows = [sample_gateway,
                          sample_gateway\<lparr>gw_pk := 2, gateway_uid := ''u-2'', fingerprint := ''fp-2'', gw_status := ''pending''\<rparr>],
                  next_id = 3\<rparr>,
     config_profiles := \<lparr>rows = [\<lparr>profile_pk = 1, profile_kind = ''ruleset'', profile_name = ''default'',
                                   profile_description = None, profile_body = ''rules: []''\<rparr>], next_id = 2\<rparr>,
     relay_groups := \<lparr>rows = [\<lparr>group_pk = 1, group_name = Some ''smart'', group_description = None\<rparr>], next_id = 2\<rparr>,
     relays := \<lparr>rows = [sample_relay,
                        sample_relay\<lparr>relay_pk := 2, relay_name := Some ''backup'', relay_host := Some ''mx2'', priority := Some 10\<rparr>],
                next_id = 3\<rparr>,
     smtp_credentials := \<lparr>rows = [\<lparr>cred_pk = 1, set_id = 1, username = ''bob'', cred_hash = ''$2b$b''\<rparr>,
                                  \<lparr>cred_pk = 2, set_id = 1, username = ''al'', cred_hash = ''$2b$a''\<rparr>], next_id = 3\<rparr>,
     gateway_assignments := \<lparr>rows = [
        \<lparr>assign_pk = 1, assign_gateway = 1, assign_kind = ''ruleset'', profile_id = Some 1, relay_group_id = None, credential_set_id = None\<rparr>,
        \<lparr>assign_pk = 2, assign_gateway = 1, assign_kind = ''relaygroup'', profile_id = None, relay_group_id = Some 1, credential_set_id = None\<rparr>,
        \<lparr>assign_pk = 3, assign_gateway = 1, assign_kind = ''credentialset'', profile_id = None, relay_group_id = None, credential_set_id = Some 1\<rparr>],
        next_id = 4\<rparr>\<rparr>"

end
