(* ===== verification/Http.thy ===== *)
theory Http
  imports Schema
begin

text \<open>
  Requests and replies. A request carries what the handlers read of it: the route parameter \<open>id\<close>, the
  decoded query and body, the headers, the raw body, the session cookie and the peer. A handler returns what it sends: a JSON body with its status code, a redirect, a rendered
  page with the values given to the template, plain text, a static file, or the close frame of a WebSocket. An
  error it throws is \<open>Inl\<close> of its message and is answered by the error handler of the application.
\<close>

record request =
  rq_method :: string
  rq_url :: string
  headers :: "string \<Rightarrow> string option"
  raw_body :: string
  rq_body :: jsval
  rq_query :: jsval
  rq_id :: string
  session_cookie :: "string option"
  rq_ip :: string
  rq_port :: int

datatype reply =
    JsonReply int jsval
  | Redirect string
  | Page int string "(string \<times> jsval) list"
  | TextReply int string
  | FileReply string
  | SocketClose int string

type_synonym outcome = "reply res \<times> database"

definition status_error :: "int \<Rightarrow> string \<Rightarrow> reply" where
  "status_error code m = JsonReply code (Obj [(''status'', Str ''error''), (''message'', Str m)])"

definition id_val :: "int option \<Rightarrow> jsval" where
  "id_val i = (case i of None \<Rightarrow> Null | Some n \<Rightarrow> Num (Fin (of_int n)))"

definition reply_code :: "reply \<Rightarrow> int" where
  "reply_code r = (case r of JsonReply c _ \<Rightarrow> c | Redirect _ \<Rightarrow> 302 | Page c _ _ \<Rightarrow> c | TextReply c _ \<Rightarrow> c
     | FileReply _ \<Rightarrow> 200 | SocketClose c _ \<Rightarrow> c)"

text \<open>A number compared with an integer column: \<open>NaN\<close> and fractions match nothing.\<close>

definition num_is :: "jsnum \<Rightarrow> int \<Rightarrow> bool" where
  "num_is x i \<longleftrightarrow> x = Fin (of_int i)"

lemma num_is_unique: "num_is x i \<Longrightarrow> num_is x j \<Longrightarrow> i = j"
  by (simp add: num_is_def)

end
