(* ===== verification/Verify.thy ===== *)
theory Verify
  imports Encoding Samples Http
begin

text \<open>
  \<open>webui-fastify/src/agent/verify.ts\<close>: Ed25519 request signing of the agent API. A request carries its
  method, target, headers and the raw body the signature covers. \<open>authenticate_gateway\<close> returns the
  reason of its 401 reply or the gateway row it attaches to the request.
\<close>

definition signature_skew_seconds :: rat where
  "signature_skew_seconds = 300"

definition ed25519_spki_prefix :: string where
  "ed25519_spki_prefix = from_hex ''302a300506032b6570032100''"

definition public_key_from_base64 :: "string \<Rightarrow> string res" where
  "public_key_from_base64 b64 =
     (let raw = b64_decode b64 in
      if length raw \<noteq> 32 then Inl ''ed25519 public key must be 32 bytes''
      else Inr (ed25519_spki_prefix @ raw))"

definition fingerprint_from_base64 :: "library \<Rightarrow> string \<Rightarrow> string" where
  "fingerprint_from_base64 cr b64 = to_hex (sha256 cr (b64_decode b64))"

definition canonical_string :: "library \<Rightarrow> string \<Rightarrow> string \<Rightarrow> string \<Rightarrow> string \<Rightarrow> string" where
  "canonical_string cr meth url timestamp rawBody =
     to_upper meth @ [CHR 0x0A] @ url @ [CHR 0x0A] @ timestamp @ [CHR 0x0A] @ to_hex (sha256 cr rawBody)"

definition verify_signature :: "library \<Rightarrow> string \<Rightarrow> string \<Rightarrow> string \<Rightarrow> bool" where
  "verify_signature cr publicKeyB64 signatureB64 canonical =
     (case public_key_from_base64 publicKeyB64 of
        Inl e \<Rightarrow> False
      | Inr der \<Rightarrow> ed25519_verify cr der canonical (b64_decode signatureB64) = Some True)"

definition raw_body_of :: "request \<Rightarrow> string" where
  "raw_body_of r = raw_body r"

text \<open>\<open>checkTimestamp\<close>: the reason of a refusal, or nothing. Differences are those of doubles.\<close>

definition abs_diff_exceeds :: "int \<Rightarrow> rat \<Rightarrow> rat \<Rightarrow> bool" where
  "abs_diff_exceeds now q limit =
     (case round_double (of_int now - q) of Fin d \<Rightarrow> \<bar>d\<bar> > limit | NaN \<Rightarrow> False | _ \<Rightarrow> True)"

definition check_timestamp :: "string option \<Rightarrow> int \<Rightarrow> string option" where
  "check_timestamp header nowSeconds =
     (if \<not> truthy_str header then Some ''missing X-GW-Timestamp''
      else (case js_number (the header) of
          Fin ts \<Rightarrow> (if abs_diff_exceeds nowSeconds ts signature_skew_seconds
                     then Some ''timestamp outside the accepted window'' else None)
        | _ \<Rightarrow> Some ''malformed X-GW-Timestamp''))"

definition find_gateway_by_uid :: "database \<Rightarrow> string \<Rightarrow> gateway option" where
  "find_gateway_by_uid d uid = first_row (sql_select (\<lambda>g. gateway_uid g = uid) (gateways d))"

definition authenticate_gateway :: "library \<Rightarrow> int \<Rightarrow> database \<Rightarrow> request \<Rightarrow> string + gateway" where
  "authenticate_gateway cr nowSeconds d r =
     (let uid = headers r ''x-gw-id''; sig = headers r ''x-gw-signature''; timestamp = headers r ''x-gw-timestamp''
      in if \<not> truthy_str uid then Inl ''missing X-GW-Id''
         else if \<not> truthy_str sig then Inl ''missing X-GW-Signature''
         else (case check_timestamp timestamp nowSeconds of
           Some reason \<Rightarrow> Inl reason
         | None \<Rightarrow>
             (case find_gateway_by_uid d (the uid) of
                None \<Rightarrow> Inl ''unknown gateway''
              | Some g \<Rightarrow>
                  (if verify_signature cr (pubkey g) (the sig)
                        (canonical_string cr (rq_method r) (rq_url r) (the timestamp) (raw_body_of r))
                   then Inr g else Inl ''signature verification failed''))))"

section \<open>The signed string\<close>

lemma hex_no_newline: "CHR 0x0A \<notin> set (to_hex bs)"
  using to_hex_chars [of "CHR 0x0A" bs] by (auto simp: is_hex_def hex_digit_val_def)

lemma split_at_first:
  assumes "x @ [c] @ s = y @ [c] @ t" "c \<notin> set x" "c \<notin> set y"
  shows "x = y \<and> s = t"
  using assms by (induction x arbitrary: y) (auto simp: Cons_eq_append_conv append_eq_Cons_conv)

lemma split_at_last:
  assumes "x @ [c] @ s = y @ [c] @ t" "c \<notin> set s" "c \<notin> set t"
  shows "x = y \<and> s = t"
proof -
  have "rev s @ [c] @ rev x = rev t @ [c] @ rev y" using arg_cong [OF assms(1), of rev] by simp
  then show ?thesis using split_at_first [of "rev s" c "rev x" "rev t" "rev y"] assms(2,3) by simp
qed

lemma upper_no_newline: "CHR 0x0A \<notin> set m \<Longrightarrow> CHR 0x0A \<notin> set (to_upper m)"
proof
  assume m: "CHR 0x0A \<notin> set m" and "CHR 0x0A \<in> set (to_upper m)"
  then obtain c where c: "c \<in> set m"
    "(if 97 \<le> byte c \<and> byte c \<le> 122 then char_of (byte c - 32) else c) = CHR 0x0A"
    by (auto simp: to_upper_def)
  show False
  proof (cases "97 \<le> byte c \<and> byte c \<le> 122")
    case True
    then have "char_of (byte c - 32) = CHR 0x0A" using c(2) by simp
    moreover have "byte (char_of (byte c - 32)) = byte c - 32" by (rule byte_char_of) (use True in linarith)
    ultimately have "byte c - 32 = byte (CHR 0x0A)" by (simp only:)
    then have "byte c - 32 = 10" by simp
    with True show False by linarith
  next
    case False
    with c m show False by simp
  qed
qed

text \<open>C20. The signed string determines the request: two requests whose methods and targets contain no
  line break sign the same string only if they agree in the method up to case, the target, the
  timestamp and the digest of the body, so no part of one request can pass for another part.\<close>

theorem canonical_string_determines:
  assumes "canonical_string cr m u t b = canonical_string cr m' u' t' b'"
    and "CHR 0x0A \<notin> set m" "CHR 0x0A \<notin> set u" "CHR 0x0A \<notin> set m'" "CHR 0x0A \<notin> set u'"
  shows "to_upper m = to_upper m' \<and> u = u' \<and> t = t' \<and> sha256 cr b = sha256 cr b'"
proof -
  have 1: "to_upper m = to_upper m' \<and> u @ [CHR 0x0A] @ (t @ [CHR 0x0A] @ to_hex (sha256 cr b))
      = u' @ [CHR 0x0A] @ (t' @ [CHR 0x0A] @ to_hex (sha256 cr b'))"
    using assms(1) unfolding canonical_string_def
    by (rule split_at_first) (use assms upper_no_newline in blast)+
  then have 2: "u = u' \<and> t @ [CHR 0x0A] @ to_hex (sha256 cr b) = t' @ [CHR 0x0A] @ to_hex (sha256 cr b')"
    using assms by (intro split_at_first) auto
  then have "t = t' \<and> to_hex (sha256 cr b) = to_hex (sha256 cr b')"
    using split_at_last [OF _ hex_no_newline hex_no_newline] by blast
  with 1 2 show ?thesis by (simp add: to_hex_inject)
qed

lemma canonical_string_determines_witness:
  "to_upper ''get'' = to_upper ''GET'' \<and> sha256 sample_library ''x'' = sha256 sample_library ''x''"
proof -
  have "to_upper ''get'' = to_upper ''GET''" by code_simp
  then have "canonical_string sample_library ''get'' ''/agent'' ''5'' ''x''
      = canonical_string sample_library ''GET'' ''/agent'' ''5'' ''x''"
    by (simp only: canonical_string_def)
  then show ?thesis by (drule_tac canonical_string_determines) auto
qed

section \<open>Acceptance\<close>

lemma authenticated_exactly:
  "authenticate_gateway cr now d r = Inr g \<longleftrightarrow>
     (\<exists>uid sig ts der. headers r ''x-gw-id'' = Some uid \<and> uid \<noteq> []
       \<and> headers r ''x-gw-signature'' = Some sig \<and> sig \<noteq> []
       \<and> headers r ''x-gw-timestamp'' = Some ts \<and> check_timestamp (Some ts) now = None
       \<and> first_row (sql_select (\<lambda>g. gateway_uid g = uid) (gateways d)) = Some g
       \<and> public_key_from_base64 (pubkey g) = Inr der
       \<and> ed25519_verify cr der (canonical_string cr (rq_method r) (rq_url r) ts (raw_body r)) (b64_decode sig) = Some True)"
proof -
  have ts: "check_timestamp h now = None \<Longrightarrow> \<exists>t. h = Some t" for h
    by (cases h) (simp_all add: check_timestamp_def)
  show ?thesis
    by (cases "headers r ''x-gw-id''"; cases "headers r ''x-gw-signature''"; cases "headers r ''x-gw-timestamp''")
      (auto simp: authenticate_gateway_def Let_def find_gateway_by_uid_def verify_signature_def raw_body_of_def
        split: option.splits sum.splits if_splits dest: ts)
qed


lemma check_timestamp_int:
  assumes "n < 2 ^ 53" "\<bar>now\<bar> < 2 ^ 52" "n < 2 ^ 52"
  shows "check_timestamp (Some (nat_to_string n)) now =
    (if \<bar>now - int n\<bar> \<le> 300 then None else Some ''timestamp outside the accepted window'')"
proof -
  have "\<bar>now - int n\<bar> < 2 ^ 53" using assms by (simp add: abs_if split: if_splits)
  then have "round_double (of_int (now - int n)) = Fin (of_int (now - int n))" by (rule round_double_int)
  then have r: "round_double (of_int now - of_nat n) = Fin (of_int (now - int n))" by simp
  have "(\<bar>of_int (now - int n)\<bar> > (300::rat)) = (\<bar>now - int n\<bar> > 300)"
    by (metis (mono_tags) of_int_abs of_int_less_iff of_int_numeral)
  then show ?thesis
    using r js_number_nat [OF assms(1)]
    by (simp add: check_timestamp_def abs_diff_exceeds_def signature_skew_seconds_def)
qed

text \<open>C37. The window is closed and symmetric: an integer timestamp is accepted exactly when it is at most 300
  seconds away from the clock in either direction.\<close>

theorem timestamp_window:
  assumes "n < 2 ^ 52" "\<bar>now\<bar> < 2 ^ 52"
  shows "check_timestamp (Some (nat_to_string n)) now = None \<longleftrightarrow> \<bar>now - int n\<bar> \<le> 300"
  using assms by (subst check_timestamp_int) simp_all

lemma timestamp_window_witness:
  "check_timestamp (Some (nat_to_string 1700000300)) 1700000000 = None
   \<and> check_timestamp (Some (nat_to_string 1700000301)) 1700000000 \<noteq> None"
  using timestamp_window [of 1700000300 1700000000] timestamp_window [of 1700000301 1700000000] by simp

end
