(* ===== verification/Validation.thy ===== *)
theory Validation
  imports Schema
begin

text \<open>
  The request schemas of \<open>webui-fastify/src/validation/\<close>. A schema turns a JavaScript value into
  a value of its type or the issues it found, each with its path; unknown members are dropped. The
  combinators cover the constructors of zod the files use; the text of an issue raised by one of
  zod's own checks is looked up in the \<open>library\<close>, a message written in the source is kept. An
  issue that stops a later \<open>refine\<close> is marked fatal.
\<close>

section \<open>Schemas\<close>

datatype message = Builtin string | Custom string

record issue =
  path :: "string list"
  message :: message
  fatal :: bool

type_synonym 'a parsed = "issue list + 'a"

definition here :: "message \<Rightarrow> bool \<Rightarrow> issue" where
  "here m f = \<lparr>path = [], message = m, fatal = f\<rparr>"

definition invalid_type :: "'a parsed" where
  "invalid_type = Inl [here (Builtin ''invalid_type'') True]"

text \<open>A value with the checks it fails, in order.\<close>

definition checked :: "(bool \<times> message) list \<Rightarrow> 'a \<Rightarrow> 'a parsed" where
  "checked cs x =
     (let bad = filter (\<lambda>(ok, m). \<not> ok) cs
      in if bad = [] then Inr x else Inl (map (\<lambda>(ok, m). here m False) bad))"

definition z_string :: "(string \<Rightarrow> (bool \<times> message) list) \<Rightarrow> jsval \<Rightarrow> string parsed" where
  "z_string cs v = (case v of Str s \<Rightarrow> checked (cs s) s | _ \<Rightarrow> invalid_type)"

definition z_int :: "(int \<Rightarrow> (bool \<times> message) list) \<Rightarrow> jsval \<Rightarrow> int parsed" where
  "z_int cs v = (case v of
     Num x \<Rightarrow> if is_integer x \<and> \<bar>to_int x\<bar> < 2 ^ 53 then checked (cs (to_int x)) (to_int x) else invalid_type
   | _ \<Rightarrow> invalid_type)"

definition z_bool :: "jsval \<Rightarrow> bool parsed" where
  "z_bool v = (case v of Bool b \<Rightarrow> Inr b | _ \<Rightarrow> invalid_type)"

definition z_optional :: "(jsval \<Rightarrow> 'a parsed) \<Rightarrow> jsval \<Rightarrow> 'a option parsed" where
  "z_optional s v = (if v = Undef then Inr None else map_sum id Some (s v))"

definition z_nullable :: "(jsval \<Rightarrow> 'a parsed) \<Rightarrow> jsval \<Rightarrow> 'a option parsed" where
  "z_nullable s v = (if v = Null then Inr None else map_sum id Some (s v))"

definition under :: "string \<Rightarrow> 'a parsed \<Rightarrow> 'a parsed" where
  "under k r = map_sum (map (\<lambda>i. i\<lparr>path := k # path i\<rparr>)) id r"

definition both :: "'a parsed \<Rightarrow> 'b parsed \<Rightarrow> ('a \<times> 'b) parsed" where
  "both r s = (case r of
     Inl is \<Rightarrow> (case s of Inl js \<Rightarrow> Inl (is @ js) | Inr y \<Rightarrow> Inl is)
   | Inr x \<Rightarrow> (case s of Inl js \<Rightarrow> Inl js | Inr y \<Rightarrow> Inr (x, y)))"

definition field :: "jsval \<Rightarrow> string \<Rightarrow> (jsval \<Rightarrow> 'a parsed) \<Rightarrow> 'a parsed" where
  "field v k s = under k (s (get_prop v k))"

definition z_object :: "(jsval \<Rightarrow> 'a parsed) \<Rightarrow> jsval \<Rightarrow> 'a parsed" where
  "z_object s v = (case v of Obj ps \<Rightarrow> s v | _ \<Rightarrow> invalid_type)"

fun z_elements :: "nat \<Rightarrow> (jsval \<Rightarrow> 'a parsed) \<Rightarrow> jsval list \<Rightarrow> 'a list parsed" where
  "z_elements i s [] = Inr []"
| "z_elements i s (v # vs) =
     map_sum id (\<lambda>(x, xs). x # xs) (both (under (nat_to_string i) (s v)) (z_elements (Suc i) s vs))"

definition z_array :: "(jsval \<Rightarrow> 'a parsed) \<Rightarrow> jsval \<Rightarrow> 'a list parsed" where
  "z_array s v = (case v of Arr vs \<Rightarrow> z_elements 0 s vs | _ \<Rightarrow> invalid_type)"

text \<open>\<open>refine\<close> runs unless a fatal issue was found.\<close>

definition refine :: "(jsval \<Rightarrow> bool) \<Rightarrow> message \<Rightarrow> string list \<Rightarrow> jsval \<Rightarrow> 'a parsed \<Rightarrow> 'a parsed" where
  "refine ok m p v r =
     (if (case r of Inl is \<Rightarrow> \<exists>i \<in> set is. fatal i | Inr _ \<Rightarrow> False) \<or> ok v then r
      else (let i = \<lparr>path = p, message = m, fatal = False\<rparr>
            in Inl (case r of Inl is \<Rightarrow> is @ [i] | Inr _ \<Rightarrow> [i])))"

definition at_most :: "nat \<Rightarrow> string \<Rightarrow> bool \<times> message" where
  "at_most n s = (js_length s \<le> n, Builtin ''too_big'')"

definition at_least :: "nat \<Rightarrow> string \<Rightarrow> bool \<times> message" where
  "at_least n s = (n \<le> js_length s, Builtin ''too_small'')"

lemma checked_Inr [simp]: "checked cs x = Inr y \<longleftrightarrow> y = x \<and> (\<forall>c \<in> set cs. fst c)"
  by (auto simp: checked_def Let_def filter_empty_conv case_prod_beta)

lemma z_string_Inr: "z_string cs v = Inr s \<longleftrightarrow> v = Str s \<and> (\<forall>c \<in> set (cs s). fst c)"
  by (cases v) (auto simp: z_string_def invalid_type_def)

lemma z_optional_Inr: "z_optional s v = Inr y \<longleftrightarrow> (v = Undef \<and> y = None) \<or> (v \<noteq> Undef \<and> (\<exists>x. y = Some x \<and> s v = Inr x))"
  by (cases "s v") (auto simp: z_optional_def)

lemma z_nullable_Inr: "z_nullable s v = Inr y \<longleftrightarrow> (v = Null \<and> y = None) \<or> (v \<noteq> Null \<and> (\<exists>x. y = Some x \<and> s v = Inr x))"
  by (cases "s v") (auto simp: z_nullable_def)

lemma under_Inr [simp]: "under k r = Inr x \<longleftrightarrow> r = Inr x"
  by (cases r) (auto simp: under_def)

lemma both_Inr [simp]: "both r s = Inr p \<longleftrightarrow> r = Inr (fst p) \<and> s = Inr (snd p)"
  by (cases r; cases s) (auto simp: both_def)

lemma refine_Inr [simp]: "refine ok m p v r = Inr x \<longleftrightarrow> r = Inr x \<and> ok v"
  by (cases r) (auto simp: refine_def Let_def)

lemma z_int_Inr: "z_int cs v = Inr i \<longleftrightarrow> v = Num (Fin (of_int i)) \<and> \<bar>i\<bar> < 2 ^ 53 \<and> (\<forall>c \<in> set (cs i). fst c)"
proof (cases v)
  case (Num x)
  have "is_integer x \<and> to_int x = i \<longleftrightarrow> x = Fin (of_int i)"
    using is_integerD [of x] by (auto simp: to_int_def)
  with Num show ?thesis by (auto simp: z_int_def invalid_type_def)
qed (auto simp: z_int_def invalid_type_def)

lemma map_sum_Inr_iff: "map_sum f g r = Inr y \<longleftrightarrow> (\<exists>x. r = Inr x \<and> y = g x)"
  by (cases r) auto

text \<open>\<open>zodErr\<close>: the issues as one line.\<close>

definition issue_text :: "library \<Rightarrow> issue \<Rightarrow> string" where
  "issue_text cr i =
     (let p = js_join ''.'' (path i) in if p = [] then ''field'' else p) @ '': ''
       @ (case message i of Builtin c \<Rightarrow> zod_text cr c | Custom t \<Rightarrow> t)"

definition zod_err :: "library \<Rightarrow> issue list \<Rightarrow> string" where
  "zod_err cr is = js_join ''; '' (map (issue_text cr) is)"

end
