(* ===== verification/AgentSchemas.thy ===== *)
theory AgentSchemas
  imports Validation Encoding
begin

text \<open>
  \<open>webui-fastify/src/validation/agent.ts\<close>: the payloads a gateway posts at registration and on its
  heartbeat, and what an accepted payload is known to satisfy.
\<close>

record register_info =
  ri_pubkey :: string
  ri_hostname :: "string option"
  ri_os :: "string option"
  ri_arch :: "string option"
  ri_cpus :: "int option"
  ri_mem_bytes :: "int option"
  ri_ip_addrs :: "string list option"
  ri_version :: "string option"

definition b64_body :: "char \<Rightarrow> bool" where
  "b64_body c \<longleftrightarrow> (65 \<le> byte c \<and> byte c \<le> 90) \<or> (97 \<le> byte c \<and> byte c \<le> 122) \<or> is_digit c
     \<or> c = CHR ''+'' \<or> c = CHR ''/''"

text \<open>\<open>/^[A-Za-z0-9+/]{43}=$/\<close>.\<close>

definition public_key_b64 :: "string \<Rightarrow> (bool \<times> message) list" where
  "public_key_b64 s =
     [(length s = 44 \<and> list_all b64_body (take 43 s) \<and> drop 43 s = ''='',
       Custom ''pubkey must be base64 of 32 raw bytes'')]"

definition register_schema :: "jsval \<Rightarrow> register_info parsed" where
  "register_schema = z_object (\<lambda>v.
     map_sum id (\<lambda>(a, b, c, d, e, f, g, h). \<lparr>ri_pubkey = a, ri_hostname = b, ri_os = c, ri_arch = d,
         ri_cpus = e, ri_mem_bytes = f, ri_ip_addrs = g, ri_version = h\<rparr>)
      (both (field v ''pubkey'' (z_string public_key_b64))
      (both (field v ''hostname'' (z_optional (z_string (\<lambda>s. [at_most 255 s]))))
      (both (field v ''os'' (z_optional (z_string (\<lambda>s. [at_most 64 s]))))
      (both (field v ''arch'' (z_optional (z_string (\<lambda>s. [at_most 64 s]))))
      (both (field v ''cpus'' (z_optional (z_int (\<lambda>i. [(0 \<le> i, Builtin ''too_small''), (i \<le> 4096, Builtin ''too_big'')]))))
      (both (field v ''mem_bytes'' (z_optional (z_int (\<lambda>i. [(0 \<le> i, Builtin ''too_small'')]))))
      (both (field v ''ip_addrs'' (z_optional (\<lambda>w. case z_array (z_string (\<lambda>s. [at_most 64 s])) w of
                Inl is \<Rightarrow> Inl is
              | Inr xs \<Rightarrow> checked [(length xs \<le> 64, Builtin ''too_big'')] xs)))
            (field v ''version'' (z_optional (z_string (\<lambda>s. [at_most 64 s]))))))))))))"

text \<open>A record of counters: names of 1 to 64 characters, safe non-negative integers, at most 128 of them.\<close>

fun metric_entries :: "(string \<times> jsval) list \<Rightarrow> (string \<times> int) list parsed" where
  "metric_entries [] = Inr []"
| "metric_entries ((k, v) # ps) =
     (if k = ''__proto__'' then metric_entries ps
      else map_sum id (\<lambda>((k', i), es). (k', i) # es)
        (both (both (under k (checked [at_least 1 k, at_most 64 k] k))
                    (under k (z_int (\<lambda>i. [(0 \<le> i, Builtin ''too_small'')]) v)))
              (metric_entries ps)))"

definition agent_metrics :: "jsval \<Rightarrow> (string \<times> int) list option parsed" where
  "agent_metrics = z_optional (\<lambda>v. case v of
     Obj ps \<Rightarrow>
       (case metric_entries ps of
          Inl is \<Rightarrow> refine (\<lambda>_. length ps \<le> 128) (Custom ''at most 128 metrics keys'') [] v (Inl is)
        | Inr es \<Rightarrow> refine (\<lambda>_. length es \<le> 128) (Custom ''at most 128 metrics keys'') [] v (Inr es))
   | _ \<Rightarrow> invalid_type)"

record report_info =
  rp_applied :: "int option option"
  rp_error :: "string option option"
  rp_restart :: "bool option"
  rp_version :: "string option"
  rp_metrics :: "(string \<times> int) list option"

definition report_schema :: "jsval \<Rightarrow> report_info parsed" where
  "report_schema = z_object (\<lambda>v.
     map_sum id (\<lambda>(a, b, c, d, e). \<lparr>rp_applied = a, rp_error = b, rp_restart = c, rp_version = d, rp_metrics = e\<rparr>)
      (both (field v ''applied_version_id'' (z_optional (z_nullable (z_int (\<lambda>i. [(0 < i, Builtin ''too_small'')])))))
      (both (field v ''apply_error'' (z_optional (z_nullable (z_string (\<lambda>s. [at_most 4096 s])))))
      (both (field v ''restart_required'' (z_optional z_bool))
      (both (field v ''version'' (z_optional (z_string (\<lambda>s. [at_most 64 s]))))
            (field v ''metrics'' agent_metrics))))))"

section \<open>Accepted payloads\<close>

lemma z_object_InrD: "z_object s v = Inr x \<Longrightarrow> s v = Inr x \<and> (\<exists>ps. v = Obj ps)"
  by (cases v) (auto simp: z_object_def invalid_type_def)

lemma b64_body_val: "b64_body c \<Longrightarrow> c \<noteq> CHR ''='' \<and> (\<exists>n. b64_val c = Some n)"
  by (auto simp: b64_body_def b64_val_def is_digit_def)

lemma sextets_body: "list_all b64_body s \<Longrightarrow> length (sextets (s @ t)) = length s + length (sextets t)"
  by (induction s) (auto dest!: b64_body_val)

lemma join_sextets_length: "length vs = 4 * n + 3 \<Longrightarrow> length (join_sextets vs) = 3 * n + 2"
proof (induction n arbitrary: vs)
  case 0
  then obtain a b c where "vs = [a, b, c]" by (auto simp: length_Suc_conv numeral_3_eq_3)
  then show ?case by simp
next
  case (Suc n)
  then have "length vs = Suc (Suc (Suc (Suc (4 * n + 3))))" by simp
  then obtain a b c d ws where "vs = a # b # c # d # ws" "length ws = 4 * n + 3"
    unfolding length_Suc_conv by blast
  with Suc.IH show ?case by simp
qed

text \<open>A key that passes the pattern decodes to 32 bytes, so \<open>publicKeyFromBase64\<close> cannot refuse it.\<close>

lemma public_key_length:
  assumes "\<forall>c \<in> set (public_key_b64 s). fst c"
  shows "length (b64_decode s) = 32"
proof -
  have s: "length s = 44" "list_all b64_body (take 43 s)" "drop 43 s = ''=''"
    using assms by (simp_all add: public_key_b64_def)
  have "sextets s = sextets (take 43 s @ ''='')" using s(3) by (metis append_take_drop_id)
  then have "length (sextets s) = 43"
    using sextets_body [OF s(2), of "''=''"] s(1) by simp
  then show ?thesis by (simp add: b64_decode_def join_sextets_length [of _ 10])
qed

lemma register_pubkey:
  assumes "register_schema v = Inr info"
  shows "length (b64_decode (ri_pubkey info)) = 32" "length (ri_pubkey info) = 44"
proof -
  have "z_string public_key_b64 (get_prop v ''pubkey'') = Inr (ri_pubkey info)"
    using assms by (auto simp: register_schema_def field_def map_sum_Inr_iff case_prod_beta
        dest!: z_object_InrD)
  then have "\<forall>c \<in> set (public_key_b64 (ri_pubkey info)). fst c" by (simp add: z_string_Inr)
  then show "length (b64_decode (ri_pubkey info)) = 32" "length (ri_pubkey info) = 44"
    by (rule public_key_length) (use \<open>\<forall>c \<in> set (public_key_b64 (ri_pubkey info)). fst c\<close> in \<open>simp add: public_key_b64_def\<close>)
qed

lemma metric_entries_bounds:
  "metric_entries ps = Inr es \<Longrightarrow> (k, i) \<in> set es \<Longrightarrow>
    0 \<le> i \<and> i < 2 ^ 53 \<and> 1 \<le> js_length k \<and> js_length k \<le> 64 \<and> (k, Num (Fin (of_int i))) \<in> set ps"
proof (induction ps arbitrary: es)
  case (Cons p ps)
  obtain k' v where p: "p = (k', v)" by (cases p)
  show ?case
  proof (cases "k' = ''__proto__''")
    case True
    with Cons p show ?thesis by simp
  next
    case False
    with Cons.prems p obtain j fs where
      "checked [at_least 1 k', at_most 64 k'] k' = Inr k'" "z_int (\<lambda>i. [(0 \<le> i, Builtin ''too_small'')]) v = Inr j"
      "metric_entries ps = Inr fs" "es = (k', j) # fs"
      by (auto simp: map_sum_Inr_iff case_prod_beta)
    with Cons p show ?thesis by (auto simp: z_int_Inr at_least_def at_most_def)
  qed
qed simp

lemma report_metrics_bounds:
  assumes "report_schema v = Inr rp" "rp_metrics rp = Some es"
  shows "length es \<le> 128" "(k, i) \<in> set es \<Longrightarrow> 0 \<le> i \<and> i < 2 ^ 53 \<and> js_length k \<le> 64"
proof -
  have m: "agent_metrics (get_prop v ''metrics'') = Inr (Some es)"
    using assms by (auto simp: report_schema_def field_def map_sum_Inr_iff case_prod_beta dest!: z_object_InrD)
  then obtain ps where e: "metric_entries ps = Inr es" and "length es \<le> 128"
    by (auto simp: agent_metrics_def z_optional_Inr invalid_type_def split: jsval.splits sum.splits)
  then show "length es \<le> 128" by simp
  show "(k, i) \<in> set es \<Longrightarrow> 0 \<le> i \<and> i < 2 ^ 53 \<and> js_length k \<le> 64"
    using metric_entries_bounds [OF e] by blast
qed

end
