(* ===== verification/Secrets.thy ===== *)
theory Secrets
  imports Encoding Samples
begin

text \<open>
  \<open>webui-fastify/src/central/secrets.ts\<close>: encryption at rest of relay passwords. The key comes from the
  environment, is parsed once and cached; \<open>key_cache\<close> is the module variable \<open>cachedKey\<close>
  (\<open>None\<close> is \<open>undefined\<close>, \<open>Some None\<close> is \<open>null\<close>). \<open>encrypt\<close> and
  \<open>decrypt\<close> take the cache they find; \<open>key\<close> also returns the cache it leaves. The
  initialisation vector is an argument, and the bytes an opened ciphertext yields are the
  UTF-8 text it was sealed from.
\<close>

type_synonym key_cache = "string option option"

definition prefix_v1 :: string where "prefix_v1 = ''v1:''"
definition iv_bytes :: nat where "iv_bytes = 12"
definition tag_bytes :: nat where "tag_bytes = 16"
definition key_bytes :: nat where "key_bytes = 32"

definition parse_key :: "string \<Rightarrow> string res" where
  "parse_key raw =
     (let trimmed = js_trim raw in
      if length trimmed = 64 \<and> list_all is_hex trimmed then Inr (from_hex trimmed)
      else (let decoded = b64_decode trimmed in
        if length decoded \<noteq> key_bytes
        then Inl (''CONFIG_SECRET_KEY must decode to 32 bytes (got '' @ nat_to_string (length decoded)
               @ ''); generate one with `openssl rand -base64 32`'')
        else Inr decoded))"

definition key :: "env \<Rightarrow> key_cache \<Rightarrow> string option res \<times> key_cache" where
  "key env cache =
     (case cache of
        Some k \<Rightarrow> (Inr k, cache)
      | None \<Rightarrow>
          (if truthy_str (env ''CONFIG_SECRET_KEY'')
           then (case parse_key (the (env ''CONFIG_SECRET_KEY'')) of
                   Inl e \<Rightarrow> (Inl e, None)
                 | Inr k \<Rightarrow> (Inr (Some k), Some (Some k)))
           else (Inr None, Some None)))"

definition reset_secret_key_cache :: key_cache where
  "reset_secret_key_cache = None"

definition is_enabled :: "env \<Rightarrow> key_cache \<Rightarrow> bool res" where
  "is_enabled env cache = res_bind (fst (key env cache)) (\<lambda>k. Inr (k \<noteq> None))"

definition encrypt :: "library \<Rightarrow> env \<Rightarrow> key_cache \<Rightarrow> string \<Rightarrow> string \<Rightarrow> string res" where
  "encrypt cr env cache iv plain =
     (if plain = [] then Inr []
      else res_bind (fst (key env cache)) (\<lambda>k.
        case k of
          None \<Rightarrow> Inr plain
        | Some kb \<Rightarrow>
            (case gcm_seal cr kb iv plain of
               (ct, tag) \<Rightarrow> Inr (prefix_v1 @ b64_encode (iv @ ct @ tag)))))"

definition decrypt :: "library \<Rightarrow> env \<Rightarrow> key_cache \<Rightarrow> string option \<Rightarrow> string res" where
  "decrypt cr env cache stored =
     (if \<not> truthy_str stored then Inr []
      else (let s = the stored in
        if \<not> starts_with s prefix_v1 then Inr s
        else res_bind (fst (key env cache)) (\<lambda>k.
          case k of
            None \<Rightarrow> Inl (''a relay password is encrypted but CONFIG_SECRET_KEY is not set; ''
                       @ ''the gateway bundle cannot be composed without it'')
          | Some kb \<Rightarrow>
              (let raw = b64_decode (drop (length prefix_v1) s) in
               if length raw < iv_bytes + tag_bytes then Inl ''stored relay password is truncated''
               else (let iv = take iv_bytes raw;
                         tag = drop (length raw - tag_bytes) raw;
                         ct = take (length raw - tag_bytes - iv_bytes) (drop iv_bytes raw)
                     in case gcm_open cr kb iv ct tag of
                          Some plain \<Rightarrow> Inr plain
                        | None \<Rightarrow> Inl (''a relay password could not be decrypted; ''
                            @ ''CONFIG_SECRET_KEY does not match the one it was saved with''))))))"

definition is_encrypted :: "string option \<Rightarrow> bool" where
  "is_encrypted stored = (case stored of None \<Rightarrow> False | Some s \<Rightarrow> starts_with s prefix_v1)"

section \<open>The cached key\<close>

text \<open>A cache that was filled from this environment.\<close>

definition cache_ok :: "env \<Rightarrow> key_cache \<Rightarrow> bool" where
  "cache_ok env cache \<longleftrightarrow> cache = None \<or> (fst (key env None) = Inr (the cache))"

lemma key_cached: "cache_ok env cache \<Longrightarrow> fst (key env cache) = fst (key env None)"
  by (cases cache) (auto simp: cache_ok_def key_def [of env "Some _"])

lemma key_cache_ok: "cache_ok env cache \<Longrightarrow> cache_ok env (snd (key env cache))"
  by (auto simp: cache_ok_def key_def split: option.splits sum.splits if_splits)

lemma parse_key_length: "parse_key raw = Inr k \<Longrightarrow> length k = 32"
proof -
  have hex: "length (from_hex s) = length s div 2" if "list_all is_hex s" for s
    using that
    by (induction s rule: from_hex.induct) (auto simp: is_hex_def split: option.splits)
  show "parse_key raw = Inr k \<Longrightarrow> length k = 32"
    by (auto simp: parse_key_def Let_def hex key_bytes_def split: if_splits)
qed

lemma key_length:
  assumes "cache_ok env cache" "fst (key env cache) = Inr (Some k)"
  shows "length k = 32"
  using assms unfolding key_cached [OF assms(1)]
  by (auto simp: key_def parse_key_length split: if_splits sum.splits)

section \<open>The cipher\<close>

text \<open>
  What the console relies on of AES-256-GCM under its key: a 16-byte tag, opening what was
  sealed under the same key and vector, and refusing whatever was not sealed under them.
\<close>

definition gcm_correct :: "library \<Rightarrow> bool" where
  "gcm_correct cr \<longleftrightarrow>
     (\<forall>k iv p. length (snd (gcm_seal cr k iv p)) = 16
        \<and> gcm_open cr k iv (fst (gcm_seal cr k iv p)) (snd (gcm_seal cr k iv p)) = Some p)"

definition gcm_authentic :: "library \<Rightarrow> string \<Rightarrow> bool" where
  "gcm_authentic cr k \<longleftrightarrow>
     (\<forall>iv ct tag p. gcm_open cr k iv ct tag = Some p \<longrightarrow> gcm_seal cr k iv p = (ct, tag))"

lemma encrypt_cases:
  assumes "fst (key env cache) = Inr k"
  shows "encrypt cr env cache iv plain =
    Inr (if plain = [] then [] else case k of None \<Rightarrow> plain
         | Some kb \<Rightarrow> prefix_v1 @ b64_encode (iv @ fst (gcm_seal cr kb iv plain) @ snd (gcm_seal cr kb iv plain)))"
  using assms by (auto simp: encrypt_def case_prod_beta split: option.splits)

lemma decrypt_envelope:
  assumes "fst (key env cache) = Inr (Some kb)" "length iv = 12" "length tag = 16"
  shows "decrypt cr env cache (Some (prefix_v1 @ b64_encode (iv @ ct @ tag))) =
    (case gcm_open cr kb iv ct tag of
       Some plain \<Rightarrow> Inr plain
     | None \<Rightarrow> Inl (''a relay password could not be decrypted; ''
         @ ''CONFIG_SECRET_KEY does not match the one it was saved with''))"
  using assms
  by (simp add: decrypt_def Let_def prefix_v1_def b64_decode_encode iv_bytes_def tag_bytes_def
      starts_with_def)

section \<open>Properties\<close>



lemma decrypt_prefixed_InrD:
  assumes "decrypt cr env cache (Some (prefix_v1 @ t)) = Inr plain"
  obtains kb where "fst (key env cache) = Inr (Some kb)" and "28 \<le> length (b64_decode t)"
    and "gcm_open cr kb (take 12 (b64_decode t)) (take (length (b64_decode t) - 28) (drop 12 (b64_decode t)))
           (drop (length (b64_decode t) - 16) (b64_decode t)) = Some plain"
  using assms
  by (cases "fst (key env cache)")
    (auto simp: decrypt_def Let_def prefix_v1_def starts_with_def iv_bytes_def tag_bytes_def
      split: if_splits option.splits)

text \<open>C16. A stored value with the marker is never read as anything but what was sealed: when
  \<open>decrypt\<close> returns, a key is configured and the decoded bytes are the vector, the
  ciphertext and the tag that sealing this very password under that key produces. Every other
  value, a wrong key and a tampered row included, throws.\<close>

theorem decrypt_only_sealed:
  assumes "\<And>k. gcm_authentic cr k"
    and "decrypt cr env cache (Some (prefix_v1 @ t)) = Inr plain"
  shows "\<exists>k iv ct tag. fst (key env cache) = Inr (Some k) \<and> length iv = 12
    \<and> gcm_seal cr k iv plain = (ct, tag) \<and> b64_decode t = iv @ ct @ tag"
proof -
  let ?raw = "b64_decode t"
  let ?iv = "take 12 ?raw" and ?ct = "take (length ?raw - 28) (drop 12 ?raw)"
    and ?tag = "drop (length ?raw - 16) ?raw"
  obtain k where k: "fst (key env cache) = Inr (Some k)" and len: "28 \<le> length ?raw"
    and opened: "gcm_open cr k ?iv ?ct ?tag = Some plain"
    using assms(2) by (rule decrypt_prefixed_InrD)
  have "?ct @ ?tag = drop 12 ?raw"
    using len append_take_drop_id [of "length ?raw - 28" "drop 12 ?raw"] by simp
  then have "?raw = ?iv @ ?ct @ ?tag" by simp
  moreover have "gcm_seal cr k ?iv plain = (?ct, ?tag)"
    using assms(1) [of k] opened by (simp add: gcm_authentic_def)
  moreover have "length ?iv = 12" using len by simp
  ultimately show ?thesis using k by blast
qed

lemma decrypt_only_sealed_witness:
  "\<exists>k iv ct tag. fst (key sample_env None) = Inr (Some k) \<and> length iv = 12
    \<and> gcm_seal sample_library k iv ''hunter2'' = (ct, tag)
    \<and> b64_decode (b64_encode (''0123456789ab'' @ ''hunter2'' @ replicate 16 (CHR ''T''))) = iv @ ct @ tag"
proof (rule decrypt_only_sealed)
  show "gcm_authentic sample_library k" for k
    by (simp add: gcm_authentic_def sample_library_def split: if_splits)
  show "decrypt sample_library sample_env None
    (Some (prefix_v1 @ b64_encode (''0123456789ab'' @ ''hunter2'' @ replicate 16 (CHR ''T''))))
      = Inr ''hunter2''"
    by code_simp
qed

end
