(* ===== verification/Bundle.thy ===== *)
theory Bundle
  imports Secrets
begin

text \<open>
  \<open>webui-fastify/src/central/bundle.ts\<close>, first half: composing a gateway's assigned profiles, relay groups and
  credential set into the configuration bundle, and its canonical text, whose digest decides
  whether a gateway pulls. The TypeScript interfaces are records; \<open>bundle_value\<close> is the
  JavaScript object they describe, optional members absent when they are not set.
\<close>

section \<open>Canonical text\<close>

function stable_stringify :: "jsval \<Rightarrow> string" where
  "stable_stringify (Arr vs) = ''['' @ js_join '','' (map stable_stringify vs) @ '']''"
| "stable_stringify (Obj ps) =
     (let entries = sort_key (js_key \<circ> fst)
            (map (\<lambda>(k, v). (k, stable_stringify v)) (filter (\<lambda>(k, v). v \<noteq> Undef) ps))
      in ''{'' @ js_join '','' (map (\<lambda>(k, t). json_quote k @ '':'' @ t) entries) @ ''}'')"
| "stable_stringify Undef = nullish (json_stringify Undef) ''null''"
| "stable_stringify Null = nullish (json_stringify Null) ''null''"
| "stable_stringify (Bool b) = nullish (json_stringify (Bool b)) ''null''"
| "stable_stringify (Num x) = nullish (json_stringify (Num x)) ''null''"
| "stable_stringify (Str s) = nullish (json_stringify (Str s)) ''null''"
  by pat_completeness auto
termination
proof (relation "measure size")
  fix vs :: "jsval list" and v
  assume "v \<in> set vs"
  then show "(v, Arr vs) \<in> measure size" by (induction vs) auto
next
  fix ps :: "(string \<times> jsval) list" and z x y
  assume "z \<in> set (filter (\<lambda>(k, v). v \<noteq> Undef) ps)" "(x, y) = z"
  then have "(x, y) \<in> set ps" by auto
  then show "(y, Obj ps) \<in> measure size"
    by (induction ps) auto
qed simp

section \<open>The bundle\<close>

record bundle_relay =
  br_name :: string
  exchange :: string
  br_port :: int
  br_priority :: int
  br_auth_user :: "string option"
  br_auth_pass :: "string option"
  br_tls :: "string option"
  br_allow_insecure_auth :: bool
  br_use_mx :: bool

record allowlist =
  allowed :: "jsval list"
  allow_all :: bool

record logging =
  url_conn :: string
  url_queue :: string
  url_delivery :: string
  api_key :: "string option"

record auth_entry =
  ae_user :: string
  ae_hash :: string

record gateway_bundle =
  server :: "string option"
  routing :: "string option"
  b_allowlist :: allowlist
  b_relays :: "(string \<times> bundle_relay list) list"
  b_logging :: logging
  metrics_token :: "string option"
  auth_users :: "auth_entry list option"

text \<open>The JavaScript values of the interfaces.\<close>

definition num_val :: "int \<Rightarrow> jsval" where
  "num_val i = Num (Fin (of_int i))"

definition opt_str :: "string option \<Rightarrow> jsval" where
  "opt_str x = (case x of None \<Rightarrow> Null | Some s \<Rightarrow> Str s)"

definition opt_member :: "string \<Rightarrow> string option \<Rightarrow> (string \<times> jsval) list" where
  "opt_member k x = (case x of None \<Rightarrow> [] | Some s \<Rightarrow> [(k, Str s)])"

definition flag_member :: "string \<Rightarrow> bool \<Rightarrow> (string \<times> jsval) list" where
  "flag_member k b = (if b then [(k, Bool True)] else [])"

definition relay_value :: "bundle_relay \<Rightarrow> jsval" where
  "relay_value r = Obj
     ([(''name'', Str (br_name r)), (''exchange'', Str (exchange r)),
       (''port'', num_val (br_port r)), (''priority'', num_val (br_priority r))]
      @ opt_member ''auth_user'' (br_auth_user r) @ opt_member ''auth_pass'' (br_auth_pass r)
      @ opt_member ''tls'' (br_tls r) @ flag_member ''use_mx'' (br_use_mx r)
      @ flag_member ''allow_insecure_auth'' (br_allow_insecure_auth r))"

definition bundle_value :: "gateway_bundle \<Rightarrow> jsval" where
  "bundle_value b = Obj
     [(''format'', num_val 1),
      (''server'', opt_str (server b)),
      (''routing'', opt_str (routing b)),
      (''allowlist'', Obj ((''allowed'', Arr (allowed (b_allowlist b)))
                            # flag_member ''allow_all'' (allow_all (b_allowlist b)))),
      (''relays'', Obj (map (\<lambda>(k, rs). (k, Arr (map relay_value rs))) (b_relays b))),
      (''logging'', Obj ([(''url_conn'', Str (url_conn (b_logging b))),
                          (''url_queue'', Str (url_queue (b_logging b))),
                          (''url_delivery'', Str (url_delivery (b_logging b)))]
                         @ opt_member ''api_key'' (api_key (b_logging b)))),
      (''admin'', (case metrics_token b of None \<Rightarrow> Undef | Some t \<Rightarrow> Obj [(''metrics_token'', Str t)])),
      (''auth'', (case auth_users b of None \<Rightarrow> Undef
                  | Some us \<Rightarrow> Obj [(''users'', Arr (map (\<lambda>u. Obj [(''user'', Str (ae_user u)),
                                                                   (''hash'', Str (ae_hash u))]) us))]))]"

definition serialise_bundle :: "gateway_bundle \<Rightarrow> string" where
  "serialise_bundle b = stable_stringify (bundle_value b)"

definition bundle_digest :: "library \<Rightarrow> string \<Rightarrow> string" where
  "bundle_digest cr serialised = to_hex (sha256 cr serialised)"

section \<open>Composition\<close>

definition logging_endpoints :: "env \<Rightarrow> logging" where
  "logging_endpoints env =
     (let url = nullish (env_or (env_or (env ''GATEWAY_LOGSERVICE_URL'') (env ''LOGSERVICE_URL''))
                          (Some ''http://localhost:3000'')) [];
          base = rev (dropWhile (\<lambda>c. c = CHR ''/'') (rev url));
          k = env_or (env ''GATEWAY_LOGSERVICE_API_KEY'') (env ''LOGSERVICE_API_KEY'')
      in \<lparr>url_conn = base @ ''/api/connection'', url_queue = base @ ''/api/queue'',
          url_delivery = base @ ''/api/delivery'',
          api_key = (if truthy_str k then k else None)\<rparr>)"

definition admin_settings :: "env \<Rightarrow> string option" where
  "admin_settings env =
     (let token = env ''GATEWAY_METRICS_TOKEN'' in if truthy_str token then token else None)"

definition empty_allowlist :: allowlist where
  "empty_allowlist = \<lparr>allowed = [], allow_all = False\<rparr>"

definition parse_allowlist :: "string \<Rightarrow> allowlist res" where
  "parse_allowlist text =
     (case json_parse text of
        None \<Rightarrow> Inl ''SyntaxError''
      | Some parsed \<Rightarrow>
          (case get_prop parsed ''allowed'' of
             Arr vs \<Rightarrow> Inr \<lparr>allowed = vs, allow_all = (get_prop parsed ''allow_all'' = Bool True)\<rparr>
           | _ \<Rightarrow> Inl ''allowlist profile must be {\"allowed\": [...]}''))"

text \<open>\<open>bodyOfKind\<close>: the first assignment of the kind that names a profile.\<close>

definition body_of_kind ::
  "gateway_assignment list \<Rightarrow> config_profile list \<Rightarrow> string \<Rightarrow> string option" where
  "body_of_kind assignments profiles kind =
     (case find (\<lambda>a. assign_kind a = kind \<and> profile_id a \<noteq> None) assignments of
        None \<Rightarrow> None
      | Some a \<Rightarrow>
          (if the (profile_id a) = 0 then None
           else map_option profile_body (find (\<lambda>p. profile_pk p = the (profile_id a)) profiles)))"

definition relay_entry :: "library \<Rightarrow> env \<Rightarrow> key_cache \<Rightarrow> relay \<Rightarrow> bundle_relay res" where
  "relay_entry cr env cache m =
     (let entry = (\<lambda>pass. \<lparr>
        br_name = nullish (relay_name m) (''relay-'' @ int_to_string (relay_pk m)),
        exchange = nullish (relay_host m) [],
        br_port = nullish (relay_port m) 25,
        br_priority = nullish (priority m) 0,
        br_auth_user = (if truthy_str (auth_user m) then auth_user m else None),
        br_auth_pass = pass,
        br_tls = (if truthy_str (relay_tls m) then relay_tls m else None),
        br_allow_insecure_auth = (allow_insecure_auth m = Some True),
        br_use_mx = (use_mx m = Some True)\<rparr>)
      in if truthy_str (auth_pass m)
         then res_bind (decrypt cr env cache (auth_pass m)) (\<lambda>p. Inr (entry (Some p)))
         else Inr (entry None))"

definition group_entries ::
  "library \<Rightarrow> env \<Rightarrow> key_cache \<Rightarrow> relay list \<Rightarrow> int \<Rightarrow> bundle_relay list res" where
  "group_entries cr env cache members gid =
     map_res (relay_entry cr env cache)
       (sort_key (\<lambda>m. nullish (priority m) 0) (filter (\<lambda>m. group_id m = Some gid) members))"

text \<open>
  \<open>relayTable[group.name] = ...\<close>: a later group of the same name replaces the entry in place,
  and assigning \<open>__proto__\<close> creates no own member.
\<close>

definition table_put :: "(string \<times> 'v) list \<Rightarrow> string \<Rightarrow> 'v \<Rightarrow> (string \<times> 'v) list" where
  "table_put t k v =
     (if k = ''__proto__'' then t
      else if k \<in> fst ` set t then map (\<lambda>(k', v'). if k' = k then (k', v) else (k', v')) t
      else t @ [(k, v)])"

fun relay_table ::
  "library \<Rightarrow> env \<Rightarrow> key_cache \<Rightarrow> relay list \<Rightarrow> relay_group list
     \<Rightarrow> (string \<times> bundle_relay list) list \<Rightarrow> (string \<times> bundle_relay list) list res" where
  "relay_table cr env cache members [] t = Inr t"
| "relay_table cr env cache members (g # gs) t =
     (if \<not> truthy_str (group_name g) then relay_table cr env cache members gs t
      else res_bind (group_entries cr env cache members (group_pk g)) (\<lambda>rs.
        relay_table cr env cache members gs (table_put t (the (group_name g)) rs)))"

definition inbound_auth :: "gateway_assignment list \<Rightarrow> smtp_credential table \<Rightarrow> auth_entry list option" where
  "inbound_auth assignments cs =
     (case find (\<lambda>a. assign_kind a = ''credentialset'' \<and> credential_set_id a \<noteq> None) assignments of
        None \<Rightarrow> None
      | Some a \<Rightarrow>
          (let sid = the (credential_set_id a) in
           if sid = 0 then None
           else (let rs = sql_select (\<lambda>c. set_id c = sid) cs in
             if rs = [] then None
             else Some (sort_key (js_key \<circ> ae_user)
                    (map (\<lambda>c. \<lparr>ae_user = username c, ae_hash = cred_hash c\<rparr>) rs)))))"

definition compose_bundle ::
  "library \<Rightarrow> env \<Rightarrow> key_cache \<Rightarrow> database \<Rightarrow> int \<Rightarrow> gateway_bundle res" where
  "compose_bundle cr env cache d gatewayId =
     (let assignments = sql_select (\<lambda>a. assign_gateway a = gatewayId) (gateway_assignments d);
          profileIds = List.map_filter profile_id assignments;
          profiles = sql_select (\<lambda>p. profile_pk p \<in> set profileIds) (config_profiles d);
          groupIds = List.map_filter relay_group_id
                       (filter (\<lambda>a. assign_kind a = ''relaygroup'') assignments);
          groups = sql_select (\<lambda>g. group_pk g \<in> set groupIds) (relay_groups d);
          members = sql_select (\<lambda>m. \<exists>g \<in> set groupIds. group_id m = Some g) (relays d);
          allowlistBody = body_of_kind assignments profiles ''allowlist''
      in res_bind (relay_table cr env cache members groups []) (\<lambda>relayTable.
         res_bind (if truthy_str allowlistBody then parse_allowlist (the allowlistBody)
                   else Inr empty_allowlist) (\<lambda>al.
           Inr \<lparr>server = body_of_kind assignments profiles ''server'',
                routing = body_of_kind assignments profiles ''ruleset'',
                b_allowlist = al,
                b_relays = relayTable,
                b_logging = logging_endpoints env,
                metrics_token = admin_settings env,
                auth_users = inbound_auth assignments (smtp_credentials d)\<rparr>)))"

end
