(* ===== verification/JsonText.thy ===== *)
theory JsonText
  imports Json
begin

text \<open>
  Reading back what was written: the text of a value is parsed to the value itself,
  for every value whose numbers are integers a double represents exactly, whose objects have
  distinct keys and that contains no \<open>undefined\<close>. Strings are arbitrary bytes, so every
  escape of \<open>json_quote\<close> is covered.
\<close>

section \<open>Strings\<close>

lemma hex_val_hex_digit: "n < 16 \<Longrightarrow> hex_val (hex_digit n) = Some n"
  by (auto simp: hex_digit_def hex_val_def of_char_of)

lemma hex4_quoted:
  assumes "b < 32"
  shows "hex4 [CHR ''0'', CHR ''0'', hex_digit (b div 16), hex_digit (b mod 16)] = Some b"
proof -
  have "b div 16 < 16" "b mod 16 < 16" "b div 16 * 16 + b mod 16 = b" using assms by auto
  moreover have "hex_val (CHR ''0'') = Some 0" by (simp add: hex_val_def)
  ultimately show ?thesis by (simp add: hex4_def hex_val_hex_digit)
qed

lemma p_string_plain:
  assumes "byte c \<noteq> 34" "byte c \<noteq> 92" "32 \<le> byte c"
  shows "p_string (c # r) = map_option (\<lambda>(t, q). (c # t, q)) (p_string r)"
  using assms by (subst p_string.simps) simp

lemma p_string_escape:
  assumes "e \<noteq> CHR ''u''"
    "map_of [(CHR 0x22, CHR 0x22), (CHR 0x5C, CHR 0x5C), (CHR ''/'', CHR ''/''),
             (CHR ''b'', CHR 0x08), (CHR ''f'', CHR 0x0C), (CHR ''n'', CHR 0x0A),
             (CHR ''r'', CHR 0x0D), (CHR ''t'', CHR 0x09)] e = Some x"
  shows "p_string (CHR 0x5C # e # q) = map_option (\<lambda>(t, p). (x # t, p)) (p_string q)"
  by (subst p_string.simps) (simp only: list.case assms if_False of_char_Char, simp)

lemma p_string_unicode:
  assumes "hex4 [a, b, c, d] = Some u" "u < 128"
  shows "p_string (CHR 0x5C # CHR ''u'' # a # b # c # d # q) =
    map_option (\<lambda>(t, p). (char_of u # t, p)) (p_string q)"
  using assms
  by (subst p_string.simps) (auto simp: utf8_encode_def Let_def split: option.splits)

lemma byte_char: "byte c = n \<Longrightarrow> c = char_of n"
  by auto

lemma escape_chars:
  "char_of (34::nat) = CHR 0x22" "char_of (92::nat) = CHR 0x5C" "char_of (8::nat) = CHR 0x08"
  "char_of (12::nat) = CHR 0x0C" "char_of (10::nat) = CHR 0x0A" "char_of (13::nat) = CHR 0x0D"
  "char_of (9::nat) = CHR 0x09"
  by code_simp+

lemma p_string_quote_char:
  "p_string (quote_char c @ r) = map_option (\<lambda>(t, q). (c # t, q)) (p_string r)"
proof -
  consider (escape) "byte c = 34 \<or> byte c = 92 \<or> byte c = 8 \<or> byte c = 12 \<or> byte c = 10 \<or> byte c = 13 \<or> byte c = 9"
    | (control) "byte c \<notin> {34, 92, 8, 12, 10, 13, 9}" "byte c < 32"
    | (plain) "byte c \<notin> {34, 92, 8, 12, 10, 13, 9}" "\<not> byte c < 32"
    by auto
  then show ?thesis
  proof cases
    case escape
    then have "c \<in> {CHR 0x22, CHR 0x5C, CHR 0x08, CHR 0x0C, CHR 0x0A, CHR 0x0D, CHR 0x09}"
      by (elim disjE) (drule byte_char, simp only: escape_chars, simp)+
    then show ?thesis by (elim insertE emptyE; simp add: quote_char_def p_string_escape)
  next
    case control
    have "quote_char c = [CHR 0x5C, CHR ''u'', CHR ''0'', CHR ''0'', hex_digit (byte c div 16), hex_digit (byte c mod 16)]"
      using control by (simp add: quote_char_def Let_def)
    moreover have "p_string (CHR 0x5C # CHR ''u'' # CHR ''0'' # CHR ''0'' # hex_digit (byte c div 16)
        # hex_digit (byte c mod 16) # r) = map_option (\<lambda>(t, q). (char_of (byte c) # t, q)) (p_string r)"
      by (rule p_string_unicode) (use control in \<open>simp_all add: hex4_quoted\<close>)
    ultimately show ?thesis by simp
  next
    case plain
    then show ?thesis by (simp add: quote_char_def Let_def p_string_plain)
  qed
qed

lemma p_string_quoted:
  "p_string (concat (map quote_char s) @ CHR 0x22 # r) = Some (s, r)"
proof (induction s)
  case Nil
  show ?case by (subst p_string.simps) simp
next
  case (Cons c s)
  then show ?case by (simp add: p_string_quote_char)
qed

section \<open>Numbers\<close>

text \<open>What may follow a value inside a text: the end, a comma or a closing bracket.\<close>

definition follows :: "string \<Rightarrow> bool" where
  "follows r \<longleftrightarrow> r = [] \<or> hd r = CHR '','' \<or> hd r = CHR '']'' \<or> hd r = CHR ''}''"

lemma follows_simps [simp]:
  "follows []" "follows (CHR '','' # r)" "follows (CHR '']'' # r)" "follows (CHR ''}'' # r)"
  by (simp_all add: follows_def)

lemma follows_digits:
  assumes "follows r"
  shows "takeWhile is_digit (nat_to_string n @ r) = nat_to_string n"
    "dropWhile is_digit (nat_to_string n @ r) = r"
proof -
  have "\<forall>c \<in> set (nat_to_string n). is_digit c" using nat_to_string_digits by blast
  moreover have "takeWhile is_digit r = []" "dropWhile is_digit r = r"
    using assms by (cases r; auto simp: follows_def is_digit_def)+
  ultimately show "takeWhile is_digit (nat_to_string n @ r) = nat_to_string n"
    "dropWhile is_digit (nat_to_string n @ r) = r" by simp_all
qed

lemma follows_scan:
  assumes "follows r"
  shows "\<not> starts_with r ''.''" "scan_exponent r = (0, r)"
  using assms by (cases r; auto simp: follows_def starts_with_def scan_exponent_def)+

lemma starts_with_minus: "\<not> starts_with (nat_to_string n @ r) ''-''"
proof -
  have "is_digit (hd (nat_to_string n))"
    by (rule nat_to_string_digits, rule hd_in_set) simp
  moreover have "\<not> is_digit (CHR ''-'')" by (simp add: is_digit_def)
  ultimately show ?thesis
    by (cases "nat_to_string n") (auto simp: starts_with_def)
qed

lemma single_zero:
  assumes "hd (nat_to_string n) = CHR ''0''"
  shows "length (nat_to_string n) = 1"
proof -
  have "n = 0" using assms by (rule hd_nat_to_string_zero)
  then show ?thesis by (simp add: nat_to_string.simps [of 0])
qed

lemma p_number_int:
  assumes "\<bar>i\<bar> < 2 ^ 53" and "follows r"
  shows "p_number (int_to_string i @ r) = Some (Fin (of_int i), r)"
proof -
  have zero: "\<not> (hd (nat_to_string n) = CHR ''0'' \<and> 1 < length (nat_to_string n))" for n
    using single_zero [of n] by auto
  have round: "round_double (of_int i) = Fin (of_int i)" using assms(1) by (rule round_double_int)
  show ?thesis
  proof (cases "i < 0")
    case True
    have neg: "starts_with (''-'' @ s) ''-''" for s by (rule starts_with_append)
    have "p_number (''-'' @ nat_to_string (nat (- i)) @ r) =
        Some (round_double (- of_nat (nat (- i))), r)"
      using neg zero [of "nat (- i)"] follows_digits [OF assms(2), of "nat (- i)"] follows_scan [OF assms(2)]
      by (simp add: p_number_def Let_def pow10_def)
    with True round show ?thesis by (simp add: int_to_string_def of_nat_nat)
  next
    case False
    have "p_number (nat_to_string (nat i) @ r) = Some (round_double (of_nat (nat i)), r)"
      using starts_with_minus [of "nat i" r] zero [of "nat i"] follows_digits [OF assms(2), of "nat i"] follows_scan [OF assms(2)]
      by (simp add: p_number_def Let_def pow10_def)
    with False round show ?thesis by (simp add: int_to_string_def of_nat_nat)
  qed
qed

section \<open>Values\<close>

fun json_ok :: "jsval \<Rightarrow> bool" where
  "json_ok Undef = False"
| "json_ok Null = True"
| "json_ok (Bool b) = True"
| "json_ok (Num x) = (case x of Fin q \<Rightarrow> is_integer (Fin q) \<and> \<bar>q\<bar> < 2 ^ 53 | _ \<Rightarrow> False)"
| "json_ok (Str s) = True"
| "json_ok (Arr vs) = (\<forall>v \<in> set vs. json_ok v)"
| "json_ok (Obj ps) = (distinct (map fst ps) \<and> (\<forall>p \<in> set ps. json_ok (snd p)))"

definition opens :: "string \<Rightarrow> bool" where
  "opens t \<longleftrightarrow> t \<noteq> [] \<and> \<not> json_ws (hd t) \<and> hd t \<noteq> CHR '']'' \<and> hd t \<noteq> CHR ''}''"

definition reads :: "jsval \<Rightarrow> string \<Rightarrow> bool" where
  "reads v t \<longleftrightarrow> opens t \<and>
     (\<forall>n r. 2 * length t + 1 \<le> n \<longrightarrow> follows r \<longrightarrow> p_value n (t @ r) = Some (v, r))"

lemma skip_ws_opens: "opens t \<Longrightarrow> skip_ws (t @ r) = t @ r"
  by (cases t) (auto simp: opens_def skip_ws_def)

lemma skip_ws_punct [simp]:
  "skip_ws (CHR '','' # r) = CHR '','' # r" "skip_ws (CHR '']'' # r) = CHR '']'' # r"
  "skip_ws (CHR ''}'' # r) = CHR ''}'' # r" "skip_ws (CHR '':'' # r) = CHR '':'' # r"
  "skip_ws (CHR 0x22 # r) = CHR 0x22 # r" "skip_ws (CHR ''{'' # r) = CHR ''{'' # r"
  "skip_ws (CHR ''['' # r) = CHR ''['' # r"
  by (simp_all add: skip_ws_def json_ws_def)

lemma reads_value: "reads v t \<Longrightarrow> 2 * length t + 1 \<le> n \<Longrightarrow> follows r \<Longrightarrow> p_value n (t @ r) = Some (v, r)"
  by (simp add: reads_def)

lemma p_elems_reads:
  assumes "list_all2 reads vs ts" "vs \<noteq> []" "2 * length (js_join '','' ts @ '']'') + 2 \<le> n"
  shows "p_elems n (js_join '','' ts @ CHR '']'' # r) = Some (vs, r)"
  using assms
proof (induction vs ts arbitrary: n rule: list_all2_induct)
  case (Cons v vs t ts)
  obtain m where n: "n = Suc m" using Cons.prems by (cases n) auto
  show ?case
  proof (cases ts)
    case Nil
    then have "p_value m (t @ CHR '']'' # r) = Some (v, CHR '']'' # r)"
      using Cons by (intro reads_value) (auto simp: n)
    with Nil Cons.hyps(2) n show ?thesis by simp
  next
    case (Cons u us)
    note ts = this
    then have vs: "vs \<noteq> []" using Cons.hyps(2) by auto
    have "p_value m (t @ CHR '','' # js_join '','' ts @ CHR '']'' # r)
        = Some (v, CHR '','' # js_join '','' ts @ CHR '']'' # r)"
      using Cons.hyps(1) Cons.prems ts by (intro reads_value) (auto simp: n)
    moreover have "p_elems m (js_join '','' ts @ CHR '']'' # r) = Some (vs, r)"
      using Cons.prems ts by (intro Cons.IH vs) (auto simp: n)
    ultimately show ?thesis using ts n by simp
  qed
qed simp

fun member_text :: "string \<times> jsval \<times> string \<Rightarrow> string" where
  "member_text (k, v, t) = json_quote k @ '':'' @ t"

lemma p_members_one:
  assumes "reads v t" "2 * length t + 1 \<le> n" "follows (c # r)" "c = CHR '','' \<or> c = CHR ''}''"
  shows "p_members (Suc n) (member_text (k, v, t) @ c # r) =
    (if c = CHR '','' then map_option (\<lambda>(ps, p). ((k, v) # ps, p)) (p_members n r) else Some ([(k, v)], r))"
proof -
  have "p_value n (t @ c # r) = Some (v, c # r)" using assms by (intro reads_value)
  then show ?thesis
    using assms(4) p_string_quoted [of k "CHR '':'' # t @ c # r"]
    by (auto simp: json_quote_def starts_with_def)
qed

lemma p_members_reads:
  assumes "\<forall>(k, v, t) \<in> set ms. reads v t" "ms \<noteq> []"
    "2 * length (js_join '','' (map member_text ms) @ ''}'') + 2 \<le> n"
  shows "p_members n (js_join '','' (map member_text ms) @ CHR ''}'' # r) = Some (map (\<lambda>(k, v, t). (k, v)) ms, r)"
  using assms
proof (induction ms arbitrary: n)
  case (Cons m ms)
  obtain k v t where m: "m = (k, v, t)" by (cases m)
  obtain l where n: "n = Suc l" using Cons.prems by (cases n) auto
  have v: "reads v t" using Cons.prems m by auto
  show ?case
  proof (cases ms)
    case Nil
    have "2 * length t + 1 \<le> l" using Cons.prems(3) Nil by (simp add: m n json_quote_def)
    with Nil v show ?thesis by (simp add: m n p_members_one del: p_members.simps member_text.simps)
  next
    case (Cons m' ms')
    let ?rest = "js_join '','' (map member_text ms) @ CHR ''}'' # r"
    have len: "2 * length t + 1 \<le> l" "2 * length (js_join '','' (map member_text ms) @ ''}'') + 2 \<le> l"
      using Cons.prems(3) Cons by (simp_all add: m n json_quote_def)
    have "p_members l ?rest = Some (map (\<lambda>(k, v, t). (k, v)) ms, r)"
      by (rule Cons.IH) (use Cons Cons.prems(1) len in auto)
    moreover have "js_join '','' (map member_text (m # ms)) @ CHR ''}'' # r = member_text m @ CHR '','' # ?rest"
      using Cons by simp
    ultimately show ?thesis
      using v len(1) by (simp add: m n p_members_one del: p_members.simps member_text.simps)
  qed
qed simp

lemma dedup_aux:
  "distinct (map fst ps) \<Longrightarrow> fst ` set acc \<inter> fst ` set ps = {} \<Longrightarrow>
    foldl (\<lambda>m (k, v). obj_put m k v) acc ps = acc @ ps"
proof (induction ps arbitrary: acc)
  case (Cons p ps)
  obtain k v where p: "p = (k, v)" by (cases p)
  have "obj_put acc k v = acc @ [(k, v)]" using Cons.prems p by (auto simp: obj_put_def)
  moreover have "foldl (\<lambda>m (k, v). obj_put m k v) (acc @ [(k, v)]) ps = (acc @ [(k, v)]) @ ps"
    using Cons.prems p by (intro Cons.IH) auto
  ultimately show ?case using p by simp
qed simp

lemma dedup_distinct: "distinct (map fst ps) \<Longrightarrow> dedup ps = ps"
  unfolding dedup_def using dedup_aux [of ps "[]"] by simp

lemma opens_simps [simp]:
  "opens (CHR ''['' # t)" "opens (CHR ''{'' # t)" "opens (CHR 0x22 # t)"
  "opens ''null''" "opens ''true''" "opens ''false''"
  by (simp_all add: opens_def json_ws_def)

lemma value_char_digit:
  assumes "is_digit c"
  shows "c \<noteq> CHR ''{''" "c \<noteq> CHR ''[''" "byte c \<noteq> 34" "c \<noteq> CHR ''t''" "c \<noteq> CHR ''f''" "c \<noteq> CHR ''n''"
    "\<not> json_ws c" "c \<noteq> CHR '']''" "c \<noteq> CHR ''}''"
  using assms by (auto simp: is_digit_def json_ws_def)

lemma value_char_minus:
  "CHR ''-'' \<noteq> CHR ''{''" "CHR ''-'' \<noteq> CHR ''[''" "byte (CHR ''-'') \<noteq> 34" "CHR ''-'' \<noteq> CHR ''t''"
  "CHR ''-'' \<noteq> CHR ''f''" "CHR ''-'' \<noteq> CHR ''n''"
  "\<not> json_ws (CHR ''-'')" "CHR ''-'' \<noteq> CHR '']''" "CHR ''-'' \<noteq> CHR ''}''"
  by (simp_all add: json_ws_def)

lemma int_text_head:
  obtains c s where "int_to_string i = c # s" and "is_digit c \<or> c = CHR ''-''"
proof (cases "i < 0")
  case True
  then show ?thesis by (intro that) (auto simp: int_to_string_def)
next
  case False
  obtain c s where "nat_to_string (nat i) = c # s" by (cases "nat_to_string (nat i)") auto
  moreover have "is_digit c" by (rule nat_to_string_digits [of c "nat i"]) (simp add: calculation)
  ultimately show ?thesis using False by (intro that) (auto simp: int_to_string_def)
qed

lemma readsI:
  assumes "opens t" "\<And>m r. 2 * length t \<le> m \<Longrightarrow> follows r \<Longrightarrow> p_value (Suc m) (t @ r) = Some (v, r)"
  shows "reads v t"
proof -
  have "p_value n (t @ r) = Some (v, r)" if "2 * length t + 1 \<le> n" "follows r" for n r
    using assms(2) [of "n - 1"] that by simp
  with assms(1) show ?thesis by (simp add: reads_def)
qed

lemma reads_int:
  assumes "\<bar>i\<bar> < 2 ^ 53"
  shows "reads (Num (Fin (of_int i))) (int_to_string i)"
proof -
  obtain c s where t: "int_to_string i = c # s" and c: "is_digit c \<or> c = CHR ''-''"
    by (rule int_text_head)
  have h: "c \<noteq> CHR ''{''" "c \<noteq> CHR ''[''" "byte c \<noteq> 34" "c \<noteq> CHR ''t''" "c \<noteq> CHR ''f''" "c \<noteq> CHR ''n''"
    "\<not> json_ws c" "c \<noteq> CHR '']''" "c \<noteq> CHR ''}''"
    using c value_char_digit value_char_minus by metis+
  then have op: "opens (int_to_string i)" by (simp add: opens_def t)
  show ?thesis
  proof (rule readsI [OF op])
    fix m :: nat and r
    assume "follows r"
    then have "p_number (c # s @ r) = Some (Fin (of_int i), r)"
      using p_number_int [OF assms] by (simp add: t)
    then show "p_value (Suc m) (int_to_string i @ r) = Some (Num (Fin (of_int i)), r)"
      using skip_ws_opens [OF op, of r] h by (simp add: t starts_with_def)
  qed
qed

lemma reads_literal:
  "reads Null ''null''" "reads (Bool True) ''true''" "reads (Bool False) ''false''"
proof -
  note skip = skip_ws_opens [of "''null''"] skip_ws_opens [of "''true''"] skip_ws_opens [of "''false''"]
  show "reads Null ''null''" "reads (Bool True) ''true''" "reads (Bool False) ''false''"
    by (rule readsI; use skip in \<open>simp add: starts_with_def\<close>)+
qed

lemma reads_string: "reads (Str s) (json_quote s)"
proof (rule readsI)
  show "opens (json_quote s)" by (simp add: json_quote_def)
  show "p_value (Suc m) (json_quote s @ r) = Some (Str s, r)" for m r
    using p_string_quoted [of s r] by (simp add: json_quote_def)
qed

lemma reads_array:
  assumes "list_all2 reads vs ts"
  shows "reads (Arr vs) (''['' @ js_join '','' ts @ '']'')"
proof -
  have "p_value n ((''['' @ js_join '','' ts @ '']'') @ r) = Some (Arr vs, r)"
    if len: "2 * length (''['' @ js_join '','' ts @ '']'') + 1 \<le> n" for n r
  proof -
    obtain m where n: "n = Suc m" using len by (cases n) auto
    show ?thesis
    proof (cases ts)
      case Nil
      with assms show ?thesis by (simp add: n starts_with_def)
    next
      case (Cons t us)
      with assms obtain v ws where vs: "vs = v # ws" and "reads v t" by (auto simp: list_all2_Cons2)
      then have "opens t" by (simp add: reads_def)
      then have "opens (js_join '','' ts)" using Cons by (cases us) (auto simp: opens_def)
      then have skip: "skip_ws (js_join '','' ts @ CHR '']'' # r) = js_join '','' ts @ CHR '']'' # r"
        and close: "\<not> starts_with (js_join '','' ts @ CHR '']'' # r) '']''"
        by (rule skip_ws_opens) (use \<open>opens (js_join '','' ts)\<close> in \<open>cases "js_join '','' ts"; auto simp: opens_def starts_with_def\<close>)
      have "p_elems m (js_join '','' ts @ CHR '']'' # r) = Some (vs, r)"
        using len by (intro p_elems_reads assms) (simp_all add: n vs)
      with skip close show ?thesis by (simp add: n)
    qed
  qed
  then show ?thesis by (simp add: reads_def)
qed

lemma reads_object:
  assumes "\<forall>(k, v, t) \<in> set ms. reads v t" and "distinct (map (\<lambda>(k, v, t). k) ms)"
  shows "reads (Obj (map (\<lambda>(k, v, t). (k, v)) ms)) (''{'' @ js_join '','' (map member_text ms) @ ''}'')"
proof -
  let ?ps = "map (\<lambda>(k, v, t). (k, v)) ms"
  have "map fst ?ps = map (\<lambda>(k, v, t). k) ms" by auto
  then have "distinct (map fst ?ps)" using assms(2) by (simp only:)
  then have dd: "dedup ?ps = ?ps" by (rule dedup_distinct)
  have "p_value n ((''{'' @ js_join '','' (map member_text ms) @ ''}'') @ r) = Some (Obj ?ps, r)"
    if len: "2 * length (''{'' @ js_join '','' (map member_text ms) @ ''}'') + 1 \<le> n" for n r
  proof -
    obtain m where n: "n = Suc m" using len by (cases n) auto
    show ?thesis
    proof (cases ms)
      case Nil
      then show ?thesis by (simp add: n starts_with_def)
    next
      case (Cons x xs)
      obtain s where open_: "js_join '','' (map member_text ms) = CHR 0x22 # s"
        using Cons by (cases x; cases xs) (auto simp: json_quote_def)
      have "p_members m (js_join '','' (map member_text ms) @ CHR ''}'' # r) = Some (?ps, r)"
        using len Cons by (intro p_members_reads assms(1)) (simp_all add: n)
      with dd show ?thesis by (simp add: n open_ starts_with_def)
    qed
  qed
  then show ?thesis by (simp add: reads_def)
qed

lemma integer_floor: "is_integer (Fin q) \<Longrightarrow> q = of_int \<lfloor>q\<rfloor>"
  using is_integerD [of "Fin q"] by (metis floor_of_int jsnum.inject)

lemma json_ok_text: "json_ok v \<Longrightarrow> json_stringify v \<noteq> None"
  by (cases v) auto

lemma member_texts_ok:
  assumes "\<forall>p \<in> set ps. json_ok (snd p)"
  shows "member_texts (map (\<lambda>(k, v). (k, json_stringify v)) ps)
    = map member_text (map (\<lambda>(k, v). (k, v, the (json_stringify v))) ps)"
  using assms
proof (induction ps)
  case (Cons p ps)
  obtain k v where p: "p = (k, v)" by (cases p)
  with Cons.prems obtain t where "json_stringify v = Some t" using json_ok_text [of v] by auto
  with Cons p show ?case by simp
qed simp

lemma reads_stringify: "json_ok v \<Longrightarrow> reads v (the (json_stringify v))"
proof (induction v)
  case (Num x)
  then obtain q where x: "x = Fin q" and q: "is_integer (Fin q)" "\<bar>q\<bar> < 2 ^ 53"
    by (cases x) auto
  then have qi: "q = of_int \<lfloor>q\<rfloor>" by (intro integer_floor)
  have "\<bar>of_int \<lfloor>q\<rfloor> :: rat\<bar> < of_int (2 ^ 53)" using q(2) qi by simp
  then have i: "\<bar>\<lfloor>q\<rfloor>\<bar> < 2 ^ 53" by (simp only: of_int_abs [symmetric] of_int_less_iff)
  have "json_number x = int_to_string \<lfloor>q\<rfloor>"
    using num_to_string_int [OF i] qi x by (simp add: json_number_def is_finite_def)
  with reads_int [OF i] qi x show ?case by simp
next
  case (Arr vs)
  let ?t = "\<lambda>v. nullish (json_stringify v) ''null''"
  have "?t v = the (json_stringify v)" if "v \<in> set vs" for v
    using that Arr.prems json_ok_text [of v] by auto
  with Arr have "list_all2 reads vs (map ?t vs)"
    by (auto simp: list_all2_conv_all_nth)
  then show ?case using reads_array by simp
next
  case (Obj ps)
  let ?ms = "map (\<lambda>(k, v). (k, v, the (json_stringify v))) ps"
  have "reads v (the (json_stringify v))" if "(k, v) \<in> set ps" for k v
    using Obj that by (metis json_ok.simps(7) prod.sel(2) prod_set_simps(2) singletonI snds.simps)
  then have "\<forall>(k, v, t) \<in> set ?ms. reads v t" by auto
  moreover have "distinct (map (\<lambda>(k, v, t). k) ?ms)"
    using Obj.prems by (simp add: comp_def case_prod_beta)
  ultimately have "reads (Obj (map (\<lambda>(k, v, t). (k, v)) ?ms)) (''{'' @ js_join '','' (map member_text ?ms) @ ''}'')"
    by (rule reads_object)
  moreover have "map (\<lambda>(k, v, t). (k, v)) ?ms = ps" by (simp add: comp_def case_prod_beta)
  ultimately show ?case using Obj.prems member_texts_ok [of ps] by simp
qed (simp_all add: reads_literal reads_string)

theorem json_parse_stringify:
  assumes "json_ok v"
  shows "\<exists>t. json_stringify v = Some t \<and> json_parse t = Some v"
proof -
  obtain t where t: "json_stringify v = Some t" using json_ok_text [OF assms] by auto
  have "p_value (Suc (2 * length t)) (t @ []) = Some (v, [])"
    using reads_stringify [OF assms] t by (intro reads_value) auto
  with t show ?thesis by (simp add: json_parse_def skip_ws_def)
qed

end
