(* ===== verification/Canonical.thy ===== *)
theory Canonical
  imports Bundle JsonText
begin

text \<open>
  What the canonical text of \<open>stableStringify\<close> identifies. \<open>canon\<close> is the value a text
  stands for: members sorted by key at every depth, members that are \<open>undefined\<close> dropped,
  other values JSON cannot express read as \<open>null\<close>. The text is the JSON text of the canonical value,
  parsing it returns that value, and so two bundles have the same text exactly when they are the
  same configuration.
\<close>

section \<open>Sorting members by key\<close>

lemma insort_key_map: "insort_key f (h x) (map h ys) = map h (insort_key (f \<circ> h) x ys)"
  by (induction ys) auto

lemma sort_key_map: "sort_key f (map h xs) = map h (sort_key (f \<circ> h) xs)"
  by (induction xs) (simp_all add: insort_key_map [unfolded comp_def] comp_def)

abbreviation by_key :: "(string \<times> 'v) list \<Rightarrow> (string \<times> 'v) list" where
  "by_key ps \<equiv> sort_key (js_key \<circ> fst) ps"

lemma by_key_map_snd: "by_key (map (\<lambda>(k, v). (k, g v)) ps) = map (\<lambda>(k, v). (k, g v)) (by_key ps)"
  by (simp add: sort_key_map comp_def case_prod_beta)

lemma distinct_by_key: "distinct (map fst (by_key ps)) \<longleftrightarrow> distinct (map fst ps)"
  by (rule mset_eq_imp_distinct_iff) simp

lemma inj_on_key: "distinct (map fst ps) \<Longrightarrow> inj_on (js_key \<circ> fst) (set ps)"
  by (auto simp: distinct_map inj_on_def)

lemma by_key_perm: "mset ps = mset qs \<Longrightarrow> distinct (map fst ps) \<Longrightarrow> by_key ps = by_key qs"
  by (rule sort_key_mset_cong) (auto intro: inj_on_key)

lemma by_key_eq_iff: "distinct (map fst ps) \<Longrightarrow> by_key ps = by_key qs \<longleftrightarrow> mset ps = mset qs"
  using by_key_perm mset_sort by metis

section \<open>The canonical value\<close>

function canon :: "jsval \<Rightarrow> jsval" where
  "canon (Arr vs) = Arr (map canon vs)"
| "canon (Obj ps) = Obj (by_key (map (\<lambda>(k, v). (k, canon v)) (filter (\<lambda>(k, v). v \<noteq> Undef) ps)))"
| "canon Undef = Null"
| "canon Null = Null"
| "canon (Bool b) = Bool b"
| "canon (Num x) = (if is_finite x then Num x else Null)"
| "canon (Str s) = Str s"
  by pat_completeness auto
termination
proof (relation "measure size")
  fix vs :: "jsval list" and v
  assume "v \<in> set vs"
  then show "(v, Arr vs) \<in> measure size" by (induction vs) auto
next
  fix ps :: "(string \<times> jsval) list" and z x y
  assume "z \<in> set (filter (\<lambda>(k, v). v \<noteq> Undef) ps)" "(x, y) = z"
  then have "(x, y) \<in> set ps" by auto
  then show "(y, Obj ps) \<in> measure size" by (induction ps) auto
qed simp

lemma canon_text: "json_stringify (canon v) = Some (stable_stringify v)"
proof (induction v rule: canon.induct)
  case (1 vs)
  then have "map (\<lambda>v. nullish (json_stringify v) ''null'') (map canon vs) = map stable_stringify vs"
    by simp
  then show ?case by (simp only: canon.simps json_stringify.simps stable_stringify.simps)
next
  case (2 ps)
  define qs where "qs = filter (\<lambda>(k, v). v \<noteq> Undef) ps"
  have texts: "member_texts (map (\<lambda>(k, v). (k, Some (f v))) rs) = map (\<lambda>(k, v). json_quote k @ '':'' @ f v) rs"
    for f :: "jsval \<Rightarrow> string" and rs :: "(string \<times> jsval) list"
    by (induction rs) auto
  have "(\<lambda>(k, v). (k, json_stringify v)) ((\<lambda>(k, v). (k, canon v)) p)
      = (\<lambda>(k, v). (k, Some (stable_stringify v))) p" if "p \<in> set qs" for p
    using that 2 [of p "fst p" "snd p"] by (simp add: qs_def case_prod_beta)
  then have "map (\<lambda>(k, v). (k, json_stringify v)) (map (\<lambda>(k, v). (k, canon v)) qs)
      = map (\<lambda>(k, v). (k, Some (stable_stringify v))) qs" by simp
  then have "map (\<lambda>(k, v). (k, json_stringify v)) (by_key (map (\<lambda>(k, v). (k, canon v)) qs))
      = map (\<lambda>(k, v). (k, Some (stable_stringify v))) (by_key qs)"
    by (simp only: by_key_map_snd [symmetric])
  then have "json_stringify (canon (Obj ps))
      = Some (''{'' @ js_join '','' (map (\<lambda>(k, v). json_quote k @ '':'' @ stable_stringify v) (by_key qs)) @ ''}'')"
    by (simp only: canon.simps json_stringify.simps qs_def [symmetric] texts)
  moreover have "map (\<lambda>(k, t). json_quote k @ '':'' @ t) (by_key (map (\<lambda>(k, v). (k, stable_stringify v)) qs))
      = map (\<lambda>(k, v). json_quote k @ '':'' @ stable_stringify v) (by_key qs)"
    by (simp add: by_key_map_snd case_prod_beta)
  ultimately show ?case by (simp add: Let_def qs_def)
qed (simp_all add: json_number_def)

text \<open>Values whose text can be read back: numbers exact, keys distinct.\<close>

fun plain :: "jsval \<Rightarrow> bool" where
  "plain (Num x) = json_ok (Num x)"
| "plain (Arr vs) = (\<forall>v \<in> set vs. plain v)"
| "plain (Obj ps) = (distinct (map fst ps) \<and> (\<forall>p \<in> set ps. plain (snd p)))"
| "plain _ = True"

lemma distinct_filter_keys: "distinct (map fst ps) \<Longrightarrow> distinct (map fst (filter P ps))"
  by (auto simp: distinct_map intro: inj_on_subset)

lemma plain_canon_ok: "plain v \<Longrightarrow> json_ok (canon v)"
proof (induction v rule: canon.induct)
  case (2 ps)
  let ?qs = "filter (\<lambda>(k, v). v \<noteq> Undef) ps"
  have "json_ok (canon y)" if "(x, y) \<in> set ps" "y \<noteq> Undef" for x y
    using 2 that by force
  moreover have "distinct (map fst (by_key (map (\<lambda>(k, v). (k, canon v)) ?qs)))"
  proof -
    have "distinct (map fst ?qs)" using 2 by (auto intro: distinct_filter_keys)
    moreover have "map fst (map (\<lambda>(k, v). (k, canon v)) rs) = map fst rs" for rs :: "(string \<times> jsval) list"
      by (induction rs) auto
    ultimately show ?thesis by (simp only: distinct_by_key)
  qed
  ultimately show ?case by auto
qed (auto simp: is_finite_def split: jsnum.splits)

lemma parse_stable: "plain v \<Longrightarrow> json_parse (stable_stringify v) = Some (canon v)"
  using json_parse_stringify [OF plain_canon_ok] canon_text [of v] by fastforce

lemma stable_inject: "plain v \<Longrightarrow> plain w \<Longrightarrow> stable_stringify v = stable_stringify w \<longleftrightarrow> canon v = canon w"
  by (metis parse_stable canon_text option.inject)

section \<open>Members of a canonical object\<close>

definition canon_member :: "(string \<times> jsval) list \<Rightarrow> string \<Rightarrow> jsval option" where
  "canon_member ps k = map_option canon (map_of (filter (\<lambda>(k, v). v \<noteq> Undef) ps) k)"

lemma canon_member_simps [simp]:
  "canon_member [] k = None"
  "canon_member ((k', v) # ps) k = (if v = Undef then canon_member ps k else if k = k' then Some (canon v) else canon_member ps k)"
  by (auto simp: canon_member_def)

lemma canon_member_append: "canon_member (ps @ qs) k = (case canon_member ps k of None \<Rightarrow> canon_member qs k | Some v \<Rightarrow> Some v)"
  by (simp add: canon_member_def map_add_def split: option.splits)

lemma canon_obj_mset:
  assumes "canon (Obj ps) = canon (Obj qs)"
  shows "mset (map (\<lambda>(k, v). (k, canon v)) (filter (\<lambda>(k, v). v \<noteq> Undef) ps))
    = mset (map (\<lambda>(k, v). (k, canon v)) (filter (\<lambda>(k, v). v \<noteq> Undef) qs))"
proof -
  let ?c = "\<lambda>rs. map (\<lambda>(k, v). (k, canon v)) (filter (\<lambda>(k, v). v \<noteq> Undef) rs)"
  have "by_key (?c ps) = by_key (?c qs)" using assms by simp
  then have "mset (by_key (?c ps)) = mset (by_key (?c qs))" by (rule arg_cong)
  then show ?thesis by (simp only: mset_sort)
qed

lemma canon_obj_member:
  assumes "canon (Obj ps) = canon (Obj qs)" "distinct (map fst ps)" "distinct (map fst qs)"
  shows "canon_member ps k = canon_member qs k"
proof -
  let ?c = "\<lambda>rs. map (\<lambda>(k, v). (k, canon v)) (filter (\<lambda>(k, v). v \<noteq> Undef) rs)"
  have fst_c: "map fst (?c rs) = map fst (filter (\<lambda>(k, v). v \<noteq> Undef) rs)" for rs :: "(string \<times> jsval) list"
    by (induction rs) auto
  have dist: "distinct (map fst (?c ps))" "distinct (map fst (?c qs))"
    unfolding fst_c using assms(2,3) by (auto intro: distinct_filter_keys)
  have "set (?c ps) = set (?c qs)" by (rule mset_eq_setD [OF canon_obj_mset [OF assms(1)]])
  then have "map_of (?c ps) = map_of (?c qs)" by (rule map_of_inject_set [OF dist, THEN iffD2])
  moreover have "canon_member rs k = map_of (?c rs) k" for rs
    by (simp add: canon_member_def map_of_map comp_def)
  ultimately show ?thesis by simp
qed

lemma canon_undef_cases [simp]: "num_val i \<noteq> Undef" "opt_str x \<noteq> Undef"
  by (auto simp: num_val_def opt_str_def split: option.splits)

lemma canon_num_val [simp]: "canon (num_val i) = num_val i" "num_val i = num_val j \<longleftrightarrow> i = j"
  by (auto simp: num_val_def is_finite_def)

lemma canon_opt_str [simp]: "canon (opt_str x) = opt_str x" "opt_str x = opt_str y \<longleftrightarrow> x = y"
  by (auto simp: opt_str_def split: option.splits)

lemma canon_member_opt [simp]:
  "canon_member (opt_member k' x) k = (if k = k' then map_option Str x else None)"
  "canon_member (flag_member k' b) k = (if k = k' \<and> b then Some (Bool True) else None)"
  by (auto simp: opt_member_def flag_member_def split: option.splits)

lemma optional_keys [simp]:
  "map fst (opt_member k x) = (if x = None then [] else [k])"
  "map fst (flag_member k b) = (if b then [k] else [])"
  by (auto simp: opt_member_def flag_member_def)

lemma map_option_Str: "map_option Str x = map_option Str y \<longleftrightarrow> x = y"
  by (cases x; cases y) auto

definition relay_members :: "bundle_relay \<Rightarrow> (string \<times> jsval) list" where
  "relay_members r =
     [(''name'', Str (br_name r)), (''exchange'', Str (exchange r)),
       (''port'', num_val (br_port r)), (''priority'', num_val (br_priority r))]
      @ opt_member ''auth_user'' (br_auth_user r) @ opt_member ''auth_pass'' (br_auth_pass r)
      @ opt_member ''tls'' (br_tls r) @ flag_member ''use_mx'' (br_use_mx r)
      @ flag_member ''allow_insecure_auth'' (br_allow_insecure_auth r)"

lemma relay_value_members: "relay_value r = Obj (relay_members r)"
  by (simp add: relay_value_def relay_members_def)

lemma relay_keys: "distinct (map fst (relay_members r))"
  by (simp add: relay_members_def)

lemma relay_member [simp]:
  "canon_member (relay_members r) ''name'' = Some (Str (br_name r))"
  "canon_member (relay_members r) ''exchange'' = Some (Str (exchange r))"
  "canon_member (relay_members r) ''port'' = Some (num_val (br_port r))"
  "canon_member (relay_members r) ''priority'' = Some (num_val (br_priority r))"
  "canon_member (relay_members r) ''auth_user'' = map_option Str (br_auth_user r)"
  "canon_member (relay_members r) ''auth_pass'' = map_option Str (br_auth_pass r)"
  "canon_member (relay_members r) ''tls'' = map_option Str (br_tls r)"
  "canon_member (relay_members r) ''use_mx'' = (if br_use_mx r then Some (Bool True) else None)"
  "canon_member (relay_members r) ''allow_insecure_auth'' = (if br_allow_insecure_auth r then Some (Bool True) else None)"
  by (auto simp: relay_members_def canon_member_append split: option.splits)

lemma relay_canon_inject: "canon (relay_value r) = canon (relay_value s) \<longleftrightarrow> r = s"
proof
  assume "canon (relay_value r) = canon (relay_value s)"
  then have m: "canon_member (relay_members r) k = canon_member (relay_members s) k" for k
    unfolding relay_value_members by (rule canon_obj_member) (rule relay_keys)+
  show "r = s"
    using m [of "''name''"] m [of "''exchange''"] m [of "''port''"] m [of "''priority''"]
      m [of "''auth_user''"] m [of "''auth_pass''"] m [of "''tls''"] m [of "''use_mx''"]
      m [of "''allow_insecure_auth''"]
    by (intro bundle_relay.equality) (simp_all add: map_option_Str split: if_splits)
qed simp

section \<open>Bundles\<close>

text \<open>
  A bundle whose numbers JSON carries exactly: ports and priorities below \<open>2^53\<close> (the
  columns are 32-bit integers), group names distinct, and an allowlist that came out of a JSON text.
\<close>

definition relay_ok :: "bundle_relay \<Rightarrow> bool" where
  "relay_ok r \<longleftrightarrow> \<bar>br_port r\<bar> < 2 ^ 53 \<and> \<bar>br_priority r\<bar> < 2 ^ 53"

definition bundle_ok :: "gateway_bundle \<Rightarrow> bool" where
  "bundle_ok b \<longleftrightarrow> distinct (map fst (b_relays b)) \<and> (\<forall>(k, rs) \<in> set (b_relays b). list_all relay_ok rs)
     \<and> list_all plain (allowed (b_allowlist b))"

text \<open>The same configuration: equal in every part, the relay groups in any order.\<close>

definition same_config :: "gateway_bundle \<Rightarrow> gateway_bundle \<Rightarrow> bool" where
  "same_config b c \<longleftrightarrow>
     server b = server c \<and> routing b = routing c
     \<and> map canon (allowed (b_allowlist b)) = map canon (allowed (b_allowlist c))
     \<and> allow_all (b_allowlist b) = allow_all (b_allowlist c)
     \<and> mset (b_relays b) = mset (b_relays c)
     \<and> b_logging b = b_logging c \<and> metrics_token b = metrics_token c \<and> auth_users b = auth_users c"

lemma plain_num_val: "\<bar>i\<bar> < 2 ^ 53 \<Longrightarrow> plain (num_val i)"
proof -
  assume "\<bar>i\<bar> < 2 ^ 53"
  then have "of_int \<bar>i\<bar> < (of_int (2 ^ 53) :: rat)" by (simp only: of_int_less_iff)
  then show ?thesis by (simp add: num_val_def)
qed

lemma plain_opt_str [simp]: "plain (opt_str x)"
  by (simp add: opt_str_def split: option.splits)

lemma plain_optional [simp]:
  "\<forall>p \<in> set (opt_member k x). plain (snd p)" "\<forall>p \<in> set (flag_member k b). plain (snd p)"
  by (auto simp: opt_member_def flag_member_def split: option.splits if_splits)

lemma plain_relay:
  assumes "relay_ok r"
  shows "plain (relay_value r)"
proof -
  have "plain (num_val (br_port r))" "plain (num_val (br_priority r))"
    using assms by (simp_all only: relay_ok_def plain_num_val)
  then have "\<forall>p \<in> set (relay_members r). plain (snd p)"
    unfolding relay_members_def set_append ball_Un by simp
  then show ?thesis by (simp only: relay_value_members plain.simps relay_keys)
qed

definition relays_val :: "(string \<times> bundle_relay list) list \<Rightarrow> (string \<times> jsval) list" where
  "relays_val rs = map (\<lambda>(k, rs). (k, Arr (map relay_value rs))) rs"

lemma relays_keys [simp]: "map fst (relays_val rs) = map fst rs"
  by (induction rs) (auto simp: relays_val_def)

lemma canon_relays_iff:
  assumes "distinct (map fst rs)" "distinct (map fst ss)"
  shows "canon (Obj (relays_val rs)) = canon (Obj (relays_val ss)) \<longleftrightarrow> mset rs = mset ss"
proof -
  define c where "c = (\<lambda>p :: string \<times> bundle_relay list. (fst p, Arr (map (canon \<circ> relay_value) (snd p))))"
  have c: "map (\<lambda>(k, v). (k, canon v)) (filter (\<lambda>(k, v). v \<noteq> Undef) (relays_val xs)) = map c xs" for xs
    by (induction xs) (auto simp: relays_val_def c_def)
  have "inj (canon \<circ> relay_value)" by (simp add: inj_def relay_canon_inject)
  then have "inj c" by (auto simp: inj_def c_def prod_eq_iff inj_map_eq_map)
  have dist: "distinct (map fst (map c rs))" using assms(1) by (simp add: c_def comp_def)
  have "canon (Obj (relays_val rs)) = canon (Obj (relays_val ss)) \<longleftrightarrow> by_key (map c rs) = by_key (map c ss)"
    by (simp only: canon.simps c jsval.inject)
  also have "\<dots> \<longleftrightarrow> mset (map c rs) = mset (map c ss)" by (rule by_key_eq_iff [OF dist])
  also have "\<dots> \<longleftrightarrow> mset rs = mset ss"
    using inj_eq [OF multiset.inj_map [OF \<open>inj c\<close>]] by simp
  finally show ?thesis .
qed

definition allow_members :: "allowlist \<Rightarrow> (string \<times> jsval) list" where
  "allow_members a = (''allowed'', Arr (allowed a)) # flag_member ''allow_all'' (allow_all a)"

definition logging_members :: "logging \<Rightarrow> (string \<times> jsval) list" where
  "logging_members l =
     [(''url_conn'', Str (url_conn l)), (''url_queue'', Str (url_queue l)), (''url_delivery'', Str (url_delivery l))]
      @ opt_member ''api_key'' (api_key l)"

definition admin_val :: "string option \<Rightarrow> jsval" where
  "admin_val t = (case t of None \<Rightarrow> Undef | Some t \<Rightarrow> Obj [(''metrics_token'', Str t)])"

definition entry_val :: "auth_entry \<Rightarrow> jsval" where
  "entry_val u = Obj [(''user'', Str (ae_user u)), (''hash'', Str (ae_hash u))]"

definition auth_val :: "auth_entry list option \<Rightarrow> jsval" where
  "auth_val us = (case us of None \<Rightarrow> Undef | Some us \<Rightarrow> Obj [(''users'', Arr (map entry_val us))])"

definition bundle_members :: "gateway_bundle \<Rightarrow> (string \<times> jsval) list" where
  "bundle_members b =
     [(''format'', num_val 1), (''server'', opt_str (server b)), (''routing'', opt_str (routing b)),
      (''allowlist'', Obj (allow_members (b_allowlist b))), (''relays'', Obj (relays_val (b_relays b))),
      (''logging'', Obj (logging_members (b_logging b))), (''admin'', admin_val (metrics_token b)),
      (''auth'', auth_val (auth_users b))]"

lemma bundle_value_members: "bundle_value b = Obj (bundle_members b)"
  by (simp add: bundle_value_def bundle_members_def allow_members_def logging_members_def
      admin_val_def auth_val_def entry_val_def relays_val_def split: option.splits)

lemma bundle_keys: "distinct (map fst (bundle_members b))"
  by (simp add: bundle_members_def)

lemma bundle_member:
  "canon_member (bundle_members b) ''server'' = Some (opt_str (server b))"
  "canon_member (bundle_members b) ''routing'' = Some (opt_str (routing b))"
  "canon_member (bundle_members b) ''allowlist'' = Some (canon (Obj (allow_members (b_allowlist b))))"
  "canon_member (bundle_members b) ''relays'' = Some (canon (Obj (relays_val (b_relays b))))"
  "canon_member (bundle_members b) ''logging'' = Some (canon (Obj (logging_members (b_logging b))))"
  "canon_member (bundle_members b) ''admin'' = (if admin_val (metrics_token b) = Undef then None
     else Some (canon (admin_val (metrics_token b))))"
  "canon_member (bundle_members b) ''auth'' = (if auth_val (auth_users b) = Undef then None
     else Some (canon (auth_val (auth_users b))))"
  by (simp_all add: bundle_members_def del: canon.simps(2))

lemma allow_canon_iff:
  "canon (Obj (allow_members a)) = canon (Obj (allow_members c))
     \<longleftrightarrow> map canon (allowed a) = map canon (allowed c) \<and> allow_all a = allow_all c"
proof
  assume "canon (Obj (allow_members a)) = canon (Obj (allow_members c))"
  then have m: "canon_member (allow_members a) k = canon_member (allow_members c) k" for k
    by (rule canon_obj_member) (simp_all add: allow_members_def)
  show "map canon (allowed a) = map canon (allowed c) \<and> allow_all a = allow_all c"
    using m [of "''allowed''"] m [of "''allow_all''"] by (simp add: allow_members_def split: if_splits)
next
  assume "map canon (allowed a) = map canon (allowed c) \<and> allow_all a = allow_all c"
  then show "canon (Obj (allow_members a)) = canon (Obj (allow_members c))"
    by (simp add: allow_members_def flag_member_def)
qed

lemma logging_canon_iff:
  "canon (Obj (logging_members l)) = canon (Obj (logging_members m)) \<longleftrightarrow> l = m"
proof
  assume "canon (Obj (logging_members l)) = canon (Obj (logging_members m))"
  then have e: "canon_member (logging_members l) k = canon_member (logging_members m) k" for k
    by (rule canon_obj_member) (simp_all add: logging_members_def)
  show "l = m"
    using e [of "''url_conn''"] e [of "''url_queue''"] e [of "''url_delivery''"] e [of "''api_key''"]
    by (intro logging.equality) (simp_all add: logging_members_def map_option_Str)
qed simp

lemma single_member: "canon (Obj [(k, v)]) = canon (Obj [(k, w)]) \<longleftrightarrow> v = Undef \<and> w = Undef \<or>
    v \<noteq> Undef \<and> w \<noteq> Undef \<and> canon v = canon w"
  by simp

lemma entry_canon_inject: "canon (entry_val u) = canon (entry_val v) \<longleftrightarrow> u = v"
proof
  assume "canon (entry_val u) = canon (entry_val v)"
  then have e: "canon_member [(''user'', Str (ae_user u)), (''hash'', Str (ae_hash u))] k
      = canon_member [(''user'', Str (ae_user v)), (''hash'', Str (ae_hash v))] k" for k
    unfolding entry_val_def by (rule canon_obj_member) simp_all
  show "u = v"
    using e [of "''user''"] e [of "''hash''"] by (intro auth_entry.equality) simp_all
qed simp

lemma auth_canon_iff:
  "auth_val us \<noteq> Undef \<Longrightarrow> auth_val vs \<noteq> Undef \<Longrightarrow> canon (auth_val us) = canon (auth_val vs) \<longleftrightarrow> us = vs"
proof -
  have "map (canon \<circ> entry_val) xs = map (canon \<circ> entry_val) ys \<longleftrightarrow> xs = ys" for xs ys
    by (rule inj_map_eq_map) (simp add: inj_def entry_canon_inject)
  then show "auth_val us \<noteq> Undef \<Longrightarrow> auth_val vs \<noteq> Undef \<Longrightarrow> canon (auth_val us) = canon (auth_val vs) \<longleftrightarrow> us = vs"
    by (auto simp: auth_val_def split: option.splits)
qed

lemma optional_vals [simp]:
  "admin_val t = Undef \<longleftrightarrow> t = None" "auth_val us = Undef \<longleftrightarrow> us = None"
  by (auto simp: admin_val_def auth_val_def split: option.splits)

lemma admin_canon_iff: "t \<noteq> None \<Longrightarrow> u \<noteq> None \<Longrightarrow> canon (admin_val t) = canon (admin_val u) \<longleftrightarrow> t = u"
  by (auto simp: admin_val_def)

lemma plain_bundle:
  assumes "bundle_ok b"
  shows "plain (bundle_value b)"
proof -
  have "plain (Obj (relays_val (b_relays b)))"
    using assms by (fastforce simp: bundle_ok_def list_all_iff plain_relay relays_val_def [of "b_relays b"]
        comp_def case_prod_beta)
  moreover have "plain (Obj (allow_members (b_allowlist b)))"
    using assms by (simp add: allow_members_def bundle_ok_def list_all_iff)
  moreover have "plain (Obj (logging_members l))" for l
    unfolding logging_members_def plain.simps set_append ball_Un by simp
  moreover have "plain (admin_val t)" "plain (auth_val us)" for t us
    by (auto simp: admin_val_def auth_val_def entry_val_def split: option.splits)
  moreover have "plain (num_val 1)" by (rule plain_num_val) simp
  ultimately have "\<forall>p \<in> set (bundle_members b). plain (snd p)"
    unfolding bundle_members_def by (simp del: plain.simps(3))
  then show ?thesis by (simp only: bundle_value_members plain.simps bundle_keys)
qed

lemma same_config_canon:
  assumes "same_config b c" and d: "distinct (map fst (b_relays b))" "distinct (map fst (b_relays c))"
  shows "canon (bundle_value b) = canon (bundle_value c)"
proof -
  note s = assms(1)
  have "canon (Obj (allow_members (b_allowlist b))) = canon (Obj (allow_members (b_allowlist c)))"
    "canon (Obj (relays_val (b_relays b))) = canon (Obj (relays_val (b_relays c)))"
    using s by (simp_all only: same_config_def allow_canon_iff canon_relays_iff [OF d])
  then have "map (\<lambda>(k, v). (k, canon v)) (filter (\<lambda>(k, v). v \<noteq> Undef) (bundle_members b))
      = map (\<lambda>(k, v). (k, canon v)) (filter (\<lambda>(k, v). v \<noteq> Undef) (bundle_members c))"
    using s by (simp add: bundle_members_def same_config_def del: canon.simps(2))
  then show "canon (bundle_value b) = canon (bundle_value c)"
    by (simp only: bundle_value_members canon.simps)
qed

lemma canon_bundle_iff:
  assumes "bundle_ok b" "bundle_ok c"
  shows "canon (bundle_value b) = canon (bundle_value c) \<longleftrightarrow> same_config b c"
proof
  assume "canon (bundle_value b) = canon (bundle_value c)"
  then have m: "canon_member (bundle_members b) k = canon_member (bundle_members c) k" for k
    unfolding bundle_value_members by (rule canon_obj_member) (rule bundle_keys)+
  have d: "distinct (map fst (b_relays b))" "distinct (map fst (b_relays c))"
    using assms by (simp_all add: bundle_ok_def)
  show "same_config b c"
    using m [of "''server''"] m [of "''routing''"] m [of "''allowlist''"] m [of "''relays''"]
      m [of "''logging''"] m [of "''admin''"] m [of "''auth''"] d
    by (simp add: same_config_def bundle_member allow_canon_iff logging_canon_iff canon_relays_iff
        admin_canon_iff auth_canon_iff del: canon.simps(2) split: if_splits)
next
  assume "same_config b c"
  then show "canon (bundle_value b) = canon (bundle_value c)"
    by (rule same_config_canon) (use assms in \<open>simp_all add: bundle_ok_def\<close>)
qed

lemma same_config_text:
  assumes "same_config b c" "distinct (map fst (b_relays b))" "distinct (map fst (b_relays c))"
  shows "serialise_bundle b = serialise_bundle c"
  using same_config_canon [OF assms] canon_text by (metis option.inject serialise_bundle_def)

lemma serialise_iff:
  assumes "bundle_ok b" "bundle_ok c"
  shows "serialise_bundle b = serialise_bundle c \<longleftrightarrow> same_config b c"
  using assms by (simp add: serialise_bundle_def stable_inject plain_bundle canon_bundle_iff)

end
