(* ===== verification/Compose.thy ===== *)
theory Compose
  imports Canonical
begin

text \<open>
  What \<open>composeBundle\<close> guarantees: the relay table holds exactly the assigned groups with
  their relays in failover order, the composed text reads back as the configuration, it does not
  depend on the order in which the database returns rows, and it depends on nothing but the
  gateway's own assignments and what they name.
\<close>

section \<open>Mapping with errors\<close>

lemma map_res_Inr: "map_res f xs = Inr ys \<longleftrightarrow> (\<forall>x \<in> set xs. \<exists>y. f x = Inr y) \<and> ys = map (projr \<circ> f) xs"
proof -
  have "list_all2 (\<lambda>x y. f x = Inr y) xs ys \<longleftrightarrow> (\<forall>x \<in> set xs. \<exists>y. f x = Inr y) \<and> ys = map (projr \<circ> f) xs"
    by (induction xs arbitrary: ys) (auto simp: list_all2_Cons1)
  then show ?thesis by (simp only: map_res_Inr_iff)
qed

lemma map_res_perm:
  assumes "mset xs = mset xs'" "map_res f xs = Inr ys"
  shows "\<exists>ys'. map_res f xs' = Inr ys' \<and> mset ys' = mset ys"
proof -
  have "map_res f xs' = Inr (map (projr \<circ> f) xs')"
    using assms mset_eq_setD [OF assms(1)] by (simp add: map_res_Inr)
  moreover have "mset (map (projr \<circ> f) xs') = mset ys"
    using assms by (simp add: map_res_Inr del: comp_apply)
  ultimately show ?thesis by blast
qed

lemma find_perm:
  assumes "mset xs = mset ys" "\<And>x y. x \<in> set xs \<Longrightarrow> y \<in> set xs \<Longrightarrow> P x \<Longrightarrow> P y \<Longrightarrow> x = y"
  shows "find P xs = find P ys"
proof -
  have s: "set xs = set ys" using assms(1) by (rule mset_eq_setD)
  show ?thesis
  proof (cases "find P ys")
    case None
    then have "find P xs = None" by (simp add: find_None_iff s)
    with None show ?thesis by simp
  next
    case (Some y)
    then have "y \<in> set xs" "P y" using find_SomeD s by fastforce+
    then have "find P xs = Some y" using assms(2) by (intro find_unique) auto
    with Some show ?thesis by simp
  qed
qed

section \<open>The relay table\<close>

lemma relay_entry_InrD:
  assumes "relay_entry cr env cache m = Inr r"
  shows "br_priority r = nullish (priority m) 0" "br_port r = nullish (relay_port m) 25"
    "br_name r = nullish (relay_name m) (''relay-'' @ int_to_string (relay_pk m))"
  using assms by (auto simp: relay_entry_def Let_def split: if_splits elim!: res_bind_InrE)

lemma group_entries_sorted:
  assumes "group_entries cr env cache members g = Inr rs"
  shows "sorted (map br_priority rs)"
proof -
  let ?ms = "sort_key (\<lambda>m. nullish (priority m) 0) (filter (\<lambda>m. group_id m = Some g) members)"
  have "map br_priority rs = map (\<lambda>m. nullish (priority m) 0) ?ms"
    using assms relay_entry_InrD(1) by (fastforce simp: group_entries_def map_res_Inr)
  then show ?thesis by simp
qed

text \<open>The entry of a group, and the table of a list of groups with distinct names.\<close>

definition named_groups :: "relay_group list \<Rightarrow> relay_group list" where
  "named_groups gs = filter (\<lambda>g. truthy_str (group_name g)) gs"

definition table_entry ::
  "library \<Rightarrow> env \<Rightarrow> key_cache \<Rightarrow> relay list \<Rightarrow> relay_group \<Rightarrow> (string \<times> bundle_relay list) res" where
  "table_entry cr env cache members g =
     res_bind (group_entries cr env cache members (group_pk g)) (\<lambda>rs. Inr (the (group_name g), rs))"

lemma table_put_new: "k \<notin> fst ` set t \<Longrightarrow> table_put t k v = (if k = ''__proto__'' then t else t @ [(k, v)])"
  by (simp add: table_put_def)

lemma relay_table_distinct:
  assumes "distinct (map group_name (named_groups gs))"
    and "\<And>g. g \<in> set (named_groups gs) \<Longrightarrow> the (group_name g) \<notin> fst ` set t"
  shows "relay_table cr env cache members gs t =
    res_bind (map_res (table_entry cr env cache members) (named_groups gs))
      (\<lambda>es. Inr (t @ filter (\<lambda>p. fst p \<noteq> ''__proto__'') es))"
  using assms
proof (induction gs arbitrary: t)
  case (Cons g gs)
  show ?case
  proof (cases "truthy_str (group_name g)")
    case False
    with Cons show ?thesis by (simp add: named_groups_def)
  next
    case True
    then obtain k where k: "group_name g = Some k" by (cases "group_name g") auto
    show ?thesis
    proof (cases "group_entries cr env cache members (group_pk g)")
      case (Inl e)
      with True show ?thesis by (simp add: named_groups_def table_entry_def)
    next
      case (Inr rs)
      have new: "k \<notin> fst ` set t" using Cons.prems(2) [of g] True k by (simp add: named_groups_def)
      have "the (group_name h) \<notin> fst ` set (table_put t k rs)" if h: "h \<in> set (named_groups gs)" for h
      proof -
        have "group_name g \<notin> group_name ` set (named_groups gs)" using Cons.prems(1) True
          by (simp add: named_groups_def)
        then have "group_name h \<noteq> group_name g" using h by (metis imageI)
        then have "the (group_name h) \<noteq> k" using h k by (cases "group_name h") (auto simp: named_groups_def)
        moreover have "the (group_name h) \<notin> fst ` set t"
          using Cons.prems(2) [of h] h by (auto simp: named_groups_def)
        ultimately show ?thesis using new by (auto simp: table_put_new)
      qed
      then have "relay_table cr env cache members gs (table_put t k rs) =
          res_bind (map_res (table_entry cr env cache members) (named_groups gs))
            (\<lambda>es. Inr (table_put t k rs @ filter (\<lambda>p. fst p \<noteq> ''__proto__'') es))"
        using Cons.prems(1) by (intro Cons.IH) (auto simp: named_groups_def split: if_splits)
      moreover have "named_groups (g # gs) = g # named_groups gs" using True by (simp add: named_groups_def)
      moreover have "table_entry cr env cache members g = Inr (k, rs)" using Inr k by (simp add: table_entry_def)
      ultimately show ?thesis
        using True k Inr new
        by (cases "map_res (table_entry cr env cache members) (named_groups gs)")
          (simp_all add: table_put_new)
    qed
  qed
qed (simp add: named_groups_def)

lemma table_put_fsts:
  "map fst (table_put t k v) = (if k = ''__proto__'' \<or> k \<in> fst ` set t then map fst t else map fst t @ [k])"
proof -
  have "map fst (map (\<lambda>(k', v'). if k' = k then (k', v) else (k', v')) t) = map fst t"
    by (induction t) auto
  then show ?thesis by (simp add: table_put_def)
qed

lemma table_put_keys: "distinct (map fst t) \<Longrightarrow> distinct (map fst (table_put t k v))"
  by (simp add: table_put_fsts)

lemma relay_table_keys:
  "relay_table cr env cache members gs t = Inr t' \<Longrightarrow> distinct (map fst t) \<Longrightarrow> distinct (map fst t')"
  by (induction gs arbitrary: t) (auto split: if_splits elim!: res_bind_InrE intro: table_put_keys)

lemma table_put_set: "(k', v') \<in> set (table_put t k v) \<Longrightarrow> (k', v') \<in> set t \<or> (k' = k \<and> v' = v)"
  by (auto simp: table_put_def split: if_splits)

lemma relay_table_sound:
  assumes "relay_table cr env cache members gs t = Inr t'" "(k, rs) \<in> set t'"
  shows "(k, rs) \<in> set t \<or>
    (\<exists>g \<in> set gs. group_name g = Some k \<and> group_entries cr env cache members (group_pk g) = Inr rs)"
  using assms
proof (induction gs arbitrary: t)
  case (Cons g gs)
  show ?case
  proof (cases "truthy_str (group_name g)")
    case False
    with Cons show ?thesis by auto
  next
    case True
    then obtain n es where n: "group_name g = Some n" and es: "group_entries cr env cache members (group_pk g) = Inr es"
      and rest: "relay_table cr env cache members gs (table_put t n es) = Inr t'"
      using Cons.prems(1) by (cases "group_name g") (auto elim!: res_bind_InrE)
    from Cons.IH [OF rest Cons.prems(2)] show ?thesis
      using table_put_set [of k rs t n es] n es by auto
  qed
qed simp

lemma table_put_dom: "k \<noteq> ''__proto__'' \<Longrightarrow> k \<in> fst ` set (table_put t k v)"
  "fst ` set t \<subseteq> fst ` set (table_put t k v)"
proof -
  have "fst ` set (table_put t k v) = set (map fst (table_put t k v))" by simp
  then have eq: "fst ` set (table_put t k v) = (if k = ''__proto__'' \<or> k \<in> fst ` set t then fst ` set t else insert k (fst ` set t))"
    unfolding table_put_fsts by auto
  show "k \<noteq> ''__proto__'' \<Longrightarrow> k \<in> fst ` set (table_put t k v)" by (simp add: eq)
  show "fst ` set t \<subseteq> fst ` set (table_put t k v)" by (auto simp: eq)
qed

lemma relay_table_dom:
  assumes "relay_table cr env cache members gs t = Inr t'"
  shows "fst ` set t \<subseteq> fst ` set t'
    \<and> (\<forall>g \<in> set gs. \<forall>k. group_name g = Some k \<longrightarrow> k \<noteq> [] \<longrightarrow> k \<noteq> ''__proto__'' \<longrightarrow> k \<in> fst ` set t')"
  using assms
proof (induction gs arbitrary: t)
  case (Cons g gs)
  show ?case
  proof (cases "truthy_str (group_name g)")
    case False
    with Cons show ?thesis by auto
  next
    case True
    then obtain n es where n: "group_name g = Some n"
      and rest: "relay_table cr env cache members gs (table_put t n es) = Inr t'"
      using Cons.prems(1) by (cases "group_name g") (auto elim!: res_bind_InrE)
    from Cons.IH [OF rest] show ?thesis
      using table_put_dom(1) [of n t es] table_put_dom(2) [of t n es] n by auto
  qed
qed simp

section \<open>The parts of a bundle\<close>

text \<open>The gateway's assignments, and the profiles, relay groups and relays they name.\<close>

definition gw_assignments :: "database \<Rightarrow> int \<Rightarrow> gateway_assignment list" where
  "gw_assignments d gw = sql_select (\<lambda>a. assign_gateway a = gw) (gateway_assignments d)"

definition gw_profiles :: "database \<Rightarrow> int \<Rightarrow> config_profile list" where
  "gw_profiles d gw =
     sql_select (\<lambda>p. profile_pk p \<in> set (List.map_filter profile_id (gw_assignments d gw))) (config_profiles d)"

definition gw_group_ids :: "database \<Rightarrow> int \<Rightarrow> int list" where
  "gw_group_ids d gw =
     List.map_filter relay_group_id (filter (\<lambda>a. assign_kind a = ''relaygroup'') (gw_assignments d gw))"

definition gw_groups :: "database \<Rightarrow> int \<Rightarrow> relay_group list" where
  "gw_groups d gw = sql_select (\<lambda>g. group_pk g \<in> set (gw_group_ids d gw)) (relay_groups d)"

definition gw_members :: "database \<Rightarrow> int \<Rightarrow> relay list" where
  "gw_members d gw = sql_select (\<lambda>m. \<exists>g \<in> set (gw_group_ids d gw). group_id m = Some g) (relays d)"

lemma compose_parts:
  "compose_bundle cr env cache d gw =
     res_bind (relay_table cr env cache (gw_members d gw) (gw_groups d gw) []) (\<lambda>relayTable.
     res_bind (if truthy_str (body_of_kind (gw_assignments d gw) (gw_profiles d gw) ''allowlist'')
               then parse_allowlist (the (body_of_kind (gw_assignments d gw) (gw_profiles d gw) ''allowlist''))
               else Inr empty_allowlist) (\<lambda>al.
       Inr \<lparr>server = body_of_kind (gw_assignments d gw) (gw_profiles d gw) ''server'',
            routing = body_of_kind (gw_assignments d gw) (gw_profiles d gw) ''ruleset'',
            b_allowlist = al, b_relays = relayTable, b_logging = logging_endpoints env,
            metrics_token = admin_settings env,
            auth_users = inbound_auth (gw_assignments d gw) (smtp_credentials d)\<rparr>))"
  by (simp add: compose_bundle_def Let_def gw_assignments_def gw_profiles_def gw_group_ids_def
      gw_groups_def gw_members_def)

lemma compose_InrE:
  assumes "compose_bundle cr env cache d gw = Inr b"
  obtains al where "relay_table cr env cache (gw_members d gw) (gw_groups d gw) [] = Inr (b_relays b)"
    and "(if truthy_str (body_of_kind (gw_assignments d gw) (gw_profiles d gw) ''allowlist'')
      then parse_allowlist (the (body_of_kind (gw_assignments d gw) (gw_profiles d gw) ''allowlist''))
      else Inr empty_allowlist) = Inr al"
    and "b = \<lparr>server = body_of_kind (gw_assignments d gw) (gw_profiles d gw) ''server'',
            routing = body_of_kind (gw_assignments d gw) (gw_profiles d gw) ''ruleset'',
            b_allowlist = al, b_relays = b_relays b, b_logging = logging_endpoints env,
            metrics_token = admin_settings env,
            auth_users = inbound_auth (gw_assignments d gw) (smtp_credentials d)\<rparr>"
  using assms unfolding compose_parts by (auto elim!: res_bind_InrE)

lemma members_of_group:
  assumes "g \<in> set (gw_groups d gw)"
  shows "filter (\<lambda>m. group_id m = Some (group_pk g)) (gw_members d gw)
    = sql_select (\<lambda>m. group_id m = Some (group_pk g)) (relays d)"
proof -
  have "group_pk g \<in> set (gw_group_ids d gw)" using assms by (simp add: gw_groups_def)
  then show ?thesis by (auto simp: gw_members_def sql_select_def intro!: filter_cong)
qed


definition sample_bundle :: gateway_bundle where
  "sample_bundle = \<lparr>server = None, routing = Some ''rules: []'', b_allowlist = empty_allowlist,
     b_relays = [(''smart'',
       [\<lparr>br_name = ''backup'', exchange = ''mx2'', br_port = 25, br_priority = 10, br_auth_user = None,
          br_auth_pass = None, br_tls = None, br_allow_insecure_auth = False, br_use_mx = False\<rparr>,
        \<lparr>br_name = ''primary'', exchange = ''mx1'', br_port = 25, br_priority = 20, br_auth_user = None,
          br_auth_pass = None, br_tls = None, br_allow_insecure_auth = False, br_use_mx = False\<rparr>])],
     b_logging = \<lparr>url_conn = ''http://logs:3000/api/connection'', url_queue = ''http://logs:3000/api/queue'',
       url_delivery = ''http://logs:3000/api/delivery'', api_key = None\<rparr>,
     metrics_token = None,
     auth_users = Some [\<lparr>ae_user = ''al'', ae_hash = ''$2b$a''\<rparr>, \<lparr>ae_user = ''bob'', ae_hash = ''$2b$b''\<rparr>]\<rparr>"

lemma compose_sample: "compose_bundle sample_library sample_env None sample_database 1 = Inr sample_bundle"
  by code_simp


section \<open>Independence of the row order\<close>

definition same_rows :: "database \<Rightarrow> database \<Rightarrow> bool" where
  "same_rows d e \<longleftrightarrow>
     mset (rows (gateway_assignments d)) = mset (rows (gateway_assignments e))
     \<and> mset (rows (config_profiles d)) = mset (rows (config_profiles e))
     \<and> mset (rows (relay_groups d)) = mset (rows (relay_groups e))
     \<and> mset (rows (relays d)) = mset (rows (relays e))
     \<and> mset (rows (smtp_credentials d)) = mset (rows (smtp_credentials e))"

text \<open>
  Where the source picks one of several rows: one assignment per kind, distinct names among the
  gateway's relay groups, distinct priorities within a group; and the unique keys of the schema.
\<close>

definition order_free :: "database \<Rightarrow> int \<Rightarrow> bool" where
  "order_free d gw \<longleftrightarrow>
     (\<forall>a \<in> set (gw_assignments d gw). \<forall>a' \<in> set (gw_assignments d gw).
        assign_kind a = assign_kind a' \<and> assign_kind a \<noteq> ''relaygroup'' \<longrightarrow> a = a')
     \<and> keys_ok profile_pk (config_profiles d)
     \<and> distinct (map group_name (named_groups (gw_groups d gw)))
     \<and> (\<forall>m \<in> set (gw_members d gw). \<forall>m' \<in> set (gw_members d gw).
          group_id m = group_id m' \<and> nullish (priority m) 0 = nullish (priority m') 0 \<longrightarrow> m = m')
     \<and> (\<forall>c \<in> set (rows (smtp_credentials d)). \<forall>c' \<in> set (rows (smtp_credentials d)).
          set_id c = set_id c' \<and> username c = username c' \<longrightarrow> c = c')"

lemma select_perm: "mset (rows t) = mset (rows u) \<Longrightarrow> mset (sql_select P t) = mset (sql_select P u)"
  by (simp add: sql_select_def)

lemma set_map_filter: "set (List.map_filter f xs) = {y. \<exists>x \<in> set xs. f x = Some y}"
  by (induction xs) (auto simp: map_filter_simps split: option.splits)

lemma perm_parts:
  assumes "same_rows d e"
  shows "mset (gw_assignments d gw) = mset (gw_assignments e gw)"
    "mset (gw_profiles d gw) = mset (gw_profiles e gw)" "mset (gw_groups d gw) = mset (gw_groups e gw)"
    "mset (gw_members d gw) = mset (gw_members e gw)"
proof -
  show a: "mset (gw_assignments d gw) = mset (gw_assignments e gw)"
    using assms by (auto simp: same_rows_def gw_assignments_def intro: select_perm)
  then have s: "set (gw_assignments d gw) = set (gw_assignments e gw)" by (rule mset_eq_setD)
  have "set (gw_group_ids d gw) = set (gw_group_ids e gw)"
    unfolding gw_group_ids_def by (simp add: set_map_filter s)
  moreover have "set (List.map_filter profile_id (gw_assignments d gw)) = set (List.map_filter profile_id (gw_assignments e gw))"
    by (simp add: set_map_filter s)
  ultimately show "mset (gw_profiles d gw) = mset (gw_profiles e gw)" "mset (gw_groups d gw) = mset (gw_groups e gw)"
    "mset (gw_members d gw) = mset (gw_members e gw)"
    using assms by (simp_all add: same_rows_def gw_profiles_def gw_groups_def gw_members_def sql_select_def)
qed

lemma body_of_kind_perm:
  assumes "same_rows d e" "order_free d gw" "kind \<noteq> ''relaygroup''"
  shows "body_of_kind (gw_assignments d gw) (gw_profiles d gw) kind
    = body_of_kind (gw_assignments e gw) (gw_profiles e gw) kind"
proof -
  have "find (\<lambda>a. assign_kind a = kind \<and> profile_id a \<noteq> None) (gw_assignments d gw)
      = find (\<lambda>a. assign_kind a = kind \<and> profile_id a \<noteq> None) (gw_assignments e gw)"
    using assms by (intro find_perm perm_parts) (auto simp: order_free_def)
  moreover have "find (\<lambda>p. profile_pk p = i) (gw_profiles d gw) = find (\<lambda>p. profile_pk p = i) (gw_profiles e gw)" for i
    using assms profs.key_unique [of "config_profiles d"]
    by (intro find_perm perm_parts) (auto simp: order_free_def gw_profiles_def)
  ultimately show ?thesis by (simp add: body_of_kind_def split: option.split)
qed

lemma inbound_auth_perm:
  assumes "same_rows d e" "order_free d gw"
  shows "inbound_auth (gw_assignments d gw) (smtp_credentials d)
    = inbound_auth (gw_assignments e gw) (smtp_credentials e)"
proof -
  have f: "find (\<lambda>a. assign_kind a = ''credentialset'' \<and> credential_set_id a \<noteq> None) (gw_assignments d gw)
      = find (\<lambda>a. assign_kind a = ''credentialset'' \<and> credential_set_id a \<noteq> None) (gw_assignments e gw)"
    using assms by (intro find_perm perm_parts) (auto simp: order_free_def)
  have m: "mset (sql_select P (smtp_credentials d)) = mset (sql_select P (smtp_credentials e))" for P
    using assms(1) by (auto simp: same_rows_def intro: select_perm)
  then have "sql_select P (smtp_credentials d) = [] \<longleftrightarrow> sql_select P (smtp_credentials e) = []" for P
    by (metis mset_zero_iff)
  moreover have "sort_key (js_key \<circ> ae_user) (map (\<lambda>c. \<lparr>ae_user = username c, ae_hash = cred_hash c\<rparr>)
        (sql_select (\<lambda>c. set_id c = i) (smtp_credentials d)))
      = sort_key (js_key \<circ> ae_user) (map (\<lambda>c. \<lparr>ae_user = username c, ae_hash = cred_hash c\<rparr>)
        (sql_select (\<lambda>c. set_id c = i) (smtp_credentials e)))" for i
  proof (rule sort_key_mset_cong)
    have "c = c'" if "c \<in> set (rows (smtp_credentials d))" "c' \<in> set (rows (smtp_credentials d))"
      "set_id c = set_id c'" "username c = username c'" for c c'
      using assms(2) that by (simp add: order_free_def)
    then show "inj_on (js_key \<circ> ae_user) (set (map (\<lambda>c. \<lparr>ae_user = username c, ae_hash = cred_hash c\<rparr>)
        (sql_select (\<lambda>c. set_id c = i) (smtp_credentials d))))"
      by (fastforce simp: inj_on_def)
  qed (use m [of "\<lambda>c. set_id c = i"] in simp)
  ultimately show ?thesis using f by (simp add: inbound_auth_def Let_def split: option.split)
qed

lemma group_entries_perm:
  assumes "mset ms = mset ns"
    and "\<And>m m'. m \<in> set ms \<Longrightarrow> m' \<in> set ms \<Longrightarrow> group_id m = group_id m' \<Longrightarrow>
      nullish (priority m) 0 = nullish (priority m') 0 \<Longrightarrow> m = m'"
  shows "group_entries cr env cache ms g = group_entries cr env cache ns g"
proof -
  have "sort_key (\<lambda>m. nullish (priority m) 0) (filter (\<lambda>m. group_id m = Some g) ms)
      = sort_key (\<lambda>m. nullish (priority m) 0) (filter (\<lambda>m. group_id m = Some g) ns)"
    using assms by (intro sort_key_mset_cong) (auto simp: inj_on_def)
  then show ?thesis by (simp add: group_entries_def)
qed

lemma relay_table_perm:
  assumes "same_rows d e" "order_free d gw"
    and "relay_table cr env cache (gw_members d gw) (gw_groups d gw) [] = Inr t"
  shows "\<exists>u. relay_table cr env cache (gw_members e gw) (gw_groups e gw) [] = Inr u \<and> mset t = mset u"
proof -
  have "table_entry cr env cache (gw_members d gw) g = table_entry cr env cache (gw_members e gw) g" for g
    using group_entries_perm [OF perm_parts(4) [OF assms(1)], of gw] assms(2)
    by (simp add: table_entry_def order_free_def)
  then have entry: "table_entry cr env cache (gw_members e gw) = table_entry cr env cache (gw_members d gw)"
    by (simp add: fun_eq_iff)
  have names: "mset (named_groups (gw_groups d gw)) = mset (named_groups (gw_groups e gw))"
    using perm_parts(3) [OF assms(1), of gw] by (simp add: named_groups_def)
  have dist: "distinct (map group_name (named_groups (gw_groups d gw)))"
    using assms(2) by (simp add: order_free_def)
  moreover have "mset (map group_name (named_groups (gw_groups d gw))) = mset (map group_name (named_groups (gw_groups e gw)))"
    using names by simp
  ultimately have dist': "distinct (map group_name (named_groups (gw_groups e gw)))"
    using mset_eq_imp_distinct_iff by blast
  obtain es where es: "map_res (table_entry cr env cache (gw_members d gw)) (named_groups (gw_groups d gw)) = Inr es"
    and t: "t = filter (\<lambda>p. fst p \<noteq> ''__proto__'') es"
    using assms(3) relay_table_distinct [OF dist, of "[]"] by (auto elim!: res_bind_InrE)
  obtain fs where "map_res (table_entry cr env cache (gw_members d gw)) (named_groups (gw_groups e gw)) = Inr fs"
    "mset fs = mset es"
    using map_res_perm [OF names es] by blast
  then show ?thesis
    using relay_table_distinct [OF dist', of "[]"] entry t by simp
qed

text \<open>C14. Composing is a function of the configuration, not of the order of the rows: two
  databases that hold the same rows in any order compose to bundles with the same text, hence the same
  digest, so no gateway pulls for nothing. The source picks one row of several in three places;
  where the operator's data leaves no choice there, the order cannot show.\<close>

theorem compose_row_order:
  assumes "same_rows d e" "order_free d gw" "compose_bundle cr env cache d gw = Inr b"
  shows "\<exists>c. compose_bundle cr env cache e gw = Inr c \<and> serialise_bundle c = serialise_bundle b"
proof -
  obtain al where t: "relay_table cr env cache (gw_members d gw) (gw_groups d gw) [] = Inr (b_relays b)"
    and al: "(if truthy_str (body_of_kind (gw_assignments d gw) (gw_profiles d gw) ''allowlist'')
      then parse_allowlist (the (body_of_kind (gw_assignments d gw) (gw_profiles d gw) ''allowlist''))
      else Inr empty_allowlist) = Inr al"
    and b: "b = \<lparr>server = body_of_kind (gw_assignments d gw) (gw_profiles d gw) ''server'',
            routing = body_of_kind (gw_assignments d gw) (gw_profiles d gw) ''ruleset'',
            b_allowlist = al, b_relays = b_relays b, b_logging = logging_endpoints env,
            metrics_token = admin_settings env,
            auth_users = inbound_auth (gw_assignments d gw) (smtp_credentials d)\<rparr>"
    using assms(3) by (rule compose_InrE)
  obtain u where u: "relay_table cr env cache (gw_members e gw) (gw_groups e gw) [] = Inr u"
    and perm: "mset (b_relays b) = mset u"
    using relay_table_perm [OF assms(1,2) t] by blast
  have "compose_bundle cr env cache e gw = Inr (b\<lparr>b_relays := u\<rparr>)"
    unfolding compose_parts u
    using al by (subst b) (simp add: body_of_kind_perm [OF assms(1,2)] inbound_auth_perm [OF assms(1,2)] split: if_splits)
  moreover have "serialise_bundle (b\<lparr>b_relays := u\<rparr>) = serialise_bundle b"
    by (rule same_config_text) (use perm relay_table_keys [OF t] relay_table_keys [OF u] in \<open>simp_all add: same_config_def\<close>)
  ultimately show ?thesis by blast
qed

lemma compose_row_order_witness:
  "\<exists>c. compose_bundle sample_library sample_env None
      (sample_database\<lparr>relays := \<lparr>rows = rev (rows (relays sample_database)), next_id = 3\<rparr>\<rparr>) 1 = Inr c
    \<and> serialise_bundle c = serialise_bundle sample_bundle"
proof (rule compose_row_order [OF _ _ compose_sample])
  show "same_rows sample_database (sample_database\<lparr>relays := \<lparr>rows = rev (rows (relays sample_database)), next_id = 3\<rparr>\<rparr>)"
    by (simp add: same_rows_def)
  show "order_free sample_database 1"
    unfolding order_free_def by (intro conjI; code_simp)
qed

section \<open>Text and configuration\<close>

text \<open>C13. The text of a bundle identifies the configuration: two bundles serialise to the same
  text exactly when every part of them is equal, the relay groups up to their order. So an unchanged
  configuration keeps its digest, and no change of a port, a password, a rule or a credential
  leaves the text as it was.\<close>

theorem serialise_bundle_iff:
  assumes "bundle_ok b" "bundle_ok c"
  shows "serialise_bundle b = serialise_bundle c \<longleftrightarrow> same_config b c"
  using assms by (rule serialise_iff)

lemma serialise_bundle_iff_witness:
  "serialise_bundle sample_bundle = serialise_bundle (sample_bundle\<lparr>routing := Some ''rules: [x]''\<rparr>)
    \<longleftrightarrow> same_config sample_bundle (sample_bundle\<lparr>routing := Some ''rules: [x]''\<rparr>)"
  by (rule serialise_bundle_iff)
    (simp_all add: sample_bundle_def bundle_ok_def relay_ok_def empty_allowlist_def)

text \<open>The text is JSON and reads back as the configuration: parsing it, as the agent API does
  before it answers a gateway, yields the composed object with sorted members and without those
  that are \<open>undefined\<close>.\<close>

theorem parse_serialised:
  assumes "bundle_ok b"
  shows "json_parse (serialise_bundle b) = Some (canon (bundle_value b))"
  unfolding serialise_bundle_def by (rule parse_stable [OF plain_bundle [OF assms]])

lemma parse_serialised_witness:
  "json_parse (serialise_bundle sample_bundle) = Some (canon (bundle_value sample_bundle))"
  by (rule parse_serialised) (simp add: sample_bundle_def bundle_ok_def relay_ok_def empty_allowlist_def)

end
