(* ===== verification/Deploy.thy ===== *)
theory Deploy
  imports Compose
begin

text \<open>
  \<open>webui-fastify/src/central/bundle.ts\<close>, second half, and \<open>webui-fastify/src/central/notify.ts\<close>: freezing a composed bundle as
  an immutable version, pointing a gateway at it, and rolling back. A transaction is a function
  from the database to its result and the database it leaves; \<open>run_tx\<close> keeps the old database when
  it throws. A successful deploy or rollback returns the gateways it notified.
\<close>

section \<open>Transactions and notifications\<close>

definition run_tx :: "(database \<Rightarrow> ('a \<times> database) res) \<Rightarrow> database \<Rightarrow> 'a res \<times> database" where
  "run_tx f d = (case f d of Inl e \<Rightarrow> (Inl e, d) | Inr (x, d') \<Rightarrow> (Inr x, d'))"

lemma run_tx_simps [outcome_simps]:
  "f d = Inl e \<Longrightarrow> run_tx f d = (Inl e, d)"
  "f d = Inr (x, d') \<Longrightarrow> run_tx f d = (Inr x, d')"
  by (simp_all add: run_tx_def)

lemma run_tx_InrD: "run_tx f d = (Inr x, d') \<Longrightarrow> f d = Inr (x, d')"
  by (simp add: run_tx_def split: sum.splits prod.splits)

lemma run_tx_InlD: "run_tx f d = (Inl e, d') \<Longrightarrow> f d = Inl e \<and> d' = d"
  by (simp add: run_tx_def split: sum.splits prod.splits)

text \<open>
  The event bus: the subscribers of each topic in subscription order, each named by the socket
  that registered it. \<open>notify_gateway\<close> returns the listeners it calls.
\<close>

type_synonym bus = "(string \<times> nat) list"

definition topic :: "int \<Rightarrow> string" where
  "topic gatewayId = ''gateway:'' @ int_to_string gatewayId"

definition notify_gateway :: "bus \<Rightarrow> int \<Rightarrow> nat list" where
  "notify_gateway b gatewayId = map snd (filter (\<lambda>(t, l). t = topic gatewayId) b)"

definition on_gateway_change :: "bus \<Rightarrow> int \<Rightarrow> nat \<Rightarrow> bus" where
  "on_gateway_change b gatewayId l = b @ [(topic gatewayId, l)]"

text \<open>\<open>bus.off\<close> removes the most recently added instance of the listener.\<close>

definition off_gateway_change :: "bus \<Rightarrow> int \<Rightarrow> nat \<Rightarrow> bus" where
  "off_gateway_change b gatewayId l = rev (remove1 (topic gatewayId, l) (rev b))"

section \<open>Deploying\<close>

record deploy_result =
  dr_version_id :: int
  dr_version :: int
  dr_sha256 :: string
  unchanged :: bool

definition versions_of :: "database \<Rightarrow> int \<Rightarrow> config_version list" where
  "versions_of d gw = sql_select (\<lambda>v. version_gateway v = gw) (config_versions d)"

definition latest_version :: "database \<Rightarrow> int \<Rightarrow> config_version option" where
  "latest_version d gw = first_row (sort_key (\<lambda>v. - version v) (versions_of d gw))"

text \<open>An insert into \<open>ConfigVersions\<close>, whose index on gateway and version is unique.\<close>

definition insert_version :: "config_version \<Rightarrow> database \<Rightarrow> database res" where
  "insert_version v d =
     (if \<exists>w \<in> set (rows (config_versions d)). version_gateway w = version_gateway v \<and> version w = version v
      then Inl ''ER_DUP_ENTRY''
      else Inr (d\<lparr>config_versions := sql_insert (\<lambda>i. v\<lparr>version_pk := i\<rparr>) (config_versions d)\<rparr>))"

definition point_gateway :: "int \<Rightarrow> (gateway \<Rightarrow> gateway) \<Rightarrow> database \<Rightarrow> database" where
  "point_gateway gw f d = d\<lparr>gateways := sql_update (\<lambda>g. gw_pk g = gw) f (gateways d)\<rparr>"

definition add_deployment :: "config_deployment \<Rightarrow> database \<Rightarrow> database" where
  "add_deployment r d = d\<lparr>config_deployments := sql_insert (\<lambda>i. r\<lparr>deployment_pk := i\<rparr>) (config_deployments d)\<rparr>"

definition deploy_new ::
  "int \<Rightarrow> int \<Rightarrow> string \<Rightarrow> string option \<Rightarrow> string \<Rightarrow> string \<Rightarrow> int \<Rightarrow> database \<Rightarrow> (deploy_result \<times> database) res"
where
  "deploy_new now gatewayId who note serialised sha ver d =
     res_bind (insert_version \<lparr>version_pk = 0, version_gateway = gatewayId, version = ver, bundle_text = serialised,
                 bundle_sha256 = sha, version_note = note, created_by = Some who, version_created = now\<rparr> d) (\<lambda>d1.
       case first_row (sql_select (\<lambda>v. version_gateway v = gatewayId \<and> version v = ver) (config_versions d1)) of
         None \<Rightarrow> Inl ''config version disappeared immediately after insert''
       | Some created \<Rightarrow>
           (let d2 = point_gateway gatewayId
                       (\<lambda>g. g\<lparr>desired_version_id := Some (version_pk created), apply_error := None\<rparr>) d1;
                d3 = add_deployment \<lparr>deployment_pk = 0, deployment_gateway = gatewayId, version_id = version_pk created,
                       action = ''deploy'', actor = Some who, deployment_note = note\<rparr> d2
            in Inr (\<lparr>dr_version_id = version_pk created, dr_version = ver, dr_sha256 = sha, unchanged = False\<rparr>, d3)))"

definition deploy_in_transaction ::
  "library \<Rightarrow> env \<Rightarrow> key_cache \<Rightarrow> int \<Rightarrow> int \<Rightarrow> string \<Rightarrow> string option \<Rightarrow> database \<Rightarrow> (deploy_result \<times> database) res"
where
  "deploy_in_transaction cr env cache now gatewayId who note d =
     res_bind (compose_bundle cr env cache d gatewayId) (\<lambda>b.
     (let serialised = serialise_bundle b;
          sha = bundle_digest cr serialised;
          latest = latest_version d gatewayId
      in if latest \<noteq> None \<and> bundle_sha256 (the latest) = sha
         then Inr (\<lparr>dr_version_id = version_pk (the latest), dr_version = version (the latest),
                     dr_sha256 = sha, unchanged = True\<rparr>,
                   point_gateway gatewayId (\<lambda>g. g\<lparr>desired_version_id := Some (version_pk (the latest))\<rparr>) d)
         else deploy_new now gatewayId who note serialised sha (nullish (map_option version latest) 0 + 1) d))"

definition deploy_bundle ::
  "library \<Rightarrow> env \<Rightarrow> key_cache \<Rightarrow> int \<Rightarrow> bus \<Rightarrow> int \<Rightarrow> string \<Rightarrow> string option \<Rightarrow> database
     \<Rightarrow> deploy_result res \<times> database \<times> nat list"
where
  "deploy_bundle cr env cache now b gatewayId who note d =
     (case run_tx (deploy_in_transaction cr env cache now gatewayId who note) d of
        (Inl e, d') \<Rightarrow> (Inl e, d', [])
      | (Inr r, d') \<Rightarrow> (Inr r, d', notify_gateway b gatewayId))"

section \<open>Rolling back\<close>

definition rollback_in_transaction :: "int \<Rightarrow> int \<Rightarrow> string \<Rightarrow> database \<Rightarrow> (int \<times> database) res" where
  "rollback_in_transaction gatewayId versionId who d =
     (case first_row (sql_select (\<lambda>v. version_pk v = versionId \<and> version_gateway v = gatewayId) (config_versions d)) of
        None \<Rightarrow> Inl ''no such configuration version for this gateway''
      | Some target \<Rightarrow>
          (let d1 = point_gateway gatewayId
                      (\<lambda>g. g\<lparr>desired_version_id := Some (version_pk target), apply_error := None\<rparr>) d;
               d2 = add_deployment \<lparr>deployment_pk = 0, deployment_gateway = gatewayId, version_id = version_pk target,
                      action = ''rollback'', actor = Some who, deployment_note = None\<rparr> d1
           in Inr (version target, d2)))"

definition rollback_to ::
  "bus \<Rightarrow> int \<Rightarrow> int \<Rightarrow> string \<Rightarrow> database \<Rightarrow> int res \<times> database \<times> nat list"
where
  "rollback_to b gatewayId versionId who d =
     (case run_tx (rollback_in_transaction gatewayId versionId who) d of
        (Inl e, d') \<Rightarrow> (Inl e, d', [])
      | (Inr r, d') \<Rightarrow> (Inr r, d', notify_gateway b gatewayId))"

record version_summary =
  vs_id :: int
  vs_version :: int
  vs_sha256 :: string
  vs_note :: "string option"
  vs_created_by :: "string option"
  vs_created :: int

definition list_versions :: "database \<Rightarrow> int \<Rightarrow> version_summary list" where
  "list_versions d gatewayId =
     map (\<lambda>v. \<lparr>vs_id = version_pk v, vs_version = version v, vs_sha256 = bundle_sha256 v,
               vs_note = version_note v, vs_created_by = created_by v, vs_created = version_created v\<rparr>)
       (sort_key (\<lambda>v. - version v) (versions_of d gatewayId))"

section \<open>The version history\<close>

text \<open>
  The invariant of the history: keys are unique, the versions of each gateway are numbered
  \<open>1\<close> to their count, and every row carries the digest of its own text.
\<close>

definition history_ok :: "library \<Rightarrow> database \<Rightarrow> bool" where
  "history_ok cr d \<longleftrightarrow>
     keys_ok version_pk (config_versions d)
     \<and> (\<forall>gw. mset (map version (versions_of d gw)) = mset (map int [1..<Suc (length (versions_of d gw))]))
     \<and> (\<forall>v \<in> set (rows (config_versions d)). bundle_sha256 v = bundle_digest cr (bundle_text v))"

lemma first_sorted_max:
  assumes "first_row (sort_key (\<lambda>v. - version v) vs) = Some l"
  shows "l \<in> set vs" "v \<in> set vs \<Longrightarrow> version v \<le> version l"
proof -
  obtain ws where ws: "sort_key (\<lambda>v. - version v) vs = l # ws"
    using assms by (cases "sort_key (\<lambda>v. - version v) vs") auto
  then have set: "set vs = insert l (set ws)" by (metis list.set(2) set_sort)
  then show "l \<in> set vs" by simp
  have "sorted (map (\<lambda>v. - version v) (l # ws))" unfolding ws [symmetric] by simp
  then show "v \<in> set vs \<Longrightarrow> version v \<le> version l" using set by auto
qed

lemma latest_version_next:
  assumes "history_ok cr d"
  shows "nullish (map_option version (latest_version d gw)) 0 = int (length (versions_of d gw))"
proof -
  let ?vs = "versions_of d gw"
  have m: "mset (map version ?vs) = mset (map int [1..<Suc (length ?vs)])"
    using assms by (simp add: history_ok_def)
  then have s: "version ` set ?vs = int ` {1..length ?vs}"
    by (metis atLeastLessThanSuc_atLeastAtMost list.set_map mset_eq_setD set_upt)
  show ?thesis
  proof (cases "latest_version d gw")
    case None
    then have "?vs = []" by (simp add: latest_version_def) (metis length_0_conv length_sort)
    with None show ?thesis by simp
  next
    case (Some l)
    note first_sorted_max [OF Some [unfolded latest_version_def]]
    then have l: "l \<in> set ?vs" and max: "\<And>v. v \<in> set ?vs \<Longrightarrow> version v \<le> version l" by blast+
    then have "0 < length ?vs" by (cases ?vs) auto
    then obtain v where "v \<in> set ?vs" "version v = int (length ?vs)"
      using s by (metis (no_types, lifting) One_nat_def Suc_leI atLeastAtMost_iff imageE image_eqI order_refl)
    moreover have "version l \<in> int ` {1..length ?vs}" using l s by blast
    ultimately show ?thesis using max [of v] Some by auto
  qed
qed

lemma point_gateway_simps [simp, table_simps]:
  "config_versions (point_gateway gw f d) = config_versions d"
  "config_deployments (point_gateway gw f d) = config_deployments d"
  "gateways (point_gateway gw f d) = sql_update (\<lambda>g. gw_pk g = gw) f (gateways d)"
  "config_versions (add_deployment r d) = config_versions d"
  "gateways (add_deployment r d) = gateways d"
  "config_deployments (add_deployment r d) = sql_insert (\<lambda>i. r\<lparr>deployment_pk := i\<rparr>) (config_deployments d)"
  by (simp_all add: point_gateway_def add_deployment_def)

lemma versions_of_cong: "config_versions d = config_versions e \<Longrightarrow> versions_of d = versions_of e"
  by (simp add: versions_of_def fun_eq_iff)

lemma history_ok_cong: "config_versions d = config_versions e \<Longrightarrow> history_ok cr d = history_ok cr e"
proof -
  assume eq: "config_versions d = config_versions e"
  then have "versions_of d = versions_of e" by (rule versions_of_cong)
  with eq show ?thesis by (simp only: history_ok_def)
qed

text \<open>The row a new deploy writes, and the database it leaves.\<close>

definition new_version :: "database \<Rightarrow> int \<Rightarrow> int \<Rightarrow> string \<Rightarrow> string option \<Rightarrow> string \<Rightarrow> string \<Rightarrow> config_version" where
  "new_version d now gw who note serialised sha =
     \<lparr>version_pk = next_id (config_versions d), version_gateway = gw,
      version = int (length (versions_of d gw)) + 1, bundle_text = serialised, bundle_sha256 = sha,
      version_note = note, created_by = Some who, version_created = now\<rparr>"

definition after_deploy :: "config_version \<Rightarrow> int \<Rightarrow> string \<Rightarrow> string option \<Rightarrow> database \<Rightarrow> database" where
  "after_deploy v gw who note d =
     add_deployment \<lparr>deployment_pk = 0, deployment_gateway = gw, version_id = version_pk v,
         action = ''deploy'', actor = Some who, deployment_note = note\<rparr>
       (point_gateway gw (\<lambda>g. g\<lparr>desired_version_id := Some (version_pk v), apply_error := None\<rparr>)
         (d\<lparr>config_versions := sql_insert (\<lambda>i. v\<lparr>version_pk := i\<rparr>) (config_versions d)\<rparr>))"

lemma version_bound:
  assumes "history_ok cr d" "v \<in> set (rows (config_versions d))" "version_gateway v = gw"
  shows "1 \<le> version v \<and> version v \<le> int (length (versions_of d gw))"
proof -
  have "version v \<in> version ` set (versions_of d gw)" using assms(2,3) by (simp add: versions_of_def)
  also have "\<dots> = set (map int [1..<Suc (length (versions_of d gw))])"
    using assms(1) unfolding history_ok_def by (metis list.set_map mset_eq_setD)
  finally show ?thesis by auto
qed

lemma deploy_new_eq:
  fixes now gw :: int and who serialised sha :: string and memo :: "string option"
  assumes "history_ok cr d"
  defines "v \<equiv> new_version d now gw who memo serialised sha"
  shows "deploy_new now gw who memo serialised sha (int (length (versions_of d gw)) + 1) d
    = Inr (\<lparr>dr_version_id = version_pk v, dr_version = version v, dr_sha256 = sha, unchanged = False\<rparr>,
           after_deploy v gw who memo d)"
proof -
  have none: "\<not> (version_gateway w = gw \<and> version w = int (length (versions_of d gw)) + 1)"
    if "w \<in> set (rows (config_versions d))" for w
    using version_bound [OF assms(1) that, of gw] by auto
  then have "sql_select (\<lambda>w. version_gateway w = gw \<and> version w = int (length (versions_of d gw)) + 1) (config_versions d) = []"
    by (auto simp: sql_select_def filter_empty_conv)
  moreover have "insert_version \<lparr>version_pk = 0, version_gateway = gw, version = int (length (versions_of d gw)) + 1,
      bundle_text = serialised, bundle_sha256 = sha, version_note = memo, created_by = Some who, version_created = now\<rparr> d
    = Inr (d\<lparr>config_versions := sql_insert (\<lambda>i. v\<lparr>version_pk := i\<rparr>) (config_versions d)\<rparr>)"
    using none by (auto simp: insert_version_def v_def new_version_def)
  ultimately show ?thesis
    by (simp add: deploy_new_def select_simps after_deploy_def v_def new_version_def Let_def)
qed

lemma after_deploy_simps:
  "config_versions (after_deploy v gw who note d) = sql_insert (\<lambda>i. v\<lparr>version_pk := i\<rparr>) (config_versions d)"
  "gateways (after_deploy v gw who note d) = sql_update (\<lambda>g. gw_pk g = gw)
     (\<lambda>g. g\<lparr>desired_version_id := Some (version_pk v), apply_error := None\<rparr>) (gateways d)"
  "config_deployments (after_deploy v gw who note d) = sql_insert
     (\<lambda>i. \<lparr>deployment_pk = i, deployment_gateway = gw, version_id = version_pk v, action = ''deploy'',
           actor = Some who, deployment_note = note\<rparr>) (config_deployments d)"
  by (simp_all add: after_deploy_def)

lemma deploy_tx_cases:
  assumes "history_ok cr d"
  shows "deploy_in_transaction cr env cache now gw who note d =
    (case compose_bundle cr env cache d gw of
       Inl e \<Rightarrow> Inl e
     | Inr b \<Rightarrow>
         (let serialised = serialise_bundle b; sha = bundle_digest cr serialised; latest = latest_version d gw;
              v = new_version d now gw who note serialised sha
          in if latest \<noteq> None \<and> bundle_sha256 (the latest) = sha
             then Inr (\<lparr>dr_version_id = version_pk (the latest), dr_version = version (the latest),
                         dr_sha256 = sha, unchanged = True\<rparr>,
                       point_gateway gw (\<lambda>g. g\<lparr>desired_version_id := Some (version_pk (the latest))\<rparr>) d)
             else Inr (\<lparr>dr_version_id = version_pk v, dr_version = version v, dr_sha256 = sha, unchanged = False\<rparr>,
                       after_deploy v gw who note d)))"
  unfolding deploy_in_transaction_def Let_def latest_version_next [OF assms] deploy_new_eq [OF assms]
  by (cases "compose_bundle cr env cache d gw") simp_all

lemma versions_after_deploy:
  "versions_of (after_deploy (new_version d now gw who note serialised sha) gw who note d) g
    = versions_of d g @ (if g = gw then [new_version d now gw who note serialised sha] else [])"
  by (simp add: versions_of_def after_deploy_simps select_simps new_version_def)

lemma history_after_deploy:
  assumes "history_ok cr d" "sha = bundle_digest cr serialised"
  shows "history_ok cr (after_deploy (new_version d now gw who note serialised sha) gw who note d)"
  unfolding history_ok_def
proof (intro conjI allI ballI)
  let ?d = "after_deploy (new_version d now gw who note serialised sha) gw who note d"
  show "keys_ok version_pk (config_versions ?d)"
    using assms(1) by (simp add: history_ok_def after_deploy_simps vers.insert_ok)
  show "mset (map version (versions_of ?d g)) = mset (map int [1..<Suc (length (versions_of ?d g))])" for g
  proof -
    let ?vs = "versions_of d g"
    have old: "mset (map version ?vs) = mset (map int [1..<Suc (length ?vs)])"
      using assms(1) by (simp only: history_ok_def)
    have "[1..<Suc (Suc (length ?vs))] = [1..<Suc (length ?vs)] @ [Suc (length ?vs)]"
      by (rule upt_Suc_append) simp
    then have "mset (map int [1..<Suc (Suc (length ?vs))]) = mset (map version ?vs) + {#int (length ?vs) + 1#}"
      by (simp only: map_append mset_append old) simp
    then show ?thesis using old unfolding versions_after_deploy by (cases "g = gw") (auto simp: new_version_def)
  qed
  show "bundle_sha256 v = bundle_digest cr (bundle_text v)" if "v \<in> set (rows (config_versions ?d))" for v
    using that assms by (auto simp: after_deploy_simps history_ok_def new_version_def)
qed

lemma deploy_history:
  assumes "history_ok cr d" "deploy_in_transaction cr env cache now gw who note d = Inr (r, d')"
  shows "history_ok cr d'"
  using assms(2) unfolding deploy_tx_cases [OF assms(1)]
  by (auto simp: Let_def history_after_deploy [OF assms(1)] split: sum.splits if_splits
      intro: assms(1) history_ok_cong [THEN iffD1, OF _ assms(1)])

section \<open>Properties\<close>

lemma latest_version_row:
  assumes "latest_version d gw = Some l"
  shows "l \<in> set (rows (config_versions d)) \<and> version_gateway l = gw"
  using first_sorted_max(1) [OF assms [unfolded latest_version_def]] by (simp add: versions_of_def)

lemma history_keys: "history_ok cr d \<Longrightarrow> keys_ok version_pk (config_versions d)"
  by (simp add: history_ok_def)

lemma find_version:
  "history_ok cr d \<Longrightarrow> v \<in> set (rows (config_versions d)) \<Longrightarrow>
    first_row (sql_select (\<lambda>w. version_pk w = version_pk v) (config_versions d)) = Some v"
  by (rule vers.find_by_key [OF history_keys])

lemma find_new_version:
  assumes "history_ok cr d"
  shows "first_row (sql_select (\<lambda>w. version_pk w = version_pk (new_version d now gw who note s sha))
      (config_versions (after_deploy (new_version d now gw who note s sha) gw who note d)))
    = Some (new_version d now gw who note s sha)"
  using vers.find_inserted [OF history_keys [OF assms], of "new_version d now gw who note s sha"]
  by (simp add: after_deploy_simps new_version_def)

text \<open>C4. A deploy of a gateway whose configuration composes succeeds and does what it promises: no
  existing version row changes, the history stays well formed, the version it returns is a row of
  this gateway whose digest is that of the composed text, the gateway and no other points at it, and
  a version that was minted has the next number and one audit row.\<close>

theorem deploy_bundle_correct:
  assumes "history_ok cr d" and "compose_bundle cr env cache d gw = Inr b"
  shows "\<exists>r d'. deploy_bundle cr env cache now subscribers gw who note d = (Inr r, d', notify_gateway subscribers gw)
    \<and> history_ok cr d' \<and> prefix (rows (config_versions d)) (rows (config_versions d'))
    \<and> (\<exists>v. first_row (sql_select (\<lambda>w. version_pk w = dr_version_id r) (config_versions d')) = Some v
        \<and> version_gateway v = gw \<and> version v = dr_version r \<and> bundle_sha256 v = dr_sha256 r)
    \<and> dr_sha256 r = bundle_digest cr (serialise_bundle b)
    \<and> rows (gateways d') = map (\<lambda>g. if gw_pk g = gw
         then g\<lparr>desired_version_id := Some (dr_version_id r), apply_error := (if unchanged r then apply_error g else None)\<rparr>
         else g) (rows (gateways d))
    \<and> (if unchanged r then config_versions d' = config_versions d \<and> config_deployments d' = config_deployments d
       else dr_version r = int (length (versions_of d gw)) + 1
         \<and> length (rows (config_deployments d')) = length (rows (config_deployments d)) + 1)"
proof -
  let ?s = "serialise_bundle b"
  let ?sha = "bundle_digest cr ?s"
  let ?v = "new_version d now gw who note ?s ?sha"
  show ?thesis
  proof (cases "latest_version d gw \<noteq> None \<and> bundle_sha256 (the (latest_version d gw)) = ?sha")
    case True
    then obtain l where l: "latest_version d gw = Some l" "bundle_sha256 l = ?sha" by auto
    let ?r = "\<lparr>dr_version_id = version_pk l, dr_version = version l, dr_sha256 = ?sha, unchanged = True\<rparr>"
    let ?d = "point_gateway gw (\<lambda>g. g\<lparr>desired_version_id := Some (version_pk l)\<rparr>) d"
    have "deploy_bundle cr env cache now subscribers gw who note d = (Inr ?r, ?d, notify_gateway subscribers gw)"
      using l by (simp add: deploy_bundle_def run_tx_def deploy_tx_cases [OF assms(1)] assms(2) Let_def)
    moreover have "history_ok cr ?d" using assms(1) by (subst history_ok_cong [of _ d]) simp_all
    ultimately show ?thesis
      using l(2) find_version [OF assms(1)] latest_version_row [OF l(1)] by fastforce
  next
    case False
    let ?r = "\<lparr>dr_version_id = version_pk ?v, dr_version = version ?v, dr_sha256 = ?sha, unchanged = False\<rparr>"
    let ?d = "after_deploy ?v gw who note d"
    have "deploy_bundle cr env cache now subscribers gw who note d = (Inr ?r, ?d, notify_gateway subscribers gw)"
      using False by (simp add: deploy_bundle_def run_tx_def deploy_tx_cases [OF assms(1)] assms(2) Let_def)
    moreover have "history_ok cr ?d" using assms(1) by (rule history_after_deploy) simp
    moreover have "version_gateway ?v = gw" "bundle_sha256 ?v = ?sha" "version ?v = int (length (versions_of d gw)) + 1"
      by (simp_all add: new_version_def)
    ultimately show ?thesis
      using find_new_version [OF assms(1), of _ gw who _ ?s ?sha] by (auto simp: after_deploy_simps)
  qed
qed

lemma history_sample: "history_ok sample_library sample_database"
  by (simp add: history_ok_def versions_of_def sql_select_def sample_database_def empty_database_def keys_ok_def)

lemma deploy_bundle_correct_witness:
  "\<exists>r d'. deploy_bundle sample_library sample_env None 99 [] 1 ''root@x'' None sample_database = (Inr r, d', [])
    \<and> history_ok sample_library d' \<and> dr_sha256 r = bundle_digest sample_library (serialise_bundle sample_bundle)"
  using deploy_bundle_correct [OF history_sample compose_sample, of 99 "[]" "''root@x''" None]
  by (auto simp: notify_gateway_def)

text \<open>A deploy or a rollback that throws leaves the database as it was and notifies no one.\<close>

lemma failed_transaction_changes_nothing:
  "(deploy_bundle cr env cache now subscribers gw who note d = (Inl e, d', ls) \<longrightarrow> d' = d \<and> ls = [])
   \<and> (rollback_to subscribers gw vid who d = (Inl e, d', ls) \<longrightarrow> d' = d \<and> ls = [])"
  by (auto simp: deploy_bundle_def rollback_to_def dest!: run_tx_InlD split: prod.splits sum.splits)

lemma failed_transaction_changes_nothing_witness:
  "rollback_to [(''gateway:1'', 7)] 1 5 ''root@x'' sample_database
    = (Inl ''no such configuration version for this gateway'', sample_database, [])"
proof -
  obtain d' ls where r: "rollback_to [(''gateway:1'', 7)] 1 5 ''root@x'' sample_database
      = (Inl ''no such configuration version for this gateway'', d', ls)"
    by (simp add: rollback_to_def run_tx_def rollback_in_transaction_def sample_database_def
        empty_database_def sql_select_def)
  with failed_transaction_changes_nothing show ?thesis by metis
qed

lemma compose_cong:
  assumes "gateway_assignments d = gateway_assignments e" "config_profiles d = config_profiles e"
    "relay_groups d = relay_groups e" "relays d = relays e" "smtp_credentials d = smtp_credentials e"
  shows "compose_bundle cr env cache d gw = compose_bundle cr env cache e gw"
  by (simp add: compose_bundle_def assms)

lemma compose_point [simp]:
  "compose_bundle cr env cache (point_gateway g f d) gw = compose_bundle cr env cache d gw"
  "compose_bundle cr env cache (after_deploy v g who memo d) gw = compose_bundle cr env cache d gw"
  by (rule compose_cong; simp add: point_gateway_def after_deploy_def add_deployment_def)+

lemma latest_after_deploy:
  assumes "history_ok cr d"
  shows "latest_version (after_deploy (new_version d now gw who memo s (bundle_digest cr s)) gw who memo d) gw
    = Some (new_version d now gw who memo s (bundle_digest cr s))"
proof -
  let ?v = "new_version d now gw who memo s (bundle_digest cr s)"
  let ?d = "after_deploy ?v gw who memo d"
  have h: "history_ok cr ?d" using assms by (rule history_after_deploy) simp
  have len: "length (versions_of ?d gw) = Suc (length (versions_of d gw))"
    by (simp add: versions_after_deploy)
  obtain l where l: "latest_version ?d gw = Some l"
    using latest_version_next [OF h, of gw] len by (cases "latest_version ?d gw") auto
  then have "l \<in> set (versions_of ?d gw)" "version l = int (length (versions_of d gw)) + 1"
    using first_sorted_max(1) [OF l [unfolded latest_version_def]] latest_version_next [OF h, of gw] len by auto
  moreover have "version w \<le> int (length (versions_of d gw))" if "w \<in> set (versions_of d gw)" for w
    using version_bound [OF assms, of w gw] that by (simp add: versions_of_def)
  ultimately have "l = ?v" by (fastforce simp: versions_after_deploy)
  with l show ?thesis by simp
qed

lemma pointed:
  "g \<in> set (rows (sql_update (\<lambda>g. gw_pk g = gw) (\<lambda>g. g\<lparr>desired_version_id := Some i, apply_error := None\<rparr>) t)) \<Longrightarrow>
    gw_pk g = gw \<Longrightarrow> desired_version_id g = Some i"
  unfolding rows_simps set_map by (erule imageE) (simp split: if_splits)

text \<open>C17. Deploying is idempotent: deploying again with nothing changed in between mints no version. The
  second deploy reports the same version as unchanged, adds no row to the history or the audit trail
  and leaves every gateway pointing where the first one left it.\<close>

theorem deploy_idempotent:
  assumes "history_ok cr d" "deploy_bundle cr env cache now subscribers gw who memo d = (Inr r, d', ls)"
  shows "\<exists>r' d''. deploy_bundle cr env cache later subscribers gw who' memo' d' = (Inr r', d'', ls)
    \<and> unchanged r' \<and> dr_version_id r' = dr_version_id r \<and> dr_version r' = dr_version r
    \<and> config_versions d'' = config_versions d' \<and> config_deployments d'' = config_deployments d'
    \<and> gateways d'' = gateways d'"
proof -
  have tx: "deploy_in_transaction cr env cache now gw who memo d = Inr (r, d')" and ls: "ls = notify_gateway subscribers gw"
    using assms(2) by (auto simp: deploy_bundle_def dest!: run_tx_InrD split: prod.splits sum.splits)
  have h: "history_ok cr d'" by (rule deploy_history [OF assms(1) tx])
  obtain b where b: "compose_bundle cr env cache d gw = Inr b"
    using tx by (cases "compose_bundle cr env cache d gw") (simp_all add: deploy_tx_cases [OF assms(1)])
  let ?sha = "bundle_digest cr (serialise_bundle b)"
  have "compose_bundle cr env cache d' gw = Inr b \<and> (\<exists>l. latest_version d' gw = Some l \<and> bundle_sha256 l = ?sha
      \<and> version_pk l = dr_version_id r \<and> version l = dr_version r)
      \<and> (\<forall>g \<in> set (rows (gateways d')). gw_pk g = gw \<longrightarrow> desired_version_id g = Some (dr_version_id r))"
  proof (cases "latest_version d gw \<noteq> None \<and> bundle_sha256 (the (latest_version d gw)) = ?sha")
    case True
    then have r: "r = \<lparr>dr_version_id = version_pk (the (latest_version d gw)), dr_version = version (the (latest_version d gw)),
                       dr_sha256 = ?sha, unchanged = True\<rparr>"
      and d': "d' = point_gateway gw (\<lambda>g. g\<lparr>desired_version_id := Some (version_pk (the (latest_version d gw)))\<rparr>) d"
      using tx unfolding deploy_tx_cases [OF assms(1)] b sum.case Let_def if_P [OF True] by simp_all
    have "latest_version d' gw = latest_version d gw"
      unfolding d' latest_version_def by (subst versions_of_cong [of _ d]) simp_all
    with True r b show ?thesis by (auto simp: d')
  next
    case False
    let ?v = "new_version d now gw who memo (serialise_bundle b) ?sha"
    have r: "r = \<lparr>dr_version_id = version_pk ?v, dr_version = version ?v, dr_sha256 = ?sha, unchanged = False\<rparr>"
      and d': "d' = after_deploy ?v gw who memo d"
      using tx unfolding deploy_tx_cases [OF assms(1)] b sum.case Let_def if_not_P [OF False] by simp_all
    have "latest_version d' gw = Some ?v" unfolding d' by (rule latest_after_deploy [OF assms(1)])
    moreover have "bundle_sha256 ?v = ?sha" by (simp add: new_version_def)
    moreover have "dr_version_id r = version_pk ?v" "dr_version r = version ?v" by (simp_all add: r)
    moreover have "compose_bundle cr env cache d' gw = Inr b" by (simp add: d' b)
    moreover have "\<forall>g \<in> set (rows (gateways d')). gw_pk g = gw \<longrightarrow> desired_version_id g = Some (version_pk ?v)"
      unfolding d' after_deploy_simps(2) by (blast intro: pointed)
    ultimately show ?thesis by simp
  qed
  then obtain l where c: "compose_bundle cr env cache d' gw = Inr b" and l: "latest_version d' gw = Some l" "bundle_sha256 l = ?sha"
      "version_pk l = dr_version_id r" "version l = dr_version r"
    and ptr: "\<forall>g \<in> set (rows (gateways d')). gw_pk g = gw \<longrightarrow> desired_version_id g = Some (dr_version_id r)" by blast
  have "sql_update (\<lambda>g. gw_pk g = gw) (\<lambda>g. g\<lparr>desired_version_id := Some (version_pk l)\<rparr>) (gateways d') = gateways d'"
    using ptr l(3) by (intro sql_update_id) simp
  then show ?thesis
    using l c ls by (simp add: deploy_bundle_def run_tx_def deploy_tx_cases [OF h] Let_def)
qed

lemma deploy_idempotent_witness:
  "\<exists>r d' r' d''. deploy_bundle sample_library sample_env None 99 [] 1 ''root@x'' None sample_database = (Inr r, d', [])
    \<and> deploy_bundle sample_library sample_env None 100 [] 1 ''root@x'' None d' = (Inr r', d'', []) \<and> unchanged r'"
proof -
  have "latest_version sample_database 1 = None"
    by (simp add: latest_version_def versions_of_def sql_select_def sample_database_def empty_database_def)
  then have "\<exists>r d'. deploy_bundle sample_library sample_env None 99 [] 1 ''root@x'' None sample_database = (Inr r, d', [])"
    by (simp add: deploy_bundle_def run_tx_def deploy_tx_cases [OF history_sample] compose_sample Let_def notify_gateway_def)
  then show ?thesis using deploy_idempotent [OF history_sample] by metis
qed

text \<open>Deploying an unchanged configuration re-points the gateway and nothing else. After a rollback such a
  deploy moves the gateway forward again without an audit row, and an error the gateway reported for
  the configuration it is leaving stays on display.\<close>

lemma unchanged_deploy_leaves_no_trace:
  assumes "history_ok cr d" "compose_bundle cr env cache d gw = Inr b"
    and "latest_version d gw = Some l" "bundle_sha256 l = bundle_digest cr (serialise_bundle b)"
  shows "deploy_in_transaction cr env cache now gw who memo d =
    Inr (\<lparr>dr_version_id = version_pk l, dr_version = version l, dr_sha256 = bundle_sha256 l, unchanged = True\<rparr>,
         d\<lparr>gateways := sql_update (\<lambda>g. gw_pk g = gw) (\<lambda>g. g\<lparr>desired_version_id := Some (version_pk l)\<rparr>) (gateways d)\<rparr>)"
  using assms by (simp add: deploy_tx_cases [OF assms(1)] Let_def point_gateway_def)

text \<open>C18. A rollback is exact and confined to the gateway: it succeeds precisely for a version row of this
  gateway, changes no version row, points this gateway at that very row, clears its error, records
  one audit row and leaves every other gateway alone. An id of another gateway's version is refused.\<close>

theorem rollback_exact:
  assumes "history_ok cr d"
  shows "rollback_to subscribers gw vid who d =
    (case first_row (sql_select (\<lambda>v. version_pk v = vid) (config_versions d)) of
       Some v \<Rightarrow>
         (if version_gateway v = gw
          then (Inr (version v),
                d\<lparr>gateways := sql_update (\<lambda>g. gw_pk g = gw)
                    (\<lambda>g. g\<lparr>desired_version_id := Some vid, apply_error := None\<rparr>) (gateways d),
                  config_deployments := sql_insert (\<lambda>i. \<lparr>deployment_pk = i, deployment_gateway = gw, version_id = vid,
                    action = ''rollback'', actor = Some who, deployment_note = None\<rparr>) (config_deployments d)\<rparr>,
                notify_gateway subscribers gw)
          else (Inl ''no such configuration version for this gateway'', d, []))
     | None \<Rightarrow> (Inl ''no such configuration version for this gateway'', d, []))"
proof -
  let ?both = "\<lambda>v. version_pk v = vid \<and> version_gateway v = gw"
  have "first_row (sql_select ?both (config_versions d)) =
    (case first_row (sql_select (\<lambda>v. version_pk v = vid) (config_versions d)) of
       Some v \<Rightarrow> if version_gateway v = gw then Some v else None | None \<Rightarrow> None)"
  proof (cases "first_row (sql_select (\<lambda>v. version_pk v = vid) (config_versions d))")
    case None
    then show ?thesis by (auto simp: sql_select_def filter_empty_conv)
  next
    case (Some v)
    have v: "v \<in> set (rows (config_versions d))" "version_pk v = vid"
      using first_row_SomeD [OF Some] by simp_all
    have u: "w = v" if "w \<in> set (rows (config_versions d))" "?both w" for w
      using vers.key_unique [OF history_keys [OF assms] that(1) v(1)] that(2) v(2) by simp
    show ?thesis
    proof (cases "version_gateway v = gw")
      case True
      then have "find ?both (rows (config_versions d)) = Some v"
      proof (intro find_unique [where P = ?both])
        show "v \<in> set (rows (config_versions d))" by (rule v(1))
        show "?both v" using v(2) True by simp
        show "w = v" if "w \<in> set (rows (config_versions d))" "?both w" for w using that by (rule u)
      qed
      with Some True show ?thesis by (simp add: sql_select_def first_row_filter)
    next
      case False
      then have "sql_select ?both (config_versions d) = []"
        using u by (auto simp: sql_select_def filter_empty_conv)
      with Some False show ?thesis by simp
    qed
  qed
  note sel = this
  show ?thesis
  proof (cases "first_row (sql_select (\<lambda>v. version_pk v = vid) (config_versions d))")
    case None
    then show ?thesis using sel
      by (simp add: rollback_to_def run_tx_def rollback_in_transaction_def)
  next
    case (Some v)
    have "version_pk v = vid" using first_row_SomeD [OF Some] by simp
    with Some sel show ?thesis
      by (simp add: rollback_to_def run_tx_def rollback_in_transaction_def point_gateway_def add_deployment_def Let_def)
  qed
qed

lemma rollback_exact_witness:
  "rollback_to [] 1 4 ''root@x'' sample_database
    = (Inl ''no such configuration version for this gateway'', sample_database, [])"
  using rollback_exact [OF history_sample, of "[]" 1 4 "''root@x''"]
  by (simp add: sample_database_def empty_database_def sql_select_def)

lemma topic_inject: "topic g = topic h \<longleftrightarrow> g = h"
proof -
  have "int_to_string g = int_to_string h \<Longrightarrow> g = h"
  proof -
    assume e: "int_to_string g = int_to_string h"
    have m: "nat_to_string n \<noteq> CHR ''-'' # s" for n s
      using nat_to_string_digits [of "CHR ''-''" n] by (auto simp: is_digit_def)
    then have m': "CHR ''-'' # s \<noteq> nat_to_string n" for n s by metis
    show "g = h" using e m m' by (auto simp: int_to_string_def split: if_splits)
  qed
  then show ?thesis by (auto simp: topic_def)
qed

text \<open>The change bus: a notification reaches exactly the listeners subscribed to that gateway, in the
  order they subscribed; subscribing adds one listener to its own gateway only, and the
  unsubscribe function takes back exactly that subscription.\<close>

lemma bus_subscriptions:
  "notify_gateway (on_gateway_change b g l) h = notify_gateway b h @ (if h = g then [l] else [])
   \<and> off_gateway_change (on_gateway_change b g l) g l = b"
  by (simp add: notify_gateway_def on_gateway_change_def off_gateway_change_def topic_inject eq_commute)

end
