(* ===== verification/AgentRoutes.thy ===== *)
theory AgentRoutes
  imports Verify AgentSchemas Deploy Http
begin

text \<open>
  \<open>webui-fastify/src/routes/agent.ts\<close>: the API the gateways call. Registration is open and leaves a
  pending row; the signed routes answer the gateway whose key signed the request, and only
  \<open>/agent/config\<close> is gated on approval. A live socket is a state machine that re-reads its own
  gateway row and sends one frame per change. \<open>now\<close> is the clock in milliseconds.
\<close>

section \<open>Requests\<close>

text \<open>The scope-local content-type parser: the parsed body, or nothing for a \<open>SyntaxError\<close>.\<close>

definition agent_body_parser :: "string \<Rightarrow> jsval option" where
  "agent_body_parser raw = (if raw = [] then Some (Obj []) else json_parse raw)"

definition now_seconds :: "int \<Rightarrow> int" where
  "now_seconds now = now div 1000"

section \<open>Registration\<close>

definition systeminfo :: "register_info \<Rightarrow> gateway \<Rightarrow> gateway" where
  "systeminfo info g = g\<lparr>hostname := ri_hostname info, gw_os := ri_os info, arch := ri_arch info,
     cpus := ri_cpus info, mem_bytes := ri_mem_bytes info,
     ip_addrs := map_option (js_join '','') (ri_ip_addrs info), gw_version := ri_version info\<rparr>"

text \<open>\<open>Gateways\<close> has unique indexes on the uid and on the fingerprint.\<close>

definition insert_gateway :: "gateway \<Rightarrow> database \<Rightarrow> database res" where
  "insert_gateway g d =
     (if \<exists>h \<in> set (rows (gateways d)). gateway_uid h = gateway_uid g \<or> fingerprint h = fingerprint g
      then Inl ''ER_DUP_ENTRY''
      else Inr (d\<lparr>gateways := sql_insert (\<lambda>i. g\<lparr>gw_pk := i\<rparr>) (gateways d)\<rparr>))"

definition registered_reply :: "int \<Rightarrow> string \<Rightarrow> string \<Rightarrow> string \<Rightarrow> reply" where
  "registered_reply code uid fp approval = JsonReply code (Obj
     [(''status'', Str ''ok''), (''gateway_uid'', Str uid), (''fingerprint'', Str fp), (''approval'', Str approval)])"

definition new_gateway :: "register_info \<Rightarrow> string \<Rightarrow> string \<Rightarrow> int \<Rightarrow> gateway" where
  "new_gateway info uid fp now = systeminfo info \<lparr>gw_pk = 0, gateway_uid = uid,
     gw_name = Some (nullish (ri_hostname info) uid), fingerprint = fp, pubkey = ri_pubkey info,
     gw_status = ''pending'', hostname = None, gw_os = None, arch = None, cpus = None, mem_bytes = None,
     ip_addrs = None, gw_version = None, first_seen = Some now, last_seen = Some now,
     approved_by = None, approved_at = None, desired_version_id = None, applied_version_id = None,
     apply_error = None, restart_required = False\<rparr>"

definition register_handler :: "library \<Rightarrow> int \<Rightarrow> string \<Rightarrow> request \<Rightarrow> database \<Rightarrow> outcome" where
  "register_handler cr now uuid r d =
     (case register_schema (rq_body r) of
        Inl issues \<Rightarrow> (Inr (status_error 400 (zod_err cr issues)), d)
      | Inr info \<Rightarrow>
          (let timestamp = headers r ''x-gw-timestamp''; sig = headers r ''x-gw-signature''
           in case check_timestamp timestamp (now_seconds now) of
                Some reason \<Rightarrow> (Inr (status_error 401 reason), d)
              | None \<Rightarrow>
                  (if \<not> truthy_str sig then (Inr (status_error 401 ''missing X-GW-Signature''), d)
                   else if \<not> verify_signature cr (ri_pubkey info) (the sig)
                             (canonical_string cr (rq_method r) (rq_url r) (the timestamp) (raw_body_of r))
                   then (Inr (status_error 401 ''signature does not match the presented pubkey''), d)
                   else (let fp = fingerprint_from_base64 cr (ri_pubkey info)
                     in case first_row (sql_select (\<lambda>g. fingerprint g = fp) (gateways d)) of
                          Some existing \<Rightarrow>
                            (Inr (registered_reply 200 (gateway_uid existing) fp (gw_status existing)),
                             d\<lparr>gateways := sql_update (\<lambda>g. gw_pk g = gw_pk existing)
                                 (\<lambda>g. (systeminfo info g)\<lparr>last_seen := Some now\<rparr>) (gateways d)\<rparr>)
                        | None \<Rightarrow>
                            (case insert_gateway (new_gateway info uuid fp now) d of
                               Inl e \<Rightarrow> (Inl e, d)
                             | Inr d' \<Rightarrow> (Inr (registered_reply 201 uuid fp ''pending''), d'))))))"

section \<open>Signed routes\<close>

definition signed :: "library \<Rightarrow> int \<Rightarrow> (gateway \<Rightarrow> database \<Rightarrow> outcome) \<Rightarrow> request \<Rightarrow> database \<Rightarrow> outcome" where
  "signed cr now handler r d =
     (case authenticate_gateway cr (now_seconds now) d r of
        Inl reason \<Rightarrow> (Inr (status_error 401 reason), d)
      | Inr g \<Rightarrow> handler g d)"

definition find_version_row :: "database \<Rightarrow> int option \<Rightarrow> config_version option" where
  "find_version_row d i =
     (case i of None \<Rightarrow> None
      | Some vid \<Rightarrow> if vid = 0 then None else first_row (sql_select (\<lambda>v. version_pk v = vid) (config_versions d)))"

definition status_handler :: "int \<Rightarrow> gateway \<Rightarrow> database \<Rightarrow> outcome" where
  "status_handler now g d =
     (let d' = d\<lparr>gateways := sql_update (\<lambda>h. gw_pk h = gw_pk g) (\<lambda>h. h\<lparr>last_seen := Some now\<rparr>) (gateways d)\<rparr>;
          desired = find_version_row d' (desired_version_id g)
      in (Inr (JsonReply 200 (Obj
            [(''status'', Str ''ok''), (''approval'', Str (gw_status g)),
             (''desired_version_id'', id_val (desired_version_id g)),
             (''desired_version'', id_val (map_option version desired)),
             (''bundle_sha256'', (case desired of None \<Rightarrow> Null | Some v \<Rightarrow> Str (bundle_sha256 v))),
             (''applied_version_id'', id_val (applied_version_id g))])), d'))"

definition config_handler :: "gateway \<Rightarrow> database \<Rightarrow> outcome" where
  "config_handler g d =
     (if gw_status g \<noteq> ''approved''
      then (Inr (JsonReply 403 (Obj [(''status'', Str ''error''), (''message'', Str (''gateway is '' @ gw_status g)),
                                     (''approval'', Str (gw_status g))])), d)
      else if desired_version_id g = None \<or> desired_version_id g = Some 0
      then (Inr (status_error 404 ''no configuration has been deployed yet''), d)
      else (case find_version_row d (desired_version_id g) of
          None \<Rightarrow> (Inr (status_error 404 ''the deployed configuration version is missing''), d)
        | Some row \<Rightarrow>
            (case json_parse (bundle_text row) of
               None \<Rightarrow> (Inl ''SyntaxError'', d)
             | Some b \<Rightarrow> (Inr (JsonReply 200 (Obj
                 [(''status'', Str ''ok''), (''version_id'', id_val (Some (version_pk row))),
                  (''version'', id_val (Some (version row))), (''bundle_sha256'', Str (bundle_sha256 row)),
                  (''bundle'', b)])), d))))"

definition report_changes :: "int \<Rightarrow> report_info \<Rightarrow> gateway \<Rightarrow> gateway" where
  "report_changes now rp g =
     (let g1 = g\<lparr>last_seen := Some now\<rparr>;
          g2 = (case rp_applied rp of None \<Rightarrow> g1 | Some v \<Rightarrow> g1\<lparr>applied_version_id := v\<rparr>);
          g3 = (case rp_error rp of None \<Rightarrow> g2 | Some e \<Rightarrow> g2\<lparr>apply_error := e\<rparr>);
          g4 = (case rp_restart rp of None \<Rightarrow> g3 | Some b \<Rightarrow> g3\<lparr>restart_required := b\<rparr>)
      in (case rp_version rp of None \<Rightarrow> g4 | Some v \<Rightarrow> g4\<lparr>gw_version := Some v\<rparr>))"

text \<open>\<open>INSERT ... ON DUPLICATE KEY UPDATE\<close> on the table keyed by the gateway.\<close>

definition upsert_metrics :: "int \<Rightarrow> string \<Rightarrow> int \<Rightarrow> gateway_metric list \<Rightarrow> gateway_metric list" where
  "upsert_metrics gw text now ms =
     (if \<exists>m \<in> set ms. metric_gateway m = gw
      then map (\<lambda>m. if metric_gateway m = gw then m\<lparr>metrics := text, metric_updated := now\<rparr> else m) ms
      else ms @ [\<lparr>metric_gateway = gw, metrics = text, metric_updated = now\<rparr>])"

definition metrics_value :: "(string \<times> int) list \<Rightarrow> jsval" where
  "metrics_value es = Obj (map (\<lambda>(k, i). (k, Num (Fin (of_int i)))) es)"

definition report_handler :: "library \<Rightarrow> int \<Rightarrow> request \<Rightarrow> gateway \<Rightarrow> database \<Rightarrow> outcome" where
  "report_handler cr now r g d =
     (case report_schema (rq_body r) of
        Inl issues \<Rightarrow> (Inr (status_error 400 (zod_err cr issues)), d)
      | Inr rp \<Rightarrow>
          (let d1 = d\<lparr>gateways := sql_update (\<lambda>h. gw_pk h = gw_pk g) (report_changes now rp) (gateways d)\<rparr>;
               d2 = (case rp_metrics rp of None \<Rightarrow> d1
                     | Some es \<Rightarrow> d1\<lparr>gateway_metrics :=
                         upsert_metrics (gw_pk g) (nullish (json_stringify (metrics_value es)) []) now (gateway_metrics d1)\<rparr>)
           in (Inr (JsonReply 200 (Obj [(''status'', Str ''ok'')])), d2)))"

section \<open>Change notification\<close>

text \<open>
  A live socket: the gateway it belongs to, the state it last saw (\<open>None\<close> before the first read)
  and the frames it has sent. \<open>push\<close> is one read of the gateway row.
\<close>

record socket =
  sock_gateway :: int
  last_state :: "string option"
  frames :: "string list"

definition changed_frame :: string where
  "changed_frame = nullish (json_stringify (Obj [(''event'', Str ''changed'')])) []"

definition row_state :: "gateway \<Rightarrow> string" where
  "row_state g = gw_status g @ '':'' @ (case desired_version_id g of None \<Rightarrow> [] | Some v \<Rightarrow> int_to_string v)"

definition push :: "database \<Rightarrow> socket \<Rightarrow> socket" where
  "push d s =
     (case first_row (sql_select (\<lambda>g. gw_pk g = sock_gateway s) (gateways d)) of
        None \<Rightarrow> s
      | Some row \<Rightarrow>
          (let state = row_state row; first = (last_state s = None)
           in if last_state s = Some state then s
              else (let s' = s\<lparr>last_state := Some state\<rparr>
                    in if first then s' else s'\<lparr>frames := frames s' @ [changed_frame]\<rparr>)))"

text \<open>Opening a socket: it subscribes to the bus and reads its row once.\<close>

definition open_socket :: "database \<Rightarrow> bus \<Rightarrow> nat \<Rightarrow> gateway \<Rightarrow> socket \<times> bus" where
  "open_socket d b l g =
     (push d \<lparr>sock_gateway = gw_pk g, last_state = None, frames = []\<rparr>, on_gateway_change b (gw_pk g) l)"

definition close_socket :: "bus \<Rightarrow> nat \<Rightarrow> socket \<Rightarrow> bus" where
  "close_socket b l s = off_gateway_change b (sock_gateway s) l"

end
