(* ===== verification/Fleet.thy ===== *)
theory Fleet
  imports Http Samples
begin

text \<open>
  \<open>webui-fastify/src/central/fleet.ts\<close>: staleness, the counters the console renders and the summary
  of the dashboard card. Times are milliseconds since the epoch; \<open>lastSeen\<close> is a date or \<open>null\<close>.
\<close>

definition poll_interval_ms :: int where
  "poll_interval_ms = 15000"

definition stale_after_ms :: int where
  "stale_after_ms = poll_interval_ms * 3"

definition is_stale :: "int option \<Rightarrow> int \<Rightarrow> bool" where
  "is_stale lastSeen now = (case lastSeen of None \<Rightarrow> False | Some t \<Rightarrow> now - t > stale_after_ms)"

section \<open>Counters\<close>

record gateway_snapshot =
  queue_ready :: jsnum
  queue_inflight :: jsnum
  queue_quarantine :: jsnum
  queue_dead :: jsnum
  messages_accepted :: jsnum
  delivered :: jsnum
  deferred :: jsnum
  bounced :: jsnum
  connections_denied :: jsnum
  snapshot_at :: int

definition num :: "jsval \<Rightarrow> string \<Rightarrow> jsnum" where
  "num m k = (case get_prop m k of Num x \<Rightarrow> if is_finite x then x else Fin 0 | _ \<Rightarrow> Fin 0)"

text \<open>One row: nothing when its text does not parse to an object.\<close>

definition snapshot_of :: "gateway_metric \<Rightarrow> gateway_snapshot option" where
  "snapshot_of row =
     (case json_parse (metrics row) of
        None \<Rightarrow> None
      | Some m \<Rightarrow>
          (if (case m of Obj _ \<Rightarrow> True | Arr _ \<Rightarrow> True | _ \<Rightarrow> False)
           then Some \<lparr>queue_ready = num m ''queue_ready'', queue_inflight = num m ''queue_inflight'',
             queue_quarantine = num m ''queue_quarantine'', queue_dead = num m ''queue_dead'',
             messages_accepted = num m ''msg_accepted'', delivered = num m ''deliver_ok'',
             deferred = num m ''deliver_deferred'', bounced = num m ''deliver_bounced'',
             connections_denied = num m ''conn_denied'', snapshot_at = metric_updated row\<rparr>
           else None))"

definition metrics_for :: "database \<Rightarrow> int list \<Rightarrow> (int \<times> gateway_snapshot) list" where
  "metrics_for d ids =
     (if ids = [] then []
      else List.map_filter (\<lambda>row. map_option (Pair (metric_gateway row)) (snapshot_of row))
             (filter (\<lambda>row. metric_gateway row \<in> set ids) (gateway_metrics d)))"

section \<open>The summary\<close>

record fleet_row =
  fr_id :: int
  fr_name :: "string option"
  fr_hostname :: "string option"
  fr_status :: string
  fr_last_seen :: "int option"
  fr_apply_error :: "string option"
  fr_restart_required :: bool

record fleet_summary =
  total :: nat
  pending :: nat
  approved :: nat
  other :: nat
  stale :: "fleet_row list"
  errored :: "fleet_row list"
  need_restart :: "fleet_row list"
  healthy :: bool

definition summarize :: "fleet_row list \<Rightarrow> int \<Rightarrow> fleet_summary" where
  "summarize rs now =
     (let pend = filter (\<lambda>r. fr_status r = ''pending'') rs;
          appr = filter (\<lambda>r. fr_status r = ''approved'') rs;
          st = filter (\<lambda>r. is_stale (fr_last_seen r) now) appr;
          err = filter (\<lambda>r. truthy_str (fr_apply_error r)) rs;
          rst = filter fr_restart_required rs
      in \<lparr>total = length rs, pending = length pend, approved = length appr,
          other = length rs - length pend - length appr, stale = st, errored = err, need_restart = rst,
          healthy = (length pend = 0 \<and> length st = 0 \<and> length err = 0 \<and> length rst = 0)\<rparr>)"

definition fleet_row_of :: "gateway \<Rightarrow> fleet_row" where
  "fleet_row_of g = \<lparr>fr_id = gw_pk g, fr_name = gw_name g, fr_hostname = hostname g, fr_status = gw_status g,
     fr_last_seen = last_seen g, fr_apply_error = apply_error g, fr_restart_required = restart_required g\<rparr>"

section \<open>Properties\<close>

lemma not_stale_iff: "(case t of None \<Rightarrow> True | Some t \<Rightarrow> now - t \<le> 45000) \<longleftrightarrow> \<not> is_stale t now"
  by (auto simp: is_stale_def stale_after_ms_def poll_interval_ms_def split: option.split)

lemma num_finite: "is_finite (num m k)"
  by (auto simp: num_def is_finite_def split: jsval.split)

lemma status_partition:
  "length rs = length (filter (\<lambda>r. fr_status r = ''pending'') rs) + length (filter (\<lambda>r. fr_status r = ''approved'') rs)
     + length (filter (\<lambda>r. fr_status r \<noteq> ''pending'' \<and> fr_status r \<noteq> ''approved'') rs)"
  by (induction rs) auto

text \<open>The dashboard counts every gateway once and calls the fleet healthy exactly when nothing needs a human:
  pending, approved and the others add up to the total, and the fleet is healthy if and only if no gateway is
  pending, none reports an error or wants a restart, and every approved one that was ever seen was seen within
  the last 45 seconds. A rejected or revoked gateway never counts as stale.\<close>

theorem summarize_correct:
  "total (summarize rs now) = pending (summarize rs now) + approved (summarize rs now) + other (summarize rs now)
   \<and> other (summarize rs now) = length (filter (\<lambda>r. fr_status r \<noteq> ''pending'' \<and> fr_status r \<noteq> ''approved'') rs)
   \<and> (healthy (summarize rs now) \<longleftrightarrow>
        list_all (\<lambda>r. fr_status r \<noteq> ''pending'' \<and> \<not> truthy_str (fr_apply_error r) \<and> \<not> fr_restart_required r
          \<and> (fr_status r = ''approved'' \<longrightarrow> (case fr_last_seen r of None \<Rightarrow> True | Some t \<Rightarrow> now - t \<le> 45000))) rs)"
proof -
  have "total (summarize rs now) = pending (summarize rs now) + approved (summarize rs now) + other (summarize rs now)
   \<and> other (summarize rs now) = length (filter (\<lambda>r. fr_status r \<noteq> ''pending'' \<and> fr_status r \<noteq> ''approved'') rs)"
    using status_partition [of rs] by (simp add: summarize_def Let_def)
  moreover have "healthy (summarize rs now) \<longleftrightarrow>
        list_all (\<lambda>r. fr_status r \<noteq> ''pending'' \<and> \<not> truthy_str (fr_apply_error r) \<and> \<not> fr_restart_required r
          \<and> (fr_status r = ''approved'' \<longrightarrow> (case fr_last_seen r of None \<Rightarrow> True | Some t \<Rightarrow> now - t \<le> 45000))) rs"
    by (auto simp: summarize_def Let_def filter_empty_conv list_all_iff not_stale_iff)
  ultimately show ?thesis by blast
qed

lemma summarize_correct_witness:
  "total (summarize [fleet_row_of sample_gateway] 60000) = 1 \<and> \<not> healthy (summarize [fleet_row_of sample_gateway] 60000)"
  using summarize_correct [of "[fleet_row_of sample_gateway]" 60000]
  by (simp add: fleet_row_of_def sample_gateway_def summarize_def)

text \<open>No snapshot a gateway sends can break the fleet view: whatever text the metrics column holds, every counter
  that is shown is a finite number, and a row that is not a JSON object or array is left out.\<close>

lemma snapshot_finite:
  assumes "(gw, s) \<in> set (metrics_for d ids)"
  shows "gw \<in> set ids \<and> (\<exists>row \<in> set (gateway_metrics d). metric_gateway row = gw \<and> snapshot_of row = Some s)
    \<and> list_all is_finite [queue_ready s, queue_inflight s, queue_quarantine s, queue_dead s, messages_accepted s,
        delivered s, deferred s, bounced s, connections_denied s]"
proof -
  obtain row where row: "row \<in> set (gateway_metrics d)" "metric_gateway row \<in> set ids" "metric_gateway row = gw"
    "snapshot_of row = Some s"
    using assms by (auto simp: metrics_for_def List.map_filter_def split: if_splits)
  moreover have "list_all is_finite [queue_ready s, queue_inflight s, queue_quarantine s, queue_dead s, messages_accepted s,
        delivered s, deferred s, bounced s, connections_denied s]"
    using row(4) by (auto simp: snapshot_of_def num_finite split: option.splits if_splits)
  ultimately show ?thesis by auto
qed

lemma snapshot_finite_witness:
  "is_finite (queue_ready (the (snapshot_of \<lparr>metric_gateway = 1, metrics = ''{}'', metric_updated = 5\<rparr>)))"
proof -
  let ?row = "\<lparr>metric_gateway = 1, metrics = ''{}'', metric_updated = 5\<rparr>"
  have "json_parse ''{}'' = Some (Obj [])" by code_simp
  then have s: "\<exists>s. snapshot_of ?row = Some s" by (simp add: snapshot_of_def)
  then have "(1, the (snapshot_of ?row)) \<in> set (metrics_for (sample_database\<lparr>gateway_metrics := [?row]\<rparr>) [1])"
    by (auto simp: metrics_for_def List.map_filter_def)
  from snapshot_finite [OF this] show ?thesis by simp
qed

end
