(* ===== verification/Rows.thy ===== *)
theory Rows
  imports Fleet Deploy Validation
begin

text \<open>
  What the controllers hand to their templates: the rows of the tables as objects, in the column order of
  the schema, and the small readings of a request the controllers share. A date is the number of its
  milliseconds. \<open>order_by\<close> is \<open>ORDER BY\<close> on a text column under the collation of the server, where
  \<open>NULL\<close> comes first and ties keep the order of the rows.
\<close>

section \<open>Values\<close>

definition num_of :: "int \<Rightarrow> jsval" where
  "num_of i = Num (Fin (of_int i))"

definition str_or_null :: "string option \<Rightarrow> jsval" where
  "str_or_null s = (case s of None \<Rightarrow> Null | Some x \<Rightarrow> Str x)"

definition bool_or_null :: "bool option \<Rightarrow> jsval" where
  "bool_or_null b = (case b of None \<Rightarrow> Null | Some x \<Rightarrow> Bool x)"

definition gateway_columns :: "gateway \<Rightarrow> (string \<times> jsval) list" where
  "gateway_columns g =
     [(''id'', num_of (gw_pk g)), (''gateway_uid'', Str (gateway_uid g)), (''name'', str_or_null (gw_name g)),
      (''fingerprint'', Str (fingerprint g)), (''pubkey'', Str (pubkey g)), (''status'', Str (gw_status g)),
      (''hostname'', str_or_null (hostname g)), (''os'', str_or_null (gw_os g)), (''arch'', str_or_null (arch g)),
      (''cpus'', id_val (cpus g)), (''mem_bytes'', id_val (mem_bytes g)), (''ip_addrs'', str_or_null (ip_addrs g)),
      (''version'', str_or_null (gw_version g)), (''first_seen'', id_val (first_seen g)), (''last_seen'', id_val (last_seen g)),
      (''approved_by'', str_or_null (approved_by g)), (''approved_at'', id_val (approved_at g)),
      (''desired_version_id'', id_val (desired_version_id g)), (''applied_version_id'', id_val (applied_version_id g)),
      (''apply_error'', str_or_null (apply_error g)), (''restart_required'', Bool (restart_required g))]"

definition profile_val :: "config_profile \<Rightarrow> jsval" where
  "profile_val p = Obj [(''id'', num_of (profile_pk p)), (''kind'', Str (profile_kind p)), (''name'', Str (profile_name p)),
     (''description'', str_or_null (profile_description p)), (''body'', Str (profile_body p))]"

definition group_val :: "relay_group \<Rightarrow> jsval" where
  "group_val g = Obj [(''id'', num_of (group_pk g)), (''name'', str_or_null (group_name g)),
     (''description'', str_or_null (group_description g))]"

definition relay_val :: "relay \<Rightarrow> jsval" where
  "relay_val m = Obj [(''id'', num_of (relay_pk m)), (''group_id'', id_val (group_id m)), (''name'', str_or_null (relay_name m)),
     (''host'', str_or_null (relay_host m)), (''port'', id_val (relay_port m)), (''auth_user'', str_or_null (auth_user m)),
     (''auth_pass'', str_or_null (auth_pass m)), (''auth_pass_env'', str_or_null (auth_pass_env m)),
     (''tls'', str_or_null (relay_tls m)), (''allow_insecure_auth'', bool_or_null (allow_insecure_auth m)),
     (''use_mx'', bool_or_null (use_mx m)), (''priority'', id_val (priority m))]"

definition credential_set_val :: "credential_set \<Rightarrow> jsval" where
  "credential_set_val s = Obj [(''id'', num_of (set_pk s)), (''name'', Str (set_name s)),
     (''description'', str_or_null (set_description s))]"

definition credential_val :: "smtp_credential \<Rightarrow> jsval" where
  "credential_val c = Obj [(''id'', num_of (cred_pk c)), (''set_id'', num_of (set_id c)), (''username'', Str (username c)),
     (''hash'', Str (cred_hash c))]"

definition deployment_val :: "config_deployment \<Rightarrow> jsval" where
  "deployment_val r = Obj [(''id'', num_of (deployment_pk r)), (''gateway_id'', num_of (deployment_gateway r)),
     (''version_id'', num_of (version_id r)), (''action'', Str (action r)), (''actor'', str_or_null (actor r)),
     (''note'', str_or_null (deployment_note r))]"

definition version_summary_val :: "version_summary \<Rightarrow> jsval" where
  "version_summary_val v = Obj [(''id'', num_of (vs_id v)), (''version'', num_of (vs_version v)),
     (''bundle_sha256'', Str (vs_sha256 v)), (''note'', str_or_null (vs_note v)),
     (''created_by'', str_or_null (vs_created_by v)), (''createdAt'', num_of (vs_created v))]"

definition snapshot_val :: "gateway_snapshot \<Rightarrow> jsval" where
  "snapshot_val s = Obj [(''queue_ready'', Num (queue_ready s)), (''queue_inflight'', Num (queue_inflight s)),
     (''queue_quarantine'', Num (queue_quarantine s)), (''queue_dead'', Num (queue_dead s)),
     (''messages_accepted'', Num (messages_accepted s)), (''delivered'', Num (delivered s)),
     (''deferred'', Num (deferred s)), (''bounced'', Num (bounced s)),
     (''connections_denied'', Num (connections_denied s)), (''updated_at'', num_of (snapshot_at s))]"

text \<open>The first row of a query, or \<open>undefined\<close>.\<close>

definition row_or_undef :: "('r \<Rightarrow> jsval) \<Rightarrow> 'r option \<Rightarrow> jsval" where
  "row_or_undef f r = (case r of None \<Rightarrow> Undef | Some x \<Rightarrow> f x)"

section \<open>Queries\<close>

definition null_first :: "library \<Rightarrow> string option \<Rightarrow> nat list" where
  "null_first cr s = (case s of None \<Rightarrow> [] | Some x \<Rightarrow> 1 # collation cr x)"

definition order_by :: "library \<Rightarrow> ('r \<Rightarrow> string option) \<Rightarrow> 'r list \<Rightarrow> 'r list" where
  "order_by cr f = sort_key (\<lambda>r. null_first cr (f r))"

section \<open>Requests\<close>

text \<open>\<open>body.k\<close>, which throws when there is no body.\<close>

definition read_prop :: "jsval \<Rightarrow> string \<Rightarrow> jsval res" where
  "read_prop v k = (if v = Undef \<or> v = Null then Inl ''TypeError'' else Inr (get_prop v k))"

text \<open>\<open>String(v ?? d)\<close>.\<close>

definition text_or :: "jsval \<Rightarrow> string \<Rightarrow> string" where
  "text_or v d = (if v = Undef \<or> v = Null then d else js_string v)"

definition error_page :: "int \<Rightarrow> string \<Rightarrow> reply" where
  "error_page code m = Page code ''util/error'' [(''statusCode'', num_of code), (''message'', Str m)]"

text \<open>A setting that is a list: parts between commas, trimmed, the empty ones left out.\<close>

definition list_setting :: "string option \<Rightarrow> string list" where
  "list_setting s = filter (\<lambda>x. x \<noteq> []) (map js_trim (js_split (CHR '','') (nullish s [])))"

end
