(* ===== verification/FormSchemas.thy ===== *)
theory FormSchemas
  imports Validation
begin

text \<open>
  The schemas of the console's forms: \<open>webui-fastify/src/validation/login.ts\<close> and
  \<open>webui-fastify/src/validation/config.ts\<close>. A schema derived from a table by drizzle-zod is
  written out: a \<open>varchar\<close> column takes a string of at most its length, an \<open>int\<close> column a
  32-bit integer, a nullable column also \<open>null\<close> or nothing.
\<close>

text \<open>The dashes of the messages, in UTF-8.\<close>

definition en_dash :: string where "en_dash = [CHR 0xE2, CHR 0x80, CHR 0x93]"
definition em_dash :: string where "em_dash = [CHR 0xE2, CHR 0x80, CHR 0x94]"

section \<open>Accounts\<close>

definition email_checks :: "library \<Rightarrow> string \<Rightarrow> (bool \<times> message) list" where
  "email_checks cr s = [(email_pattern cr s, Builtin ''invalid_format''), at_least 4 s, at_most 50 s]"

definition pass_checks :: "string \<Rightarrow> (bool \<times> message) list" where
  "pass_checks s = [at_least 8 s, at_most 20 s]"

record auth_info =
  ai_email :: string
  ai_pass :: string

definition auth_info_schema :: "library \<Rightarrow> jsval \<Rightarrow> auth_info parsed" where
  "auth_info_schema cr = z_object (\<lambda>v.
     map_sum id (\<lambda>(e, p). \<lparr>ai_email = e, ai_pass = p\<rparr>)
       (both (field v ''email'' (z_string (email_checks cr))) (field v ''pass'' (z_string pass_checks))))"

definition setup_info_schema :: "library \<Rightarrow> jsval \<Rightarrow> auth_info parsed" where
  "setup_info_schema cr v =
     refine (\<lambda>v. get_prop v ''pass'' = get_prop v ''passConfirm'') (Custom ''Passwords do not match'') [''passConfirm''] v
       (z_object (\<lambda>v. map_sum id (\<lambda>(e, p, c). \<lparr>ai_email = e, ai_pass = p\<rparr>)
         (both (field v ''email'' (z_string (email_checks cr)))
         (both (field v ''pass'' (z_string pass_checks)) (field v ''passConfirm'' (z_string (\<lambda>_. [])))))) v)"

record password_change =
  pc_current :: string
  pc_pass :: string

definition change_password_schema :: "jsval \<Rightarrow> password_change parsed" where
  "change_password_schema v =
     refine (\<lambda>v. get_prop v ''pass'' = get_prop v ''passConfirm'') (Custom ''New passwords do not match'') [''passConfirm''] v
       (z_object (\<lambda>v. map_sum id (\<lambda>(o', p, c). \<lparr>pc_current = o', pc_pass = p\<rparr>)
         (both (field v ''current'' (z_string pass_checks))
         (both (field v ''pass'' (z_string pass_checks)) (field v ''passConfirm'' (z_string (\<lambda>_. [])))))) v)"

definition user_create_schema :: "library \<Rightarrow> jsval \<Rightarrow> auth_info parsed" where
  "user_create_schema cr = z_object (\<lambda>v.
     map_sum id (\<lambda>(e, p). \<lparr>ai_email = e, ai_pass = p\<rparr>)
       (both (field v ''email'' (z_string (email_checks cr))) (field v ''pass'' (z_string pass_checks))))"

definition user_edit_schema :: "library \<Rightarrow> jsval \<Rightarrow> auth_info parsed" where
  "user_edit_schema cr = z_object (\<lambda>v.
     map_sum id (\<lambda>(e, p). \<lparr>ai_email = e, ai_pass = p\<rparr>)
       (both (field v ''email'' (z_string (email_checks cr)))
             (field v ''pass'' (z_string (\<lambda>s. [at_most 20 s,
                (s = [] \<or> 8 \<le> js_length s, Custom (''Password must be 8'' @ en_dash @ ''20 characters (or blank to keep current)''))])))))"

section \<open>Configuration\<close>

definition relay_tls_policies :: "string list" where
  "relay_tls_policies = ['''', ''none'', ''opportunistic'', ''required'']"

definition profile_kinds :: "string list" where
  "profile_kinds = [''ruleset'', ''allowlist'', ''server'']"

definition z_enum :: "string list \<Rightarrow> jsval \<Rightarrow> string parsed" where
  "z_enum opts v = (case v of
     Str s \<Rightarrow> if s \<in> set opts then Inr s else Inl [here (Builtin ''invalid_value'') True]
   | _ \<Rightarrow> Inl [here (Builtin ''invalid_value'') True])"

definition z_nullish :: "(jsval \<Rightarrow> 'a parsed) \<Rightarrow> jsval \<Rightarrow> 'a option parsed" where
  "z_nullish s v = (if v = Undef \<or> v = Null then Inr None else map_sum id Some (s v))"

definition int_column :: "jsval \<Rightarrow> int parsed" where
  "int_column = z_int (\<lambda>i. [(- (2 ^ 31) \<le> i, Builtin ''too_small''), (i \<le> 2 ^ 31 - 1, Builtin ''too_big'')])"

definition varchar_column :: "nat \<Rightarrow> jsval \<Rightarrow> string parsed" where
  "varchar_column n = z_string (\<lambda>s. [at_most n s])"

record relay_form =
  rf_group_id :: "int option"
  rf_host :: string
  rf_port :: "int option"
  rf_priority :: "int option"
  rf_auth_user :: "string option"
  rf_auth_pass :: "string option"
  rf_tls :: "string option"
  rf_allow_insecure_auth :: bool
  rf_use_mx :: bool

definition relay_insert :: "jsval \<Rightarrow> relay_form parsed" where
  "relay_insert = z_object (\<lambda>v.
     map_sum id (\<lambda>(g, p, r, u, w, h, t, a, m). \<lparr>rf_group_id = g, rf_host = h, rf_port = p, rf_priority = r,
         rf_auth_user = u, rf_auth_pass = w, rf_tls = t, rf_allow_insecure_auth = a, rf_use_mx = m\<rparr>)
      (both (field v ''group_id'' (z_nullish int_column))
      (both (field v ''port'' (z_nullish int_column))
      (both (field v ''priority'' (z_nullish int_column))
      (both (field v ''auth_user'' (z_nullish (varchar_column 255)))
      (both (field v ''auth_pass'' (z_nullish (varchar_column 65535)))
      (both (field v ''host'' (z_string (\<lambda>s. [(1 \<le> js_length s, Custom ''host is required'')])))
      (both (field v ''tls'' (z_optional (z_enum relay_tls_policies)))
      (both (field v ''allow_insecure_auth'' z_bool)
            (field v ''use_mx'' z_bool))))))))))"

record named_form =
  nf_name :: string
  nf_description :: "string option"

definition named_insert :: "jsval \<Rightarrow> named_form parsed" where
  "named_insert = z_object (\<lambda>v.
     map_sum id (\<lambda>(d, n). \<lparr>nf_name = n, nf_description = d\<rparr>)
      (both (field v ''description'' (z_nullish (varchar_column 255)))
            (field v ''name'' (z_string (\<lambda>s. [(1 \<le> js_length s, Custom ''name is required'')])))))"

definition relay_group_insert :: "jsval \<Rightarrow> named_form parsed" where
  "relay_group_insert = named_insert"

definition credential_set_insert :: "jsval \<Rightarrow> named_form parsed" where
  "credential_set_insert = named_insert"

record credential_form =
  cf_set_id :: int
  cf_username :: string

definition credential_insert :: "jsval \<Rightarrow> credential_form parsed" where
  "credential_insert = z_object (\<lambda>v.
     map_sum id (\<lambda>(i, u). \<lparr>cf_set_id = i, cf_username = u\<rparr>)
      (both (field v ''set_id'' int_column)
            (field v ''username'' (z_string (\<lambda>s. [(1 \<le> js_length s, Custom ''username is required'')])))))"

definition bcrypt_max_password_bytes :: nat where
  "bcrypt_max_password_bytes = 72"

text \<open>\<open>Buffer.byteLength(p, "utf8")\<close> is the length of the byte list.\<close>

definition credential_password :: "jsval \<Rightarrow> string parsed" where
  "credential_password = z_string (\<lambda>s.
     [(12 \<le> js_length s, Custom ''password must be at least 12 characters''),
      (length s \<le> bcrypt_max_password_bytes,
       Custom (''password must be at most 72 bytes '' @ em_dash @ '' bcrypt ignores anything beyond that''))])"

record profile_fields =
  pf_kind :: string
  pf_name :: string
  pf_description :: "string option"
  pf_body :: string

definition config_profile_insert :: "jsval \<Rightarrow> profile_fields parsed" where
  "config_profile_insert = z_object (\<lambda>v.
     map_sum id (\<lambda>(d, k, n, b). \<lparr>pf_kind = k, pf_name = n, pf_description = d, pf_body = b\<rparr>)
      (both (field v ''description'' (z_nullish (varchar_column 255)))
      (both (field v ''kind'' (z_enum profile_kinds))
      (both (field v ''name'' (z_string (\<lambda>s. [(1 \<le> js_length s, Custom ''name is required''), at_most 255 s])))
            (field v ''body'' (z_string (\<lambda>s. [(1 \<le> js_length s, Custom ''body is required'')])))))))"

text \<open>The error of \<open>parseProfileBody\<close>: issues of the schema, or the message of the allowlist check.\<close>

definition parse_profile_body :: "library \<Rightarrow> jsval \<Rightarrow> string + profile_fields" where
  "parse_profile_body cr b =
     (case config_profile_insert b of
        Inl is \<Rightarrow> Inl (zod_err cr is)
      | Inr f \<Rightarrow>
          (if pf_kind f = ''allowlist''
           then (case json_parse (pf_body f) of
               None \<Rightarrow> Inl (''allowlist is not valid JSON: '' @ ''SyntaxError'')
             | Some v \<Rightarrow>
                 (case get_prop v ''allowed'' of
                    Arr _ \<Rightarrow> Inr f
                  | _ \<Rightarrow> Inl ''allowlist must be JSON of the form {\"allowed\": [\"10.0.0.0/8\", ...]}''))
           else Inr f))"

text \<open>\<open>Number(v)\<close> and \<open>Boolean(v)\<close> of a form field before the schema sees it.\<close>

definition override :: "jsval \<Rightarrow> (string \<times> jsval) list \<Rightarrow> jsval" where
  "override v ps = Obj (foldl (\<lambda>m (k, w). obj_put m k w) (case v of Obj qs \<Rightarrow> qs | _ \<Rightarrow> []) ps)"

definition parse_relay_body :: "jsval \<Rightarrow> relay_form parsed" where
  "parse_relay_body b = relay_insert (override b
     [(''group_id'', Num (js_to_number (get_prop b ''group_id''))),
      (''port'', Num (js_to_number (get_prop b ''port''))),
      (''priority'', Num (js_to_number (get_prop b ''priority''))),
      (''allow_insecure_auth'', Bool (truthy (get_prop b ''allow_insecure_auth''))),
      (''use_mx'', Bool (truthy (get_prop b ''use_mx'')))])"

definition parse_credential_body :: "jsval \<Rightarrow> credential_form parsed" where
  "parse_credential_body b = credential_insert (override b [(''set_id'', Num (js_to_number (get_prop b ''set_id'')))])"

section \<open>What a form that passes satisfies\<close>

lemma get_prop_obj_put: "get_prop (Obj (obj_put ps k v)) j = (if j = k then v else get_prop (Obj ps) j)"
proof -
  have m: "map_of (map (\<lambda>(k', v'). if k' = k then (k', v) else (k', v')) ps) j
      = (if j = k then map_option (\<lambda>_. v) (map_of ps k) else map_of ps j)"
  proof (induction ps)
    case (Cons p ps)
    then show ?case by (cases p; cases "fst p = k"; cases "j = k") simp_all
  qed simp
  have "map_of (obj_put ps k v) j = (if j = k then Some v else map_of ps j)"
  proof (cases "map_of ps k")
    case None
    then have "k \<notin> fst ` set ps" by (simp add: map_of_eq_None_iff)
    with None show ?thesis by (simp add: obj_put_def map_add_def split: option.split)
  next
    case (Some w)
    then have "k \<in> fst ` set ps" by (metis map_of_eq_None_iff option.distinct(1))
    with Some m show ?thesis by (simp add: obj_put_def)
  qed
  then show ?thesis by (simp add: get_prop_def)
qed

lemma int_column_bounds: "int_column v = Inr i \<Longrightarrow> - (2 ^ 31) \<le> i \<and> i < 2 ^ 31"
  by (auto simp: int_column_def z_int_Inr)

lemma z_nullish_Inr: "z_nullish s v = Inr y \<longleftrightarrow>
    ((v = Undef \<or> v = Null) \<and> y = None) \<or> (v \<noteq> Undef \<and> v \<noteq> Null \<and> (\<exists>x. y = Some x \<and> s v = Inr x))"
  by (cases "s v") (auto simp: z_nullish_def)

lemma parse_relay_bounds:
  assumes "parse_relay_body b = Inr f"
  shows "\<exists>g p r. rf_group_id f = Some g \<and> rf_port f = Some p \<and> rf_priority f = Some r
    \<and> \<bar>p\<bar> \<le> 2 ^ 31 \<and> \<bar>r\<bar> \<le> 2 ^ 31 \<and> rf_host f \<noteq> []"
proof -
  let ?v = "override b
     [(''group_id'', Num (js_to_number (get_prop b ''group_id''))),
      (''port'', Num (js_to_number (get_prop b ''port''))),
      (''priority'', Num (js_to_number (get_prop b ''priority''))),
      (''allow_insecure_auth'', Bool (truthy (get_prop b ''allow_insecure_auth''))),
      (''use_mx'', Bool (truthy (get_prop b ''use_mx'')))]"
  have v: "get_prop ?v ''group_id'' = Num (js_to_number (get_prop b ''group_id''))"
    "get_prop ?v ''port'' = Num (js_to_number (get_prop b ''port''))"
    "get_prop ?v ''priority'' = Num (js_to_number (get_prop b ''priority''))"
    by (simp_all add: override_def get_prop_obj_put)
  have f: "z_nullish int_column (get_prop ?v ''group_id'') = Inr (rf_group_id f)"
    "z_nullish int_column (get_prop ?v ''port'') = Inr (rf_port f)"
    "z_nullish int_column (get_prop ?v ''priority'') = Inr (rf_priority f)"
    "z_string (\<lambda>s. [(1 \<le> js_length s, Custom ''host is required'')]) (get_prop ?v ''host'') = Inr (rf_host f)"
    using assms by (auto simp: parse_relay_body_def relay_insert_def z_object_def field_def map_sum_Inr_iff
        case_prod_beta override_def)
  obtain g p r where "rf_group_id f = Some g" "rf_port f = Some p" "rf_priority f = Some r"
    and p: "int_column (Num (js_to_number (get_prop b ''port''))) = Inr p"
    and r: "int_column (Num (js_to_number (get_prop b ''priority''))) = Inr r"
    using f(1,2,3) unfolding v z_nullish_Inr by blast
  moreover have "\<bar>p\<bar> \<le> 2 ^ 31" "\<bar>r\<bar> \<le> 2 ^ 31"
    using int_column_bounds [OF p] int_column_bounds [OF r] by (simp_all add: abs_le_iff)
  moreover have "rf_host f \<noteq> []" using f(4) by (auto simp: z_string_Inr js_length_def)
  ultimately show ?thesis by blast
qed

end
