(* ===== verification/ConfigCtrl.thy ===== *)
theory ConfigCtrl
  imports Rows FormSchemas Secrets
begin

text \<open>
  The controllers of the configuration an operator composes from (\<open>webui-fastify/src/controllers/\<close>):
  \<open>CtrlProfile.ts\<close>, \<open>CtrlRelay.ts\<close>, \<open>CtrlRelayGroup.ts\<close> and \<open>CtrlCredential.ts\<close>. Each is a group of handlers
  over one table. A column whose field the form leaves out is not in the parsed object, so an update
  keeps it (\<open>kept\<close>). Unique indexes refuse a second row with \<open>ER_DUP_ENTRY\<close>. \<open>iv\<close> is what
  \<open>randomBytes\<close> returns and \<open>salt\<close> what \<open>bcrypt.genSalt\<close> returns.
\<close>

definition route_num :: "request \<Rightarrow> jsnum" where
  "route_num r = js_number (rq_id r)"

definition kept :: "jsval \<Rightarrow> string \<Rightarrow> 'a \<Rightarrow> 'a \<Rightarrow> 'a" where
  "kept body k old new = (if get_prop body k = Undef then old else new)"

text \<open>A form shown again with the error of its validation.\<close>

definition form_page :: "string \<Rightarrow> int \<Rightarrow> string \<Rightarrow> (string \<times> jsval) list \<Rightarrow> jsval \<Rightarrow> string option \<Rightarrow> reply" where
  "form_page template code act extra v err = Page code template
     ([(''action'', Str act)] @ extra @ [(''data'', v)] @ (case err of None \<Rightarrow> [] | Some e \<Rightarrow> [(''error'', Str e)]))"

section \<open>Profiles\<close>

definition find_profile :: "database \<Rightarrow> jsnum \<Rightarrow> config_profile option" where
  "find_profile d x = first_row (sql_select (\<lambda>p. num_is x (profile_pk p)) (config_profiles d))"

text \<open>\<open>ConfigProfiles\<close> is unique in kind and name.\<close>

definition insert_profile :: "profile_fields \<Rightarrow> database \<Rightarrow> database res" where
  "insert_profile f d =
     (if \<exists>p \<in> set (rows (config_profiles d)). profile_kind p = pf_kind f \<and> profile_name p = pf_name f
      then Inl ''ER_DUP_ENTRY''
      else Inr (d\<lparr>config_profiles := sql_insert (\<lambda>i. \<lparr>profile_pk = i, profile_kind = pf_kind f, profile_name = pf_name f,
                   profile_description = pf_description f, profile_body = pf_body f\<rparr>) (config_profiles d)\<rparr>))"

definition update_profile :: "jsval \<Rightarrow> jsnum \<Rightarrow> profile_fields \<Rightarrow> database \<Rightarrow> database res" where
  "update_profile body x f d =
     (if (\<exists>p \<in> set (rows (config_profiles d)). num_is x (profile_pk p))
         \<and> (\<exists>p \<in> set (rows (config_profiles d)). \<not> num_is x (profile_pk p) \<and> profile_kind p = pf_kind f \<and> profile_name p = pf_name f)
      then Inl ''ER_DUP_ENTRY''
      else Inr (d\<lparr>config_profiles := sql_update (\<lambda>p. num_is x (profile_pk p))
        (\<lambda>p. p\<lparr>profile_kind := pf_kind f, profile_name := pf_name f,
               profile_description := kept body ''description'' (profile_description p) (pf_description f),
               profile_body := pf_body f\<rparr>) (config_profiles d)\<rparr>))"

definition kinds_local :: "(string \<times> jsval) list" where
  "kinds_local = [(''kinds'', Arr (map Str profile_kinds))]"

definition profiles_index :: "library \<Rightarrow> database \<Rightarrow> reply" where
  "profiles_index cr d = Page 200 ''config/profile-index'' [(''data'', Arr (map profile_val
     (order_by cr (\<lambda>p. Some (profile_kind p)) (order_by cr (\<lambda>p. Some (profile_name p)) (rows (config_profiles d))))))]"

definition profiles_create :: "request \<Rightarrow> reply" where
  "profiles_create r =
     (let kind = get_prop (rq_query r) ''kind''
      in form_page ''config/profile-form'' 200 ''Create'' kinds_local
           (Obj [(''kind'', if \<exists>k \<in> set profile_kinds. kind = Str k then kind else Str ''ruleset''),
                 (''name'', Str []), (''description'', Str []), (''body'', Str [])]) None)"

definition profiles_create_handle :: "library \<Rightarrow> request \<Rightarrow> database \<Rightarrow> outcome" where
  "profiles_create_handle cr r d =
     (case parse_profile_body cr (rq_body r) of
        Inl e \<Rightarrow> (Inr (form_page ''config/profile-form'' 400 ''Create'' kinds_local (rq_body r) (Some e)), d)
      | Inr f \<Rightarrow> (case insert_profile f d of
            Inl e \<Rightarrow> (Inl e, d)
          | Inr d' \<Rightarrow> (Inr (Redirect ''/config/profiles''), d')))"

definition profiles_edit :: "request \<Rightarrow> database \<Rightarrow> reply" where
  "profiles_edit r d =
     (case find_profile d (route_num r) of
        None \<Rightarrow> Redirect ''/config/profiles''
      | Some p \<Rightarrow> form_page ''config/profile-form'' 200 ''Update'' kinds_local (profile_val p) None)"

definition profiles_edit_handle :: "library \<Rightarrow> request \<Rightarrow> database \<Rightarrow> outcome" where
  "profiles_edit_handle cr r d =
     (let x = route_num r
      in case parse_profile_body cr (rq_body r) of
           Inl e \<Rightarrow> (Inr (form_page ''config/profile-form'' 400 ''Update'' kinds_local
                         (override (rq_body r) [(''id'', Num x)]) (Some e)), d)
         | Inr f \<Rightarrow> (case update_profile (rq_body r) x f d of
               Inl e \<Rightarrow> (Inl e, d)
             | Inr d' \<Rightarrow> (Inr (Redirect ''/config/profiles''), d')))"

definition profiles_delete :: "request \<Rightarrow> database \<Rightarrow> reply" where
  "profiles_delete r d =
     (case find_profile d (route_num r) of
        None \<Rightarrow> Redirect ''/config/profiles''
      | Some p \<Rightarrow> Page 200 ''config/profile-delete'' [(''data'', profile_val p)])"

definition profiles_delete_handle :: "request \<Rightarrow> database \<Rightarrow> reply \<times> database" where
  "profiles_delete_handle r d =
     (Redirect ''/config/profiles'',
      d\<lparr>config_profiles := sql_delete (\<lambda>p. num_is (route_num r) (profile_pk p)) (config_profiles d)\<rparr>)"

section \<open>Relay groups\<close>

definition find_group :: "database \<Rightarrow> jsnum \<Rightarrow> relay_group option" where
  "find_group d x = first_row (sql_select (\<lambda>g. num_is x (group_pk g)) (relay_groups d))"

definition relaygrp_form :: "int \<Rightarrow> string \<Rightarrow> jsval \<Rightarrow> string option \<Rightarrow> reply" where
  "relaygrp_form code act = form_page ''routing/relaygrp-form'' code act []"

definition relaygrp_create :: reply where
  "relaygrp_create = relaygrp_form 200 ''Create'' (Obj [(''name'', Str []), (''description'', Str [])]) None"

definition relaygrp_create_handle :: "library \<Rightarrow> request \<Rightarrow> database \<Rightarrow> reply \<times> database" where
  "relaygrp_create_handle cr r d =
     (case relay_group_insert (rq_body r) of
        Inl is \<Rightarrow> (relaygrp_form 400 ''Create'' (rq_body r) (Some (zod_err cr is)), d)
      | Inr f \<Rightarrow> (Redirect ''/config/relaygrp'',
          d\<lparr>relay_groups := sql_insert (\<lambda>i. \<lparr>group_pk = i, group_name = Some (nf_name f),
                              group_description = nf_description f\<rparr>) (relay_groups d)\<rparr>))"

definition relaygrp_edit :: "request \<Rightarrow> database \<Rightarrow> reply" where
  "relaygrp_edit r d = relaygrp_form 200 ''Update'' (row_or_undef group_val (find_group d (route_num r))) None"

definition relaygrp_edit_handle :: "library \<Rightarrow> request \<Rightarrow> database \<Rightarrow> reply \<times> database" where
  "relaygrp_edit_handle cr r d =
     (let x = route_num r
      in case relay_group_insert (rq_body r) of
           Inl is \<Rightarrow> (relaygrp_form 400 ''Update'' (override (rq_body r) [(''id'', Num x)]) (Some (zod_err cr is)), d)
         | Inr f \<Rightarrow> (Redirect ''/config/relaygrp'',
             d\<lparr>relay_groups := sql_update (\<lambda>g. num_is x (group_pk g))
                (\<lambda>g. g\<lparr>group_name := Some (nf_name f),
                       group_description := kept (rq_body r) ''description'' (group_description g) (nf_description f)\<rparr>)
                (relay_groups d)\<rparr>))"

definition relaygrp_delete :: "request \<Rightarrow> database \<Rightarrow> reply" where
  "relaygrp_delete r d =
     Page 200 ''routing/relaygrp-delete'' [(''data'', row_or_undef group_val (find_group d (route_num r)))]"

definition relaygrp_delete_handle :: "request \<Rightarrow> database \<Rightarrow> reply \<times> database" where
  "relaygrp_delete_handle r d =
     (Redirect ''/config/relaygrp'',
      d\<lparr>relay_groups := sql_delete (\<lambda>g. num_is (route_num r) (group_pk g)) (relay_groups d)\<rparr>)"

definition relaygrp_details :: "request \<Rightarrow> database \<Rightarrow> reply" where
  "relaygrp_details r d =
     (let x = route_num r
      in Page 200 ''routing/relaygrp-details''
           [(''data'', row_or_undef group_val (find_group d x)),
            (''relays'', Arr (map relay_val (sql_select (\<lambda>m. \<exists>g. group_id m = Some g \<and> num_is x g) (relays d))))])"

definition relaygrp_index :: "database \<Rightarrow> reply" where
  "relaygrp_index d = Page 200 ''routing/index'' [(''data'', Arr (map group_val (rows (relay_groups d))))]"

section \<open>Relays\<close>

definition find_relay :: "database \<Rightarrow> jsnum \<Rightarrow> relay option" where
  "find_relay d x = first_row (sql_select (\<lambda>m. num_is x (relay_pk m)) (relays d))"

definition relay_form_page :: "int \<Rightarrow> string \<Rightarrow> jsval \<Rightarrow> jsval \<Rightarrow> string option \<Rightarrow> reply" where
  "relay_form_page code act grp = form_page ''routing/relay-form'' code act [(''group_id'', grp)]"

definition group_url :: "string \<Rightarrow> string" where
  "group_url i = ''/config/relaygrp/'' @ i"

definition relay_create :: "request \<Rightarrow> reply" where
  "relay_create r = relay_form_page 200 ''Create'' (Num (route_num r))
     (Obj [(''host'', Str []), (''port'', num_of 25), (''priority'', num_of 10), (''auth_user'', Str []), (''auth_pass'', Str []),
           (''tls'', Str []), (''allow_insecure_auth'', Bool False)]) None"

text \<open>The password of a form: encrypted when there is one, otherwise as it is.\<close>

definition stored_pass :: "library \<Rightarrow> env \<Rightarrow> key_cache \<Rightarrow> string \<Rightarrow> string option \<Rightarrow> string option res" where
  "stored_pass cr env cache iv p =
     (if truthy_str p then res_bind (encrypt cr env cache iv (the p)) (\<lambda>s. Inr (Some s)) else Inr p)"

definition new_relay :: "relay_form \<Rightarrow> string option \<Rightarrow> int \<Rightarrow> relay" where
  "new_relay f pass i = \<lparr>relay_pk = i, group_id = rf_group_id f, relay_name = None,
     relay_host = Some (rf_host f), relay_port = rf_port f, auth_user = rf_auth_user f, auth_pass = pass,
     auth_pass_env = None, relay_tls = rf_tls f, allow_insecure_auth = Some (rf_allow_insecure_auth f),
     use_mx = Some (rf_use_mx f), priority = rf_priority f\<rparr>"

definition relay_create_handle ::
  "library \<Rightarrow> env \<Rightarrow> key_cache \<Rightarrow> string \<Rightarrow> request \<Rightarrow> database \<Rightarrow> outcome" where
  "relay_create_handle cr env cache iv r d =
     (if rq_body r = Undef \<or> rq_body r = Null then (Inl ''TypeError'', d)
      else (case parse_relay_body (rq_body r) of
          Inl is \<Rightarrow> (Inr (relay_form_page 400 ''Create'' (Num (route_num r)) (rq_body r) (Some (zod_err cr is))), d)
        | Inr f \<Rightarrow> (case stored_pass cr env cache iv (rf_auth_pass f) of
              Inl e \<Rightarrow> (Inl e, d)
            | Inr pass \<Rightarrow> (Inr (Redirect (group_url (num_to_string (route_num r)))),
                d\<lparr>relays := sql_insert (new_relay f pass) (relays d)\<rparr>))))"

definition relay_edit :: "request \<Rightarrow> database \<Rightarrow> reply" where
  "relay_edit r d =
     (let data = find_relay d (route_num r)
      in relay_form_page 200 ''Update'' (row_or_undef (\<lambda>m. id_val (group_id m)) data) (row_or_undef relay_val data) None)"

text \<open>A blank password keeps the stored one.\<close>

definition relay_changes :: "jsval \<Rightarrow> relay_form \<Rightarrow> string option \<Rightarrow> relay \<Rightarrow> relay" where
  "relay_changes body f pass m = m\<lparr>group_id := rf_group_id f, relay_host := Some (rf_host f), relay_port := rf_port f,
     auth_user := kept body ''auth_user'' (auth_user m) (rf_auth_user f),
     auth_pass := (if truthy_str (rf_auth_pass f) then pass else auth_pass m),
     relay_tls := kept body ''tls'' (relay_tls m) (rf_tls f),
     allow_insecure_auth := Some (rf_allow_insecure_auth f), use_mx := Some (rf_use_mx f), priority := rf_priority f\<rparr>"

definition relay_edit_handle ::
  "library \<Rightarrow> env \<Rightarrow> key_cache \<Rightarrow> string \<Rightarrow> request \<Rightarrow> database \<Rightarrow> outcome" where
  "relay_edit_handle cr env cache iv r d =
     (let body = rq_body r
      in if body = Undef \<or> body = Null then (Inl ''TypeError'', d)
         else (case parse_relay_body body of
             Inl is \<Rightarrow> (Inr (relay_form_page 400 ''Update'' (Num (js_to_number (get_prop body ''group_id''))) body
                           (Some (zod_err cr is))), d)
           | Inr f \<Rightarrow> (case stored_pass cr env cache iv (rf_auth_pass f) of
                 Inl e \<Rightarrow> (Inl e, d)
               | Inr pass \<Rightarrow> (Inr (Redirect (group_url (js_string (id_val (rf_group_id f))))),
                   d\<lparr>relays := sql_update (\<lambda>m. num_is (route_num r) (relay_pk m)) (relay_changes body f pass) (relays d)\<rparr>))))"

definition relay_delete :: "request \<Rightarrow> database \<Rightarrow> reply" where
  "relay_delete r d =
     Page 200 ''routing/relay-delete'' [(''data'', row_or_undef relay_val (find_relay d (route_num r)))]"

definition relay_delete_handle :: "request \<Rightarrow> database \<Rightarrow> reply \<times> database" where
  "relay_delete_handle r d =
     (Redirect (group_url (js_string (row_or_undef (\<lambda>m. id_val (group_id m)) (find_relay d (route_num r))))),
      d\<lparr>relays := sql_delete (\<lambda>m. num_is (route_num r) (relay_pk m)) (relays d)\<rparr>)"

section \<open>Credential sets\<close>

definition find_set :: "database \<Rightarrow> jsnum \<Rightarrow> credential_set option" where
  "find_set d x = first_row (sql_select (\<lambda>s. num_is x (set_pk s)) (credential_sets d))"

text \<open>\<open>CredentialSets\<close> is unique in the name.\<close>

definition insert_set :: "named_form \<Rightarrow> database \<Rightarrow> database res" where
  "insert_set f d =
     (if \<exists>s \<in> set (rows (credential_sets d)). set_name s = nf_name f then Inl ''ER_DUP_ENTRY''
      else Inr (d\<lparr>credential_sets := sql_insert (\<lambda>i. \<lparr>set_pk = i, set_name = nf_name f,
                   set_description = nf_description f\<rparr>) (credential_sets d)\<rparr>))"

definition update_set :: "jsval \<Rightarrow> jsnum \<Rightarrow> named_form \<Rightarrow> database \<Rightarrow> database res" where
  "update_set body x f d =
     (if (\<exists>s \<in> set (rows (credential_sets d)). num_is x (set_pk s))
         \<and> (\<exists>s \<in> set (rows (credential_sets d)). \<not> num_is x (set_pk s) \<and> set_name s = nf_name f)
      then Inl ''ER_DUP_ENTRY''
      else Inr (d\<lparr>credential_sets := sql_update (\<lambda>s. num_is x (set_pk s))
        (\<lambda>s. s\<lparr>set_name := nf_name f, set_description := kept body ''description'' (set_description s) (nf_description f)\<rparr>)
        (credential_sets d)\<rparr>))"

definition credset_form :: "int \<Rightarrow> string \<Rightarrow> jsval \<Rightarrow> string option \<Rightarrow> reply" where
  "credset_form code act = form_page ''config/credential-set-form'' code act []"

definition credset_index :: "library \<Rightarrow> database \<Rightarrow> reply" where
  "credset_index cr d = Page 200 ''config/credential-index''
     [(''data'', Arr (map credential_set_val (order_by cr (\<lambda>s. Some (set_name s)) (rows (credential_sets d)))))]"

definition credset_details :: "library \<Rightarrow> request \<Rightarrow> database \<Rightarrow> reply" where
  "credset_details cr r d =
     (case find_set d (route_num r) of
        None \<Rightarrow> Redirect ''/config/credentials''
      | Some s \<Rightarrow> Page 200 ''config/credential-set'' [(''set'', credential_set_val s),
          (''users'', Arr (map credential_val (order_by cr (\<lambda>c. Some (username c))
             (sql_select (\<lambda>c. num_is (route_num r) (set_id c)) (smtp_credentials d)))))])"

definition credset_create :: reply where
  "credset_create = credset_form 200 ''Create'' (Obj [(''name'', Str []), (''description'', Str [])]) None"

definition credset_create_handle :: "library \<Rightarrow> request \<Rightarrow> database \<Rightarrow> outcome" where
  "credset_create_handle cr r d =
     (case credential_set_insert (rq_body r) of
        Inl is \<Rightarrow> (Inr (credset_form 400 ''Create'' (rq_body r) (Some (zod_err cr is))), d)
      | Inr f \<Rightarrow> (case insert_set f d of
            Inl e \<Rightarrow> (Inl e, d)
          | Inr d' \<Rightarrow> (Inr (Redirect ''/config/credentials''), d')))"

definition credset_edit :: "request \<Rightarrow> database \<Rightarrow> reply" where
  "credset_edit r d =
     (case find_set d (route_num r) of
        None \<Rightarrow> Redirect ''/config/credentials''
      | Some s \<Rightarrow> credset_form 200 ''Update'' (credential_set_val s) None)"

definition credset_edit_handle :: "library \<Rightarrow> request \<Rightarrow> database \<Rightarrow> outcome" where
  "credset_edit_handle cr r d =
     (let x = route_num r
      in case credential_set_insert (rq_body r) of
           Inl is \<Rightarrow> (Inr (credset_form 400 ''Update'' (override (rq_body r) [(''id'', Num x)]) (Some (zod_err cr is))), d)
         | Inr f \<Rightarrow> (case update_set (rq_body r) x f d of
               Inl e \<Rightarrow> (Inl e, d)
             | Inr d' \<Rightarrow> (Inr (Redirect ''/config/credentials''), d')))"

definition credset_delete :: "request \<Rightarrow> database \<Rightarrow> reply" where
  "credset_delete r d =
     Page 200 ''config/credential-set-delete'' [(''data'', row_or_undef credential_set_val (find_set d (route_num r)))]"

definition credset_delete_handle :: "request \<Rightarrow> database \<Rightarrow> reply \<times> database" where
  "credset_delete_handle r d =
     (let x = route_num r;
          d1 = d\<lparr>smtp_credentials := sql_delete (\<lambda>c. num_is x (set_id c)) (smtp_credentials d)\<rparr>
      in (Redirect ''/config/credentials'',
          d1\<lparr>credential_sets := sql_delete (\<lambda>s. num_is x (set_pk s)) (credential_sets d1)\<rparr>))"

section \<open>Credentials\<close>

definition find_credential :: "database \<Rightarrow> jsnum \<Rightarrow> smtp_credential option" where
  "find_credential d x = first_row (sql_select (\<lambda>c. num_is x (cred_pk c)) (smtp_credentials d))"

text \<open>\<open>SmtpCredentials\<close> is unique in set and username.\<close>

definition insert_credential :: "credential_form \<Rightarrow> string \<Rightarrow> database \<Rightarrow> database res" where
  "insert_credential f h d =
     (if \<exists>c \<in> set (rows (smtp_credentials d)). set_id c = cf_set_id f \<and> username c = cf_username f then Inl ''ER_DUP_ENTRY''
      else Inr (d\<lparr>smtp_credentials := sql_insert (\<lambda>i. \<lparr>cred_pk = i, set_id = cf_set_id f, username = cf_username f,
                   cred_hash = h\<rparr>) (smtp_credentials d)\<rparr>))"

definition update_credential :: "jsnum \<Rightarrow> credential_form \<Rightarrow> string option \<Rightarrow> database \<Rightarrow> database res" where
  "update_credential x f h d =
     (if (\<exists>c \<in> set (rows (smtp_credentials d)). num_is x (cred_pk c))
         \<and> (\<exists>c \<in> set (rows (smtp_credentials d)). \<not> num_is x (cred_pk c) \<and> set_id c = cf_set_id f \<and> username c = cf_username f)
      then Inl ''ER_DUP_ENTRY''
      else Inr (d\<lparr>smtp_credentials := sql_update (\<lambda>c. num_is x (cred_pk c))
        (\<lambda>c. c\<lparr>set_id := cf_set_id f, username := cf_username f, cred_hash := nullish h (cred_hash c)\<rparr>)
        (smtp_credentials d)\<rparr>))"

definition hash_password :: "library \<Rightarrow> string \<Rightarrow> string \<Rightarrow> string" where
  "hash_password cr salt pass = bcrypt_hash cr salt pass"

definition cred_form :: "int \<Rightarrow> string \<Rightarrow> jsval \<Rightarrow> jsval \<Rightarrow> string option \<Rightarrow> reply" where
  "cred_form code act s = form_page ''config/credential-form'' code act [(''set_id'', s)]"

definition set_url :: "string \<Rightarrow> string" where
  "set_url i = ''/config/credentials/'' @ i"

definition cred_create :: "request \<Rightarrow> reply" where
  "cred_create r = cred_form 200 ''Create'' (Num (route_num r)) (Obj [(''username'', Str [])]) None"

definition cred_create_handle :: "library \<Rightarrow> string \<Rightarrow> request \<Rightarrow> database \<Rightarrow> outcome" where
  "cred_create_handle cr salt r d =
     (let x = route_num r; body = rq_body r; again = (\<lambda>is. Inr (cred_form 400 ''Create'' (Num x) body (Some (zod_err cr is))))
      in case parse_credential_body (override body [(''set_id'', Num x)]) of
           Inl is \<Rightarrow> (again is, d)
         | Inr f \<Rightarrow>
             (case read_prop body ''password'' of
                Inl e \<Rightarrow> (Inl e, d)
              | Inr p \<Rightarrow>
                  (case credential_password (if p = Undef \<or> p = Null then Str [] else p) of
                     Inl is \<Rightarrow> (again is, d)
                   | Inr pass \<Rightarrow> (case insert_credential f (hash_password cr salt pass) d of
                         Inl e \<Rightarrow> (Inl e, d)
                       | Inr d' \<Rightarrow> (Inr (Redirect (set_url (num_to_string x))), d')))))"

definition cred_edit :: "request \<Rightarrow> database \<Rightarrow> reply" where
  "cred_edit r d =
     (case find_credential d (route_num r) of
        None \<Rightarrow> Redirect ''/config/credentials''
      | Some c \<Rightarrow> cred_form 200 ''Update'' (num_of (set_id c)) (credential_val c) None)"

definition cred_edit_handle :: "library \<Rightarrow> string \<Rightarrow> request \<Rightarrow> database \<Rightarrow> outcome" where
  "cred_edit_handle cr salt r d =
     (let x = route_num r; body = rq_body r
      in case find_credential d x of
           None \<Rightarrow> (Inr (Redirect ''/config/credentials''), d)
         | Some existing \<Rightarrow>
             (let again = (\<lambda>is. Inr (cred_form 400 ''Update'' (num_of (set_id existing)) (override body [(''id'', Num x)])
                            (Some (zod_err cr is))));
                  store = (\<lambda>f h. case update_credential x f h d of
                      Inl e \<Rightarrow> (Inl e, d)
                    | Inr d' \<Rightarrow> (Inr (Redirect (set_url (num_to_string (Fin (of_int (set_id existing)))))), d'))
              in case parse_credential_body (override body [(''set_id'', num_of (set_id existing))]) of
                   Inl is \<Rightarrow> (again is, d)
                 | Inr f \<Rightarrow>
                     (case read_prop body ''password'' of
                        Inl e \<Rightarrow> (Inl e, d)
                      | Inr p \<Rightarrow>
                          (let supplied = text_or p []
                           in if supplied = [] then store f None
                              else (case credential_password (Str supplied) of
                                  Inl is \<Rightarrow> (again is, d)
                                | Inr pass \<Rightarrow> store f (Some (hash_password cr salt pass)))))))"

definition cred_delete :: "request \<Rightarrow> database \<Rightarrow> reply" where
  "cred_delete r d =
     Page 200 ''config/credential-delete'' [(''data'', row_or_undef credential_val (find_credential d (route_num r)))]"

definition cred_delete_handle :: "request \<Rightarrow> database \<Rightarrow> reply \<times> database" where
  "cred_delete_handle r d =
     (Redirect (set_url (js_string (row_or_undef (\<lambda>c. num_of (set_id c)) (find_credential d (route_num r))))),
      d\<lparr>smtp_credentials := sql_delete (\<lambda>c. num_is (route_num r) (cred_pk c)) (smtp_credentials d)\<rparr>)"

end
