(* ===== verification/Sessions.thy ===== *)
theory Sessions
  imports Http Samples
begin

text \<open>
  \<open>webui-fastify/src/globals.ts\<close>, \<open>webui-fastify/src/auth/session.ts\<close> and
  \<open>webui-fastify/src/middleware/checkSession.ts\<close>. The source makes the session store an interface
  that tests swap; here it is the locale \<open>session_store\<close>, its promises are proved for the store
  in the \<open>Sessions\<close> table, and what the login gate relies on is proved once from the promises.
  Times are milliseconds.
\<close>

section \<open>The interface\<close>

record session =
  s_email :: string
  s_expires :: int

definition session_ttl_ms :: int where
  "session_ttl_ms = 8 * 60 * 60 * 1000"

text \<open>\<open>create\<close> may fail; \<open>get\<close> takes the clock and may delete an expired entry.\<close>

locale session_store =
  fixes create :: "string \<Rightarrow> session \<Rightarrow> 's \<Rightarrow> 's res"
    and lookup :: "int \<Rightarrow> string \<Rightarrow> 's \<Rightarrow> session option \<times> 's"
    and remove :: "string \<Rightarrow> 's \<Rightarrow> 's"
    and sweep :: "int \<Rightarrow> 's \<Rightarrow> 's"
    and live :: "int \<Rightarrow> 's \<Rightarrow> string \<Rightarrow> session option"
    and valid :: "'s \<Rightarrow> bool"
  assumes lookup_live: "valid s \<Longrightarrow> fst (lookup now i s) = live now s i"
    and lookup_keeps: "valid s \<Longrightarrow> now \<le> later \<Longrightarrow> live later (snd (lookup now i s)) = live later s"
    and create_live: "valid s \<Longrightarrow> create i x s = Inr s' \<Longrightarrow>
      live now s' = (\<lambda>j. if j = i then (if now < s_expires x then Some x else None) else live now s j)"
    and remove_live: "valid s \<Longrightarrow> live now (remove i s) = (\<lambda>j. if j = i then None else live now s j)"
    and sweep_live: "valid s \<Longrightarrow> now \<le> later \<Longrightarrow> live later (sweep now s) = live later s"
    and live_expires: "valid s \<Longrightarrow> live now s i = Some x \<Longrightarrow> now < s_expires x"
    and live_before: "valid s \<Longrightarrow> live now s i = Some x \<Longrightarrow> earlier \<le> now \<Longrightarrow> live earlier s i = Some x"
    and valid_steps: "valid s \<Longrightarrow> valid (snd (lookup now i s))" "valid s \<Longrightarrow> valid (remove i s)"
      "valid s \<Longrightarrow> valid (sweep now s)" "valid s \<Longrightarrow> create i x s = Inr s' \<Longrightarrow> valid s'"
begin

text \<open>The clients of the store, as requests reach it: any number of operations at advancing times.\<close>

lemma sweep_invisible:
  assumes "valid s" "now \<le> later"
  shows "fst (lookup later i (sweep now s)) = fst (lookup later i s)"
  using assms by (simp add: lookup_live valid_steps sweep_live)

lemma lookup_after_create:
  assumes "valid s" "create i x s = Inr s'" "now < s_expires x"
  shows "fst (lookup now i s') = Some x"
  using assms by (simp add: lookup_live valid_steps create_live)

lemma lookup_expired:
  assumes "valid s" "create i x s = Inr s'" "s_expires x \<le> now"
  shows "fst (lookup now i s') = None"
  using assms by (simp add: lookup_live valid_steps create_live)

lemma lookup_after_remove:
  assumes "valid s"
  shows "fst (lookup now i (remove i s)) = None"
  using assms by (simp add: lookup_live valid_steps remove_live)

lemma lookup_other:
  assumes "valid s" "create i x s = Inr s'" "j \<noteq> i"
  shows "fst (lookup now j s') = fst (lookup now j s)"
  using assms by (simp add: lookup_live valid_steps create_live)

end

section \<open>The store in the database\<close>

definition db_create :: "string \<Rightarrow> session \<Rightarrow> session_row list \<Rightarrow> session_row list res" where
  "db_create i x rs =
     (if \<exists>r \<in> set rs. session_id r = i then Inl ''ER_DUP_ENTRY''
      else Inr (rs @ [\<lparr>session_id = i, session_email = s_email x, expires_at = s_expires x\<rparr>]))"

definition db_delete :: "string \<Rightarrow> session_row list \<Rightarrow> session_row list" where
  "db_delete i rs = filter (\<lambda>r. session_id r \<noteq> i) rs"

definition db_get :: "int \<Rightarrow> string \<Rightarrow> session_row list \<Rightarrow> session option \<times> session_row list" where
  "db_get now i rs =
     (case first_row (filter (\<lambda>r. session_id r = i) rs) of
        None \<Rightarrow> (None, rs)
      | Some row \<Rightarrow>
          (if expires_at row \<le> now then (None, db_delete i rs)
           else (Some \<lparr>s_email = session_email row, s_expires = expires_at row\<rparr>, rs)))"

definition db_sweep :: "int \<Rightarrow> session_row list \<Rightarrow> session_row list" where
  "db_sweep now rs = filter (\<lambda>r. \<not> expires_at r \<le> now) rs"

definition db_live :: "int \<Rightarrow> session_row list \<Rightarrow> string \<Rightarrow> session option" where
  "db_live now rs i = map_option (\<lambda>r. \<lparr>s_email = session_email r, s_expires = expires_at r\<rparr>)
     (find (\<lambda>r. session_id r = i \<and> now < expires_at r) rs)"

definition db_valid :: "session_row list \<Rightarrow> bool" where
  "db_valid rs \<longleftrightarrow> distinct (map session_id rs)"

lemma find_filter: "find P (filter Q xs) = find (\<lambda>x. Q x \<and> P x) xs"
  by (induction xs) auto

lemma find_conj_unique:
  assumes "distinct (map session_id rs)"
  shows "find (\<lambda>r. session_id r = i \<and> P r) rs =
    (case find (\<lambda>r. session_id r = i) rs of None \<Rightarrow> None | Some r \<Rightarrow> if P r then Some r else None)"
  using assms
proof (induction rs)
  case (Cons r rs)
  show ?case
  proof (cases "session_id r = i")
    case True
    with Cons.prems have "find (\<lambda>r. session_id r = i \<and> P r) rs = None"
      by (fastforce simp: find_None_iff image_iff)
    with True show ?thesis by simp
  next
    case False
    with Cons show ?thesis by simp
  qed
qed simp

lemma db_delete_find: "find (\<lambda>r. session_id r = j \<and> P r) (db_delete i rs) = (if j = i then None else find (\<lambda>r. session_id r = j \<and> P r) rs)"
  by (induction rs) (auto simp: db_delete_def)

interpretation db: session_store db_create db_get db_delete db_sweep db_live db_valid
proof
  fix s s' :: "session_row list" and i j :: string and x :: session and now later earlier :: int
  assume v: "db_valid s"
  then have d: "distinct (map session_id s)" by (simp add: db_valid_def)
  show "fst (db_get now i s) = db_live now s i"
    using find_conj_unique [OF d, of i "\<lambda>r. now < expires_at r"]
    by (auto simp: db_get_def db_live_def first_row_filter split: option.splits)
  show "db_live later (snd (db_get now i s)) = db_live later s" if "now \<le> later"
  proof
    fix j
    show "db_live later (snd (db_get now i s)) j = db_live later s j"
      using that find_conj_unique [OF d, of i "\<lambda>r. later < expires_at r"]
      by (auto simp: db_get_def db_live_def first_row_filter db_delete_find split: option.splits if_splits)
  qed
  show "db_live now s' = (\<lambda>j. if j = i then (if now < s_expires x then Some x else None) else db_live now s j)"
    if "db_create i x s = Inr s'"
  proof
    fix j
    have new: "\<And>r. r \<in> set s \<Longrightarrow> session_id r \<noteq> i" and s': "s' = s @ [\<lparr>session_id = i, session_email = s_email x, expires_at = s_expires x\<rparr>]"
      using that by (auto simp: db_create_def split: if_splits)
    have app: "find P (xs @ ys) = (case find P xs of None \<Rightarrow> find P ys | Some r \<Rightarrow> Some r)" for P and xs ys :: "session_row list"
      by (induction xs) auto
    have "find (\<lambda>r. session_id r = i \<and> now < expires_at r) s = None"
      using new by (auto simp: find_None_iff)
    then show "db_live now s' j = (if j = i then (if now < s_expires x then Some x else None) else db_live now s j)"
      by (auto simp: db_live_def s' app split: option.split)
  qed
  show "db_live now (db_delete i s) = (\<lambda>j. if j = i then None else db_live now s j)"
    by (auto simp: db_live_def db_delete_find)
  show "db_live later (db_sweep now s) = db_live later s" if "now \<le> later"
  proof
    fix j
    have "(\<lambda>r :: session_row. \<not> expires_at r \<le> now \<and> session_id r = j \<and> later < expires_at r) = (\<lambda>r. session_id r = j \<and> later < expires_at r)"
      using that by auto
    then show "db_live later (db_sweep now s) j = db_live later s j" by (simp only: db_live_def db_sweep_def find_filter)
  qed
  show "now < s_expires x" if "db_live now s i = Some x"
    using that by (auto simp: db_live_def dest: find_SomeD)
  show "db_live earlier s i = Some x" if "db_live now s i = Some x" "earlier \<le> now"
    using that find_conj_unique [OF d, of i "\<lambda>r. now < expires_at r"] find_conj_unique [OF d, of i "\<lambda>r. earlier < expires_at r"]
    by (auto simp: db_live_def split: option.splits if_splits)
  have dd: "distinct (map session_id (filter P s))" for P using d by (auto simp: distinct_map intro: inj_on_subset)
  show "db_valid (snd (db_get now i s))"
    using v dd by (auto simp: db_get_def db_delete_def db_valid_def split: option.split)
  show "db_valid (db_delete i s)" "db_valid (db_sweep now s)"
    using dd by (simp_all add: db_valid_def db_delete_def db_sweep_def)
  show "db_valid s'" if "db_create i x s = Inr s'"
    using that d by (auto simp: db_valid_def db_create_def split: if_splits)
qed

section \<open>Resolving a request\<close>

text \<open>\<open>getSession\<close>, \<open>createSession\<close>, \<open>deleteSession\<close> and \<open>sweepSessions\<close> on the database.\<close>

definition get_session :: "int \<Rightarrow> string \<Rightarrow> database \<Rightarrow> session option \<times> database" where
  "get_session now i d = (case db_get now i (sessions d) of (x, rs) \<Rightarrow> (x, d\<lparr>sessions := rs\<rparr>))"

definition create_session :: "string \<Rightarrow> session \<Rightarrow> database \<Rightarrow> database res" where
  "create_session i x d = res_bind (db_create i x (sessions d)) (\<lambda>rs. Inr (d\<lparr>sessions := rs\<rparr>))"

definition delete_session :: "string \<Rightarrow> database \<Rightarrow> database" where
  "delete_session i d = d\<lparr>sessions := db_delete i (sessions d)\<rparr>"

definition sweep_sessions :: "int \<Rightarrow> database \<Rightarrow> database" where
  "sweep_sessions now d = d\<lparr>sessions := db_sweep now (sessions d)\<rparr>"

definition session_id_of :: "library \<Rightarrow> request \<Rightarrow> string option" where
  "session_id_of cr r =
     (if truthy_str (session_cookie r) then unsign_cookie cr (the (session_cookie r)) else None)"

definition session_email_of :: "library \<Rightarrow> int \<Rightarrow> request \<Rightarrow> database \<Rightarrow> string option \<times> database" where
  "session_email_of cr now r d =
     (if \<not> truthy_str (session_id_of cr r) then (None, d)
      else (case get_session now (the (session_id_of cr r)) d of (x, d') \<Rightarrow> (map_option s_email x, d')))"

text \<open>\<open>checkSession\<close>: the reply that ends the request, or nothing.\<close>

definition wants_json :: "request \<Rightarrow> bool" where
  "wants_json r = js_includes (nullish (headers r ''accept'') []) ''application/json''"

definition check_session :: "library \<Rightarrow> int \<Rightarrow> request \<Rightarrow> database \<Rightarrow> reply option \<times> database" where
  "check_session cr now r d =
     (case session_email_of cr now r d of (e, d') \<Rightarrow>
        if truthy_str e then (None, d')
        else if wants_json r then (Some (JsonReply 401 (Obj [(''error'', Str ''unauthenticated'')])), d')
        else (Some (Redirect ''/login''), d'))"

text \<open>What a cookie the console signed carries.\<close>

definition cookies_ok :: "library \<Rightarrow> bool" where
  "cookies_ok cr \<longleftrightarrow> (\<forall>x. unsign_cookie cr (sign_cookie cr x) = Some x \<and> sign_cookie cr x \<noteq> [])"

lemma session_email_eq:
  assumes "cookies_ok cr" "session_cookie r = Some (sign_cookie cr i)" "i \<noteq> []"
  shows "session_email_of cr now r d
    = (map_option s_email (fst (db_get now i (sessions d))), d\<lparr>sessions := snd (db_get now i (sessions d))\<rparr>)"
  using assms by (simp add: session_email_of_def session_id_of_def cookies_ok_def get_session_def case_prod_beta)

text \<open>A session lives from login to expiry or logout and no longer: once created, its cookie resolves to
  its e-mail at every time before the expiry, to nothing at or after it, to nothing once the session
  is deleted, and sweeping at any earlier time makes no difference.\<close>

theorem session_lifetime:
  assumes "cookies_ok cr" "db_valid (sessions d)" "create_session i x d = Inr d'" "i \<noteq> []"
    and "session_cookie r = Some (sign_cookie cr i)" "swept \<le> now"
  shows "fst (session_email_of cr now r d') = (if now < s_expires x then Some (s_email x) else None)
    \<and> fst (session_email_of cr now r (sweep_sessions swept d')) = fst (session_email_of cr now r d')
    \<and> fst (session_email_of cr now r (delete_session i d')) = None"
proof -
  have c: "db_create i x (sessions d) = Inr (sessions d')"
    using assms(3) by (auto simp: create_session_def elim!: res_bind_InrE)
  have v: "db_valid (sessions d')" by (rule db.valid_steps(4) [OF assms(2) c])
  note eq = session_email_eq [OF assms(1,5,4)]
  show ?thesis
    using db.lookup_after_create [OF assms(2) c, of now] db.lookup_expired [OF assms(2) c, of now]
      db.sweep_invisible [OF v assms(6), of i] db.lookup_after_remove [OF v, of now i]
    by (simp add: eq sweep_sessions_def delete_session_def)
qed

lemma session_lifetime_witness:
  "fst (session_email_of sample_library 50
      \<lparr>rq_method = ''GET'', rq_url = ''/'', headers = (\<lambda>_. None), raw_body = [], rq_body = Undef, rq_query = Undef,
        rq_id = [], session_cookie = Some (sign_cookie sample_library ''sid''), rq_ip = [], rq_port = 0\<rparr>
      (sample_database\<lparr>sessions := [\<lparr>session_id = ''sid'', session_email = ''root@x'', expires_at = 99\<rparr>]\<rparr>))
    = Some ''root@x''"
proof -
  have c: "create_session ''sid'' \<lparr>s_email = ''root@x'', s_expires = 99\<rparr> sample_database
      = Inr (sample_database\<lparr>sessions := [\<lparr>session_id = ''sid'', session_email = ''root@x'', expires_at = 99\<rparr>]\<rparr>)"
    by (simp add: create_session_def db_create_def sample_database_def empty_database_def)
  have v: "db_valid (sessions sample_database)"
    by (simp add: db_valid_def sample_database_def empty_database_def)
  have k: "cookies_ok sample_library" by (simp add: cookies_ok_def sample_library_def starts_with_def)
  show ?thesis by (subst session_lifetime [OF k v c, where swept = 10, THEN conjunct1]) simp_all
qed

end
