(* ===== verification/Auth.thy ===== *)
theory Auth
  imports Sessions FormSchemas
begin

text \<open>
  Accounts and login: \<open>webui-fastify/src/auth/\<close> (\<open>util.ts\<close>, \<open>users.ts\<close>, \<open>login.ts\<close>, \<open>logout.ts\<close>,
  \<open>setup.ts\<close>, \<open>profile.ts\<close>, \<open>roles.ts\<close>) and \<open>webui-fastify/src/controllers/CtrlUser.ts\<close>.
  \<open>salt\<close> is what \<open>bcrypt.genSalt\<close> returns and \<open>uuid\<close> what \<open>uuidv4\<close> returns. A reply that sets or
  clears the session cookie carries that beside it.
\<close>

section \<open>Users\<close>

definition find_user :: "database \<Rightarrow> string \<Rightarrow> user option" where
  "find_user d e = first_row (sql_select (\<lambda>u. email u = e) (users d))"

definition check_auth :: "library \<Rightarrow> database \<Rightarrow> string \<Rightarrow> string \<Rightarrow> bool" where
  "check_auth cr d e pass =
     (case find_user d e of
        None \<Rightarrow> False
      | Some u \<Rightarrow> (case pw_hash u of None \<Rightarrow> False | Some h \<Rightarrow> bcrypt_compare cr pass h))"

definition count_users :: "database \<Rightarrow> nat" where
  "count_users d = length (rows (users d))"

text \<open>\<open>Users.email\<close> is unique.\<close>

definition create_user :: "library \<Rightarrow> string \<Rightarrow> string \<Rightarrow> string \<Rightarrow> string \<Rightarrow> database \<Rightarrow> database res" where
  "create_user cr salt e pass r d =
     (if \<exists>u \<in> set (rows (users d)). email u = e then Inl ''ER_DUP_ENTRY''
      else Inr (d\<lparr>users := sql_insert (\<lambda>i. \<lparr>user_id = i, email = e, pw_hash = Some (bcrypt_hash cr salt pass),
                                         role = r\<rparr>) (users d)\<rparr>))"

definition default_role :: string where
  "default_role = ''viewer''"

definition update_password :: "library \<Rightarrow> string \<Rightarrow> string \<Rightarrow> string \<Rightarrow> database \<Rightarrow> database" where
  "update_password cr salt e pass d =
     d\<lparr>users := sql_update (\<lambda>u. email u = e) (\<lambda>u. u\<lparr>pw_hash := Some (bcrypt_hash cr salt pass)\<rparr>) (users d)\<rparr>"

text \<open>The columns of a user that reach a template: never the hash.\<close>

record user_view =
  uv_id :: int
  uv_email :: string
  uv_role :: string

definition view_of :: "user \<Rightarrow> user_view" where
  "view_of u = \<lparr>uv_id = user_id u, uv_email = email u, uv_role = role u\<rparr>"

definition list_users :: "database \<Rightarrow> user_view list" where
  "list_users d = map view_of (rows (users d))"

definition get_user :: "database \<Rightarrow> jsnum \<Rightarrow> user_view option" where
  "get_user d i = map_option view_of (first_row (sql_select (\<lambda>u. num_is i (user_id u)) (users d)))"

definition get_user_role :: "database \<Rightarrow> string \<Rightarrow> string option" where
  "get_user_role d e = map_option role (find_user d e)"

definition update_user ::
  "library \<Rightarrow> string \<Rightarrow> jsnum \<Rightarrow> string \<Rightarrow> string option \<Rightarrow> string option \<Rightarrow> database \<Rightarrow> database res" where
  "update_user cr salt i e pass r d =
     (if (\<exists>u \<in> set (rows (users d)). num_is i (user_id u)) \<and> (\<exists>u \<in> set (rows (users d)). \<not> num_is i (user_id u) \<and> email u = e)
      then Inl ''ER_DUP_ENTRY''
      else Inr (d\<lparr>users := sql_update (\<lambda>u. num_is i (user_id u))
        (\<lambda>u. u\<lparr>email := e,
               pw_hash := (if truthy_str pass then Some (bcrypt_hash cr salt (the pass)) else pw_hash u),
               role := (if truthy_str r then the r else role u)\<rparr>) (users d)\<rparr>))"

definition delete_user :: "jsnum \<Rightarrow> database \<Rightarrow> database" where
  "delete_user i d = d\<lparr>users := sql_delete (\<lambda>u. num_is i (user_id u)) (users d)\<rparr>"

section \<open>Login and logout\<close>

datatype cookie_op = KeepCookie | SetCookie string | ClearCookie

definition login :: "library \<Rightarrow> int \<Rightarrow> string \<Rightarrow> request \<Rightarrow> database \<Rightarrow> (reply \<times> cookie_op) res \<times> database" where
  "login cr now uuid r d =
     (case auth_info_schema cr (rq_body r) of
        Inl is \<Rightarrow> (Inr (Redirect ''/login?msg=ValidationError'', KeepCookie), d)
      | Inr info \<Rightarrow>
          (if \<not> check_auth cr d (ai_email info) (ai_pass info)
           then (Inr (Redirect ''/login?msg=InvalidAuth'', KeepCookie), d)
           else (case create_session uuid \<lparr>s_email = ai_email info, s_expires = now + session_ttl_ms\<rparr> d of
               Inl e \<Rightarrow> (Inl e, d)
             | Inr d' \<Rightarrow> (Inr (Redirect ''/'', SetCookie (sign_cookie cr uuid)), d'))))"

definition logout :: "library \<Rightarrow> request \<Rightarrow> database \<Rightarrow> (reply \<times> cookie_op) \<times> database" where
  "logout cr r d =
     ((Redirect ''/'', ClearCookie),
      if truthy_str (session_id_of cr r) then delete_session (the (session_id_of cr r)) d else d)"

section \<open>First run\<close>

definition setup_form :: "database \<Rightarrow> reply" where
  "setup_form d = (if 0 < count_users d then Redirect ''/login'' else Page 200 ''forms/setup'' [])"

definition setup_submit :: "library \<Rightarrow> string \<Rightarrow> request \<Rightarrow> database \<Rightarrow> reply \<times> database" where
  "setup_submit cr salt r d =
     (if 0 < count_users d then (Redirect ''/login'', d)
      else (case setup_info_schema cr (rq_body r) of
          Inl is \<Rightarrow> (Page 200 ''forms/setup'' [(''error'', Str (zod_err cr is))], d)
        | Inr info \<Rightarrow>
            (case create_user cr salt (ai_email info) (ai_pass info) ''admin'' d of
               Inl e \<Rightarrow> (Page 200 ''forms/setup''
                          [(''error'', Str ''Could not create user (is the email already taken?)'')], d)
             | Inr d' \<Rightarrow> (Redirect ''/login?msg=created'', d'))))"

section \<open>The account page\<close>

definition profile_page :: "string \<Rightarrow> (string \<times> jsval) list \<Rightarrow> reply" where
  "profile_page e extra = Page 200 ''forms/profile'' ((''email'', Str e) # extra)"

definition profile_form :: "library \<Rightarrow> int \<Rightarrow> request \<Rightarrow> database \<Rightarrow> reply \<times> database" where
  "profile_form cr now r d =
     (case session_email_of cr now r d of (e, d') \<Rightarrow>
        if \<not> truthy_str e then (Redirect ''/login'', d') else (profile_page (the e) [], d'))"

definition profile_submit :: "library \<Rightarrow> int \<Rightarrow> string \<Rightarrow> request \<Rightarrow> database \<Rightarrow> reply \<times> database" where
  "profile_submit cr now salt r d =
     (case session_email_of cr now r d of (e, d') \<Rightarrow>
        if \<not> truthy_str e then (Redirect ''/login'', d')
        else (case change_password_schema (rq_body r) of
            Inl is \<Rightarrow> (profile_page (the e) [(''error'', Str (zod_err cr is))], d')
          | Inr pc \<Rightarrow>
              (if \<not> check_auth cr d' (the e) (pc_current pc)
               then (profile_page (the e) [(''error'', Str ''Current password is incorrect.'')], d')
               else (profile_page (the e) [(''success'', Str ''Password updated.'')],
                     update_password cr salt (the e) (pc_pass pc) d'))))"

section \<open>Roles\<close>

text \<open>\<open>requireAdmin\<close>: the reply that ends the request, or nothing for an administrator.\<close>

definition require_admin :: "library \<Rightarrow> int \<Rightarrow> request \<Rightarrow> database \<Rightarrow> reply option \<times> database" where
  "require_admin cr now r d =
     (case session_email_of cr now r d of (e, d') \<Rightarrow>
        if \<not> truthy_str e then (Some (Redirect ''/login''), d')
        else if get_user_role d' (the e) \<noteq> Some ''admin'' then
          (if wants_json r \<or> starts_with (rq_url r) ''/api/''
           then (Some (JsonReply 403 (Obj [(''error'', Str ''forbidden'')])), d')
           else (Some (Page 403 ''util/error'' [(''statusCode'', Num (Fin 403)),
                   (''message'', Str ''This action requires an administrator account.'')]), d'))
        else (None, d'))"

section \<open>User management\<close>

definition user_val :: "user_view \<Rightarrow> jsval" where
  "user_val u = Obj [(''id'', Num (Fin (of_int (uv_id u)))), (''email'', Str (uv_email u)), (''role'', Str (uv_role u))]"

definition user_form :: "int \<Rightarrow> string \<Rightarrow> jsval \<Rightarrow> string option \<Rightarrow> reply" where
  "user_form code act v err = Page code ''users/form''
     ([(''action'', Str act), (''data'', v)] @ (case err of None \<Rightarrow> [] | Some e \<Rightarrow> [(''error'', Str e)]))"

definition users_index :: "database \<Rightarrow> reply" where
  "users_index d = Page 200 ''users/index'' [(''data'', Arr (map user_val (list_users d)))]"

definition users_create :: reply where
  "users_create = user_form 200 ''Create'' (Obj [(''email'', Str [])]) None"

definition users_create_handle :: "library \<Rightarrow> string \<Rightarrow> request \<Rightarrow> database \<Rightarrow> reply \<times> database" where
  "users_create_handle cr salt r d =
     (case user_create_schema cr (rq_body r) of
        Inl is \<Rightarrow> (user_form 400 ''Create'' (rq_body r) (Some (zod_err cr is)), d)
      | Inr info \<Rightarrow>
          (case create_user cr salt (ai_email info) (ai_pass info) default_role d of
             Inl e \<Rightarrow> (user_form 400 ''Create'' (rq_body r) (Some ''Could not create user (is the email already taken?)''), d)
           | Inr d' \<Rightarrow> (Redirect ''/users'', d')))"

definition users_edit :: "request \<Rightarrow> database \<Rightarrow> reply" where
  "users_edit r d =
     (case get_user d (js_number (rq_id r)) of
        None \<Rightarrow> Redirect ''/users'' | Some u \<Rightarrow> user_form 200 ''Update'' (user_val u) None)"

definition users_edit_handle :: "library \<Rightarrow> string \<Rightarrow> request \<Rightarrow> database \<Rightarrow> reply \<times> database" where
  "users_edit_handle cr salt r d =
     (let i = js_number (rq_id r); echo = override (rq_body r) [(''id'', Num i)]
      in case user_edit_schema cr (rq_body r) of
           Inl is \<Rightarrow> (user_form 400 ''Update'' echo (Some (zod_err cr is)), d)
         | Inr info \<Rightarrow>
             (case update_user cr salt i (ai_email info) (if ai_pass info = [] then None else Some (ai_pass info)) None d of
                Inl e \<Rightarrow> (user_form 400 ''Update'' echo (Some ''Could not update user (is the email already taken?)''), d)
              | Inr d' \<Rightarrow> (Redirect ''/users'', d')))"

definition users_delete :: "request \<Rightarrow> database \<Rightarrow> reply" where
  "users_delete r d =
     (case get_user d (js_number (rq_id r)) of
        None \<Rightarrow> Redirect ''/users'' | Some u \<Rightarrow> Page 200 ''users/delete'' [(''data'', user_val u)])"

definition users_delete_handle :: "request \<Rightarrow> database \<Rightarrow> reply \<times> database" where
  "users_delete_handle r d =
     (if count_users d \<le> 1
      then (Page 400 ''users/delete''
              [(''data'', (case get_user d (js_number (rq_id r)) of None \<Rightarrow> Undef | Some u \<Rightarrow> user_val u)),
               (''error'', Str ''Cannot delete the last remaining user.'')], d)
      else (Redirect ''/users'', delete_user (js_number (rq_id r)) d))"

section \<open>Accounts stay well formed\<close>

definition accounts_ok :: "database \<Rightarrow> bool" where
  "accounts_ok d \<longleftrightarrow> keys_ok user_id (users d) \<and> distinct (map email (rows (users d)))"

lemma find_user_iff:
  assumes "accounts_ok d"
  shows "find_user d e = Some u \<longleftrightarrow> u \<in> set (rows (users d)) \<and> email u = e"
proof
  assume "find_user d e = Some u"
  then show "u \<in> set (rows (users d)) \<and> email u = e" by (auto simp: find_user_def dest: first_row_SomeD)
next
  assume u: "u \<in> set (rows (users d)) \<and> email u = e"
  have "find (\<lambda>u. email u = e) (rows (users d)) = Some u"
    by (rule find_unique) (use u assms in \<open>auto simp: accounts_ok_def distinct_map inj_on_def\<close>)
  then show "find_user d e = Some u" by (simp add: find_user_def sql_select_def first_row_filter)
qed

lemma create_user_ok: "accounts_ok d \<Longrightarrow> create_user cr salt e p r d = Inr d' \<Longrightarrow> accounts_ok d'"
  using users.insert_ok [of "users d" "\<lparr>user_id = 0, email = e, pw_hash = Some (bcrypt_hash cr salt p), role = r\<rparr>"]
  by (auto simp: create_user_def accounts_ok_def split: if_splits)

lemma update_password_ok: "accounts_ok d \<Longrightarrow> accounts_ok (update_password cr salt e p d)"
  using users.update_ok [of "users d" "\<lambda>u. u\<lparr>pw_hash := Some (bcrypt_hash cr salt p)\<rparr>" "\<lambda>u. email u = e"]
  by (simp add: accounts_ok_def update_password_def comp_def if_distrib cong: if_cong)

lemma delete_user_ok: "accounts_ok d \<Longrightarrow> accounts_ok (delete_user i d)"
  using users.delete_ok [of "users d" "\<lambda>u. num_is i (user_id u)"]
  by (auto simp: accounts_ok_def delete_user_def distinct_map intro: inj_on_subset)

lemma update_user_ok:
  assumes "accounts_ok d" "update_user cr salt i e p r d = Inr d'"
  shows "accounts_ok d'"
proof -
  let ?f = "\<lambda>u. u\<lparr>email := e, pw_hash := (if truthy_str p then Some (bcrypt_hash cr salt (the p)) else pw_hash u),
      role := (if truthy_str r then the r else role u)\<rparr>"
  let ?g = "\<lambda>u. if num_is i (user_id u) then ?f u else u"
  have d': "d' = d\<lparr>users := sql_update (\<lambda>u. num_is i (user_id u)) ?f (users d)\<rparr>"
    and free: "\<And>u v. u \<in> set (rows (users d)) \<Longrightarrow> num_is i (user_id u) \<Longrightarrow> v \<in> set (rows (users d)) \<Longrightarrow>
      \<not> num_is i (user_id v) \<Longrightarrow> email v \<noteq> e"
    using assms(2) by (auto simp: update_user_def split: if_splits)
  have k: "keys_ok user_id (users d')"
    using assms(1) users.update_ok [of "users d" ?f "\<lambda>u. num_is i (user_id u)"] by (simp add: accounts_ok_def d')
  have dist: "distinct (rows (users d))" and inj: "inj_on email (set (rows (users d)))"
    using assms(1) by (auto simp: accounts_ok_def distinct_map)
  have "inj_on (\<lambda>u. email (?g u)) (set (rows (users d)))"
  proof (rule inj_onI)
    fix u v assume u: "u \<in> set (rows (users d))" and v: "v \<in> set (rows (users d))" and e: "email (?g u) = email (?g v)"
    show "u = v"
    proof (cases "num_is i (user_id u)"; cases "num_is i (user_id v)")
      assume "num_is i (user_id u)" "num_is i (user_id v)"
      then have "user_id u = user_id v" by (rule num_is_unique)
      then show ?thesis using assms(1) users.key_unique [OF _ u v] by (simp add: accounts_ok_def)
    qed (use u v e free inj in \<open>auto dest: inj_onD\<close>)
  qed
  then have "distinct (map email (rows (users d')))"
    using dist by (simp add: d' distinct_map comp_def)
  with k show ?thesis by (simp add: accounts_ok_def)
qed

section \<open>Properties\<close>

text \<open>C22. Login opens a session exactly for a known account with the right password: when the form is well formed,
  an account of that e-mail exists, has a hash and the password verifies against it, a session for that
  e-mail is stored until eight hours from now and its signed id is the cookie; in every other case no
  cookie is set and the database is as it was.\<close>

theorem login_iff_authenticated:
  assumes "accounts_ok d" "\<And>s. s \<in> set (sessions d) \<Longrightarrow> session_id s \<noteq> uuid"
  shows "login cr now uuid r d =
    (case auth_info_schema cr (rq_body r) of
       Inl is \<Rightarrow> (Inr (Redirect ''/login?msg=ValidationError'', KeepCookie), d)
     | Inr info \<Rightarrow>
         (if \<exists>u \<in> set (rows (users d)). \<exists>h. email u = ai_email info \<and> pw_hash u = Some h \<and> bcrypt_compare cr (ai_pass info) h
          then (Inr (Redirect ''/'', SetCookie (sign_cookie cr uuid)),
                d\<lparr>sessions := sessions d @ [\<lparr>session_id = uuid, session_email = ai_email info,
                   expires_at = now + 28800000\<rparr>]\<rparr>)
          else (Inr (Redirect ''/login?msg=InvalidAuth'', KeepCookie), d)))"
proof -
  have auth: "check_auth cr d e p \<longleftrightarrow> (\<exists>u \<in> set (rows (users d)). \<exists>h. email u = e \<and> pw_hash u = Some h \<and> bcrypt_compare cr p h)"
    for e p
  proof (cases "find_user d e")
    case None
    then have "\<not> (\<exists>u \<in> set (rows (users d)). email u = e)"
      using find_user_iff [OF assms(1), of e] by auto
    with None show ?thesis by (auto simp: check_auth_def)
  next
    case (Some u)
    have "v = u" if "v \<in> set (rows (users d))" "email v = e" for v
    proof -
      have "find_user d e = Some v" using that find_user_iff [OF assms(1)] by blast
      with Some show ?thesis by simp
    qed
    moreover have "u \<in> set (rows (users d)) \<and> email u = e" using Some find_user_iff [OF assms(1)] by blast
    ultimately have "(\<exists>v \<in> set (rows (users d)). \<exists>h. email v = e \<and> pw_hash v = Some h \<and> bcrypt_compare cr p h)
        \<longleftrightarrow> (\<exists>h. pw_hash u = Some h \<and> bcrypt_compare cr p h)" by metis
    with Some show ?thesis by (simp add: check_auth_def split: option.split)
  qed
  have fresh: "\<not> (\<exists>s \<in> set (sessions d). session_id s = uuid)" using assms(2) by auto
  show ?thesis
    by (cases "auth_info_schema cr (rq_body r)")
      (use fresh in \<open>simp_all add: login_def auth create_session_def db_create_def session_ttl_ms_def\<close>)
qed

text \<open>First-run setup is a one-time door: while no account exists an accepted form creates exactly one account,
  an administrator with the given e-mail; from then on, whatever is posted, setup redirects to the login
  page and changes nothing.\<close>

lemma setup_only_once:
  "(count_users d > 0 \<longrightarrow> setup_submit cr salt r d = (Redirect ''/login'', d))
   \<and> (\<forall>rep d'. count_users d = 0 \<longrightarrow> setup_submit cr salt r d = (rep, d') \<longrightarrow> d' \<noteq> d \<longrightarrow>
        (\<exists>info. setup_info_schema cr (rq_body r) = Inr info \<and> rep = Redirect ''/login?msg=created''
          \<and> list_users d' = [\<lparr>uv_id = next_id (users d), uv_email = ai_email info, uv_role = ''admin''\<rparr>]
          \<and> (\<forall>r' salt'. setup_submit cr salt' r' d' = (Redirect ''/login'', d'))))"
  by (auto simp: setup_submit_def create_user_def count_users_def list_users_def view_of_def split: sum.splits if_splits)

text \<open>What the handlers of user management and the account page may do to the accounts.\<close>

datatype user_action = Create | Edit | Delete | ChangePassword

definition user_management :: "library \<Rightarrow> int \<Rightarrow> string \<Rightarrow> user_action \<Rightarrow> request \<Rightarrow> database \<Rightarrow> reply \<times> database" where
  "user_management cr now salt act r d =
     (case act of
        Create \<Rightarrow> users_create_handle cr salt r d
      | Edit \<Rightarrow> users_edit_handle cr salt r d
      | Delete \<Rightarrow> users_delete_handle r d
      | ChangePassword \<Rightarrow> profile_submit cr now salt r d)"

lemma session_email_users: "users (snd (session_email_of cr now r d)) = users d"
  by (auto simp: session_email_of_def get_session_def split: prod.split)

lemma delete_one:
  assumes "distinct (map user_id us)"
  shows "length us \<le> Suc (length (filter (\<lambda>u. \<not> num_is i (user_id u)) us))"
  using assms
proof (induction us)
  case (Cons u us)
  show ?case
  proof (cases "num_is i (user_id u)")
    case True
    have "\<not> num_is i (user_id v)" if "v \<in> set us" for v
    proof
      assume "num_is i (user_id v)"
      then have "user_id v = user_id u" using True by (rule num_is_unique)
      with that have "user_id u \<in> user_id ` set us" by (metis imageI)
      with Cons.prems show False by simp
    qed
    then have "filter (\<lambda>u. \<not> num_is i (user_id u)) us = us" by (simp add: filter_id_conv)
    with True show ?thesis by simp
  next
    case False
    with Cons show ?thesis by simp
  qed
qed simp

text \<open>Accounts that remain keep their role; one that appears is a viewer.\<close>

definition roles_kept :: "user table \<Rightarrow> user table \<Rightarrow> bool" where
  "roles_kept t t' \<longleftrightarrow> (\<forall>v \<in> set (rows t').
     (\<exists>u \<in> set (rows t). user_id u = user_id v \<and> role u = role v) \<or> (user_id v = next_id t \<and> role v = ''viewer''))"

lemma roles_kept_same [simp]: "roles_kept t t"
  by (auto simp: roles_kept_def)

lemma roles_kept_update:
  "(\<And>u. user_id (f u) = user_id u \<and> role (f u) = role u) \<Longrightarrow> roles_kept t (sql_update P f t)"
  by (auto simp: roles_kept_def split: if_splits)

lemma roles_kept_delete: "roles_kept t (sql_delete P t)"
  by (auto simp: roles_kept_def)

lemma roles_kept_insert: "roles_kept t (sql_insert (\<lambda>i. \<lparr>user_id = i, email = e, pw_hash = h, role = ''viewer''\<rparr>) t)"
  by (auto simp: roles_kept_def)

definition safe_step :: "database \<Rightarrow> database \<Rightarrow> bool" where
  "safe_step d d' \<longleftrightarrow> accounts_ok d' \<and> 1 \<le> count_users d' \<and> roles_kept (users d) (users d')"

lemma create_safe:
  assumes "accounts_ok d" "create_user cr salt m p default_role d = Inr e"
  shows "safe_step d e"
  using create_user_ok [OF assms] assms(2)
  by (auto simp: safe_step_def create_user_def count_users_def default_role_def roles_kept_insert split: if_splits)

lemma update_safe:
  assumes "accounts_ok d" "1 \<le> count_users d" "update_user cr salt i m p None d = Inr e"
  shows "safe_step d e"
  using update_user_ok [OF assms(1,3)] assms(2,3)
  by (auto simp: safe_step_def update_user_def count_users_def roles_kept_update split: if_splits)

lemma delete_safe:
  assumes "accounts_ok d" "1 < count_users d"
  shows "safe_step d (delete_user i d)"
  using delete_user_ok [OF assms(1), of i] delete_one [of "rows (users d)" i] assms
  by (simp add: safe_step_def delete_user_def count_users_def roles_kept_delete accounts_ok_def keys_ok_def)

lemma password_safe:
  assumes "accounts_ok d" "1 \<le> count_users d"
  shows "safe_step d (update_password cr salt m p d)"
  using update_password_ok [OF assms(1), of cr salt m p] assms(2)
  by (simp add: safe_step_def update_password_def count_users_def roles_kept_update)

lemma safe_step_cong: "users d = users e \<Longrightarrow> safe_step d f \<Longrightarrow> safe_step e f"
  by (simp add: safe_step_def)

lemma safe_step_users: "accounts_ok d \<Longrightarrow> 1 \<le> count_users d \<Longrightarrow> users e = users d \<Longrightarrow> safe_step d e"
  by (simp add: safe_step_def accounts_ok_def count_users_def)

text \<open>C25. User management can neither make an administrator nor empty the console: whatever is posted, the accounts
  stay well formed, every account that remains has the role it had, an account that appears is a viewer,
  and at least one account is left, so first-run setup never reopens.\<close>

theorem user_management_safe:
  assumes "accounts_ok d" "count_users d \<ge> 1"
  shows "safe_step d (snd (user_management cr now salt act r d))"
proof (cases act)
  case Create
  then show ?thesis using create_safe [OF assms(1)] safe_step_users [OF assms]
    by (simp add: user_management_def users_create_handle_def split: sum.split)
next
  case Edit
  then show ?thesis using update_safe [OF assms] safe_step_users [OF assms]
    by (simp add: user_management_def users_edit_handle_def Let_def split: sum.split)
next
  case Delete
  then show ?thesis using delete_safe [OF assms(1)] safe_step_users [OF assms]
    by (simp add: user_management_def users_delete_handle_def)
next
  case ChangePassword
  obtain e d1 where s: "session_email_of cr now r d = (e, d1)" by (cases "session_email_of cr now r d")
  then have u: "users d1 = users d" using session_email_users [of cr now r d] by simp
  then have "accounts_ok d1" "1 \<le> count_users d1" using assms by (simp_all add: accounts_ok_def count_users_def)
  then have "safe_step d (update_password cr salt m p d1)" for m p
    using safe_step_cong [OF u password_safe] by blast
  then show ?thesis using s safe_step_users [OF assms u] ChangePassword
    by (simp add: user_management_def profile_submit_def split: sum.split)
qed

lemma sample_accounts: "accounts_ok sample_database" "count_users sample_database \<ge> 1"
  by (simp_all add: accounts_ok_def keys_ok_def count_users_def sample_database_def empty_database_def)

definition sample_form :: "string option \<Rightarrow> jsval \<Rightarrow> request" where
  "sample_form cookie b = \<lparr>rq_method = ''POST'', rq_url = ''/'', headers = (\<lambda>_. None), raw_body = [], rq_body = b,
     rq_query = Undef, rq_id = ''1'', session_cookie = cookie, rq_ip = ''10.0.0.1'', rq_port = 4000\<rparr>"

lemma user_management_safe_witness:
  "safe_step sample_database (snd (user_management sample_library 5 ''salt'' Delete (sample_form None Undef) sample_database))"
  by (rule user_management_safe [OF sample_accounts])

lemma live_session:
  assumes "db_valid t"
  shows "fst (db_get now i t) = Some x \<longleftrightarrow>
    (\<exists>s \<in> set t. session_id s = i \<and> now < expires_at s \<and> x = \<lparr>s_email = session_email s, s_expires = expires_at s\<rparr>)"
proof -
  have "find (\<lambda>r. session_id r = i \<and> now < expires_at r) t = Some s \<longleftrightarrow> s \<in> set t \<and> session_id s = i \<and> now < expires_at s" for s
  proof
    show "find (\<lambda>r. session_id r = i \<and> now < expires_at r) t = Some s \<Longrightarrow> s \<in> set t \<and> session_id s = i \<and> now < expires_at s"
      by (auto dest: find_SomeD)
    show "s \<in> set t \<and> session_id s = i \<and> now < expires_at s \<Longrightarrow> find (\<lambda>r. session_id r = i \<and> now < expires_at r) t = Some s"
      by (rule find_unique) (use assms in \<open>auto simp: db_valid_def distinct_map inj_on_def\<close>)
  qed
  then show ?thesis by (auto simp: db.lookup_live [OF assms] db_live_def)
qed

lemma admin_role_iff:
  assumes "accounts_ok d"
  shows "get_user_role d e = Some ''admin'' \<longleftrightarrow> (\<exists>u \<in> set (rows (users d)). email u = e \<and> role u = ''admin'')"
proof -
  have "get_user_role d e = Some ''admin'' \<longleftrightarrow> (\<exists>u. find_user d e = Some u \<and> role u = ''admin'')"
    by (cases "find_user d e") (auto simp: get_user_role_def)
  then show ?thesis using find_user_iff [OF assms, of e] by blast
qed

text \<open>C21. The administrator gate fails closed: it lets a request through exactly when its cookie resolves to a live
  session of an existing account whose role is \<open>admin\<close>.\<close>

theorem require_admin_iff:
  assumes "accounts_ok d" "db_valid (sessions d)"
  shows "fst (require_admin cr now r d) = None \<longleftrightarrow>
    (\<exists>i u. session_id_of cr r = Some i \<and> i \<noteq> [] \<and> u \<in> set (rows (users d)) \<and> role u = ''admin'' \<and> email u \<noteq> []
       \<and> (\<exists>s \<in> set (sessions d). session_id s = i \<and> session_email s = email u \<and> now < expires_at s))"
proof -
  note live = live_session [OF assms(2)] and role = admin_role_iff [OF assms(1)]
  have rc: "get_user_role (d\<lparr>sessions := rs\<rparr>) e = get_user_role d e" for rs e
    by (simp add: get_user_role_def find_user_def)
  show ?thesis
  proof (cases "session_id_of cr r")
    case None
    then show ?thesis by (simp add: require_admin_def session_email_of_def)
  next
    case (Some i)
    show ?thesis
    proof (cases "i = [] \<or> fst (db_get now i (sessions d)) = None")
      case True
      then have "\<not> (\<exists>s \<in> set (sessions d). session_id s = i \<and> now < expires_at s) \<or> i = []"
        using live [of now i] by (metis option.distinct(1))
      with True Some show ?thesis
        by (auto simp: require_admin_def session_email_of_def get_session_def case_prod_beta)
    next
      case False
      then obtain x where x: "fst (db_get now i (sessions d)) = Some x" by auto
      obtain s where s: "s \<in> set (sessions d)" "session_id s = i" "now < expires_at s" "x = \<lparr>s_email = session_email s, s_expires = expires_at s\<rparr>"
        using x live by blast
      have u: "s' = s" if "s' \<in> set (sessions d)" "session_id s' = i" for s'
        using that s(1,2) assms(2) by (auto simp: db_valid_def distinct_map inj_on_def)
      have "fst (require_admin cr now r d) = None \<longleftrightarrow> session_email s \<noteq> [] \<and> get_user_role d (session_email s) = Some ''admin''"
        using Some False x s(4) by (simp add: require_admin_def session_email_of_def get_session_def case_prod_beta rc)
      also have "\<dots> \<longleftrightarrow> (\<exists>u \<in> set (rows (users d)). email u = session_email s \<and> role u = ''admin'' \<and> email u \<noteq> [])"
        using role by auto
      also have "\<dots> \<longleftrightarrow> (\<exists>u. u \<in> set (rows (users d)) \<and> role u = ''admin'' \<and> email u \<noteq> []
         \<and> (\<exists>s \<in> set (sessions d). session_id s = i \<and> session_email s = email u \<and> now < expires_at s))"
        using s(1,2,3) u by metis
      finally show ?thesis using Some False by simp
    qed
  qed
qed

lemma require_admin_iff_witness:
  "fst (require_admin sample_library 50 (sample_form (Some (sign_cookie sample_library ''sid'')) Undef)
      (sample_database\<lparr>sessions := [\<lparr>session_id = ''sid'', session_email = ''root@x'', expires_at = 99\<rparr>]\<rparr>)) = None"
proof -
  let ?d = "sample_database\<lparr>sessions := [\<lparr>session_id = ''sid'', session_email = ''root@x'', expires_at = 99\<rparr>]\<rparr>"
  have "accounts_ok ?d" "db_valid (sessions ?d)"
    using sample_accounts(1) by (simp_all add: accounts_ok_def db_valid_def)
  then have "fst (require_admin sample_library 50 (sample_form (Some (sign_cookie sample_library ''sid'')) Undef) ?d) = None
      \<longleftrightarrow> (\<exists>u. u \<in> set (rows (users ?d)) \<and> role u = ''admin'' \<and> email u \<noteq> [] \<and> ''root@x'' = email u)"
    by (subst require_admin_iff)
      (simp_all add: session_id_of_def sample_form_def sample_library_def starts_with_def)
  moreover have "\<lparr>user_id = 1, email = ''root@x'', pw_hash = Some ''$2b$secret'', role = ''admin''\<rparr> \<in> set (rows (users ?d))"
    by (simp add: sample_database_def)
  ultimately show ?thesis by force
qed

lemma login_iff_authenticated_witness:
  "login sample_library 7 ''sid'' (sample_form None (Obj [(''email'', Str ''root@x''), (''pass'', Str ''not right'')])) sample_database
    = (Inr (Redirect ''/login?msg=InvalidAuth'', KeepCookie), sample_database)"
proof -
  have f: "auth_info_schema sample_library (Obj [(''email'', Str ''root@x''), (''pass'', Str ''not right'')])
      = Inr \<lparr>ai_email = ''root@x'', ai_pass = ''not right''\<rparr>"
    by code_simp
  have "session_id s \<noteq> ''sid''" if "s \<in> set (sessions sample_database)" for s
    using that by (simp add: sample_database_def empty_database_def)
  from login_iff_authenticated [OF sample_accounts(1) this, of sample_library 7
      "sample_form None (Obj [(''email'', Str ''root@x''), (''pass'', Str ''not right'')])"]
  show ?thesis
    using f by (simp add: sample_form_def) (simp add: sample_database_def sample_library_def)
qed

lemma setup_only_once_witness:
  "setup_submit sample_library ''salt'' (sample_form None Undef) sample_database = (Redirect ''/login'', sample_database)"
  using setup_only_once [of sample_database sample_library "''salt''" "sample_form None Undef"] sample_accounts(2) by simp

end
