(* ===== verification/Gateways.thy ===== *)
theory Gateways
  imports Rows Auth
begin

text \<open>
  \<open>webui-fastify/src/controllers/CtrlGateway.ts\<close>: the fleet pages, approval, renaming, assignments, deployment,
  rollback and removal of a gateway. A handler returns its reply, the database it leaves and the
  listeners it notified.
\<close>

type_synonym notified = "outcome \<times> nat list"

definition quiet :: "reply \<Rightarrow> database \<Rightarrow> notified" where
  "quiet rep d = ((Inr rep, d), [])"

section \<open>Requests\<close>

text \<open>\<open>gatewayId\<close>: the route parameter as a positive integer, or \<open>null\<close>.\<close>

definition route_gateway :: "request \<Rightarrow> int option" where
  "route_gateway r = positive_int (js_number (rq_id r))"

definition bad_id :: reply where
  "bad_id = error_page 400 ''That is not a valid gateway id.''"

definition settable_status :: "string list" where
  "settable_status = [''approved'', ''rejected'', ''revoked'']"

definition gateway_url :: "int \<Rightarrow> string" where
  "gateway_url i = ''/gateways/'' @ num_to_string (Fin (of_int i))"

text \<open>\<open>(await sessionEmail(request)) ?? "unknown"\<close>.\<close>

definition who_is :: "library \<Rightarrow> int \<Rightarrow> request \<Rightarrow> database \<Rightarrow> string \<times> database" where
  "who_is cr now r d = (case session_email_of cr now r d of (e, d') \<Rightarrow> (nullish e ''unknown'', d'))"

definition find_gateway :: "database \<Rightarrow> int \<Rightarrow> gateway option" where
  "find_gateway d i = first_row (sql_select (\<lambda>g. gw_pk g = i) (gateways d))"

section \<open>The pages\<close>

text \<open>\<open>versionById.get(id) ?? null\<close>, where a missing or zero id is \<open>null\<close>.\<close>

definition version_label :: "(int \<times> int) list \<Rightarrow> int option \<Rightarrow> jsval" where
  "version_label byId i =
     (case i of None \<Rightarrow> Null | Some n \<Rightarrow> if n = 0 then Null else id_val (map_of (rev byId) n))"

definition is_silent :: "gateway \<Rightarrow> int \<Rightarrow> bool" where
  "is_silent g now \<longleftrightarrow> gw_status g = ''approved'' \<and> is_stale (last_seen g) now"

definition snapshot_label :: "(int \<times> gateway_snapshot) list \<Rightarrow> int \<Rightarrow> jsval" where
  "snapshot_label snaps i = (case map_of (rev snaps) i of None \<Rightarrow> Null | Some s \<Rightarrow> snapshot_val s)"

definition gateways_index :: "library \<Rightarrow> int \<Rightarrow> database \<Rightarrow> reply" where
  "gateways_index cr now d =
     (let gs = order_by cr (\<lambda>g. Some (gw_status g)) (order_by cr gw_name (rows (gateways d)));
          versionById = map (\<lambda>v. (version_pk v, version v)) (rows (config_versions d));
          snapshots = metrics_for d (map gw_pk gs)
      in Page 200 ''gateways/index'' [(''data'', Arr (map (\<lambda>g. Obj (gateway_columns g @
           [(''desired_version'', version_label versionById (desired_version_id g)),
            (''applied_version'', version_label versionById (applied_version_id g)),
            (''stale'', Bool (is_silent g now)),
            (''metrics'', snapshot_label snapshots (gw_pk g))])) gs))])"

text \<open>\<open>selectedGroups\<close> is a set: its values in insertion order. \<open>historyVersion\<close> is a function of the template; what it
  says of each row of the history is given instead.\<close>

definition gateway_details :: "library \<Rightarrow> int \<Rightarrow> request \<Rightarrow> database \<Rightarrow> reply" where
  "gateway_details cr now r d =
     (case route_gateway r of
        None \<Rightarrow> bad_id
      | Some i \<Rightarrow>
          (case find_gateway d i of
             None \<Rightarrow> Redirect ''/gateways''
           | Some g \<Rightarrow>
               (let assignments = sql_select (\<lambda>a. assign_gateway a = i) (gateway_assignments d);
                    profiles = order_by cr (\<lambda>p. Some (profile_kind p)) (order_by cr (\<lambda>p. Some (profile_name p)) (rows (config_profiles d)));
                    groups = order_by cr group_name (rows (relay_groups d));
                    credentialSetList = order_by cr (\<lambda>s. Some (set_name s)) (rows (credential_sets d));
                    versions = list_versions d i;
                    history = take 20 (sort_key (\<lambda>h. - deployment_pk h) (sql_select (\<lambda>h. deployment_gateway h = i) (config_deployments d)));
                    selected = (\<lambda>kind. id_val (Option.bind (find (\<lambda>a. assign_kind a = kind) assignments) profile_id));
                    versionById = map (\<lambda>v. (vs_id v, vs_version v)) versions
                in Page 200 ''gateways/details''
                  [(''data'', Obj (gateway_columns g)),
                   (''metrics'', snapshot_label (metrics_for d [gw_pk g]) (gw_pk g)),
                   (''stale'', Bool (is_silent g now)),
                   (''desired_version'', version_label versionById (desired_version_id g)),
                   (''applied_version'', version_label versionById (applied_version_id g)),
                   (''kinds'', Arr (map Str profile_kinds)),
                   (''profiles'', Arr (map profile_val profiles)),
                   (''groups'', Arr (map group_val groups)),
                   (''credentialSetList'', Arr (map credential_set_val credentialSetList)),
                   (''selectedProfile'', Obj (map (\<lambda>k. (k, selected k)) profile_kinds)),
                   (''selectedGroups'', Arr (map id_val (rev (remdups (rev (map relay_group_id
                       (filter (\<lambda>a. assign_kind a = ''relaygroup'') assignments))))))),
                   (''selectedCredentialSet'',
                     id_val (Option.bind (find (\<lambda>a. assign_kind a = ''credentialset'') assignments) credential_set_id)),
                   (''versions'', Arr (map version_summary_val versions)),
                   (''history'', Arr (map deployment_val history)),
                   (''historyVersion'', Arr (map (\<lambda>h. num_of (nullish (map_of (rev versionById) (version_id h)) (version_id h))) history))])))"

section \<open>Status and name\<close>

definition set_status :: "library \<Rightarrow> int \<Rightarrow> bus \<Rightarrow> request \<Rightarrow> database \<Rightarrow> notified" where
  "set_status cr now b r d =
     (case route_gateway r of
        None \<Rightarrow> quiet bad_id d
      | Some i \<Rightarrow>
          (case read_prop (rq_body r) ''status'' of
             Inl e \<Rightarrow> ((Inl e, d), [])
           | Inr status \<Rightarrow>
               (if \<not> (\<exists>s \<in> set settable_status. status = Str s)
                then quiet (error_page 400 (''Unknown gateway status '' @ nullish (json_stringify status) ''undefined'' @ ''.'')) d
                else (case who_is cr now r d of (who, d1) \<Rightarrow>
                  (let s = js_string status;
                       d2 = d1\<lparr>gateways := sql_update (\<lambda>g. gw_pk g = i)
                              (\<lambda>g. if s = ''approved'' then g\<lparr>gw_status := s, approved_by := Some who, approved_at := Some now\<rparr>
                                   else g\<lparr>gw_status := s\<rparr>) (gateways d1)\<rparr>
                   in ((Inr (Redirect (gateway_url i)), d2), notify_gateway b i))))))"

definition rename_gateway :: "request \<Rightarrow> database \<Rightarrow> outcome" where
  "rename_gateway r d =
     (case route_gateway r of
        None \<Rightarrow> (Inr bad_id, d)
      | Some i \<Rightarrow>
          (case read_prop (rq_body r) ''name'' of
             Inl e \<Rightarrow> (Inl e, d)
           | Inr v \<Rightarrow>
               (let name = js_slice 255 (js_trim (text_or v []))
                in (Inr (Redirect (gateway_url i)),
                    if name = [] then d
                    else d\<lparr>gateways := sql_update (\<lambda>g. gw_pk g = i) (\<lambda>g. g\<lparr>gw_name := Some name\<rparr>) (gateways d)\<rparr>))))"

section \<open>Assignments\<close>

text \<open>The profiles the form wants, slot by slot.\<close>

definition wanted_profiles :: "jsval \<Rightarrow> (string \<times> int) list" where
  "wanted_profiles body = List.map_filter
     (\<lambda>kind. map_option (Pair kind) (positive_int (js_to_number (get_prop body (''profile_'' @ kind))))) profile_kinds"

definition wanted_groups :: "jsval \<Rightarrow> int list" where
  "wanted_groups body =
     (let rawGroups = get_prop body ''relay_groups''
      in List.map_filter (\<lambda>v. positive_int (js_to_number v))
           (case rawGroups of Arr vs \<Rightarrow> vs | Undef \<Rightarrow> [] | v \<Rightarrow> [v]))"

definition assignment_rows :: "int \<Rightarrow> jsval \<Rightarrow> gateway_assignment list" where
  "assignment_rows i body =
     map (\<lambda>(kind, p). \<lparr>assign_pk = 0, assign_gateway = i, assign_kind = kind, profile_id = Some p,
                        relay_group_id = None, credential_set_id = None\<rparr>) (wanted_profiles body)
     @ map (\<lambda>g. \<lparr>assign_pk = 0, assign_gateway = i, assign_kind = ''relaygroup'', profile_id = None,
                  relay_group_id = Some g, credential_set_id = None\<rparr>) (wanted_groups body)
     @ (case positive_int (js_to_number (get_prop body ''credential_set_id'')) of
          None \<Rightarrow> []
        | Some s \<Rightarrow> [\<lparr>assign_pk = 0, assign_gateway = i, assign_kind = ''credentialset'', profile_id = None,
                       relay_group_id = None, credential_set_id = Some s\<rparr>])"

fun check_wanted :: "(int \<times> string) list \<Rightarrow> (string \<times> int) list \<Rightarrow> unit res" where
  "check_wanted kindById [] = Inr ()"
| "check_wanted kindById ((kind, p) # ws) =
     (case map_of (rev kindById) p of
        None \<Rightarrow> Inl (''no such configuration profile: '' @ num_to_string (Fin (of_int p)))
      | Some actual \<Rightarrow>
          (if actual \<noteq> kind
           then Inl (''profile '' @ num_to_string (Fin (of_int p)) @ '' is a \"'' @ actual @ ''\" profile and cannot be assigned to the \"''
                       @ kind @ ''\" slot'')
           else check_wanted kindById ws))"

definition insert_all :: "(int \<Rightarrow> 'r \<Rightarrow> 'r) \<Rightarrow> 'r list \<Rightarrow> 'r table \<Rightarrow> 'r table" where
  "insert_all put rs t = foldl (\<lambda>t r. sql_insert (\<lambda>i. put i r) t) t rs"

definition save_in_transaction :: "int \<Rightarrow> jsval \<Rightarrow> database \<Rightarrow> (unit \<times> database) res" where
  "save_in_transaction i body d =
     (let wanted = wanted_profiles body;
          found = sql_select (\<lambda>p. profile_pk p \<in> set (map snd wanted)) (config_profiles d)
      in res_bind (if wanted = [] then Inr () else check_wanted (map (\<lambda>p. (profile_pk p, profile_kind p)) found) wanted) (\<lambda>_.
         Inr ((), d\<lparr>gateway_assignments := insert_all (\<lambda>k a. a\<lparr>assign_pk := k\<rparr>) (assignment_rows i body)
                      (sql_delete (\<lambda>a. assign_gateway a = i) (gateway_assignments d))\<rparr>)))"

definition save_assignments :: "request \<Rightarrow> database \<Rightarrow> outcome" where
  "save_assignments r d =
     (case route_gateway r of
        None \<Rightarrow> (Inr bad_id, d)
      | Some i \<Rightarrow>
          (if rq_body r = Undef \<or> rq_body r = Null then (Inl ''TypeError'', d)
           else (case run_tx (save_in_transaction i (rq_body r)) d of
               (Inl e, d') \<Rightarrow> (Inr (error_page 400 (''Could not save assignments: '' @ e)), d')
             | (Inr _, d') \<Rightarrow> (Inr (Redirect (gateway_url i)), d'))))"

section \<open>Deploying and rolling back\<close>

definition deploy_handler :: "library \<Rightarrow> env \<Rightarrow> key_cache \<Rightarrow> int \<Rightarrow> bus \<Rightarrow> request \<Rightarrow> database \<Rightarrow> notified" where
  "deploy_handler cr env cache now b r d =
     (case route_gateway r of
        None \<Rightarrow> quiet bad_id d
      | Some i \<Rightarrow>
          (case read_prop (rq_body r) ''note'' of
             Inl e \<Rightarrow> ((Inl e, d), [])
           | Inr v \<Rightarrow>
               (case who_is cr now r d of (who, d1) \<Rightarrow>
                  (let memo = js_slice 255 (text_or v [])
                   in case deploy_bundle cr env cache now b i who (if memo = [] then None else Some memo) d1 of
                        (Inl e, d2, ls) \<Rightarrow> ((Inr (error_page 400 (''Could not deploy: '' @ e)), d2), ls)
                      | (Inr _, d2, ls) \<Rightarrow> ((Inr (Redirect (gateway_url i)), d2), ls)))))"

text \<open>\<open>rollbackTo\<close> takes a number: one that is not an integer names no version.\<close>

definition rollback_number :: "bus \<Rightarrow> int \<Rightarrow> jsnum \<Rightarrow> string \<Rightarrow> database \<Rightarrow> int res \<times> database \<times> nat list" where
  "rollback_number b i x who d =
     (if is_integer x then rollback_to b i (to_int x) who d
      else (Inl ''no such configuration version for this gateway'', d, []))"

definition rollback_handler :: "library \<Rightarrow> int \<Rightarrow> bus \<Rightarrow> request \<Rightarrow> database \<Rightarrow> notified" where
  "rollback_handler cr now b r d =
     (case route_gateway r of
        None \<Rightarrow> quiet bad_id d
      | Some i \<Rightarrow>
          (case read_prop (rq_body r) ''version_id'' of
             Inl e \<Rightarrow> ((Inl e, d), [])
           | Inr v \<Rightarrow>
               (case who_is cr now r d of (who, d1) \<Rightarrow>
                  (case rollback_number b i (js_to_number v) who d1 of
                     (Inl e, d2, ls) \<Rightarrow> ((Inr (error_page 400 (''Could not roll back: '' @ e)), d2), ls)
                   | (Inr _, d2, ls) \<Rightarrow> ((Inr (Redirect (gateway_url i)), d2), ls)))))"

section \<open>Removal\<close>

definition delete_page :: "request \<Rightarrow> database \<Rightarrow> reply" where
  "delete_page r d =
     (case route_gateway r of
        None \<Rightarrow> bad_id
      | Some i \<Rightarrow> (case find_gateway d i of
            None \<Rightarrow> Redirect ''/gateways''
          | Some g \<Rightarrow> Page 200 ''gateways/delete'' [(''data'', Obj (gateway_columns g))]))"

definition forget_gateway :: "int \<Rightarrow> database \<Rightarrow> database" where
  "forget_gateway i d = d\<lparr>
     config_deployments := sql_delete (\<lambda>x. deployment_gateway x = i) (config_deployments d),
     config_versions := sql_delete (\<lambda>v. version_gateway v = i) (config_versions d),
     gateway_assignments := sql_delete (\<lambda>a. assign_gateway a = i) (gateway_assignments d),
     gateways := sql_delete (\<lambda>g. gw_pk g = i) (gateways d)\<rparr>"

definition delete_handler :: "request \<Rightarrow> database \<Rightarrow> reply \<times> database" where
  "delete_handler r d =
     (case route_gateway r of
        None \<Rightarrow> (bad_id, d)
      | Some i \<Rightarrow> (Redirect ''/gateways'', forget_gateway i d))"

end
