(* ===== verification/Search.thy ===== *)
theory Search
  imports Rows FormSchemas JsonText
begin

text \<open>
  Log search and the dashboard: \<open>webui-fastify/src/validation/search.ts\<close>, \<open>webui-fastify/src/logservice.ts\<close>,
  \<open>webui-fastify/src/routes/api.ts\<close>, \<open>routes/log.ts\<close> and \<open>routes/root.ts\<close>. The log service is the other end of
  \<open>fetch\<close>, a parameter from the request sent to what came of it: an invalid URL, a failure with the name and
  message of its error, or an answer with a status and a body.
\<close>

section \<open>The search request\<close>

definition operators :: "string list" where
  "operators = [''is'', ''='', ''begins'', ''contains'', ''ends'', ''between'', ''>'', ''>='', ''<'', ''<='', ''less'', ''more'']"

text \<open>\<open>z.union\<close>: the first alternative that accepts, else one issue.\<close>

definition z_union :: "(jsval \<Rightarrow> 'a parsed) \<Rightarrow> (jsval \<Rightarrow> 'a parsed) \<Rightarrow> jsval \<Rightarrow> 'a parsed" where
  "z_union s t v = (case s v of Inr x \<Rightarrow> Inr x | Inl _ \<Rightarrow>
     (case t v of Inr x \<Rightarrow> Inr x | Inl _ \<Rightarrow> Inl [here (Builtin ''invalid_union'') True]))"

text \<open>\<open>z.union([z.string(), z.number()])\<close>; a number of this schema is finite.\<close>

definition scalar :: "jsval \<Rightarrow> jsval parsed" where
  "scalar = z_union (\<lambda>v. case v of Str s \<Rightarrow> Inr v | _ \<Rightarrow> invalid_type)
                    (\<lambda>v. case v of Num x \<Rightarrow> if is_finite x then Inr v else invalid_type | _ \<Rightarrow> invalid_type)"

definition scalar_pair :: "jsval \<Rightarrow> jsval parsed" where
  "scalar_pair v = (case v of
     Arr [a, b] \<Rightarrow> map_sum id (\<lambda>(x, y). Arr [x, y]) (both (under ''0'' (scalar a)) (under ''1'' (scalar b)))
   | _ \<Rightarrow> invalid_type)"

record search_param =
  sp_field :: string
  sp_operator :: string
  sp_value :: jsval

definition search_param_schema :: "jsval \<Rightarrow> search_param parsed" where
  "search_param_schema = z_object (\<lambda>v.
     map_sum id (\<lambda>(f, o', x). \<lparr>sp_field = f, sp_operator = o', sp_value = x\<rparr>)
      (both (field v ''field'' (z_string (\<lambda>s. [at_least 1 s])))
      (both (field v ''operator'' (z_enum operators))
            (field v ''value'' (z_union scalar scalar_pair)))))"

record sort_param =
  so_field :: string
  so_direction :: "string option"

definition sort_param_schema :: "jsval \<Rightarrow> sort_param parsed" where
  "sort_param_schema = z_object (\<lambda>v.
     map_sum id (\<lambda>(f, dir). \<lparr>so_field = f, so_direction = dir\<rparr>)
      (both (field v ''field'' (z_string (\<lambda>s. [at_least 1 s])))
            (field v ''direction'' (z_optional (z_enum [''asc'', ''desc''])))))"

record search_request =
  sr_search :: "search_param list option"
  sr_logic :: "string option"
  sr_sort :: "sort_param list option"
  sr_limit :: "int option"
  sr_offset :: "int option"

definition natural :: "jsval \<Rightarrow> int parsed" where
  "natural = z_int (\<lambda>i. [(0 \<le> i, Builtin ''too_small'')])"

definition search_request_schema :: "jsval \<Rightarrow> search_request parsed" where
  "search_request_schema = z_object (\<lambda>v.
     map_sum id (\<lambda>(s, l, o', n, f). \<lparr>sr_search = s, sr_logic = l, sr_sort = o', sr_limit = n, sr_offset = f\<rparr>)
      (both (field v ''search'' (z_optional (z_array search_param_schema)))
      (both (field v ''searchLogic'' (z_optional (z_enum [''AND'', ''OR''])))
      (both (field v ''sort'' (z_optional (z_array sort_param_schema)))
      (both (field v ''limit'' (z_optional natural))
            (field v ''offset'' (z_optional natural)))))))"

text \<open>The parsed data as the object it is: the keys of the schema in its order, without the absent ones.\<close>

definition present :: "(string \<times> jsval option) list \<Rightarrow> jsval" where
  "present ps = Obj (List.map_filter (\<lambda>(k, v). map_option (Pair k) v) ps)"

definition search_param_val :: "search_param \<Rightarrow> jsval" where
  "search_param_val p = Obj [(''field'', Str (sp_field p)), (''operator'', Str (sp_operator p)), (''value'', sp_value p)]"

definition sort_param_val :: "sort_param \<Rightarrow> jsval" where
  "sort_param_val p = present [(''field'', Some (Str (so_field p))), (''direction'', map_option Str (so_direction p))]"

definition search_request_val :: "search_request \<Rightarrow> jsval" where
  "search_request_val q = present
     [(''search'', map_option (\<lambda>ps. Arr (map search_param_val ps)) (sr_search q)), (''searchLogic'', map_option Str (sr_logic q)),
      (''sort'', map_option (\<lambda>ps. Arr (map sort_param_val ps)) (sr_sort q)),
      (''limit'', map_option num_of (sr_limit q)), (''offset'', map_option num_of (sr_offset q))]"

text \<open>\<open>parseSearchRequest\<close>: the text to forward, nothing to forward, or the message of a 400.\<close>

definition parse_search_request :: "library \<Rightarrow> jsval \<Rightarrow> string + string option" where
  "parse_search_request cr raw =
     (if raw = Undef \<or> raw = Str [] then Inr None
      else (case raw of
          Str s \<Rightarrow>
            (case json_parse s of
               None \<Rightarrow> Inl ''search request is not valid JSON''
             | Some decoded \<Rightarrow>
                 (case search_request_schema decoded of
                    Inl is \<Rightarrow> Inl (zod_err cr is)
                  | Inr q \<Rightarrow> Inr (json_stringify (search_request_val q))))
        | _ \<Rightarrow> Inl ''search request must be a JSON string''))"

section \<open>The log service\<close>

definition strip_slashes :: "string \<Rightarrow> string" where
  "strip_slashes s = rev (dropWhile (\<lambda>c. c = CHR ''/'') (rev s))"

definition ls_base :: "env \<Rightarrow> string" where
  "ls_base env = strip_slashes (if truthy_str (env ''LOGSERVICE_URL'') then the (env ''LOGSERVICE_URL'') else ''http://localhost:3000'')"

definition ls_api_key :: "env \<Rightarrow> string" where
  "ls_api_key env = nullish (env ''LOGSERVICE_API_KEY'') []"

definition ls_timeout :: "env \<Rightarrow> jsnum" where
  "ls_timeout env =
     (let x = (case env ''LOGSERVICE_TIMEOUT_MS'' of None \<Rightarrow> NaN | Some s \<Rightarrow> js_number s)
      in if x = NaN \<or> x = Fin 0 then Fin 10000 else x)"

record ls_request =
  lr_url :: string
  lr_query :: "string option"
  lr_headers :: "(string \<times> string) list"
  lr_timeout :: jsnum

datatype fetched = BadUrl | Failed string string | Answered int string

datatype ls_failure = Network string | Upstream string int string | Other string

definition search_logs :: "env \<Rightarrow> (ls_request \<Rightarrow> fetched) \<Rightarrow> string \<Rightarrow> string option \<Rightarrow> ls_failure + jsval" where
  "search_logs env fetch p rawRequest =
     (let key = ls_api_key env
      in case fetch \<lparr>lr_url = ls_base env @ p, lr_query = (if truthy_str rawRequest then rawRequest else None),
                     lr_headers = (if key \<noteq> [] then [(''X-API-Key'', key)] else []), lr_timeout = ls_timeout env\<rparr> of
           BadUrl \<Rightarrow> Inl (Other ''Invalid URL'')
         | Failed name msg \<Rightarrow>
             Inl (Network (''logservice GET '' @ p @ '' unreachable: ''
               @ (if name = ''TimeoutError'' then ''timed out after '' @ num_to_string (ls_timeout env) @ ''ms'' else msg)))
         | Answered status b \<Rightarrow>
             (if \<not> (200 \<le> status \<and> status \<le> 299)
              then Inl (Upstream (''logservice GET '' @ p @ '' responded '' @ int_to_string status) status b)
              else (case json_parse b of
                  None \<Rightarrow> Inl (Network (''logservice GET '' @ p @ '' returned invalid JSON: SyntaxError''))
                | Some v \<Rightarrow> Inr v)))"

section \<open>The search endpoints\<close>

definition proxy_search :: "library \<Rightarrow> env \<Rightarrow> (ls_request \<Rightarrow> fetched) \<Rightarrow> string \<Rightarrow> request \<Rightarrow> reply res" where
  "proxy_search cr env fetch p r =
     (case parse_search_request cr (get_prop (rq_query r) ''request'') of
        Inl e \<Rightarrow> Inr (status_error 400 e)
      | Inr value \<Rightarrow>
          (case search_logs env fetch p value of
             Inr v \<Rightarrow> Inr (JsonReply 200 v)
           | Inl (Network _) \<Rightarrow> Inr (status_error 504 ''logservice unavailable'')
           | Inl (Upstream _ _ _) \<Rightarrow> Inr (status_error 502 ''logservice unavailable'')
           | Inl (Other m) \<Rightarrow> Inl m))"

datatype api_route = ApiConnection | ApiDelivery | ApiQueue | ApiHashlookups

definition api_path :: "api_route \<Rightarrow> string" where
  "api_path a = (case a of ApiConnection \<Rightarrow> ''/api/connection'' | ApiDelivery \<Rightarrow> ''/api/delivery''
     | ApiQueue \<Rightarrow> ''/api/transaction'' | ApiHashlookups \<Rightarrow> ''/api/hashlookup'')"

definition api_handler :: "library \<Rightarrow> env \<Rightarrow> (ls_request \<Rightarrow> fetched) \<Rightarrow> api_route \<Rightarrow> request \<Rightarrow> reply res" where
  "api_handler cr env fetch a r = proxy_search cr env fetch (api_path a) r"

section \<open>The log pages and the dashboard\<close>

datatype log_route = LogDelivery | LogConnection | LogMails | LogLookups

definition log_page :: "log_route \<Rightarrow> reply" where
  "log_page l = Page 200 (case l of LogDelivery \<Rightarrow> ''log-delivery'' | LogConnection \<Rightarrow> ''log-connection''
     | LogMails \<Rightarrow> ''log-mails'' | LogLookups \<Rightarrow> ''log-lookups'') [(''wide'', Bool True)]"

definition recent_deliveries :: "env \<Rightarrow> (ls_request \<Rightarrow> fetched) \<Rightarrow> jsval" where
  "recent_deliveries env fetch =
     (let none = Obj [(''rows'', Arr []), (''unavailable'', Bool True)]
      in case search_logs env fetch ''/api/delivery'' (json_stringify (Obj [(''limit'', num_of 8)])) of
           Inl _ \<Rightarrow> none
         | Inr v \<Rightarrow> (case read_prop v ''records'' of
               Inl _ \<Rightarrow> none
             | Inr rs \<Rightarrow> Obj [(''rows'', if rs = Undef \<or> rs = Null then Arr [] else rs), (''unavailable'', Bool False)]))"

definition fleet_row_val :: "fleet_row \<Rightarrow> jsval" where
  "fleet_row_val f = Obj [(''id'', num_of (fr_id f)), (''name'', str_or_null (fr_name f)), (''hostname'', str_or_null (fr_hostname f)),
     (''status'', Str (fr_status f)), (''last_seen'', id_val (fr_last_seen f)), (''apply_error'', str_or_null (fr_apply_error f)),
     (''restart_required'', Bool (fr_restart_required f))]"

definition summary_val :: "fleet_summary \<Rightarrow> jsval" where
  "summary_val s = Obj [(''total'', num_of (int (total s))), (''pending'', num_of (int (pending s))),
     (''approved'', num_of (int (approved s))), (''other'', num_of (int (other s))),
     (''stale'', Arr (map fleet_row_val (stale s))), (''errored'', Arr (map fleet_row_val (errored s))),
     (''needRestart'', Arr (map fleet_row_val (need_restart s))), (''healthy'', Bool (healthy s))]"

text \<open>The fleet query has no failure here: the database of the model always answers.\<close>

definition fleet_card :: "library \<Rightarrow> int \<Rightarrow> database \<Rightarrow> jsval" where
  "fleet_card cr now d =
     Obj [(''summary'', summary_val (summarize (map fleet_row_of (order_by cr gw_name (rows (gateways d)))) now)),
          (''unavailable'', Bool False)]"

definition dashboard :: "library \<Rightarrow> env \<Rightarrow> (ls_request \<Rightarrow> fetched) \<Rightarrow> int \<Rightarrow> database \<Rightarrow> reply" where
  "dashboard cr env fetch now d =
     Page 200 ''index'' [(''feed'', recent_deliveries env fetch), (''fleet'', fleet_card cr now d)]"

end
