(* ===== verification/App.thy ===== *)
theory App
  imports AgentRoutes ConfigCtrl Gateways Search
begin

text \<open>
  The application as \<open>webui-fastify/src/app.ts\<close> puts it together: the audit log (\<open>src/middleware/logger.ts\<close>), the error
  handler, the routes of \<open>src/routes/*.ts\<close> with their guards, and the order in which a request meets them: audit log,
  rate limit, body parser, login gate, administrator gate, handler, error handler. The router, the body parser and the rate
  limiter are the framework's: which route a request is for, and the error the other two raise, come with the request.
\<close>

section \<open>What surrounds a request\<close>

record ambient =
  a_library :: library
  a_env :: env
  a_cache :: key_cache
  a_now :: int
  a_uuid :: string
  a_salt :: string
  a_iv :: string
  a_fetch :: "ls_request \<Rightarrow> fetched"
  a_bus :: bus
  a_protocol :: "request \<Rightarrow> string"
  a_limiter :: "jsnum \<Rightarrow> string \<Rightarrow> request \<Rightarrow> (int \<times> string) option"
  a_parser :: "request \<Rightarrow> (int \<times> string) option"
  a_agent_json :: "request \<Rightarrow> bool"
  a_audit :: "unit res"

text \<open>What a request ends with: the reply and its cookie, or the message of an error, the database, the listeners notified.\<close>

type_synonym handled = "(reply \<times> cookie_op) res \<times> database \<times> nat list"
type_synonym handler = "ambient \<Rightarrow> request \<Rightarrow> database \<Rightarrow> handled"

text \<open>The shapes of the handlers: a page, a page or an error, a change, a change or an error, a change that notifies.\<close>

definition pages :: "(ambient \<Rightarrow> request \<Rightarrow> database \<Rightarrow> reply) \<Rightarrow> handler" where
  "pages f a r d = (Inr (f a r d, KeepCookie), d, [])"

definition asks :: "(ambient \<Rightarrow> request \<Rightarrow> database \<Rightarrow> reply res) \<Rightarrow> handler" where
  "asks f a r d = (map_sum id (\<lambda>rep. (rep, KeepCookie)) (f a r d), d, [])"

definition alters :: "(ambient \<Rightarrow> request \<Rightarrow> database \<Rightarrow> reply \<times> database) \<Rightarrow> handler" where
  "alters f a r d = (case f a r d of (rep, d') \<Rightarrow> (Inr (rep, KeepCookie), d', []))"

definition attempts :: "(ambient \<Rightarrow> request \<Rightarrow> database \<Rightarrow> outcome) \<Rightarrow> handler" where
  "attempts f a r d = (case f a r d of (x, d') \<Rightarrow> (map_sum id (\<lambda>rep. (rep, KeepCookie)) x, d', []))"

definition notifies :: "(ambient \<Rightarrow> request \<Rightarrow> database \<Rightarrow> notified) \<Rightarrow> handler" where
  "notifies f a r d = (case f a r d of ((x, d'), ls) \<Rightarrow> (map_sum id (\<lambda>rep. (rep, KeepCookie)) x, d', ls))"

section \<open>The audit log\<close>

definition url_path :: "string \<Rightarrow> string" where
  "url_path u = hd (js_split (CHR ''?'') u)"

definition is_noise :: "request \<Rightarrow> bool" where
  "is_noise r \<longleftrightarrow> url_path (rq_url r) = ''/favicon.ico''
     \<or> rq_method r = ''GET'' \<and> starts_with (url_path (rq_url r)) ''/api/''"

definition audit_row :: "ambient \<Rightarrow> request \<Rightarrow> int \<Rightarrow> log_row" where
  "audit_row a r i = \<lparr>log_pk = i,
     log_url = Some (a_protocol a r @ ''://'' @ nullish (headers r ''host'') [] @ rq_url r),
     log_path = Some (url_path (rq_url r)), log_query = Some (rq_url r), src_ip = Some (rq_ip r), src_port = Some (rq_port r),
     referer = (case headers r ''referer'' of None \<Rightarrow> headers r ''referrer'' | Some h \<Rightarrow> Some h),
     origin = headers r ''origin'', log_method = Some (rq_method r), log_user = Some ''-'',
     user_agent = headers r ''user-agent'', log_created = a_now a\<rparr>"

text \<open>A write that fails is reported to the console and forgotten.\<close>

definition audit :: "ambient \<Rightarrow> request \<Rightarrow> database \<Rightarrow> database" where
  "audit a r d =
     (if is_noise r then d
      else (case a_audit a of Inl e \<Rightarrow> d | Inr _ \<Rightarrow> d\<lparr>logs := sql_insert (audit_row a r) (logs d)\<rparr>))"

text \<open>\<open>errhandler.ts\<close>: an exception nobody caught is recorded, best effort.\<close>

definition persist_exception :: "unit res \<Rightarrow> string \<Rightarrow> database \<Rightarrow> database" where
  "persist_exception written info d =
     (case written of Inl e \<Rightarrow> d
      | Inr _ \<Rightarrow> d\<lparr>exceptions := sql_insert (\<lambda>i. \<lparr>exc_pk = i, exc_product = Some ''ngm-mailgw-webui'', exc_component = Some ''webui'',
          exc_info = Some info\<rparr>) (exceptions d)\<rparr>)"

section \<open>The error handler\<close>

text \<open>\<open>code\<close> is the status the error carries, if it carries one.\<close>

definition error_handler :: "int option \<Rightarrow> string \<Rightarrow> request \<Rightarrow> reply" where
  "error_handler code m r =
     (let statusCode = (case code of Some c \<Rightarrow> if 400 \<le> c then c else 500 | None \<Rightarrow> 500);
          wantsJson = (wants_json r \<or> starts_with (rq_url r) ''/api/'')
      in if statusCode = 429 \<and> \<not> wantsJson then Redirect ''/login?msg=TooManyAttempts''
         else if wantsJson then status_error statusCode m
         else error_page statusCode (if 500 \<le> statusCode then ''An unexpected error occurred. Please try again.'' else m))"

definition form_login :: "database \<Rightarrow> reply" where
  "form_login d = (if count_users d = 0 then Redirect ''/setup'' else Page 200 ''forms/login'' [])"

definition trusted_proxies :: "env \<Rightarrow> string list" where
  "trusted_proxies env = list_setting (env ''TRUSTED_PROXIES'')"

text \<open>The limit on login attempts: the number and the window.\<close>

definition login_rate :: "env \<Rightarrow> jsnum \<times> string" where
  "login_rate env = ((case env ''LOGIN_RATE_MAX'' of None \<Rightarrow> Fin 5 | Some s \<Rightarrow> js_number s), nullish (env ''LOGIN_RATE_WINDOW'') ''1 minute'')"

section \<open>The routes\<close>

record route =
  rt_method :: string
  rt_path :: string
  admin_only :: bool
  rt_limited :: bool
  rt_run :: handler

definition get :: "string \<Rightarrow> handler \<Rightarrow> route" where
  "get p h = \<lparr>rt_method = ''GET'', rt_path = p, admin_only = False, rt_limited = False, rt_run = h\<rparr>"

definition post :: "string \<Rightarrow> handler \<Rightarrow> route" where
  "post p h = \<lparr>rt_method = ''POST'', rt_path = p, admin_only = False, rt_limited = False, rt_run = h\<rparr>"

definition admin :: "route \<Rightarrow> route" where
  "admin rt = rt\<lparr>admin_only := True\<rparr>"

definition prefixed :: "string \<Rightarrow> route list \<Rightarrow> route list" where
  "prefixed p = map (\<lambda>rt. rt\<lparr>rt_path := p @ rt_path rt\<rparr>)"

definition user_routes :: "route list" where
  "user_routes = [
     get ''/create'' (pages (\<lambda>a r d. users_create)),
     post ''/create'' (alters (\<lambda>a. users_create_handle (a_library a) (a_salt a))),
     get ''/edit/:id'' (pages (\<lambda>a. users_edit)),
     post ''/edit/:id'' (alters (\<lambda>a. users_edit_handle (a_library a) (a_salt a))),
     get ''/delete/:id'' (pages (\<lambda>a. users_delete)),
     post ''/delete/:id'' (alters (\<lambda>a. users_delete_handle)),
     get ''/'' (pages (\<lambda>a r d. users_index d))]"

definition gateway_routes :: "route list" where
  "gateway_routes = [
     get ''/'' (pages (\<lambda>a r. gateways_index (a_library a) (a_now a))),
     admin (post ''/:id/status'' (notifies (\<lambda>a. set_status (a_library a) (a_now a) (a_bus a)))),
     admin (post ''/:id/rename'' (attempts (\<lambda>a. rename_gateway))),
     admin (post ''/:id/assignments'' (attempts (\<lambda>a. save_assignments))),
     admin (post ''/:id/deploy'' (notifies (\<lambda>a. deploy_handler (a_library a) (a_env a) (a_cache a) (a_now a) (a_bus a)))),
     admin (post ''/:id/rollback'' (notifies (\<lambda>a. rollback_handler (a_library a) (a_now a) (a_bus a)))),
     admin (get ''/:id/delete'' (pages (\<lambda>a. delete_page))),
     admin (post ''/:id/delete'' (alters (\<lambda>a. delete_handler))),
     get ''/:id'' (pages (\<lambda>a. gateway_details (a_library a) (a_now a)))]"

definition relay_routes :: "route list" where
  "relay_routes = [
     get ''/relay/create/:group_id'' (pages (\<lambda>a r d. relay_create r)),
     post ''/relay/create/:group_id'' (attempts (\<lambda>a. relay_create_handle (a_library a) (a_env a) (a_cache a) (a_iv a))),
     get ''/relay/edit/:id'' (pages (\<lambda>a. relay_edit)),
     post ''/relay/edit/:id'' (attempts (\<lambda>a. relay_edit_handle (a_library a) (a_env a) (a_cache a) (a_iv a))),
     get ''/relay/delete/:id'' (pages (\<lambda>a. relay_delete)),
     post ''/relay/delete/:id'' (alters (\<lambda>a. relay_delete_handle)),
     get ''/relaygrp/create'' (pages (\<lambda>a r d. relaygrp_create)),
     post ''/relaygrp/create'' (alters (\<lambda>a. relaygrp_create_handle (a_library a))),
     get ''/relaygrp/edit/:id'' (pages (\<lambda>a. relaygrp_edit)),
     post ''/relaygrp/edit/:id'' (alters (\<lambda>a. relaygrp_edit_handle (a_library a))),
     get ''/relaygrp/delete/:id'' (pages (\<lambda>a. relaygrp_delete)),
     post ''/relaygrp/delete/:id'' (alters (\<lambda>a. relaygrp_delete_handle)),
     get ''/relaygrp/:id'' (pages (\<lambda>a. relaygrp_details)),
     get ''/relaygrp'' (pages (\<lambda>a r. relaygrp_index))]"

definition profile_routes :: "route list" where
  "profile_routes = [
     admin (get ''/profiles/create'' (pages (\<lambda>a r d. profiles_create r))),
     admin (post ''/profiles/create'' (attempts (\<lambda>a. profiles_create_handle (a_library a)))),
     admin (get ''/profiles/edit/:id'' (pages (\<lambda>a. profiles_edit))),
     admin (post ''/profiles/edit/:id'' (attempts (\<lambda>a. profiles_edit_handle (a_library a)))),
     admin (get ''/profiles/delete/:id'' (pages (\<lambda>a. profiles_delete))),
     admin (post ''/profiles/delete/:id'' (alters (\<lambda>a. profiles_delete_handle))),
     get ''/profiles'' (pages (\<lambda>a r. profiles_index (a_library a)))]"

definition credential_routes :: "route list" where
  "credential_routes = map admin [
     get ''/credentials/create'' (pages (\<lambda>a r d. credset_create)),
     post ''/credentials/create'' (attempts (\<lambda>a. credset_create_handle (a_library a))),
     get ''/credentials/edit/:id'' (pages (\<lambda>a. credset_edit)),
     post ''/credentials/edit/:id'' (attempts (\<lambda>a. credset_edit_handle (a_library a))),
     get ''/credentials/delete/:id'' (pages (\<lambda>a. credset_delete)),
     post ''/credentials/delete/:id'' (alters (\<lambda>a. credset_delete_handle)),
     get ''/credential/create/:set_id'' (pages (\<lambda>a r d. cred_create r)),
     post ''/credential/create/:set_id'' (attempts (\<lambda>a. cred_create_handle (a_library a) (a_salt a))),
     get ''/credential/edit/:id'' (pages (\<lambda>a. cred_edit)),
     post ''/credential/edit/:id'' (attempts (\<lambda>a. cred_edit_handle (a_library a) (a_salt a))),
     get ''/credential/delete/:id'' (pages (\<lambda>a. cred_delete)),
     post ''/credential/delete/:id'' (alters (\<lambda>a. cred_delete_handle)),
     get ''/credentials/:id'' (pages (\<lambda>a. credset_details (a_library a))),
     get ''/credentials'' (pages (\<lambda>a r. credset_index (a_library a)))]"

definition config_routes :: "route list" where
  "config_routes = relay_routes @ profile_routes @ credential_routes
     @ [get ''/routing'' (pages (\<lambda>a r d. Redirect ''/config/profiles''))]"

definition root_routes :: "route list" where
  "root_routes = [get ''/'' (pages (\<lambda>a r. dashboard (a_library a) (a_env a) (a_fetch a) (a_now a)))]"

definition log_routes :: "route list" where
  "log_routes = map (\<lambda>(p, l). get p (pages (\<lambda>a r d. log_page l)))
     [(''/delivery'', LogDelivery), (''/connection'', LogConnection), (''/mails'', LogMails), (''/lookups'', LogLookups)]"

definition api_routes :: "route list" where
  "api_routes = map (\<lambda>(p, l). get p (asks (\<lambda>a r d. api_handler (a_library a) (a_env a) (a_fetch a) l r)))
     [(''/connection'', ApiConnection), (''/delivery'', ApiDelivery), (''/queue'', ApiQueue), (''/hashlookups'', ApiHashlookups)]"

text \<open>The agent's routes. An upgraded socket is answered with 101; what it does afterwards is \<open>push\<close>.\<close>

definition agent_routes :: "route list" where
  "agent_routes = [
     post ''/register'' (attempts (\<lambda>a. register_handler (a_library a) (a_now a) (a_uuid a))),
     get ''/status'' (attempts (\<lambda>a. signed (a_library a) (a_now a) (status_handler (a_now a)))),
     get ''/config'' (attempts (\<lambda>a. signed (a_library a) (a_now a) config_handler)),
     post ''/report'' (attempts (\<lambda>a r. signed (a_library a) (a_now a) (report_handler (a_library a) (a_now a) r) r)),
     get ''/ws'' (attempts (\<lambda>a. signed (a_library a) (a_now a) (\<lambda>g d. (Inr (TextReply 101 []), d))))]"

definition health :: route where
  "health = get ''/health'' (pages (\<lambda>a r d. JsonReply 200 (Obj [(''status'', Str ''ok'')])))"

definition login_handler :: handler where
  "login_handler a r d = (case login (a_library a) (a_now a) (a_uuid a) r d of (x, d') \<Rightarrow> (x, d', []))"

definition logout_handler :: handler where
  "logout_handler a r d = (case logout (a_library a) r d of (x, d') \<Rightarrow> (Inr x, d', []))"

definition public_routes :: "route list" where
  "public_routes = [
     get ''/login'' (pages (\<lambda>a r. form_login)),
     post ''/login'' login_handler \<lparr>rt_limited := True\<rparr>,
     get ''/logout'' logout_handler,
     get ''/setup'' (pages (\<lambda>a r. setup_form)),
     post ''/setup'' (alters (\<lambda>a. setup_submit (a_library a) (a_salt a)))]"

definition secured_routes :: "route list" where
  "secured_routes = [
     get ''/profile'' (alters (\<lambda>a. profile_form (a_library a) (a_now a))),
     post ''/profile'' (alters (\<lambda>a. profile_submit (a_library a) (a_now a) (a_salt a)))]
   @ root_routes @ prefixed ''/log'' log_routes @ prefixed ''/api'' api_routes @ prefixed ''/config'' config_routes
   @ prefixed ''/gateways'' gateway_routes @ prefixed ''/users'' user_routes"

datatype scope = Unlogged | Agent | Public | Secured

definition all_routes :: "(scope \<times> route) list" where
  "all_routes = [(Unlogged, health)] @ map (Pair Agent) (prefixed ''/agent'' agent_routes)
     @ map (Pair Public) public_routes @ map (Pair Secured) secured_routes"

section \<open>Serving a request\<close>

text \<open>A handler with the error handler behind it.\<close>

definition answered :: "request \<Rightarrow> handled \<Rightarrow> (reply \<times> cookie_op) \<times> database \<times> nat list" where
  "answered r h = (case h of (x, d, ls) \<Rightarrow>
     ((case x of Inl m \<Rightarrow> (error_handler None m r, KeepCookie) | Inr rep \<Rightarrow> rep), d, ls))"

definition stopped :: "reply \<Rightarrow> database \<Rightarrow> (reply \<times> cookie_op) \<times> database \<times> nat list" where
  "stopped rep d = ((rep, KeepCookie), d, [])"

text \<open>The rate limit and the body parser, which run before the session is looked at.\<close>

definition early_error :: "ambient \<Rightarrow> route \<Rightarrow> request \<Rightarrow> reply option" where
  "early_error a rt r =
     (case (if rt_limited rt then a_limiter a (fst (login_rate (a_env a))) (snd (login_rate (a_env a))) r else None) of
        Some (c, m) \<Rightarrow> Some (error_handler (Some c) m r)
      | None \<Rightarrow> map_option (\<lambda>(c, m). error_handler (Some c) m r) (a_parser a r))"

definition guarded :: "ambient \<Rightarrow> route \<Rightarrow> request \<Rightarrow> database \<Rightarrow> (reply \<times> cookie_op) \<times> database \<times> nat list" where
  "guarded a rt r d =
     (case check_session (a_library a) (a_now a) r d of
        (Some rep, d1) \<Rightarrow> stopped rep d1
      | (None, d1) \<Rightarrow>
          (if \<not> admin_only rt then answered r (rt_run rt a r d1)
           else (case require_admin (a_library a) (a_now a) r d1 of
               (Some rep, d2) \<Rightarrow> stopped rep d2
             | (None, d2) \<Rightarrow> answered r (rt_run rt a r d2))))"

text \<open>The agent's own JSON parser, for the requests the framework hands it.\<close>

definition agent_served :: "ambient \<Rightarrow> route \<Rightarrow> request \<Rightarrow> database \<Rightarrow> (reply \<times> cookie_op) \<times> database \<times> nat list" where
  "agent_served a rt r d =
     (if a_agent_json a r
      then (case agent_body_parser (raw_body r) of
              None \<Rightarrow> stopped (error_handler None ''SyntaxError'' r) d
            | Some b \<Rightarrow> answered r (rt_run rt a (r\<lparr>rq_body := b\<rparr>) d))
      else answered r (rt_run rt a r d))"

definition serve_route :: "ambient \<Rightarrow> scope \<times> route \<Rightarrow> request \<Rightarrow> database \<Rightarrow> (reply \<times> cookie_op) \<times> database \<times> nat list" where
  "serve_route a sr r d =
     (case sr of (sc, rt) \<Rightarrow>
        let d1 = (if sc \<in> {Public, Secured} then audit a r d else d)
        in case early_error a rt r of
             Some rep \<Rightarrow> stopped rep d1
           | None \<Rightarrow> (case sc of
                 Unlogged \<Rightarrow> answered r (rt_run rt a r d1)
               | Agent \<Rightarrow> agent_served a rt r d1
               | Public \<Rightarrow> answered r (rt_run rt a r d1)
               | Secured \<Rightarrow> guarded a rt r d1))"

text \<open>\<open>chosen\<close> is the method and path of the route the router picked; for none the framework answers by itself, with a static
  file or \<open>404\<close>, and nothing of the console runs. A \<open>GET\<close> route also answers \<open>HEAD\<close>.\<close>

definition find_route :: "string \<times> string \<Rightarrow> (scope \<times> route) option" where
  "find_route chosen = find (\<lambda>(sc, rt). (rt_method rt, rt_path rt) = chosen) all_routes"

definition serve ::
  "ambient \<Rightarrow> (request \<Rightarrow> reply) \<Rightarrow> (string \<times> string) option \<Rightarrow> request \<Rightarrow> database
   \<Rightarrow> (reply \<times> cookie_op) \<times> database \<times> nat list"
where
  "serve a static chosen r d =
     (case chosen of None \<Rightarrow> stopped (static r) d
      | Some c \<Rightarrow> (case find_route c of None \<Rightarrow> stopped (static r) d | Some sr \<Rightarrow> serve_route a sr r d))"

end
