(* ===== verification/AgentProps.thy ===== *)
theory AgentProps
  imports AgentRoutes
begin

text \<open>
  What the agent API guarantees: no request to it changes who is approved or what is deployed, a
  configuration is handed only to an approved gateway and only its own, a deploy reaches the
  gateway as the configuration that was composed, and a socket sends one frame per change.
\<close>

section \<open>The routes\<close>

datatype agent_route = Register | Status | Config | Report

definition agent_api :: "library \<Rightarrow> int \<Rightarrow> string \<Rightarrow> agent_route \<Rightarrow> request \<Rightarrow> database \<Rightarrow> outcome" where
  "agent_api cr now uuid route r d =
     (case route of
        Register \<Rightarrow> register_handler cr now uuid r d
      | Status \<Rightarrow> signed cr now (status_handler now) r d
      | Config \<Rightarrow> signed cr now config_handler r d
      | Report \<Rightarrow> signed cr now (report_handler cr now r) r d)"

text \<open>The columns an operator decides on.\<close>

definition trust :: "gateway \<Rightarrow> int \<times> string \<times> string \<times> string \<times> string \<times> string option \<times> int option \<times> int option" where
  "trust g = (gw_pk g, gateway_uid g, fingerprint g, pubkey g, gw_status g, approved_by g, approved_at g,
     desired_version_id g)"

lemma trust_updates [simp]:
  "trust (g\<lparr>last_seen := x\<rparr>) = trust g" "trust (systeminfo info g) = trust g"
  "trust (report_changes now rp g) = trust g"
  by (auto simp: trust_def systeminfo_def report_changes_def Let_def split: option.splits)

lemma trust_update_rows:
  "(\<And>g. trust (f g) = trust g) \<Longrightarrow> map trust (rows (sql_update P f t)) = map trust (rows t)"
  by simp

text \<open>Existing rows keep those columns, new rows are pending, and only gateways and metrics differ.\<close>

definition decides_nothing :: "database \<Rightarrow> database \<Rightarrow> bool" where
  "decides_nothing d d' \<longleftrightarrow>
     (\<exists>new. map trust (rows (gateways d')) = map trust (rows (gateways d)) @ map trust new
        \<and> list_all (\<lambda>g. gw_status g = ''pending'' \<and> desired_version_id g = None \<and> approved_by g = None) new)
     \<and> d' = d\<lparr>gateways := gateways d', gateway_metrics := gateway_metrics d'\<rparr>"

lemma decides_nothing_same: "decides_nothing d d"
  unfolding decides_nothing_def by (intro conjI exI [of _ "[]"]) simp_all

lemma decides_nothing_update:
  assumes "\<And>g. trust (f g) = trust g"
  shows "decides_nothing d (d\<lparr>gateways := sql_update P f (gateways d)\<rparr>)"
    "decides_nothing d (d\<lparr>gateways := sql_update P f (gateways d), gateway_metrics := ms\<rparr>)"
  unfolding decides_nothing_def using assms by (intro conjI exI [of _ "[]"]; simp)+

lemma decides_nothing_register:
  assumes "insert_gateway (new_gateway i uid fp t) d = Inr d'"
  shows "decides_nothing d d'"
proof -
  have d': "d' = d\<lparr>gateways := sql_insert (\<lambda>k. new_gateway i uid fp t\<lparr>gw_pk := k\<rparr>) (gateways d)\<rparr>"
    using assms by (simp add: insert_gateway_def split: if_splits)
  show ?thesis
    unfolding decides_nothing_def d'
    by (intro conjI exI [of _ "[new_gateway i uid fp t\<lparr>gw_pk := next_id (gateways d)\<rparr>]"])
      (simp_all add: new_gateway_def systeminfo_def)
qed

lemmas decides_nothing_intros = decides_nothing_same decides_nothing_update decides_nothing_register

lemma register_decides_nothing: "decides_nothing d (snd (register_handler cr now uuid r d))"
  by (auto simp: register_handler_def Let_def intro: decides_nothing_intros split: sum.split option.split)

lemma signed_decides_nothing:
  "(\<And>g. decides_nothing d (snd (h g d))) \<Longrightarrow> decides_nothing d (snd (signed cr now h r d))"
  by (auto simp: signed_def intro: decides_nothing_same split: sum.split)

lemma handlers_decide_nothing:
  "decides_nothing d (snd (status_handler now g d))" "decides_nothing d (snd (config_handler g d))"
  "decides_nothing d (snd (report_handler cr now r g d))"
  by (auto simp: status_handler_def config_handler_def report_handler_def Let_def
      intro: decides_nothing_intros split: sum.split option.split)

text \<open>Nothing a gateway sends, signed or not, decides anything: whatever the request and the route, every existing
  gateway row keeps its key, status, approval and deployed version, a row that appears is pending with
  nothing deployed, and no table but the gateways and their metrics is touched.\<close>

lemma agent_api_decides_nothing:
  "decides_nothing d (snd (agent_api cr now uuid route r d))"
  by (cases route) (simp_all add: agent_api_def register_decides_nothing signed_decides_nothing handlers_decide_nothing)

section \<open>Whose configuration\<close>

text \<open>Every gateway points at nothing or at a version of its own.\<close>

definition pointers_ok :: "database \<Rightarrow> bool" where
  "pointers_ok d \<longleftrightarrow> (\<forall>g \<in> set (rows (gateways d)). \<forall>i. desired_version_id g = Some i \<longrightarrow>
     (\<exists>v \<in> set (rows (config_versions d)). version_pk v = i \<and> version_gateway v = gw_pk g))"

lemma find_version_row_Some:
  assumes "find_version_row d i = Some v"
  shows "i = Some (version_pk v) \<and> v \<in> set (rows (config_versions d))"
  using assms by (auto simp: find_version_row_def dest: first_row_SomeD split: option.splits if_splits)

lemma authenticated_row:
  assumes "authenticate_gateway cr s d r = Inr g"
  shows "g \<in> set (rows (gateways d)) \<and> headers r ''x-gw-id'' = Some (gateway_uid g)"
  using assms by (auto simp: authenticated_exactly dest!: first_row_SomeD)

text \<open>C3. A configuration leaves the console only for its owner: \<open>GET /agent/config\<close> answers 200 only if
  the request is signed with the key of a gateway that is approved, and the bundle it sends is the
  parsed text of the very version that gateway is pointed at, which is one of its own versions.\<close>

theorem config_only_to_owner:
  assumes "pointers_ok d" "keys_ok version_pk (config_versions d)"
    and "agent_api cr now uuid Config r d = (Inr (JsonReply 200 body), d')"
  shows "\<exists>g v b. authenticate_gateway cr (now_seconds now) d r = Inr g \<and> gw_status g = ''approved''
    \<and> v \<in> set (rows (config_versions d)) \<and> desired_version_id g = Some (version_pk v)
    \<and> version_gateway v = gw_pk g \<and> json_parse (bundle_text v) = Some b
    \<and> get_prop body ''bundle'' = b \<and> get_prop body ''bundle_sha256'' = Str (bundle_sha256 v)"
proof -
  obtain g where g: "authenticate_gateway cr (now_seconds now) d r = Inr g"
    and h: "config_handler g d = (Inr (JsonReply 200 body), d')"
    using assms(3) by (auto simp: agent_api_def signed_def status_error_def split: sum.splits)
  then obtain v b where ap: "gw_status g = ''approved''" and v: "find_version_row d (desired_version_id g) = Some v"
    and b: "json_parse (bundle_text v) = Some b" and body: "body = Obj
                 [(''status'', Str ''ok''), (''version_id'', id_val (Some (version_pk v))),
                  (''version'', id_val (Some (version v))), (''bundle_sha256'', Str (bundle_sha256 v)),
                  (''bundle'', b)]"
    by (auto simp: config_handler_def status_error_def split: if_splits option.splits)
  have row: "desired_version_id g = Some (version_pk v)" "v \<in> set (rows (config_versions d))"
    using find_version_row_Some [OF v] by simp_all
  obtain w where w: "w \<in> set (rows (config_versions d))" "version_pk w = version_pk v" "version_gateway w = gw_pk g"
    using assms(1) authenticated_row [OF g] row(1) by (auto simp: pointers_ok_def)
  then have "w = v" using vers.key_unique [OF assms(2) w(1) row(2)] by simp
  with g ap row w(3) b body show ?thesis by (intro exI [of _ g] exI [of _ v] exI [of _ b]) (simp add: get_prop_def)
qed

section \<open>From deploy to gateway\<close>

lemma version_served:
  assumes "bundle_ok b" "gw_status g' = ''approved''" "desired_version_id g' = Some (version_pk v)" "v \<in> set (rows (config_versions d'))"
    "history_ok cr d'" "bundle_text v = serialise_bundle b"
  shows "config_handler g' d' = (Inr (JsonReply 200 (Obj
        [(''status'', Str ''ok''), (''version_id'', id_val (Some (version_pk v))),
         (''version'', id_val (Some (version v))), (''bundle_sha256'', Str (bundle_digest cr (serialise_bundle b))),
         (''bundle'', canon (bundle_value b))])), d')"
proof -
  have parse: "json_parse (serialise_bundle b) = Some (canon (bundle_value b))"
    unfolding serialise_bundle_def by (rule parse_stable [OF plain_bundle [OF assms(1)]])
  have k: "keys_ok version_pk (config_versions d')" using assms(5) by (rule history_keys)
  have "find_version_row d' (Some (version_pk v)) = Some v"
    using vers.find_by_key [OF k assms(4)] vers.key_bounds [OF k assms(4)] by (simp add: find_version_row_def)
  moreover have "bundle_sha256 v = bundle_digest cr (serialise_bundle b)" using assms(4,5,6) by (simp add: history_ok_def)
  moreover have "version_pk v \<noteq> 0" using vers.key_bounds [OF k assms(4)] by simp
  ultimately show ?thesis using assms parse by (simp add: config_handler_def)
qed

lemma updated_gateway_found:
  assumes "keys_ok gw_pk (gateways d)" "g \<in> set (rows (gateways d))" "gw_pk g = gw" "\<And>h. gw_pk (f h) = gw_pk h"
  shows "first_row (sql_select (\<lambda>h. gw_pk h = gw) (sql_update (\<lambda>h. gw_pk h = gw) f (gateways d))) = Some (f g)"
proof -
  have "keys_ok gw_pk (sql_update (\<lambda>h. gw_pk h = gw) f (gateways d))" using assms(1,4) by (rule gws.update_ok)
  moreover have "f g \<in> set (rows (sql_update (\<lambda>h. gw_pk h = gw) f (gateways d)))" using assms(2,3) by force
  ultimately show ?thesis using gws.find_by_key [of _ "f g"] assms(3,4) by fastforce
qed


text \<open>The sample console with one version deployed to its gateway, and a signed request of the gateway.\<close>

definition sample_deployed :: database where
  "sample_deployed = sample_database\<lparr>
     config_versions := \<lparr>rows = [\<lparr>version_pk = 1, version_gateway = 1, version = 1, bundle_text = ''{}'',
       bundle_sha256 = ''d'', version_note = None, created_by = Some ''root@x'', version_created = 99\<rparr>], next_id = 2\<rparr>,
     gateways := \<lparr>rows = [sample_gateway\<lparr>desired_version_id := Some 1\<rparr>], next_id = 2\<rparr>\<rparr>"

definition sample_request :: "string \<Rightarrow> string \<Rightarrow> request" where
  "sample_request meth url = \<lparr>rq_method = meth, rq_url = url,
     headers = [''x-gw-id'' \<mapsto> ''u-1'', ''x-gw-timestamp'' \<mapsto> ''5'',
       ''x-gw-signature'' \<mapsto> b64_encode (canonical_string sample_library meth url ''5'' [])],
     raw_body = [], rq_body = Undef, rq_query = Undef, rq_id = [], session_cookie = None,
     rq_ip = ''10.0.0.9'', rq_port = 4000\<rparr>"

lemma sample_key: "\<exists>der. public_key_from_base64 (pubkey sample_gateway) = Inr der"
proof -
  have "public_key_b64 (pubkey sample_gateway) = [(True, Custom ''pubkey must be base64 of 32 raw bytes'')]"
    by code_simp
  then have "length (b64_decode (pubkey sample_gateway)) = 32" by (intro public_key_length) simp
  then show ?thesis by (simp add: public_key_from_base64_def)
qed

lemma sample_headers:
  "headers (sample_request meth url) ''x-gw-id'' = Some ''u-1''"
  "headers (sample_request meth url) ''x-gw-timestamp'' = Some ''5''"
  "headers (sample_request meth url) ''x-gw-signature'' =
     Some (b64_encode (canonical_string sample_library meth url ''5'' []))"
  "rq_method (sample_request meth url) = meth" "rq_url (sample_request meth url) = url"
  "raw_body (sample_request meth url) = []"
  by (simp_all add: sample_request_def)

lemma sample_authenticated:
  "authenticate_gateway sample_library 5 sample_deployed (sample_request meth url) = Inr (sample_gateway\<lparr>desired_version_id := Some 1\<rparr>)"
proof -
  have t: "check_timestamp (Some ''5'') 5 = None" by code_simp
  have g: "find_gateway_by_uid sample_deployed ''u-1'' = Some (sample_gateway\<lparr>desired_version_id := Some 1\<rparr>)"
    by (simp add: find_gateway_by_uid_def sample_deployed_def sql_select_def sample_gateway_def)
  have v: "verify_signature sample_library (pubkey sample_gateway) (b64_encode c) c" for c
    using sample_key by (auto simp: verify_signature_def b64_decode_encode sample_library_def)
  have ne: "b64_encode (canonical_string sample_library meth url ''5'' []) \<noteq> []"
  proof
    assume "b64_encode (canonical_string sample_library meth url ''5'' []) = []"
    then have "canonical_string sample_library meth url ''5'' [] = []"
      by (metis b64_decode_encode b64_encode.simps(1))
    then show False by (simp add: canonical_string_def)
  qed
  show ?thesis
    unfolding authenticate_gateway_def Let_def sample_headers raw_body_of_def option.sel
    using t g v ne by simp
qed

lemma sample_served:
  "\<exists>b. agent_api sample_library 5000 [] Config (sample_request meth url) sample_deployed = (Inr (JsonReply 200 b), sample_deployed)"
proof -
  have v: "find_version_row sample_deployed (Some 1) = Some (hd (rows (config_versions sample_deployed)))"
    by (simp add: find_version_row_def sample_deployed_def sql_select_def)
  have "json_parse ''{}'' = Some (Obj [])" by code_simp
  then have "json_parse (bundle_text (hd (rows (config_versions sample_deployed)))) = Some (Obj [])"
    by (simp add: sample_deployed_def)
  then show ?thesis
    using v by (simp add: agent_api_def signed_def now_seconds_def sample_authenticated config_handler_def)
      (simp add: sample_gateway_def)
qed

lemma sample_deployed_versions:
  "keys_ok version_pk (config_versions sample_deployed)" "pointers_ok sample_deployed"
  by (simp_all add: sample_deployed_def keys_ok_def pointers_ok_def sample_gateway_def)

lemma config_only_to_owner_witness:
  "\<exists>body (g :: gateway) (v :: config_version). agent_api sample_library 5000 [] Config (sample_request ''GET'' ''/agent/config'') sample_deployed
      = (Inr (JsonReply 200 body), sample_deployed)
    \<and> gw_status g = ''approved'' \<and> version_gateway v = gw_pk g \<and> get_prop body ''bundle_sha256'' = Str (bundle_sha256 v)"
proof -
  obtain body where r: "agent_api sample_library 5000 [] Config (sample_request ''GET'' ''/agent/config'') sample_deployed
      = (Inr (JsonReply 200 body), sample_deployed)"
    using sample_served by metis
  from config_only_to_owner [OF sample_deployed_versions(2,1) r] r show ?thesis
    by blast
qed


section \<open>Sockets\<close>

text \<open>The frames a history of states calls for: one for each state that differs from the one before it.\<close>

fun changes :: "string option \<Rightarrow> string list \<Rightarrow> nat" where
  "changes seen [] = 0"
| "changes seen (s # ss) =
     (if seen = Some s then changes seen ss
      else (if seen = None then 0 else 1) + changes (Some s) ss)"

text \<open>What the socket's reads find, in order; a read after the row was deleted finds nothing.\<close>

definition observed :: "int \<Rightarrow> database list \<Rightarrow> string list" where
  "observed gw ds = List.map_filter (\<lambda>d. map_option row_state (first_row (sql_select (\<lambda>g. gw_pk g = gw) (gateways d)))) ds"

definition pushes :: "database list \<Rightarrow> socket \<Rightarrow> socket" where
  "pushes ds s = foldl (\<lambda>s d. push d s) s ds"

lemma pushes_frames:
  "frames (pushes ds s) = frames s @ replicate (changes (last_state s) (observed (sock_gateway s) ds)) changed_frame"
proof (induction ds arbitrary: s)
  case Nil
  then show ?case by (simp add: pushes_def observed_def map_filter_simps)
next
  case (Cons d ds)
  have "sock_gateway (push d s) = sock_gateway s" by (simp add: push_def Let_def split: option.split)
  then have "frames (pushes (d # ds) s) = frames (push d s)
      @ replicate (changes (last_state (push d s)) (observed (sock_gateway s) ds)) changed_frame"
    using Cons.IH [of "push d s"] by (simp add: pushes_def)
  then show ?case
    by (cases "first_row (sql_select (\<lambda>g. gw_pk g = sock_gateway s) (gateways d))")
      (auto simp: push_def observed_def map_filter_simps Let_def)
qed


section \<open>Heartbeats\<close>

lemma upsert_keys:
  "map metric_gateway (upsert_metrics gw text now ms) =
    map metric_gateway ms @ (if gw \<in> set (map metric_gateway ms) then [] else [gw])"
  by (auto simp: upsert_metrics_def comp_def)

lemma upsert_find:
  "find (\<lambda>m. metric_gateway m = gw) (upsert_metrics gw text now ms)
    = Some \<lparr>metric_gateway = gw, metrics = text, metric_updated = now\<rparr>"
proof (induction ms)
  case (Cons m ms)
  then show ?case by (cases m) (auto simp: upsert_metrics_def split: if_splits)
qed (simp add: upsert_metrics_def)

lemma upsert_other:
  "filter (\<lambda>m. metric_gateway m \<noteq> gw) (upsert_metrics gw text now ms) = filter (\<lambda>m. metric_gateway m \<noteq> gw) ms"
proof -
  have "filter (\<lambda>m. metric_gateway m \<noteq> gw)
      (map (\<lambda>m. if metric_gateway m = gw then m\<lparr>metrics := text, metric_updated := now\<rparr> else m) ms)
    = filter (\<lambda>m. metric_gateway m \<noteq> gw) ms"
    by (induction ms) auto
  then show ?thesis by (simp add: upsert_metrics_def)
qed

lemma upsert_distinct:
  "distinct (map metric_gateway ms) \<Longrightarrow> distinct (map metric_gateway (upsert_metrics gw text now ms))"
  by (simp only: upsert_keys) auto

text \<open>A heartbeat with counters replaces the gateway's snapshot and no other: the table keeps at most one row per
  gateway, the row of the reporter holds the reported text and time, every other row is as it was.
  A heartbeat without counters leaves the table alone.\<close>

lemma heartbeat_snapshot:
  assumes "report_schema (rq_body r) = Inr rp" "distinct (map metric_gateway (gateway_metrics d))"
  shows "distinct (map metric_gateway (gateway_metrics (snd (report_handler cr now r g d))))
    \<and> (case rp_metrics rp of
         None \<Rightarrow> gateway_metrics (snd (report_handler cr now r g d)) = gateway_metrics d
       | Some es \<Rightarrow>
           find (\<lambda>m. metric_gateway m = gw_pk g) (gateway_metrics (snd (report_handler cr now r g d)))
             = Some \<lparr>metric_gateway = gw_pk g, metrics = the (json_stringify (metrics_value es)), metric_updated = now\<rparr>
           \<and> filter (\<lambda>m. metric_gateway m \<noteq> gw_pk g) (gateway_metrics (snd (report_handler cr now r g d)))
             = filter (\<lambda>m. metric_gateway m \<noteq> gw_pk g) (gateway_metrics d))"
proof (cases "rp_metrics rp")
  case None
  with assms show ?thesis by (simp add: report_handler_def Let_def)
next
  case (Some es)
  let ?t = "the (json_stringify (metrics_value es))"
  have ms: "gateway_metrics (snd (report_handler cr now r g d)) = upsert_metrics (gw_pk g) ?t now (gateway_metrics d)"
    using assms(1) Some by (simp add: report_handler_def Let_def metrics_value_def)
  show ?thesis unfolding ms Some option.case
    by (intro conjI upsert_find upsert_other upsert_distinct assms(2))
qed

lemma heartbeat_snapshot_witness:
  "find (\<lambda>m. metric_gateway m = gw_pk sample_gateway)
     (gateway_metrics (snd (report_handler sample_library 7
        ((sample_request ''POST'' ''/agent/report'')\<lparr>rq_body := Obj [(''metrics'', Obj [(''queue_ready'', num_val 3)])]\<rparr>)
        sample_gateway sample_database)))
   = Some \<lparr>metric_gateway = gw_pk sample_gateway,
       metrics = the (json_stringify (metrics_value [(''queue_ready'', 3)])), metric_updated = 7\<rparr>"
proof -
  have s: "report_schema (Obj [(''metrics'', Obj [(''queue_ready'', num_val 3)])])
    = Inr \<lparr>rp_applied = None, rp_error = None, rp_restart = None, rp_version = None, rp_metrics = Some [(''queue_ready'', 3)]\<rparr>"
    by code_simp
  then have "report_schema (rq_body ((sample_request ''POST'' ''/agent/report'')\<lparr>rq_body := Obj [(''metrics'', Obj [(''queue_ready'', num_val 3)])]\<rparr>))
    = Inr \<lparr>rp_applied = None, rp_error = None, rp_restart = None, rp_version = None, rp_metrics = Some [(''queue_ready'', 3)]\<rparr>"
    by simp
  from heartbeat_snapshot [OF this, of sample_database sample_library 7 sample_gateway] show ?thesis
    by (simp add: sample_database_def empty_database_def)
qed

end
