(* ===== verification/GatewayProps.thy ===== *)
theory GatewayProps
  imports Gateways
begin

text \<open>
  What an operator can do to a gateway: saving assignments replaces one gateway's set or fails as a whole, approval is
  confined to the gateway and the three statuses, and removal forgets everything filed under the gateway.
\<close>

section \<open>Assignments\<close>

lemma insert_all_filter:
  assumes "\<And>k r. r \<in> set rs \<Longrightarrow> P (put k r) = b"
  shows "filter P (rows (insert_all put rs t)) = filter P (rows t) @ (if b then drop (length (rows t)) (rows (insert_all put rs t)) else [])"
proof -
  have "\<exists>ys. rows (insert_all put rs t) = rows t @ ys \<and> (\<forall>y \<in> set ys. P y = b)"
    using assms
  proof (induction rs arbitrary: t)
    case (Cons r rs)
    let ?t = "sql_insert (\<lambda>k. put k r) t"
    have "\<exists>ys. rows (insert_all put rs ?t) = rows ?t @ ys \<and> (\<forall>y \<in> set ys. P y = b)"
      by (rule Cons.IH) (use Cons.prems in auto)
    then obtain ys where "rows (insert_all put rs ?t) = rows ?t @ ys" "\<forall>y \<in> set ys. P y = b" by blast
    with Cons.prems show ?case by (auto simp: insert_all_def)
  qed (simp add: insert_all_def)
  then obtain ys where "rows (insert_all put rs t) = rows t @ ys" "\<forall>y \<in> set ys. P y = b" by blast
  then show ?thesis by (cases b) (simp_all add: filter_empty_conv filter_id_conv)
qed

lemma insert_all_map:
  assumes "\<And>k r. r \<in> set rs \<Longrightarrow> f (put k r) = r"
  shows "map f (drop (length (rows t)) (rows (insert_all put rs t))) = rs"
proof -
  have "\<exists>ys. rows (insert_all put rs t) = rows t @ ys \<and> map f ys = rs"
    using assms
  proof (induction rs arbitrary: t)
    case (Cons r rs)
    let ?t = "sql_insert (\<lambda>k. put k r) t"
    have "\<exists>ys. rows (insert_all put rs ?t) = rows ?t @ ys \<and> map f ys = rs"
      by (rule Cons.IH) (use Cons.prems in auto)
    then obtain ys where "rows (insert_all put rs ?t) = rows ?t @ ys" "map f ys = rs" by blast
    with Cons.prems show ?case by (auto simp: insert_all_def)
  qed (simp add: insert_all_def)
  then show ?thesis by auto
qed

context keyed_rows begin

lemma insert_all_ok:
  assumes "keys_ok key t"
  shows "keys_ok key (insert_all set_key rs t)"
  using assms
proof (induction rs arbitrary: t)
  case (Cons r rs)
  then show ?case using insert_ok [of t r] by (simp add: insert_all_def)
qed (simp add: insert_all_def)

end

lemma check_wanted_ok:
  "check_wanted kinds ws = Inr () \<longleftrightarrow> (\<forall>(kind, p) \<in> set ws. map_of (rev kinds) p = Some kind)"
  by (induction kinds ws rule: check_wanted.induct) (auto split: option.splits)

definition right_kind :: "database \<Rightarrow> string \<times> int \<Rightarrow> bool" where
  "right_kind d w \<longleftrightarrow> (\<exists>q \<in> set (rows (config_profiles d)). profile_pk q = snd w \<and> profile_kind q = fst w)"

lemma kind_lookup:
  assumes "keys_ok profile_pk (config_profiles d)" "p \<in> ps"
  shows "map_of (rev (map (\<lambda>p. (profile_pk p, profile_kind p)) (sql_select (\<lambda>p. profile_pk p \<in> ps) (config_profiles d)))) p = Some kind
    \<longleftrightarrow> right_kind d (kind, p)"
proof -
  let ?l = "map (\<lambda>p. (profile_pk p, profile_kind p)) (sql_select (\<lambda>p. profile_pk p \<in> ps) (config_profiles d))"
  have "distinct (map fst ?l)" using assms(1)
    by (simp add: comp_def sql_select_def keys_ok_def distinct_map_filter)
  then have "distinct (map fst (rev ?l))" by (metis distinct_rev rev_map)
  then have "map_of (rev ?l) p = Some kind \<longleftrightarrow> (p, kind) \<in> set (rev ?l)" by (rule map_of_eq_Some_iff)
  then have "map_of (rev ?l) p = Some kind \<longleftrightarrow> (p, kind) \<in> set ?l" by (simp only: set_rev)
  also have "\<dots> \<longleftrightarrow> right_kind d (kind, p)" using assms(2) by (auto simp: right_kind_def)
  finally show ?thesis .
qed

lemma assignment_rows_own:
  "a \<in> set (assignment_rows i body) \<Longrightarrow> assign_gateway a = i \<and> assign_pk a = 0"
  by (auto simp: assignment_rows_def split: option.splits)

lemma save_transaction:
  assumes "keys_ok profile_pk (config_profiles d)"
  shows "if list_all (right_kind d) (wanted_profiles body)
    then save_in_transaction i body d = Inr ((), d\<lparr>gateway_assignments :=
      insert_all (\<lambda>k a. a\<lparr>assign_pk := k\<rparr>) (assignment_rows i body) (sql_delete (\<lambda>a. assign_gateway a = i) (gateway_assignments d))\<rparr>)
    else \<exists>e. save_in_transaction i body d = Inl e"
proof -
  let ?k = "map (\<lambda>p. (profile_pk p, profile_kind p)) (sql_select (\<lambda>p. profile_pk p \<in> set (map snd (wanted_profiles body))) (config_profiles d))"
  have "(check_wanted ?k (wanted_profiles body) = Inr ()) = list_all (right_kind d) (wanted_profiles body)"
    unfolding check_wanted_ok list_all_iff
  proof (rule ball_cong [OF refl], clarify)
    fix k p
    assume "(k, p) \<in> set (wanted_profiles body)"
    then have "p \<in> set (map snd (wanted_profiles body))" by force
    then show "(map_of (rev ?k) p = Some k) = right_kind d (k, p)" by (rule kind_lookup [OF assms])
  qed
  then show ?thesis
    by (cases "check_wanted ?k (wanted_profiles body)"; cases "wanted_profiles body = []")
      (simp_all add: save_in_transaction_def Let_def)
qed

text \<open>Saving assignments replaces one gateway's assignment set as a whole or not at all: if every profile the form
  names exists and has the kind of its slot, the rows of this gateway become exactly those of the form, keys
  stay unique and the rows of every other gateway and every other table are as they were; otherwise the answer is an
  error page and nothing has changed.\<close>

theorem save_assignments_whole:
  assumes "keys_ok profile_pk (config_profiles d)" "keys_ok assign_pk (gateway_assignments d)"
    and "route_gateway r = Some i" "rq_body r = Obj ps"
  shows "if list_all (right_kind d) (wanted_profiles (Obj ps))
    then \<exists>t. save_assignments r d = (Inr (Redirect (gateway_url i)), d\<lparr>gateway_assignments := t\<rparr>) \<and> keys_ok assign_pk t
      \<and> map (\<lambda>a. a\<lparr>assign_pk := 0\<rparr>) (filter (\<lambda>a. assign_gateway a = i) (rows t)) = assignment_rows i (Obj ps)
      \<and> filter (\<lambda>a. assign_gateway a \<noteq> i) (rows t) = filter (\<lambda>a. assign_gateway a \<noteq> i) (rows (gateway_assignments d))
    else \<exists>m. save_assignments r d = (Inr (error_page 400 m), d)"
proof -
  let ?rs = "assignment_rows i (Obj ps)"
  let ?put = "\<lambda>k a. a\<lparr>assign_pk := k\<rparr> :: gateway_assignment"
  let ?del = "sql_delete (\<lambda>a. assign_gateway a = i) (gateway_assignments d)"
  let ?t = "insert_all ?put ?rs ?del"
  note own = assignment_rows_own [of _ i "Obj ps"]
  have own_rows: "filter (\<lambda>a. assign_gateway a = i) (rows ?t) = drop (length (rows ?del)) (rows ?t)"
    using insert_all_filter [of ?rs "\<lambda>a. assign_gateway a = i" ?put True ?del] own
    by (simp add: filter_empty_conv del: length_map)
  have zero: "map (\<lambda>a. a\<lparr>assign_pk := 0\<rparr>) (drop (length (rows ?del)) (rows ?t)) = ?rs"
    by (rule insert_all_map) (use own in simp)
  have others: "filter (\<lambda>a. assign_gateway a \<noteq> i) (rows ?t) = filter (\<lambda>a. assign_gateway a \<noteq> i) (rows (gateway_assignments d))"
    using insert_all_filter [of ?rs "\<lambda>a. assign_gateway a \<noteq> i" ?put False ?del] own by simp
  have keys: "keys_ok assign_pk ?t"
    by (intro assigns.insert_all_ok assigns.delete_ok assms(2))
  show ?thesis
  proof (cases "list_all (right_kind d) (wanted_profiles (Obj ps))")
    case True
    then have "save_assignments r d = (Inr (Redirect (gateway_url i)), d\<lparr>gateway_assignments := ?t\<rparr>)"
      using save_transaction [OF assms(1), of "Obj ps" i] assms(3,4) by (simp add: save_assignments_def run_tx_def)
    with True keys others zero show ?thesis unfolding own_rows [symmetric] by (simp only: if_True) blast
  next
    case False
    then obtain e where "save_in_transaction i (Obj ps) d = Inl e"
      using save_transaction [OF assms(1), of "Obj ps" i] by (simp only: if_False) blast
    then have "save_assignments r d = (Inr (error_page 400 (''Could not save assignments: '' @ e)), d)"
      using assms(3,4) by (simp add: save_assignments_def run_tx_def)
    with False show ?thesis by (simp only: if_False) blast
  qed
qed

section \<open>Approval\<close>

lemma session_email_frame:
  "session_email_of cr now r d = (e, d1) \<Longrightarrow> \<exists>sess. d1 = d\<lparr>sessions := sess\<rparr>"
  by (auto simp: session_email_of_def get_session_def split: if_splits prod.splits intro: exI [of _ "sessions d"])

text \<open>Only three statuses can be set and only on the gateway named: whatever is posted, every row that changes is
  the gateway of the route, its new status is approved, rejected or revoked, nothing else of it changes but
  who approved it and when, and these are stamped exactly by an approval, with the session's e-mail. No row is ever
  put back to pending, and a listener is notified only when an update was made.\<close>

theorem set_status_confined:
  assumes "set_status cr now b r d = ((rep, d'), ls)"
  shows "(\<exists>sess. d'\<lparr>gateways := gateways d\<rparr> = d\<lparr>sessions := sess\<rparr>)
    \<and> ((gateways d' = gateways d \<and> ls = [])
       \<or> (\<exists>i s who. route_gateway r = Some i \<and> s \<in> {''approved'', ''rejected'', ''revoked''}
           \<and> get_prop (rq_body r) ''status'' = Str s \<and> who = nullish (fst (session_email_of cr now r d)) ''unknown''
           \<and> rep = Inr (Redirect (gateway_url i)) \<and> ls = notify_gateway b i
           \<and> rows (gateways d') = map (\<lambda>g. if gw_pk g = i
               then (if s = ''approved'' then g\<lparr>gw_status := s, approved_by := Some who, approved_at := Some now\<rparr>
                     else g\<lparr>gw_status := s\<rparr>) else g) (rows (gateways d))))"
proof -
  obtain e d1 where se: "session_email_of cr now r d = (e, d1)" by (cases "session_email_of cr now r d")
  then have d1: "\<exists>sess. d1 = d\<lparr>sessions := sess\<rparr>" by (rule session_email_frame)
  show ?thesis
  proof (cases "\<exists>i s. route_gateway r = Some i \<and> s \<in> set settable_status \<and> rq_body r \<noteq> Undef \<and> rq_body r \<noteq> Null
      \<and> get_prop (rq_body r) ''status'' = Str s")
    case True
    then obtain i s where i: "route_gateway r = Some i" and s: "s \<in> set settable_status"
      and b: "read_prop (rq_body r) ''status'' = Inr (Str s)" "get_prop (rq_body r) ''status'' = Str s"
      by (auto simp: read_prop_def)
    have "rep = Inr (Redirect (gateway_url i)) \<and> ls = notify_gateway b i \<and> d' = d1\<lparr>gateways := sql_update (\<lambda>g. gw_pk g = i)
        (\<lambda>g. if s = ''approved'' then g\<lparr>gw_status := s, approved_by := Some (nullish e ''unknown''), approved_at := Some now\<rparr>
             else g\<lparr>gw_status := s\<rparr>) (gateways d1)\<rparr>"
      using assms i s b(1) se by (simp add: set_status_def who_is_def Let_def)
    with d1 i s b(2) se show ?thesis by (auto simp: settable_status_def)
  next
    case False
    then have "d' = d \<and> ls = []"
      using assms by (auto simp: set_status_def quiet_def read_prop_def split: option.splits if_splits)
    then show ?thesis by (auto intro: exI [of _ "sessions d"])
  qed
qed

section \<open>Removal\<close>

lemma forget_versions: "versions_of (forget_gateway i d) j = (if j = i then [] else versions_of d j)"
  by (auto simp: versions_of_def forget_gateway_def select_simps sql_select_def filter_empty_conv intro!: filter_cong)

lemma forget_history:
  assumes "history_ok cr d"
  shows "history_ok cr (forget_gateway i d)"
proof -
  have "mset (map version (versions_of (forget_gateway i d) gw))
      = mset (map int [1..<Suc (length (versions_of (forget_gateway i d) gw))])" for gw
    using assms by (cases "gw = i") (simp_all add: history_ok_def forget_versions del: upt_Suc)
  moreover have "keys_ok version_pk (config_versions (forget_gateway i d))"
    using vers.delete_ok [of "config_versions d"] assms unfolding history_ok_def by (simp add: forget_gateway_def)
  ultimately show ?thesis using assms by (simp add: history_ok_def forget_gateway_def)
qed

text \<open>Forgetting a gateway removes it and everything filed under it and touches nothing else: no row of the
  four tables names it afterwards, every row that does not name it is kept in its place, the version history of every
  other gateway is as it was, and the invariants of keys, history and pointers survive. Its counters stay behind.\<close>

theorem forget_gateway_clean:
  assumes "route_gateway r = Some i" "history_ok cr d"
  shows "\<exists>d'. delete_handler r d = (Redirect ''/gateways'', d') \<and> history_ok cr d'
    \<and> rows (gateways d') = filter (\<lambda>g. gw_pk g \<noteq> i) (rows (gateways d))
    \<and> rows (gateway_assignments d') = filter (\<lambda>a. assign_gateway a \<noteq> i) (rows (gateway_assignments d))
    \<and> rows (config_deployments d') = filter (\<lambda>x. deployment_gateway x \<noteq> i) (rows (config_deployments d))
    \<and> versions_of d' i = [] \<and> (\<forall>j. j \<noteq> i \<longrightarrow> list_versions d' j = list_versions d j)
    \<and> gateway_metrics d' = gateway_metrics d"
proof -
  have "list_versions (forget_gateway i d) j = list_versions d j" if "j \<noteq> i" for j
    using that by (simp add: list_versions_def forget_versions)
  then show ?thesis
    using assms(1) forget_history [OF assms(2)] forget_versions by (simp add: delete_handler_def) (simp add: forget_gateway_def)
qed

section \<open>Concrete applications\<close>

definition sample_post :: "(string \<times> jsval) list \<Rightarrow> request" where
  "sample_post ps = sample_form None (Obj ps)"

lemma one_text: "js_number ''1'' = Fin 1"
  by code_simp

lemma sample_post_route [simp]: "route_gateway (sample_post ps) = Some 1"
  by (simp add: route_gateway_def sample_post_def sample_form_def one_text positive_int_def is_integer_def to_int_def)

lemma sample_post_body [simp]: "rq_body (sample_post ps) = Obj ps"
  by (simp add: sample_post_def sample_form_def)

lemma save_assignments_whole_witness:
  "\<exists>t. save_assignments (sample_post [(''relay_groups'', Str ''1'')]) sample_database
      = (Inr (Redirect (gateway_url 1)), sample_database\<lparr>gateway_assignments := t\<rparr>)
    \<and> map assign_kind (filter (\<lambda>a. assign_gateway a = 1) (rows t)) = [''relaygroup'']"
proof -
  have w: "wanted_profiles (Obj [(''relay_groups'', Str ''1'')]) = []"
    by (simp add: wanted_profiles_def List.map_filter_def profile_kinds_def get_prop_def js_to_number_def positive_int_def is_integer_def)
  have a: "map assign_kind (assignment_rows 1 (Obj [(''relay_groups'', Str ''1'')])) = [''relaygroup'']"
    by (simp add: assignment_rows_def w wanted_groups_def List.map_filter_def get_prop_def js_to_number_def one_text
        positive_int_def is_integer_def to_int_def)
  have "keys_ok profile_pk (config_profiles sample_database)" "keys_ok assign_pk (gateway_assignments sample_database)"
    by (simp_all add: keys_ok_def sample_database_def)
  from save_assignments_whole [OF this sample_post_route sample_post_body, of "[(''relay_groups'', Str ''1'')]"]
  obtain t where t: "save_assignments (sample_post [(''relay_groups'', Str ''1'')]) sample_database
      = (Inr (Redirect (gateway_url 1)), sample_database\<lparr>gateway_assignments := t\<rparr>)"
    and m: "map (\<lambda>a. a\<lparr>assign_pk := 0\<rparr>) (filter (\<lambda>a. assign_gateway a = 1) (rows t))
      = assignment_rows 1 (Obj [(''relay_groups'', Str ''1'')])"
    by (simp only: w list.pred_inject(1) if_True) blast
  have "map assign_kind (filter (\<lambda>a. assign_gateway a = 1) (rows t))
      = map assign_kind (map (\<lambda>a. a\<lparr>assign_pk := 0\<rparr>) (filter (\<lambda>a. assign_gateway a = 1) (rows t)))"
    by (simp add: comp_def)
  then show ?thesis using t m a by metis
qed

lemma set_status_confined_witness:
  "map gw_status (rows (gateways (snd (fst (set_status sample_library 5 [] (sample_post [(''status'', Str ''pending'')])
      sample_database))))) = [''approved'', ''pending'']"
proof -
  obtain rep d' ls where s: "set_status sample_library 5 [] (sample_post [(''status'', Str ''pending'')]) sample_database
      = ((rep, d'), ls)" by (metis prod.exhaust)
  have "gateways d' = gateways sample_database" using set_status_confined [OF s] by (auto simp: get_prop_def)
  with s show ?thesis by (simp add: sample_database_def sample_gateway_def)
qed

lemma forget_gateway_clean_witness:
  "map gw_pk (rows (gateways (snd (delete_handler (sample_post []) sample_database)))) = [2]"
proof -
  have "history_ok sample_library sample_database"
    by (simp add: history_ok_def keys_ok_def versions_of_def sql_select_def sample_database_def empty_database_def empty_table_def)
  from forget_gateway_clean [OF sample_post_route this, of "[]"]
  obtain d' where "delete_handler (sample_post []) sample_database = (Redirect ''/gateways'', d')"
    and "rows (gateways d') = filter (\<lambda>g. gw_pk g \<noteq> 1) (rows (gateways sample_database))" by blast
  then show ?thesis by (simp add: sample_database_def sample_gateway_def)
qed

end
