(* ===== verification/ConfigProps.thy ===== *)
theory ConfigProps
  imports ConfigCtrl
begin

text \<open>
  What the configuration controllers keep: keys and unique indexes, relays the gateway accepts, and secrets
  that are stored only sealed or hashed.
\<close>

section \<open>Unique columns\<close>

lemma sql_update_none:
  assumes "\<not> (\<exists>r \<in> set (rows t). P r)"
  shows "sql_update P f t = t"
  by (rule sql_update_id) (use assms in blast)

lemma distinct_insert:
  assumes "distinct (map u (rows t))" "\<And>r. r \<in> set (rows t) \<Longrightarrow> u r \<noteq> u (mk (next_id t))"
  shows "distinct (map u (rows (sql_insert mk t)))"
proof -
  have "u (mk (next_id t)) \<notin> set (map u (rows t))" using assms(2) by fastforce
  with assms(1) show ?thesis by simp
qed

lemma distinct_delete:
  assumes "distinct (map u (rows t))"
  shows "distinct (map u (rows (sql_delete P t)))"
  using assms by (simp add: distinct_map_filter)

lemma distinct_update:
  assumes "keys_ok k t" "distinct (map u (rows t))"
    and "\<And>r. u (f r) = v" and "\<And>r. r \<in> set (rows t) \<Longrightarrow> num_is x (k r) \<or> u r \<noteq> v"
  shows "distinct (map u (rows (sql_update (\<lambda>r. num_is x (k r)) f t)))"
proof -
  let ?w = "\<lambda>r. if num_is x (k r) then v else u r"
  have d: "distinct (rows t)" using assms(2) by (simp add: distinct_map)
  have "inj_on ?w (set (rows t))"
  proof (rule inj_onI)
    fix r s assume rs: "r \<in> set (rows t)" "s \<in> set (rows t)" and e: "?w r = ?w s"
    have k: "inj_on k (set (rows t))" and u: "inj_on u (set (rows t))"
      using assms(1,2) by (auto simp: keys_ok_def distinct_map)
    show "r = s"
    proof (cases "num_is x (k r)"; cases "num_is x (k s)")
      assume "num_is x (k r)" "num_is x (k s)"
      then have "k r = k s" by (rule num_is_unique)
      with k rs show ?thesis by (simp add: inj_on_eq_iff)
    next
      assume "\<not> num_is x (k r)" "\<not> num_is x (k s)"
      with e u rs show ?thesis by (simp add: inj_on_eq_iff)
    qed (use e rs assms(4) in auto)
  qed
  moreover have "map u (rows (sql_update (\<lambda>r. num_is x (k r)) f t)) = map ?w (rows t)"
    using assms(3) by simp
  ultimately show ?thesis using d by (simp only: distinct_map)
qed

section \<open>The invariant\<close>

definition relay_ok :: "relay \<Rightarrow> bool" where
  "relay_ok m \<longleftrightarrow> truthy_str (relay_host m) \<and> (relay_tls m = None \<or> the (relay_tls m) \<in> set relay_tls_policies)
     \<and> (\<exists>p. relay_port m = Some p \<and> \<bar>p\<bar> \<le> 2 ^ 31)"

definition config_ok :: "database \<Rightarrow> bool" where
  "config_ok d \<longleftrightarrow>
     keys_ok profile_pk (config_profiles d) \<and> distinct (map (\<lambda>p. (profile_kind p, profile_name p)) (rows (config_profiles d)))
     \<and> keys_ok group_pk (relay_groups d)
     \<and> keys_ok relay_pk (relays d) \<and> list_all relay_ok (rows (relays d))
     \<and> keys_ok set_pk (credential_sets d) \<and> distinct (map set_name (rows (credential_sets d)))
     \<and> keys_ok cred_pk (smtp_credentials d)
     \<and> distinct (map (\<lambda>c. (set_id c, username c)) (rows (smtp_credentials d)))"

datatype config_action =
    ProfileCreate | ProfileEdit | ProfileDelete
  | GroupCreate | GroupEdit | GroupDelete
  | RelayCreate | RelayEdit | RelayDelete
  | SetCreate | SetEdit | SetDelete
  | CredentialCreate | CredentialEdit | CredentialDelete

definition done_as :: "reply \<times> database \<Rightarrow> outcome" where
  "done_as p = (Inr (fst p), snd p)"

definition config_change ::
  "library \<Rightarrow> env \<Rightarrow> key_cache \<Rightarrow> string \<Rightarrow> string \<Rightarrow> config_action \<Rightarrow> request \<Rightarrow> database \<Rightarrow> outcome" where
  "config_change cr env cache iv salt act r d =
     (case act of
        ProfileCreate \<Rightarrow> profiles_create_handle cr r d
      | ProfileEdit \<Rightarrow> profiles_edit_handle cr r d
      | ProfileDelete \<Rightarrow> done_as (profiles_delete_handle r d)
      | GroupCreate \<Rightarrow> done_as (relaygrp_create_handle cr r d)
      | GroupEdit \<Rightarrow> done_as (relaygrp_edit_handle cr r d)
      | GroupDelete \<Rightarrow> done_as (relaygrp_delete_handle r d)
      | RelayCreate \<Rightarrow> relay_create_handle cr env cache iv r d
      | RelayEdit \<Rightarrow> relay_edit_handle cr env cache iv r d
      | RelayDelete \<Rightarrow> done_as (relay_delete_handle r d)
      | SetCreate \<Rightarrow> credset_create_handle cr r d
      | SetEdit \<Rightarrow> credset_edit_handle cr r d
      | SetDelete \<Rightarrow> done_as (credset_delete_handle r d)
      | CredentialCreate \<Rightarrow> cred_create_handle cr salt r d
      | CredentialEdit \<Rightarrow> cred_edit_handle cr salt r d
      | CredentialDelete \<Rightarrow> done_as (cred_delete_handle r d))"

lemma done_as_simps [simp]: "fst (done_as p) = Inr (fst p)" "snd (done_as p) = snd p"
  by (simp_all add: done_as_def)

text \<open>Replacing one table: what is left to show.\<close>

lemma config_ok_table:
  assumes "config_ok d"
  shows "config_ok (d\<lparr>config_profiles := tp\<rparr>) \<longleftrightarrow>
      keys_ok profile_pk tp \<and> distinct (map (\<lambda>p. (profile_kind p, profile_name p)) (rows tp))"
    "config_ok (d\<lparr>relay_groups := tg\<rparr>) \<longleftrightarrow> keys_ok group_pk tg"
    "config_ok (d\<lparr>relays := tr\<rparr>) \<longleftrightarrow> keys_ok relay_pk tr \<and> list_all relay_ok (rows tr)"
    "config_ok (d\<lparr>credential_sets := ts\<rparr>) \<longleftrightarrow> keys_ok set_pk ts \<and> distinct (map set_name (rows ts))"
    "config_ok (d\<lparr>smtp_credentials := tc\<rparr>) \<longleftrightarrow>
      keys_ok cred_pk tc \<and> distinct (map (\<lambda>c. (set_id c, username c)) (rows tc))"
  using assms by (simp_all add: config_ok_def)

lemmas config_tables = config_ok_def [THEN iffD1]

text \<open>Each table: what one operation on it keeps.\<close>

lemma insert_profile_ok:
  assumes "config_ok d" "insert_profile f d = Inr d'"
  shows "config_ok d'"
proof -
  have free: "\<not> (\<exists>p \<in> set (rows (config_profiles d)). profile_kind p = pf_kind f \<and> profile_name p = pf_name f)"
    and d': "d' = d\<lparr>config_profiles := sql_insert (\<lambda>i. \<lparr>profile_pk = i, profile_kind = pf_kind f, profile_name = pf_name f,
       profile_description = pf_description f, profile_body = pf_body f\<rparr>) (config_profiles d)\<rparr>"
    using assms(2) by (simp_all add: insert_profile_def split: if_splits)
  show ?thesis unfolding d' config_ok_table [OF assms(1)]
  proof (intro conjI distinct_insert)
    show "keys_ok profile_pk (sql_insert (\<lambda>i. \<lparr>profile_pk = i, profile_kind = pf_kind f, profile_name = pf_name f,
       profile_description = pf_description f, profile_body = pf_body f\<rparr>) (config_profiles d))"
      using profs.insert_ok [of "config_profiles d" "\<lparr>profile_pk = 0, profile_kind = pf_kind f, profile_name = pf_name f,
        profile_description = pf_description f, profile_body = pf_body f\<rparr>"] config_tables [OF assms(1)] by simp
  qed (use config_tables [OF assms(1)] free in auto)
qed

lemma update_profile_ok:
  assumes "config_ok d" "update_profile body x f d = Inr d'"
  shows "config_ok d'"
proof (cases "\<exists>p \<in> set (rows (config_profiles d)). num_is x (profile_pk p)")
  case False
  then have "d' = d" using assms(2) sql_update_none [OF False] by (simp add: update_profile_def)
  with assms(1) show ?thesis by simp
next
  case True
  let ?f = "\<lambda>p. p\<lparr>profile_kind := pf_kind f, profile_name := pf_name f,
    profile_description := kept body ''description'' (profile_description p) (pf_description f), profile_body := pf_body f\<rparr>"
  have d': "d' = d\<lparr>config_profiles := sql_update (\<lambda>p. num_is x (profile_pk p)) ?f (config_profiles d)\<rparr>"
    and free: "\<not> (\<exists>p \<in> set (rows (config_profiles d)). \<not> num_is x (profile_pk p) \<and> profile_kind p = pf_kind f \<and> profile_name p = pf_name f)"
    using assms(2) True by (simp_all add: update_profile_def split: if_splits)
  show ?thesis unfolding d' config_ok_table [OF assms(1)]
    by (intro conjI profs.update_ok distinct_update [where v = "(pf_kind f, pf_name f)"])
      (use config_tables [OF assms(1)] free in auto)
qed

lemma insert_set_ok:
  assumes "config_ok d" "insert_set f d = Inr d'"
  shows "config_ok d'"
proof -
  have free: "\<not> (\<exists>s \<in> set (rows (credential_sets d)). set_name s = nf_name f)"
    and d': "d' = d\<lparr>credential_sets := sql_insert (\<lambda>i. \<lparr>set_pk = i, set_name = nf_name f,
       set_description = nf_description f\<rparr>) (credential_sets d)\<rparr>"
    using assms(2) by (simp_all add: insert_set_def split: if_splits)
  show ?thesis unfolding d' config_ok_table [OF assms(1)]
  proof (intro conjI distinct_insert)
    show "keys_ok set_pk (sql_insert (\<lambda>i. \<lparr>set_pk = i, set_name = nf_name f, set_description = nf_description f\<rparr>) (credential_sets d))"
      using sets.insert_ok [of "credential_sets d" "\<lparr>set_pk = 0, set_name = nf_name f, set_description = nf_description f\<rparr>"]
        config_tables [OF assms(1)] by simp
  qed (use config_tables [OF assms(1)] free in auto)
qed

lemma update_set_ok:
  assumes "config_ok d" "update_set body x f d = Inr d'"
  shows "config_ok d'"
proof (cases "\<exists>s \<in> set (rows (credential_sets d)). num_is x (set_pk s)")
  case False
  then have "d' = d" using assms(2) sql_update_none [OF False] by (simp add: update_set_def)
  with assms(1) show ?thesis by simp
next
  case True
  let ?f = "\<lambda>s. s\<lparr>set_name := nf_name f, set_description := kept body ''description'' (set_description s) (nf_description f)\<rparr>"
  have d': "d' = d\<lparr>credential_sets := sql_update (\<lambda>s. num_is x (set_pk s)) ?f (credential_sets d)\<rparr>"
    and free: "\<not> (\<exists>s \<in> set (rows (credential_sets d)). \<not> num_is x (set_pk s) \<and> set_name s = nf_name f)"
    using assms(2) True by (simp_all add: update_set_def split: if_splits)
  show ?thesis unfolding d' config_ok_table [OF assms(1)]
    by (intro conjI sets.update_ok distinct_update [where v = "nf_name f"])
      (use config_tables [OF assms(1)] free in auto)
qed

lemma insert_credential_ok:
  assumes "config_ok d" "insert_credential f h d = Inr d'"
  shows "config_ok d'"
proof -
  have free: "\<not> (\<exists>c \<in> set (rows (smtp_credentials d)). set_id c = cf_set_id f \<and> username c = cf_username f)"
    and d': "d' = d\<lparr>smtp_credentials := sql_insert (\<lambda>i. \<lparr>cred_pk = i, set_id = cf_set_id f, username = cf_username f,
       cred_hash = h\<rparr>) (smtp_credentials d)\<rparr>"
    using assms(2) by (simp_all add: insert_credential_def split: if_splits)
  show ?thesis unfolding d' config_ok_table [OF assms(1)]
  proof (intro conjI distinct_insert)
    show "keys_ok cred_pk (sql_insert (\<lambda>i. \<lparr>cred_pk = i, set_id = cf_set_id f, username = cf_username f, cred_hash = h\<rparr>) (smtp_credentials d))"
      using creds.insert_ok [of "smtp_credentials d" "\<lparr>cred_pk = 0, set_id = cf_set_id f, username = cf_username f, cred_hash = h\<rparr>"]
        config_tables [OF assms(1)] by simp
  qed (use config_tables [OF assms(1)] free in auto)
qed

lemma update_credential_ok:
  assumes "config_ok d" "update_credential x f h d = Inr d'"
  shows "config_ok d'"
proof (cases "\<exists>c \<in> set (rows (smtp_credentials d)). num_is x (cred_pk c)")
  case False
  then have "d' = d" using assms(2) sql_update_none [OF False] by (simp add: update_credential_def)
  with assms(1) show ?thesis by simp
next
  case True
  let ?f = "\<lambda>c. c\<lparr>set_id := cf_set_id f, username := cf_username f, cred_hash := nullish h (cred_hash c)\<rparr>"
  have d': "d' = d\<lparr>smtp_credentials := sql_update (\<lambda>c. num_is x (cred_pk c)) ?f (smtp_credentials d)\<rparr>"
    and free: "\<not> (\<exists>c \<in> set (rows (smtp_credentials d)). \<not> num_is x (cred_pk c) \<and> set_id c = cf_set_id f \<and> username c = cf_username f)"
    using assms(2) True by (simp_all add: update_credential_def split: if_splits)
  show ?thesis unfolding d' config_ok_table [OF assms(1)]
    by (intro conjI creds.update_ok distinct_update [where v = "(cf_set_id f, cf_username f)"])
      (use config_tables [OF assms(1)] free in auto)
qed

text \<open>A relay form that passes gives a relay the gateway accepts.\<close>

lemma relay_form_tls:
  assumes "parse_relay_body b = Inr f"
  shows "rf_tls f = None \<or> the (rf_tls f) \<in> set relay_tls_policies"
proof -
  have "\<exists>v. z_optional (z_enum relay_tls_policies) v = Inr (rf_tls f)"
    using assms by (auto simp: parse_relay_body_def relay_insert_def z_object_def field_def map_sum_Inr_iff
        case_prod_beta override_def)
  then obtain v where "z_optional (z_enum relay_tls_policies) v = Inr (rf_tls f)" by blast
  then show ?thesis by (cases v) (auto simp: z_optional_Inr z_enum_def split: if_splits)
qed

lemma relay_insert_ok:
  assumes "config_ok d" "parse_relay_body b = Inr f"
  shows "config_ok (d\<lparr>relays := sql_insert (new_relay f pass) (relays d)\<rparr>)"
proof -
  have "new_relay f pass = (\<lambda>i. (new_relay f pass 0)\<lparr>relay_pk := i\<rparr>)" by (simp add: new_relay_def fun_eq_iff)
  then have "keys_ok relay_pk (sql_insert (new_relay f pass) (relays d))"
    using relays.insert_ok [of "relays d" "new_relay f pass 0"] config_tables [OF assms(1)] by simp
  moreover have "relay_ok (new_relay f pass i)" for i
    using parse_relay_bounds [OF assms(2)] relay_form_tls [OF assms(2)] by (auto simp: relay_ok_def new_relay_def)
  ultimately show ?thesis unfolding config_ok_table [OF assms(1)] using config_tables [OF assms(1)] by simp
qed

lemma relay_update_ok:
  assumes "config_ok d" "parse_relay_body b = Inr f"
  shows "config_ok (d\<lparr>relays := sql_update (\<lambda>m. num_is x (relay_pk m)) (relay_changes body f pass) (relays d)\<rparr>)"
proof -
  have "relay_ok (relay_changes body f pass m)" if "relay_ok m" for m
    using parse_relay_bounds [OF assms(2)] relay_form_tls [OF assms(2)] that
    by (auto simp: relay_ok_def relay_changes_def kept_def)
  then have "list_all relay_ok (rows (sql_update (\<lambda>m. num_is x (relay_pk m)) (relay_changes body f pass) (relays d)))"
    using config_tables [OF assms(1)] by (auto simp: list_all_iff)
  moreover have "keys_ok relay_pk (sql_update (\<lambda>m. num_is x (relay_pk m)) (relay_changes body f pass) (relays d))"
    by (rule relays.update_ok) (use config_tables [OF assms(1)] in \<open>simp_all add: relay_changes_def\<close>)
  ultimately show ?thesis unfolding config_ok_table [OF assms(1)] by blast
qed

lemma drop_ok:
  assumes "config_ok d"
  shows "config_ok (d\<lparr>config_profiles := sql_delete P1 (config_profiles d)\<rparr>)"
    "config_ok (d\<lparr>relay_groups := sql_delete P2 (relay_groups d)\<rparr>)"
    "config_ok (d\<lparr>relays := sql_delete P3 (relays d)\<rparr>)"
    "config_ok (d\<lparr>credential_sets := sql_delete P4 (credential_sets d)\<rparr>)"
    "config_ok (d\<lparr>smtp_credentials := sql_delete P5 (smtp_credentials d)\<rparr>)"
  unfolding config_ok_table [OF assms]
  using config_tables [OF assms] profs.delete_ok [of "config_profiles d" P1] groups.delete_ok [of "relay_groups d" P2]
    relays.delete_ok [of "relays d" P3] sets.delete_ok [of "credential_sets d" P4] creds.delete_ok [of "smtp_credentials d" P5]
  by (simp_all add: distinct_map_filter list_all_iff)

lemma group_ok:
  assumes "config_ok d"
  shows "config_ok (d\<lparr>relay_groups := sql_insert (\<lambda>i. \<lparr>group_pk = i, group_name = n, group_description = e\<rparr>) (relay_groups d)\<rparr>)"
    "config_ok (d\<lparr>relay_groups := sql_update P (\<lambda>g. g\<lparr>group_name := n, group_description := h g\<rparr>) (relay_groups d)\<rparr>)"
  unfolding config_ok_table [OF assms]
  using config_tables [OF assms] groups.insert_ok [of "relay_groups d" "\<lparr>group_pk = 0, group_name = n, group_description = e\<rparr>"]
    groups.update_ok [of "relay_groups d" "\<lambda>g. g\<lparr>group_name := n, group_description := h g\<rparr>" P]
  by simp_all

section \<open>Every operation keeps it\<close>

lemma relay_handlers_ok:
  assumes "config_ok d"
  shows "config_ok (snd (relay_create_handle cr env cache iv r d))" "config_ok (snd (relay_edit_handle cr env cache iv r d))"
  using assms relay_insert_ok [OF assms, of "rq_body r"] relay_update_ok [OF assms, of "rq_body r"]
  by (auto simp: relay_create_handle_def relay_edit_handle_def Let_def split: sum.split)

lemma credential_handlers_ok:
  assumes "config_ok d"
  shows "config_ok (snd (cred_create_handle cr salt r d))" "config_ok (snd (cred_edit_handle cr salt r d))"
  using assms insert_credential_ok [OF assms] update_credential_ok [OF assms]
  by (auto simp: cred_create_handle_def cred_edit_handle_def Let_def split: sum.split option.split)

lemma set_delete_ok:
  assumes "config_ok d"
  shows "config_ok (snd (credset_delete_handle r d))"
  using drop_ok(4) [OF drop_ok(5) [OF assms]] by (simp add: credset_delete_handle_def Let_def)

text \<open>The tables an operator configures from stay well formed whatever is posted to their controllers: keys stay
  unique, no two profiles share kind and name, no two credential sets a name, no two credentials of a set a username,
  and every stored relay names a host, has a TLS policy the gateway knows and a port within 32 bits.\<close>

lemma config_change_ok:
  assumes "config_ok d"
  shows "config_ok (snd (config_change cr env cache iv salt act r d))"
  using assms relay_handlers_ok [OF assms] credential_handlers_ok [OF assms] set_delete_ok [OF assms] drop_ok [OF assms]
    group_ok [OF assms] insert_profile_ok [OF assms] update_profile_ok [OF assms] insert_set_ok [OF assms] update_set_ok [OF assms]
  by (cases act)
    (simp_all add: config_change_def profiles_create_handle_def profiles_edit_handle_def profiles_delete_handle_def
      relaygrp_create_handle_def relaygrp_edit_handle_def relaygrp_delete_handle_def relay_delete_handle_def
      credset_create_handle_def credset_edit_handle_def cred_delete_handle_def Let_def split: sum.split)

section \<open>Secrets\<close>

lemma credential_password_bounds:
  "credential_password v = Inr p \<Longrightarrow> v = Str p \<and> 12 \<le> js_length p \<and> length p \<le> 72"
  by (auto simp: credential_password_def z_string_Inr bcrypt_max_password_bytes_def)

lemma cred_create_cases:
  "(\<exists>f pass. credential_password (get_prop (rq_body r) ''password'') = Inr pass
      \<and> insert_credential f (bcrypt_hash cr salt pass) d = Inr (snd (cred_create_handle cr salt r d)))
   \<or> snd (cred_create_handle cr salt r d) = d"
  by (auto simp: cred_create_handle_def Let_def read_prop_def hash_password_def credential_password_def z_string_Inr
      js_length_def split: sum.split)

lemma cred_edit_cases:
  "(\<exists>f h d'. snd (cred_edit_handle cr salt r d) = d' \<and> update_credential (route_num r) f h d = Inr d'
      \<and> (h = None \<or> (\<exists>pass. h = Some (bcrypt_hash cr salt pass)
           \<and> credential_password (Str (js_string (get_prop (rq_body r) ''password''))) = Inr pass)))
   \<or> snd (cred_edit_handle cr salt r d) = d"
  by (auto simp: cred_edit_handle_def Let_def read_prop_def hash_password_def text_or_def split: sum.split option.split)

text \<open>A submission password is stored only as a bcrypt hash of what the policy accepts, and only on request: after any
  credential operation every stored hash is one its row had before or the hash of the posted password, which then has
  at least 12 characters and at most 72 bytes. A \<open>hash\<close> field in the body is never stored, and a blank password
  on edit renames without touching the hash.\<close>

theorem credential_hashes_only:
  assumes "act \<in> {CredentialCreate, CredentialEdit}"
    and "c \<in> set (rows (smtp_credentials (snd (config_change cr env cache iv salt act r d))))"
  shows "(\<exists>c' \<in> set (rows (smtp_credentials d)). cred_pk c' = cred_pk c \<and> cred_hash c' = cred_hash c)
    \<or> (\<exists>pass. cred_hash c = bcrypt_hash cr salt pass \<and> 12 \<le> js_length pass \<and> length pass \<le> 72
         \<and> pass = js_string (get_prop (rq_body r) ''password''))"
proof (cases "act = CredentialCreate")
  case True
  then have c: "c \<in> set (rows (smtp_credentials (snd (cred_create_handle cr salt r d))))"
    using assms(2) by (simp add: config_change_def)
  from cred_create_cases [of r cr salt d] show ?thesis
  proof
    assume "snd (cred_create_handle cr salt r d) = d"
    with c show ?thesis by auto
  next
    assume "\<exists>f pass. credential_password (get_prop (rq_body r) ''password'') = Inr pass
      \<and> insert_credential f (bcrypt_hash cr salt pass) d = Inr (snd (cred_create_handle cr salt r d))"
    then obtain f pass where p: "credential_password (get_prop (rq_body r) ''password'') = Inr pass"
      and h: "insert_credential f (bcrypt_hash cr salt pass) d = Inr (snd (cred_create_handle cr salt r d))" by blast
    have "c \<in> set (rows (smtp_credentials d)) \<or> cred_hash c = bcrypt_hash cr salt pass"
      using c h [symmetric] by (auto simp: insert_credential_def split: if_splits)
    with credential_password_bounds [OF p] show ?thesis by auto
  qed
next
  case False
  then have c: "c \<in> set (rows (smtp_credentials (snd (cred_edit_handle cr salt r d))))"
    using assms by (simp add: config_change_def)
  from cred_edit_cases [of cr salt r d] show ?thesis
  proof
    assume "snd (cred_edit_handle cr salt r d) = d"
    with c show ?thesis by auto
  next
    assume "\<exists>f h d'. snd (cred_edit_handle cr salt r d) = d' \<and> update_credential (route_num r) f h d = Inr d'
      \<and> (h = None \<or> (\<exists>pass. h = Some (bcrypt_hash cr salt pass)
           \<and> credential_password (Str (js_string (get_prop (rq_body r) ''password''))) = Inr pass))"
    then obtain f h where u: "update_credential (route_num r) f h d = Inr (snd (cred_edit_handle cr salt r d))"
      and h: "h = None \<or> (\<exists>pass. h = Some (bcrypt_hash cr salt pass)
           \<and> credential_password (Str (js_string (get_prop (rq_body r) ''password''))) = Inr pass)" by blast
    have "\<exists>c' \<in> set (rows (smtp_credentials d)). cred_pk c' = cred_pk c \<and> (cred_hash c = cred_hash c' \<or> Some (cred_hash c) = h)"
      using c u [symmetric] by (cases h) (auto simp: update_credential_def split: if_splits)
    with h show ?thesis by (auto dest: credential_password_bounds)
  qed
qed

lemma encrypt_sealed:
  assumes "gcm_correct cr" "fst (key env cache) = Inr (Some kb)" "length iv = 12" "pt \<noteq> []"
  shows "\<exists>s. encrypt cr env cache iv pt = Inr s \<and> starts_with s prefix_v1 \<and> decrypt cr env cache (Some s) = Inr pt"
proof -
  have "length (snd (gcm_seal cr kb iv pt)) = 16"
    "gcm_open cr kb iv (fst (gcm_seal cr kb iv pt)) (snd (gcm_seal cr kb iv pt)) = Some pt"
    using assms(1) by (simp_all add: gcm_correct_def)
  with assms(2-4) show ?thesis by (simp add: encrypt_cases decrypt_envelope)
qed

text \<open>What saving a relay form must leave behind as the password of a relay that had \<open>old\<close>.\<close>

definition sealed_or_kept :: "library \<Rightarrow> env \<Rightarrow> key_cache \<Rightarrow> relay_form \<Rightarrow> string option \<Rightarrow> string option \<Rightarrow> bool" where
  "sealed_or_kept cr env cache f old new \<longleftrightarrow>
     (if truthy_str (rf_auth_pass f)
      then (\<exists>s. new = Some s \<and> starts_with s prefix_v1 \<and> decrypt cr env cache (Some s) = Inr (the (rf_auth_pass f)))
      else new = old)"

text \<open>C38. A relay password is at rest only sealed: with an encryption key configured, saving an edited relay whose form
  carries a password stores a marked value that decrypts to exactly that password; a form that leaves it blank
  keeps the stored value; and no other relay changes at all.\<close>

theorem relay_password_at_rest:
  assumes "gcm_correct cr" "fst (key env cache) = Inr (Some kb)" "length iv = 12"
    and "parse_relay_body (rq_body r) = Inr f" "relay_edit_handle cr env cache iv r d = (Inr rep, d')"
  shows "list_all2 (\<lambda>m m'. relay_pk m' = relay_pk m \<and>
      (if num_is (route_num r) (relay_pk m) then sealed_or_kept cr env cache f (auth_pass m) (auth_pass m') else m' = m))
    (rows (relays d)) (rows (relays d'))"
proof -
  obtain pass where sp: "stored_pass cr env cache iv (rf_auth_pass f) = Inr pass"
    and d': "relays d' = sql_update (\<lambda>m. num_is (route_num r) (relay_pk m)) (relay_changes (rq_body r) f pass) (relays d)"
    using assms(4,5) by (auto simp: relay_edit_handle_def Let_def split: sum.splits if_splits)
  have pass: "sealed_or_kept cr env cache f old (if truthy_str (rf_auth_pass f) then pass else old)" for old
  proof (cases "truthy_str (rf_auth_pass f)")
    case True
    then obtain p where p: "rf_auth_pass f = Some p" "p \<noteq> []" by (cases "rf_auth_pass f") auto
    with sp encrypt_sealed [OF assms(1-3) p(2)] show ?thesis by (auto simp: sealed_or_kept_def stored_pass_def)
  qed (simp add: sealed_or_kept_def)
  then show ?thesis
    by (simp add: d' list.rel_map list_all2_same) (simp add: relay_changes_def)
qed

section \<open>Concrete applications\<close>

definition sample_config_form :: "(string \<times> jsval) list \<Rightarrow> request" where
  "sample_config_form ps = \<lparr>rq_method = ''POST'', rq_url = ''/'', headers = (\<lambda>_. None), raw_body = [], rq_body = Obj ps,
     rq_query = Undef, rq_id = ''1'', session_cookie = None, rq_ip = ''10.0.0.1'', rq_port = 4000\<rparr>"

lemma one_number: "js_number ''1'' = Fin 1"
  by code_simp

lemma sample_form_simps [simp]:
  "rq_body (sample_config_form ps) = Obj ps" "route_num (sample_config_form ps) = Fin 1"
  by (simp_all add: sample_config_form_def route_num_def one_number)

lemma sample_config_ok: "config_ok sample_database"
  by (simp add: config_ok_def sample_database_def empty_database_def empty_table_def keys_ok_def relay_ok_def sample_relay_def)

definition sample_relay_body :: "(string \<times> jsval) list" where
  "sample_relay_body = [(''group_id'', num_of 1), (''port'', num_of 25), (''priority'', num_of 10), (''host'', Str ''mx1''),
     (''auth_pass'', Str ''hunter2'')]"

lemma number_of_num: "Num (js_to_number (num_of i)) = num_of i"
  by (simp add: js_to_number_def num_of_def)

lemma int_column_num: "\<bar>i\<bar> < 2 ^ 31 \<Longrightarrow> z_nullish int_column (num_of i) = Inr (Some i)"
  unfolding z_nullish_Inr by (auto simp: num_of_def int_column_def z_int_Inr)

lemma nullish_undef: "z_nullish s Undef = Inr None"
  by (simp add: z_nullish_def)

lemma varchar_str: "js_length t \<le> n \<Longrightarrow> z_nullish (varchar_column n) (Str t) = Inr (Some t)"
  unfolding z_nullish_Inr by (simp add: varchar_column_def z_string_Inr at_most_def)

lemma sample_relay_parsed:
  "parse_relay_body (Obj sample_relay_body) = Inr \<lparr>rf_group_id = Some 1, rf_host = ''mx1'', rf_port = Some 25,
     rf_priority = Some 10, rf_auth_user = None, rf_auth_pass = Some ''hunter2'', rf_tls = None,
     rf_allow_insecure_auth = False, rf_use_mx = False\<rparr>"
  by (simp add: parse_relay_body_def relay_insert_def z_object_def field_def override_def obj_put_def get_prop_def
      sample_relay_body_def number_of_num int_column_num map_sum_Inr_iff nullish_undef varchar_str
      z_string_Inr z_optional_Inr z_bool_def at_most_def truthy_def js_length_def byte_units_def) blast

lemma relay_password_at_rest_witness:
  "\<exists>s. map auth_pass (rows (relays (snd (relay_edit_handle sample_library sample_env None ''0123456789ab''
      (sample_config_form sample_relay_body) sample_database)))) = [Some s, None]
    \<and> starts_with s prefix_v1 \<and> decrypt sample_library sample_env None (Some s) = Inr ''hunter2''"
proof -
  let ?r = "sample_config_form sample_relay_body"
  have g: "gcm_correct sample_library" by (simp add: gcm_correct_def sample_library_def)
  have k: "fst (key sample_env None) = Inr (Some (replicate 32 (CHR 0x00)))" by code_simp
  obtain f where f: "parse_relay_body (rq_body ?r) = Inr f" "rf_auth_pass f = Some ''hunter2''"
    by (simp add: sample_relay_parsed)
  obtain rep d' where e: "relay_edit_handle sample_library sample_env None ''0123456789ab'' ?r sample_database = (Inr rep, d')"
    using encrypt_sealed [OF g k, of "''0123456789ab''" "''hunter2''"] f
    by (auto simp: relay_edit_handle_def Let_def stored_pass_def)
  have "list_all2 (\<lambda>m m'. relay_pk m' = relay_pk m \<and>
      (if num_is (Fin 1) (relay_pk m) then sealed_or_kept sample_library sample_env None f (auth_pass m) (auth_pass m') else m' = m))
    (rows (relays sample_database)) (rows (relays d'))"
    using relay_password_at_rest [OF g k _ f(1) e] by simp
  then show ?thesis
    using f(2) e by (auto simp: sample_database_def sample_relay_def num_is_def sealed_or_kept_def list_all2_Cons1)
qed

lemma credential_hashes_only_witness:
  "map cred_hash (rows (smtp_credentials (snd (config_change sample_library sample_env None [] ''salt'' CredentialEdit
     (sample_config_form [(''hash'', Str ''$2b$own''), (''username'', Str ''rob'')]) sample_database)))) \<noteq> [''$2b$own'', ''$2b$a'']"
proof
  let ?d = "snd (config_change sample_library sample_env None [] ''salt'' CredentialEdit
     (sample_config_form [(''hash'', Str ''$2b$own''), (''username'', Str ''rob'')]) sample_database)"
  assume "map cred_hash (rows (smtp_credentials ?d)) = [''$2b$own'', ''$2b$a'']"
  then have "''$2b$own'' \<in> set (map cred_hash (rows (smtp_credentials ?d)))" by (simp only:) simp
  then obtain c where c: "c \<in> set (rows (smtp_credentials ?d))" "cred_hash c = ''$2b$own''" by (auto simp only: set_map)
  from credential_hashes_only [OF _ c(1)] c(2) show False
    by (auto simp: sample_database_def sample_library_def get_prop_def js_length_def byte_units_def)
qed

end
