(* ===== verification/Slots.thy ===== *)
theory Slots
  imports GatewayProps ConfigProps
begin

text \<open>
  The slots of a gateway: a profile assigned as \<open>ruleset\<close>, \<open>allowlist\<close> or \<open>server\<close> is to be of that kind, because
  its text becomes the file of that kind in the bundle. Assignments are checked when they are saved; this theory
  says what that check protects, and what undoes it.
\<close>

definition slot_ok :: "config_profile table \<Rightarrow> gateway_assignment \<Rightarrow> bool" where
  "slot_ok t a \<longleftrightarrow> (\<forall>i. profile_id a = Some i \<longrightarrow>
     i < next_id t \<and> (\<forall>p \<in> set (rows t). profile_pk p = i \<longrightarrow> profile_kind p = assign_kind a))"

definition slots_ok :: "database \<Rightarrow> bool" where
  "slots_ok d \<longleftrightarrow> list_all (slot_ok (config_profiles d)) (rows (gateway_assignments d))"

lemma slot_ok_pk [simp]: "slot_ok t (a\<lparr>assign_pk := k\<rparr>) = slot_ok t a"
  by (simp add: slot_ok_def)

lemma slot_ok_delete: "slot_ok t a \<Longrightarrow> slot_ok (sql_delete P t) a"
  by (simp add: slot_ok_def)

lemma slot_ok_insert:
  assumes "slot_ok t a" "profile_pk (mk (next_id t)) = next_id t"
  shows "slot_ok (sql_insert mk t) a"
  unfolding slot_ok_def
proof (intro allI impI)
  fix i assume "profile_id a = Some i"
  then have "i < next_id t" "\<forall>p \<in> set (rows t). profile_pk p = i \<longrightarrow> profile_kind p = assign_kind a"
    using assms(1) by (simp_all add: slot_ok_def)
  with assms(2) show "i < next_id (sql_insert mk t)
      \<and> (\<forall>p \<in> set (rows (sql_insert mk t)). profile_pk p = i \<longrightarrow> profile_kind p = assign_kind a)" by simp
qed

lemma slot_ok_wanted:
  assumes "keys_ok profile_pk (config_profiles d)" "list_all (right_kind d) (wanted_profiles body)" "a \<in> set (assignment_rows i body)"
  shows "slot_ok (config_profiles d) a"
proof (cases "profile_id a")
  case (Some p)
  then have "(assign_kind a, p) \<in> set (wanted_profiles body)"
    using assms(3) by (auto simp: assignment_rows_def split: option.splits)
  then obtain q where q: "q \<in> set (rows (config_profiles d))" "profile_pk q = p" "profile_kind q = assign_kind a"
    using assms(2) by (auto simp: list_all_iff right_kind_def)
  moreover have "q' = q" if "q' \<in> set (rows (config_profiles d))" "profile_pk q' = p" for q'
    using profs.key_unique [OF assms(1) that(1) q(1)] that(2) q(2) by simp
  ultimately have "profile_kind q' = assign_kind a" if "q' \<in> set (rows (config_profiles d))" "profile_pk q' = p" for q'
    using that by simp
  moreover have "p < next_id (config_profiles d)" using profs.key_bounds [OF assms(1) q(1)] q(2) by simp
  ultimately show ?thesis unfolding slot_ok_def Some by blast
qed (simp add: slot_ok_def)

lemma insert_all_list_all:
  assumes "list_all P (rows t)" "list_all P rs" "\<And>k r. P (put k r) = P r"
  shows "list_all P (rows (insert_all put rs t))"
  using assms(1,2)
proof (induction rs arbitrary: t)
  case (Cons r rs)
  then show ?case using assms(3) by (simp add: insert_all_def)
qed (simp add: insert_all_def)

lemma slots_after_save:
  assumes "slots_ok d" "keys_ok profile_pk (config_profiles d)" "save_in_transaction i body d = Inr ((), d')"
  shows "slots_ok d'"
proof -
  have right: "list_all (right_kind d) (wanted_profiles body)"
    and d': "d' = d\<lparr>gateway_assignments := insert_all (\<lambda>k a. a\<lparr>assign_pk := k\<rparr>) (assignment_rows i body)
        (sql_delete (\<lambda>a. assign_gateway a = i) (gateway_assignments d))\<rparr>"
    using save_transaction [OF assms(2), of body i] assms(3) by (simp_all split: if_splits)
  have "list_all (slot_ok (config_profiles d)) (rows (insert_all (\<lambda>k a. a\<lparr>assign_pk := k\<rparr>) (assignment_rows i body)
        (sql_delete (\<lambda>a. assign_gateway a = i) (gateway_assignments d))))"
    by (rule insert_all_list_all)
      (use assms(1) slot_ok_wanted [OF assms(2) right] in \<open>auto simp: slots_ok_def list_all_iff\<close>)
  then show ?thesis by (simp add: d' slots_ok_def)
qed

text \<open>What each group of configuration handlers leaves alone.\<close>

lemmas config_handler_defs =
  profiles_create_handle_def profiles_edit_handle_def profiles_delete_handle_def relaygrp_create_handle_def
  relaygrp_edit_handle_def relaygrp_delete_handle_def relay_create_handle_def relay_edit_handle_def relay_delete_handle_def
  credset_create_handle_def credset_edit_handle_def credset_delete_handle_def cred_create_handle_def cred_edit_handle_def
  cred_delete_handle_def insert_profile_def update_profile_def insert_set_def update_set_def insert_credential_def
  update_credential_def

lemma config_change_frame:
  "gateway_assignments (snd (config_change cr env cache iv salt act r d)) = gateway_assignments d"
  by (cases act) (auto simp: config_change_def config_handler_defs Let_def split: sum.splits option.splits)

lemma config_change_profiles:
  "act \<notin> {ProfileCreate, ProfileEdit, ProfileDelete} \<Longrightarrow>
    config_profiles (snd (config_change cr env cache iv salt act r d)) = config_profiles d"
  by (cases act) (auto simp: config_change_def config_handler_defs Let_def split: sum.splits option.splits)

lemma slots_after_config:
  assumes "slots_ok d" "act \<noteq> ProfileEdit"
  shows "slots_ok (snd (config_change cr env cache iv salt act r d))"
proof (cases "act \<in> {ProfileCreate, ProfileDelete}")
  case False
  then show ?thesis
    using assms(1) config_change_frame config_change_profiles [of act] assms(2) by (simp add: slots_ok_def)
next
  case True
  have "slots_ok d'" if "insert_profile f d = Inr d'" for f d'
    using that assms(1) by (auto simp: insert_profile_def slots_ok_def list_all_iff slot_ok_insert split: if_splits)
  moreover have "slots_ok (d\<lparr>config_profiles := sql_delete P (config_profiles d)\<rparr>)" for P
    using assms(1) by (simp add: slots_ok_def list_all_iff slot_ok_delete)
  ultimately show ?thesis
    using True assms(1)
    by (auto simp: config_change_def profiles_create_handle_def profiles_delete_handle_def split: sum.split)
qed

lemma slot_body:
  assumes "slots_ok d" "body_of_kind (gw_assignments d gw) (gw_profiles d gw) k = Some t"
  shows "\<exists>p \<in> set (rows (config_profiles d)). profile_kind p = k \<and> profile_body p = t"
proof -
  obtain a where a: "find (\<lambda>a. assign_kind a = k \<and> profile_id a \<noteq> None) (gw_assignments d gw) = Some a"
    using assms(2) by (auto simp: body_of_kind_def split: option.splits)
  then obtain p where p: "find (\<lambda>p. profile_pk p = the (profile_id a)) (gw_profiles d gw) = Some p" "profile_body p = t"
    using assms(2) by (auto simp: body_of_kind_def split: if_splits)
  from a have "a \<in> set (rows (gateway_assignments d))" "assign_kind a = k" "profile_id a = Some (the (profile_id a))"
    by (auto dest!: find_SomeD simp: gw_assignments_def)
  moreover from p have "p \<in> set (rows (config_profiles d))" "profile_pk p = the (profile_id a)"
    by (auto dest!: find_SomeD simp: gw_profiles_def)
  ultimately show ?thesis using assms(1) p(2) unfolding slots_ok_def list_all_iff slot_ok_def by metis
qed

text \<open>A bundle holds in each slot the text of a profile made for it, as long as nobody changes the kind of an assigned
  profile: saving assignments and every configuration operation except the edit of a profile keep the slots right, and
  while they are right the server and routing texts of a composed bundle are bodies of profiles of those kinds.\<close>

theorem slots_keep_kinds:
  assumes "slots_ok d" "keys_ok profile_pk (config_profiles d)"
  shows "slots_ok (snd (save_assignments r d))
    \<and> (act \<noteq> ProfileEdit \<longrightarrow> slots_ok (snd (config_change cr env cache iv salt act r d)))
    \<and> (\<forall>b. compose_bundle cr env cache d gw = Inr b \<longrightarrow>
         (\<forall>t. server b = Some t \<longrightarrow> (\<exists>p \<in> set (rows (config_profiles d)). profile_kind p = ''server'' \<and> profile_body p = t))
         \<and> (\<forall>t. routing b = Some t \<longrightarrow> (\<exists>p \<in> set (rows (config_profiles d)). profile_kind p = ''ruleset'' \<and> profile_body p = t)))"
proof (intro conjI allI impI)
  show "slots_ok (snd (save_assignments r d))"
    using assms slots_after_save [OF assms] by (auto simp: save_assignments_def run_tx_def split: option.split sum.split)
  show "slots_ok (snd (config_change cr env cache iv salt act r d))" if "act \<noteq> ProfileEdit"
    using assms(1) that by (rule slots_after_config)
  show "\<exists>p \<in> set (rows (config_profiles d)). profile_kind p = ''server'' \<and> profile_body p = t"
    if "compose_bundle cr env cache d gw = Inr b" "server b = Some t" for b t
    using compose_InrE [OF that(1)] that(2) slot_body [OF assms(1), of gw "''server''" t] by (metis gateway_bundle.select_convs(1))
  show "\<exists>p \<in> set (rows (config_profiles d)). profile_kind p = ''ruleset'' \<and> profile_body p = t"
    if "compose_bundle cr env cache d gw = Inr b" "routing b = Some t" for b t
    using compose_InrE [OF that(1)] that(2) slot_body [OF assms(1), of gw "''ruleset''" t] by (metis gateway_bundle.select_convs(2))
qed

lemma sample_slots: "slots_ok sample_database" "keys_ok profile_pk (config_profiles sample_database)"
  by (simp_all add: slots_ok_def slot_ok_def sample_database_def keys_ok_def)

lemma slots_keep_kinds_witness:
  "slots_ok (snd (save_assignments (sample_post [(''profile_server'', Str ''1'')]) sample_database))"
  using slots_keep_kinds [OF sample_slots] by blast

text \<open>The proviso is needed: the form that edits a profile may change its kind while it is assigned. On a console
  whose gateway runs a rule set, one accepted edit turns that profile into a server profile, its slot is then wrong, and
  the next deploy would send the server text as routing rules, which saving assignments is there to prevent.\<close>

theorem profile_edit_breaks_slot:
  "slots_ok sample_database \<and> (\<exists>rep d'. profiles_edit_handle sample_library (sample_config_form
      [(''kind'', Str ''server''), (''name'', Str ''default''), (''body'', Str ''listen: 25'')]) sample_database = (Inr rep, d')
    \<and> \<not> slots_ok d' \<and> (\<exists>b. compose_bundle sample_library sample_env None d' 1 = Inr b \<and> routing b = Some ''listen: 25''))"
proof -
  let ?r = "sample_config_form [(''kind'', Str ''server''), (''name'', Str ''default''), (''body'', Str ''listen: 25'')]"
  let ?d = "sample_database\<lparr>config_profiles := \<lparr>rows = [\<lparr>profile_pk = 1, profile_kind = ''server'', profile_name = ''default'',
      profile_description = None, profile_body = ''listen: 25''\<rparr>], next_id = 2\<rparr>\<rparr>"
  have "config_profile_insert (rq_body ?r) = Inr \<lparr>pf_kind = ''server'', pf_name = ''default'',
      pf_description = None, pf_body = ''listen: 25''\<rparr>"
    by (simp add: config_profile_insert_def z_object_def field_def map_sum_Inr_iff get_prop_def
        nullish_undef z_enum_def profile_kinds_def z_string_Inr at_most_def js_length_def byte_units_def)
  then have "parse_profile_body sample_library (rq_body ?r) = Inr \<lparr>pf_kind = ''server'', pf_name = ''default'',
      pf_description = None, pf_body = ''listen: 25''\<rparr>"
    by (simp add: parse_profile_body_def)
  then have edited: "profiles_edit_handle sample_library ?r sample_database = (Inr (Redirect ''/config/profiles''), ?d)"
    by (simp add: profiles_edit_handle_def update_profile_def sample_database_def num_is_def sql_update_def kept_def get_prop_def)
  have wrong: "\<not> slots_ok ?d" by (simp add: slots_ok_def slot_ok_def sample_database_def)
  have composed: "compose_bundle sample_library sample_env None ?d 1 = Inr (sample_bundle\<lparr>routing := Some ''listen: 25''\<rparr>)"
    by code_simp
  have sent: "routing (sample_bundle\<lparr>routing := Some ''listen: 25''\<rparr>) = Some ''listen: 25''" by simp
  show ?thesis
    by (rule conjI [OF sample_slots(1)]) (intro exI conjI, rule edited, rule wrong, rule composed, rule sent)
qed

end
