(* ===== verification/Effects.thy ===== *)
theory Effects
  imports App AgentProps Slots
begin

text \<open>
  What a request may do to the database, as a step relation indexed by the power the route asks for, and the proof that
  every route of the application is one of these steps. The properties of the whole console are proved over the relation.
\<close>

section \<open>The steps\<close>

datatype gateway_action = SetStatus | Rename | Assign | DeployNow | Rollback | Forget

definition fleet_change :: "ambient \<Rightarrow> gateway_action \<Rightarrow> request \<Rightarrow> database \<Rightarrow> notified" where
  "fleet_change a act r d =
     (case act of
        SetStatus \<Rightarrow> set_status (a_library a) (a_now a) (a_bus a) r d
      | Rename \<Rightarrow> (rename_gateway r d, [])
      | Assign \<Rightarrow> (save_assignments r d, [])
      | DeployNow \<Rightarrow> deploy_handler (a_library a) (a_env a) (a_cache a) (a_now a) (a_bus a) r d
      | Rollback \<Rightarrow> rollback_handler (a_library a) (a_now a) (a_bus a) r d
      | Forget \<Rightarrow> (done_as (delete_handler r d), []))"

datatype power = Anyone | Account | Administrator | Machine

definition power_of :: "scope \<times> route \<Rightarrow> power" where
  "power_of sr = (case sr of (sc, rt) \<Rightarrow>
     (case sc of Unlogged \<Rightarrow> Anyone | Public \<Rightarrow> Anyone | Agent \<Rightarrow> Machine
      | Secured \<Rightarrow> if admin_only rt then Administrator else Account))"

definition open_actions :: "config_action list" where
  "open_actions = [GroupCreate, GroupEdit, GroupDelete, RelayCreate, RelayEdit, RelayDelete]"

abbreviation config_step :: "ambient \<Rightarrow> config_action \<Rightarrow> request \<Rightarrow> database \<Rightarrow> outcome" where
  "config_step a \<equiv> config_change (a_library a) (a_env a) (a_cache a) (a_iv a) (a_salt a)"

inductive effect :: "power \<Rightarrow> ambient \<Rightarrow> request \<Rightarrow> database \<Rightarrow> database \<Rightarrow> bool" where
  same: "effect p a r d d"
| looked: "effect Account a r d (snd (session_email_of (a_library a) (a_now a) r d))"
| logged_in: "effect Anyone a r d (snd (login (a_library a) (a_now a) (a_uuid a) r d))"
| logged_out: "effect Anyone a r d (snd (logout (a_library a) r d))"
| set_up: "effect Anyone a r d (snd (setup_submit (a_library a) (a_salt a) r d))"
| managed: "effect Account a r d (snd (user_management (a_library a) (a_now a) (a_salt a) act r d))"
| relayed: "act \<in> set open_actions \<Longrightarrow> effect Account a r d (snd (config_step a act r d))"
| configured: "effect Administrator a r d (snd (config_step a act r d))"
| operated: "effect Administrator a r d (snd (fst (fleet_change a act r d)))"
| reported: "effect Machine a r d (snd (agent_api (a_library a) (a_now a) (a_uuid a) rte r d))"

inductive_cases effect_cases: "effect p a r d d'"

section \<open>Every route is a step\<close>

definition db_of :: "'x \<times> database \<times> nat list \<Rightarrow> database" where
  "db_of h = fst (snd h)"

lemma db_of_shapes [simp]:
  "db_of (pages f a r d) = d" "db_of (asks g a r d) = d"
  "db_of (alters h a r d) = snd (h a r d)" "db_of (attempts k a r d) = snd (k a r d)"
  "db_of (notifies m a r d) = snd (fst (m a r d))"
  "db_of (login_handler a r d) = snd (login (a_library a) (a_now a) (a_uuid a) r d)"
  "db_of (logout_handler a r d) = snd (logout (a_library a) r d)"
  by (simp_all add: db_of_def pages_def asks_def alters_def attempts_def notifies_def login_handler_def logout_handler_def
      split: prod.split)

lemma db_of_answered [simp]: "db_of (answered r h) = db_of h" "db_of (stopped rep d) = d"
  by (simp_all add: db_of_def answered_def stopped_def split: prod.split)

lemma route_simps [simp]:
  "rt_run (get p h) = h" "rt_run (post p h) = h" "rt_run (admin rt) = rt_run rt"
  "admin_only (get p h) = False" "admin_only (post p h) = False" "admin_only (admin rt) = True"
  "rt_method (get p h) = ''GET''" "rt_method (post p h) = ''POST''" "rt_method (admin rt) = rt_method rt"
  "rt_path (get p h) = p" "rt_path (post p h) = p" "rt_path (admin rt) = rt_path rt"
  "rt_run (rt\<lparr>rt_limited := l\<rparr>) = rt_run rt" "rt_run (rt\<lparr>rt_path := q\<rparr>) = rt_run rt"
  "admin_only (rt\<lparr>rt_limited := l\<rparr>) = admin_only rt" "admin_only (rt\<lparr>rt_path := q\<rparr>) = admin_only rt"
  "rt_method (rt\<lparr>rt_limited := l\<rparr>) = rt_method rt" "rt_method (rt\<lparr>rt_path := q\<rparr>) = rt_method rt"
  by (simp_all add: get_def post_def admin_def)

lemma profile_form_db: "snd (profile_form cr now r d) = snd (session_email_of cr now r d)"
  by (simp add: profile_form_def split: prod.split)

lemma socket_db: "snd (signed cr now (\<lambda>g d. (x, d)) r d) = d"
  by (simp add: signed_def split: sum.split)

lemma account_steps:
  "effect Account a r d (snd (users_create_handle (a_library a) (a_salt a) r d))"
  "effect Account a r d (snd (users_edit_handle (a_library a) (a_salt a) r d))"
  "effect Account a r d (snd (users_delete_handle r d))"
  "effect Account a r d (snd (profile_submit (a_library a) (a_now a) (a_salt a) r d))"
  using managed [of a r d Create] managed [of a r d Edit] managed [of a r d Delete] managed [of a r d ChangePassword]
  by (simp_all add: user_management_def)

lemma relay_steps:
  "effect Account a r d (snd (relaygrp_create_handle (a_library a) r d))"
  "effect Account a r d (snd (relaygrp_edit_handle (a_library a) r d))"
  "effect Account a r d (snd (relaygrp_delete_handle r d))"
  "effect Account a r d (snd (relay_create_handle (a_library a) (a_env a) (a_cache a) (a_iv a) r d))"
  "effect Account a r d (snd (relay_edit_handle (a_library a) (a_env a) (a_cache a) (a_iv a) r d))"
  "effect Account a r d (snd (relay_delete_handle r d))"
  using relayed [of GroupCreate a r d] relayed [of GroupEdit a r d] relayed [of GroupDelete a r d]
    relayed [of RelayCreate a r d] relayed [of RelayEdit a r d] relayed [of RelayDelete a r d]
  by (simp_all add: config_change_def open_actions_def)

lemma config_steps:
  "effect Administrator a r d (snd (profiles_create_handle (a_library a) r d))"
  "effect Administrator a r d (snd (profiles_edit_handle (a_library a) r d))"
  "effect Administrator a r d (snd (profiles_delete_handle r d))"
  "effect Administrator a r d (snd (credset_create_handle (a_library a) r d))"
  "effect Administrator a r d (snd (credset_edit_handle (a_library a) r d))"
  "effect Administrator a r d (snd (credset_delete_handle r d))"
  "effect Administrator a r d (snd (cred_create_handle (a_library a) (a_salt a) r d))"
  "effect Administrator a r d (snd (cred_edit_handle (a_library a) (a_salt a) r d))"
  "effect Administrator a r d (snd (cred_delete_handle r d))"
  using configured [of a r d ProfileCreate] configured [of a r d ProfileEdit] configured [of a r d ProfileDelete]
    configured [of a r d SetCreate] configured [of a r d SetEdit] configured [of a r d SetDelete]
    configured [of a r d CredentialCreate] configured [of a r d CredentialEdit] configured [of a r d CredentialDelete]
  by (simp_all add: config_change_def)

lemma fleet_steps:
  "effect Administrator a r d (snd (fst (set_status (a_library a) (a_now a) (a_bus a) r d)))"
  "effect Administrator a r d (snd (rename_gateway r d))"
  "effect Administrator a r d (snd (save_assignments r d))"
  "effect Administrator a r d (snd (fst (deploy_handler (a_library a) (a_env a) (a_cache a) (a_now a) (a_bus a) r d)))"
  "effect Administrator a r d (snd (fst (rollback_handler (a_library a) (a_now a) (a_bus a) r d)))"
  "effect Administrator a r d (snd (delete_handler r d))"
  using operated [of a r d SetStatus] operated [of a r d Rename] operated [of a r d Assign]
    operated [of a r d DeployNow] operated [of a r d Rollback] operated [of a r d Forget]
  by (simp_all add: fleet_change_def)

lemma agent_steps:
  "effect Machine a r d (snd (register_handler (a_library a) (a_now a) (a_uuid a) r d))"
  "effect Machine a r d (snd (signed (a_library a) (a_now a) (status_handler (a_now a)) r d))"
  "effect Machine a r d (snd (signed (a_library a) (a_now a) config_handler r d))"
  "effect Machine a r d (snd (signed (a_library a) (a_now a) (report_handler (a_library a) (a_now a) r) r d))"
  using reported [of a r d Register] reported [of a r d Status] reported [of a r d Config] reported [of a r d Report]
  by (simp_all add: agent_api_def)

lemmas steps = same looked logged_in logged_out set_up account_steps relay_steps config_steps fleet_steps agent_steps

lemma route_effects: "list_all (\<lambda>sr. \<forall>a r d. effect (power_of sr) a r d (db_of (rt_run (snd sr) a r d))) all_routes"
  by (simp add: all_routes_def health_def public_routes_def secured_routes_def agent_routes_def user_routes_def
      gateway_routes_def config_routes_def relay_routes_def profile_routes_def credential_routes_def root_routes_def
      log_routes_def api_routes_def prefixed_def power_of_def steps profile_form_db socket_db)

lemma route_effect:
  "sr \<in> set all_routes \<Longrightarrow> effect (power_of sr) a r d (db_of (rt_run (snd sr) a r d))"
  using route_effects by (simp add: list_all_iff)

end
