(* ===== verification/AppProps.thy ===== *)
theory AppProps
  imports Effects
begin

text \<open>
  What the application guarantees whatever route a request is for: without a live session the protected part of the
  console does nothing, the fleet and its configuration change only at the hands of an administrator, a page that is only
  looked at changes nothing, and an error page of the server tells nothing.
\<close>

section \<open>Passing the gates\<close>

definition looked :: "ambient \<Rightarrow> request \<Rightarrow> database \<Rightarrow> database" where
  "looked a r d = snd (session_email_of (a_library a) (a_now a) r d)"

definition signed_in :: "ambient \<Rightarrow> request \<Rightarrow> database \<Rightarrow> string option" where
  "signed_in a r d = fst (session_email_of (a_library a) (a_now a) r d)"

lemma looked_sessions: "\<exists>ss. looked a r d = d\<lparr>sessions := ss\<rparr> \<and> set ss \<subseteq> set (sessions d)"
  by (auto simp: looked_def session_email_of_def get_session_def db_get_def db_delete_def split: option.split prod.split
      intro: exI [of _ "sessions d"])

lemma audit_logs: "\<exists>l. audit a r d = d\<lparr>logs := l\<rparr>"
  by (auto simp: audit_def split: sum.split intro: exI [of _ "logs d"])

lemma signed_in_cong: "sessions d = sessions e \<Longrightarrow> signed_in a r d = signed_in a r e"
  by (simp add: signed_in_def session_email_of_def get_session_def split: prod.split)

lemma audit_sessions [simp]: "sessions (audit a r d) = sessions d"
  using audit_logs [of a r d] by auto

lemma get_again: "fst (db_get now i (snd (db_get now i rs))) = fst (db_get now i rs)"
proof -
  have "find (\<lambda>r. session_id r = i) (filter (\<lambda>r. session_id r \<noteq> i) rs) = None" by (auto simp: find_None_iff)
  then show ?thesis by (cases "find (\<lambda>r. session_id r = i) rs") (auto simp: db_get_def db_delete_def first_row_filter)
qed

lemma signed_in_again: "signed_in a r (looked a r d) = signed_in a r d"
  using get_again [of "a_now a" "the (session_id_of (a_library a) r)" "sessions d"]
  by (simp add: signed_in_def looked_def session_email_of_def get_session_def case_prod_beta)

lemma check_session_eq:
  "check_session (a_library a) (a_now a) r d =
     (if truthy_str (signed_in a r d) then None
      else Some (if wants_json r then JsonReply 401 (Obj [(''error'', Str ''unauthenticated'')]) else Redirect ''/login''),
      looked a r d)"
  by (simp add: check_session_def signed_in_def looked_def split: prod.split)

lemma require_admin_passes:
  assumes "require_admin (a_library a) (a_now a) r d = (x, d')"
  shows "d' = looked a r d
    \<and> (x = None \<longrightarrow> (\<exists>e. signed_in a r d = Some e \<and> get_user_role (looked a r d) e = Some ''admin''))"
  using assms by (auto simp: require_admin_def signed_in_def looked_def truthy_str_def split: prod.splits if_splits option.splits)

text \<open>A request leaves its audit row and its session look-ups, and at most one step of the power its route asks for.\<close>

definition logged :: "ambient \<Rightarrow> scope \<times> route \<Rightarrow> request \<Rightarrow> database \<Rightarrow> database" where
  "logged a sr r d = (if fst sr \<in> {Public, Secured} then audit a r d else d)"

definition is_admin :: "ambient \<Rightarrow> request \<Rightarrow> database \<Rightarrow> bool" where
  "is_admin a r d \<longleftrightarrow> (\<exists>e. signed_in a r d = Some e \<and> get_user_role d e = Some ''admin'')"

lemma role_looked: "get_user_role (looked a r d) e = get_user_role d e"
  using looked_sessions [of a r d] by (auto simp: get_user_role_def find_user_def)

lemma is_admin_cong: "sessions d = sessions e \<Longrightarrow> users d = users e \<Longrightarrow> is_admin a r d = is_admin a r e"
  using signed_in_cong [of d e a r] by (simp add: is_admin_def get_user_role_def find_user_def)

lemma is_admin_looked: "is_admin a r (looked a r d) = is_admin a r d"
  by (simp add: is_admin_def signed_in_again role_looked)

definition passed :: "ambient \<Rightarrow> scope \<times> route \<Rightarrow> request \<Rightarrow> database \<Rightarrow> database \<Rightarrow> bool" where
  "passed a sr r d d1 \<longleftrightarrow> d1 \<in> {logged a sr r d, looked a r (logged a sr r d), looked a r (looked a r (logged a sr r d))}"

lemma serve_route_step:
  assumes "serve_route a sr r d = (rep, d', ls)"
  shows "\<exists>d1. passed a sr r d d1 \<and> ((d' = d1 \<and> ls = [])
    \<or> (\<exists>r'. d' = db_of (rt_run (snd sr) a r' d1) \<and> ls = snd (snd (rt_run (snd sr) a r' d1))
        \<and> (power_of sr = Administrator \<longrightarrow> is_admin a r d1)))"
proof -
  obtain sc rt where sr: "sr = (sc, rt)" by (cases sr)
  show ?thesis
  proof (cases "early_error a rt r")
    case (Some e)
    then show ?thesis using assms by (auto simp: sr serve_route_def logged_def stopped_def passed_def)
  next
    case None
    then have s: "(rep, d', ls) = (case sc of Unlogged \<Rightarrow> answered r (rt_run rt a r (logged a sr r d))
        | Agent \<Rightarrow> agent_served a rt r (logged a sr r d) | Public \<Rightarrow> answered r (rt_run rt a r (logged a sr r d))
        | Secured \<Rightarrow> guarded a rt r (logged a sr r d))"
      using assms by (cases sc) (simp_all add: sr serve_route_def logged_def Let_def)
    have run: "d' = db_of (rt_run rt a r' e) \<and> ls = snd (snd (rt_run rt a r' e))" if "(rep, d', ls) = answered r (rt_run rt a r' e)" for r' e
      using that by (simp add: answered_def db_of_def split: prod.splits)
    show ?thesis
    proof (cases sc)
      case Secured
      let ?e = "looked a r (logged a sr r d)"
      show ?thesis
      proof (cases "truthy_str (signed_in a r (logged a sr r d))")
        case False
        with s Secured show ?thesis by (auto simp: guarded_def check_session_eq stopped_def passed_def)
      next
        case True
        show ?thesis
        proof (cases "admin_only rt")
          case False
          with s Secured True have "(rep, d', ls) = answered r (rt_run rt a r ?e)" by (simp add: guarded_def check_session_eq)
          with run False Secured show ?thesis by (auto simp: sr power_of_def passed_def intro!: exI [of _ ?e])
        next
          case adm: True
          obtain x d2 where x: "require_admin (a_library a) (a_now a) r ?e = (x, d2)" by fastforce
          note p = require_admin_passes [OF x]
          show ?thesis
          proof (cases x)
            case (Some q)
            with s Secured True adm x p show ?thesis by (auto simp: guarded_def check_session_eq stopped_def passed_def)
          next
            case None
            with s Secured True adm x have "(rep, d', ls) = answered r (rt_run rt a r d2)" by (simp add: guarded_def check_session_eq)
            moreover have "is_admin a r d2" using p None by (auto simp: is_admin_def signed_in_again role_looked)
            ultimately show ?thesis using run p by (auto simp: sr passed_def intro!: exI [of _ d2])
          qed
        qed
      qed
    next
      case Agent
      with s run show ?thesis
        by (auto simp: sr power_of_def passed_def agent_served_def stopped_def intro!: exI [of _ "logged a sr r d"]
            split: if_splits option.splits)
    qed (use s run in \<open>auto simp: sr power_of_def passed_def intro!: exI [of _ "logged a sr r d"]\<close>)
  qed
qed

lemma logged_logs: "\<exists>l. logged a sr r d = d\<lparr>logs := l\<rparr>"
  using audit_logs [of a r d] by (auto simp: logged_def intro: exI [of _ "logs d"])

lemma passed_frame:
  assumes "passed a sr r d d1"
  shows "\<exists>l ss. d1 = d\<lparr>logs := l, sessions := ss\<rparr> \<and> set ss \<subseteq> set (sessions d)" "is_admin a r d1 = is_admin a r d"
proof -
  obtain l where l: "logged a sr r d = d\<lparr>logs := l\<rparr>" using logged_logs by blast
  obtain s1 where s1: "looked a r (d\<lparr>logs := l\<rparr>) = d\<lparr>logs := l, sessions := s1\<rparr>" "set s1 \<subseteq> set (sessions d)"
    using looked_sessions [of a r "d\<lparr>logs := l\<rparr>"] by auto
  obtain s2 where s2: "looked a r (d\<lparr>logs := l, sessions := s1\<rparr>) = d\<lparr>logs := l, sessions := s2\<rparr>" "set s2 \<subseteq> set (sessions d)"
    using looked_sessions [of a r "d\<lparr>logs := l, sessions := s1\<rparr>"] s1(2) by auto
  show "\<exists>l ss. d1 = d\<lparr>logs := l, sessions := ss\<rparr> \<and> set ss \<subseteq> set (sessions d)"
  proof -
    have "d1 = d\<lparr>logs := l, sessions := sessions d\<rparr> \<or> d1 = d\<lparr>logs := l, sessions := s1\<rparr> \<or> d1 = d\<lparr>logs := l, sessions := s2\<rparr>"
      using assms s1 s2 by (auto simp: passed_def l)
    then show ?thesis using s1(2) s2(2) by blast
  qed
  have "is_admin a r (d\<lparr>logs := l\<rparr>) = is_admin a r d" by (rule is_admin_cong) simp_all
  then show "is_admin a r d1 = is_admin a r d"
    using assms by (auto simp: passed_def l is_admin_looked)
qed

section \<open>No session\<close>


section \<open>No administrator\<close>

text \<open>What decides which configuration a gateway is given: the approved rows and their versions, and the tables a deploy
  composes from that only administrators may edit.\<close>

definition policy_kept :: "database \<Rightarrow> database \<Rightarrow> bool" where
  "policy_kept d d' \<longleftrightarrow>
     config_versions d' = config_versions d \<and> config_deployments d' = config_deployments d
     \<and> gateway_assignments d' = gateway_assignments d \<and> config_profiles d' = config_profiles d
     \<and> credential_sets d' = credential_sets d \<and> smtp_credentials d' = smtp_credentials d
     \<and> (\<exists>new. map trust (rows (gateways d')) = map trust (rows (gateways d)) @ map trust new
          \<and> list_all (\<lambda>g. gw_status g = ''pending'' \<and> desired_version_id g = None \<and> approved_by g = None) new)"

lemma policy_same:
  assumes "config_versions d' = config_versions d" "config_deployments d' = config_deployments d"
    "gateway_assignments d' = gateway_assignments d" "config_profiles d' = config_profiles d"
    "credential_sets d' = credential_sets d" "smtp_credentials d' = smtp_credentials d" "gateways d' = gateways d"
  shows "policy_kept d d'"
  unfolding policy_kept_def using assms by (intro conjI exI [of _ "[]"]) simp_all

lemma policy_decides_nothing: "decides_nothing d d' \<Longrightarrow> policy_kept d d'"
  unfolding policy_kept_def decides_nothing_def by (elim conjE) (intro conjI, (erule ssubst, simp)+)

lemma policy_kept_start: "policy_kept (d\<lparr>logs := l, sessions := ss\<rparr>) d' \<Longrightarrow> policy_kept d d'"
  by (simp add: policy_kept_def)

text \<open>What each group of steps may write.\<close>

definition fleet_tables :: "database \<Rightarrow> _" where
  "fleet_tables d = (gateways d, config_versions d, config_deployments d, gateway_assignments d, gateway_metrics d)"

definition config_tables_of :: "database \<Rightarrow> _" where
  "config_tables_of d = (config_profiles d, relay_groups d, relays d, credential_sets d, smtp_credentials d)"

lemmas tables_of = fleet_tables_def config_tables_of_def

lemma looked_keeps:
  "fleet_tables (snd (session_email_of cr now r d)) = fleet_tables d"
  "config_tables_of (snd (session_email_of cr now r d)) = config_tables_of d"
  "users (snd (session_email_of cr now r d)) = users d"
  by (simp_all add: session_email_of_def get_session_def tables_of split: prod.split)

lemma managed_keeps:
  "fleet_tables (snd (user_management cr now salt act r d)) = fleet_tables d"
  "config_tables_of (snd (user_management cr now salt act r d)) = config_tables_of d"
proof -
  obtain e d1 where s: "session_email_of cr now r d = (e, d1)" by fastforce
  with looked_keeps [of cr now r d] have "fleet_tables d1 = fleet_tables d" "config_tables_of d1 = config_tables_of d" by simp_all
  with s show "fleet_tables (snd (user_management cr now salt act r d)) = fleet_tables d"
    "config_tables_of (snd (user_management cr now salt act r d)) = config_tables_of d"
    by (cases act; simp add: user_management_def users_create_handle_def create_user_def users_edit_handle_def update_user_def
        users_delete_handle_def delete_user_def profile_submit_def update_password_def tables_of Let_def split: sum.split)+
qed

lemma login_keeps:
  "fleet_tables (snd (login cr now uuid r d)) = fleet_tables d" "config_tables_of (snd (login cr now uuid r d)) = config_tables_of d"
  "users (snd (login cr now uuid r d)) = users d"
  by (auto simp: login_def create_session_def db_create_def tables_of split: sum.splits)

lemma logout_keeps:
  "fleet_tables (snd (logout cr r d)) = fleet_tables d" "config_tables_of (snd (logout cr r d)) = config_tables_of d"
  "users (snd (logout cr r d)) = users d"
  by (auto simp: logout_def delete_session_def tables_of)

lemma setup_keeps:
  "fleet_tables (snd (setup_submit cr salt r d)) = fleet_tables d" "config_tables_of (snd (setup_submit cr salt r d)) = config_tables_of d"
  "sessions (snd (setup_submit cr salt r d)) = sessions d"
  by (auto simp: setup_submit_def create_user_def tables_of split: sum.split)

lemma config_keeps:
  "fleet_tables (snd (config_change cr env cache iv salt act r d)) = fleet_tables d"
  "users (snd (config_change cr env cache iv salt act r d)) = users d"
  "sessions (snd (config_change cr env cache iv salt act r d)) = sessions d"
  by (cases act; auto simp: config_change_def config_handler_defs fleet_tables_def Let_def split: sum.splits option.splits)+

lemma relay_keeps:
  assumes "act \<in> set open_actions"
  shows "config_profiles (snd (config_change cr env cache iv salt act r d)) = config_profiles d"
    "credential_sets (snd (config_change cr env cache iv salt act r d)) = credential_sets d"
    "smtp_credentials (snd (config_change cr env cache iv salt act r d)) = smtp_credentials d"
  using assms
  by (cases act; auto simp: open_actions_def config_change_def config_handler_defs Let_def split: sum.splits option.splits)+

lemma policy_tables: "fleet_tables d' = fleet_tables d \<Longrightarrow> config_tables_of d' = config_tables_of d \<Longrightarrow> policy_kept d d'"
  by (rule policy_same) (simp_all add: tables_of)

lemma effect_policy:
  assumes "effect p a r d d'" "p \<noteq> Administrator"
  shows "policy_kept d d'"
  using assms
proof (cases rule: effect.cases)
  case (relayed act)
  then show ?thesis
    using config_keeps(1) [of "a_library a" "a_env a" "a_cache a" "a_iv a" "a_salt a" act r d] relay_keeps [of act]
    by (intro policy_same) (simp_all add: fleet_tables_def)
next
  case (reported rte)
  then show ?thesis
    by (auto intro: policy_decides_nothing agent_api_decides_nothing)
qed (auto intro!: policy_tables simp: looked_keeps managed_keeps login_keeps logout_keeps setup_keeps)

lemma quiet_shapes [simp]:
  "snd (snd (pages f a r d)) = []" "snd (snd (asks g a r d)) = []" "snd (snd (alters h a r d)) = []"
  "snd (snd (attempts k a r d)) = []" "snd (snd (login_handler a r d)) = []" "snd (snd (logout_handler a r d)) = []"
  by (simp_all add: pages_def asks_def alters_def attempts_def login_handler_def logout_handler_def split: prod.split)

lemma quiet_routes: "list_all (\<lambda>sr. power_of sr = Administrator \<or> (\<forall>a r d. snd (snd (rt_run (snd sr) a r d)) = [])) all_routes"
  by (simp add: all_routes_def health_def public_routes_def secured_routes_def agent_routes_def user_routes_def
      gateway_routes_def config_routes_def relay_routes_def profile_routes_def credential_routes_def root_routes_def
      log_routes_def api_routes_def prefixed_def power_of_def)


section \<open>Looking changes nothing\<close>

lemma get_routes:
  "list_all (\<lambda>(sc, rt). rt_method rt = ''POST'' \<or> sc = Agent \<or> rt_path rt = ''/logout''
     \<or> (\<forall>a r d. db_of (rt_run rt a r d) = d) \<or> (\<forall>a r d. db_of (rt_run rt a r d) = looked a r d)) all_routes"
  by (simp add: all_routes_def health_def public_routes_def secured_routes_def agent_routes_def user_routes_def
      gateway_routes_def config_routes_def relay_routes_def profile_routes_def credential_routes_def root_routes_def
      log_routes_def api_routes_def prefixed_def profile_form_db looked_def)


section \<open>Errors\<close>


section \<open>Concrete applications\<close>

definition sample_ambient :: ambient where
  "sample_ambient = \<lparr>a_library = sample_library, a_env = sample_env, a_cache = None, a_now = 50, a_uuid = ''u'', a_salt = ''salt'',
     a_iv = replicate 12 (CHR ''i''), a_fetch = (\<lambda>_. BadUrl), a_bus = [], a_protocol = (\<lambda>_. ''https''), a_limiter = (\<lambda>_ _ _. None),
     a_parser = (\<lambda>_. None), a_agent_json = (\<lambda>_. False), a_audit = Inr ()\<rparr>"

definition viewer_database :: database where
  "viewer_database = sample_database\<lparr>sessions := [\<lparr>session_id = ''s'', session_email = ''view@x'', expires_at = 100\<rparr>]\<rparr>"

definition viewer_request :: request where
  "viewer_request = sample_form (Some ''s:s'') (Obj [(''note'', Str ''mine'')])"

lemma viewer_no_admin: "\<not> is_admin sample_ambient viewer_request viewer_database"
  by (simp add: is_admin_def signed_in_def session_email_of_def session_id_of_def get_session_def db_get_def truthy_str_def
      viewer_request_def viewer_database_def sample_form_def sample_ambient_def sample_library_def sample_database_def
      get_user_role_def find_user_def sql_select_def starts_with_def)

lemma found_route: "find_route c = Some sr \<Longrightarrow> sr \<in> set all_routes"
  unfolding find_route_def by (blast dest: find_SomeD)

lemma deploy_route: "\<exists>sr. find_route (''POST'', ''/gateways/:id/deploy'') = Some sr"
  by (simp add: find_route_def all_routes_def health_def public_routes_def secured_routes_def agent_routes_def user_routes_def
      gateway_routes_def config_routes_def relay_routes_def profile_routes_def credential_routes_def root_routes_def
      log_routes_def api_routes_def prefixed_def get_def post_def admin_def)




end
