(* ===== verification/Laws.thy ===== *)
theory Laws
  imports AppProps
begin

text \<open>
  What the operations on the fleet leave alone and what they keep: unique gateways, a well-formed version history, and
  pointers that lead to a version of the gateway's own.
\<close>

section \<open>Frames\<close>

lemma deploy_new_keeps:
  assumes "deploy_new now i who memo s sha v d = Inr (x, d')"
  shows "users d' = users d" "sessions d' = sessions d" "config_tables_of d' = config_tables_of d"
  using assms
  by (auto simp: deploy_new_def insert_version_def point_gateway_def add_deployment_def config_tables_of_def Let_def
      split: if_splits option.splits)

lemma deploy_keeps:
  assumes "deploy_bundle cr env cache now b i who memo d = (x, d', ls)"
  shows "users d' = users d" "sessions d' = sessions d" "config_tables_of d' = config_tables_of d"
proof -
  have "users e = users d \<and> sessions e = sessions d \<and> config_tables_of e = config_tables_of d"
    if "deploy_in_transaction cr env cache now i who memo d = Inr (y, e)" for y e
    using that deploy_new_keeps [of now i who memo _ _ _ d y e]
    by (cases "compose_bundle cr env cache d i")
      (auto simp: deploy_in_transaction_def Let_def point_gateway_def config_tables_of_def split: if_splits)
  then show "users d' = users d" "sessions d' = sessions d" "config_tables_of d' = config_tables_of d"
    using assms by (auto simp: deploy_bundle_def run_tx_def split: sum.splits prod.splits)
qed

lemma rollback_keeps:
  assumes "rollback_number b i x who d = (y, d', ls)"
  shows "users d' = users d" "sessions d' = sessions d" "config_tables_of d' = config_tables_of d"
  using assms
  by (auto simp: rollback_number_def rollback_to_def run_tx_def rollback_in_transaction_def point_gateway_def
      add_deployment_def config_tables_of_def Let_def split: sum.splits prod.splits if_splits option.splits)

lemma save_keeps:
  assumes "save_in_transaction i body d = Inr (u, e)"
  shows "users e = users d" "sessions e = sessions d" "config_tables_of e = config_tables_of d" "gateways e = gateways d"
    "config_versions e = config_versions d"
  using assms by (auto simp: save_in_transaction_def Let_def config_tables_of_def elim!: res_bind_InrE)

text \<open>The operations that name who acts look the session up first.\<close>

lemma who_is_frame: "who_is cr now r d = (who, d1) \<Longrightarrow> d1 = snd (session_email_of cr now r d)"
  by (auto simp: who_is_def split: prod.splits)

lemma fleet_keeps:
  "users (snd (fst (fleet_change a act r d))) = users d"
  "config_tables_of (snd (fst (fleet_change a act r d))) = config_tables_of d"
  "sessions (snd (fst (fleet_change a act r d))) \<in> {sessions d, sessions (looked a r d)}"
proof -
  obtain who d1 where w: "who_is (a_library a) (a_now a) r d = (who, d1)" by fastforce
  then have d1: "d1 = looked a r d" using who_is_frame by (auto simp: looked_def)
  have k: "users d1 = users d" "config_tables_of d1 = config_tables_of d" by (simp_all add: d1 looked_def looked_keeps)
  have "users (snd (fst (fleet_change a act r d))) = users d
      \<and> config_tables_of (snd (fst (fleet_change a act r d))) = config_tables_of d
      \<and> sessions (snd (fst (fleet_change a act r d))) \<in> {sessions d, sessions d1}"
  proof (cases act)
    case DeployNow
    then show ?thesis using k deploy_keeps
      by (auto simp: fleet_change_def deploy_handler_def quiet_def w Let_def split: option.split sum.split prod.split)
  next
    case Rollback
    then show ?thesis using k rollback_keeps
      by (auto simp: fleet_change_def rollback_handler_def quiet_def w Let_def split: option.split sum.split prod.split)
  next
    case Assign
    then show ?thesis using k save_keeps
      by (auto simp: fleet_change_def save_assignments_def run_tx_def split: option.split sum.split prod.split)
  qed (use k in \<open>auto simp: fleet_change_def set_status_def rename_gateway_def delete_handler_def
      forget_gateway_def quiet_def w config_tables_of_def Let_def
      split: option.splits sum.splits prod.splits if_splits\<close>)
  then show "users (snd (fst (fleet_change a act r d))) = users d"
    "config_tables_of (snd (fst (fleet_change a act r d))) = config_tables_of d"
    "sessions (snd (fst (fleet_change a act r d))) \<in> {sessions d, sessions (looked a r d)}"
    by (simp_all add: d1)
qed

lemma agent_keeps:
  "users (snd (agent_api cr now uuid rte r d)) = users d"
  "config_tables_of (snd (agent_api cr now uuid rte r d)) = config_tables_of d"
  "sessions (snd (agent_api cr now uuid rte r d)) = sessions d"
  "config_versions (snd (agent_api cr now uuid rte r d)) = config_versions d"
proof -
  obtain gs ms where "snd (agent_api cr now uuid rte r d) = d\<lparr>gateways := gs, gateway_metrics := ms\<rparr>"
    using agent_api_decides_nothing [of d cr now uuid rte r] unfolding decides_nothing_def by blast
  then show "users (snd (agent_api cr now uuid rte r d)) = users d"
    "config_tables_of (snd (agent_api cr now uuid rte r d)) = config_tables_of d"
    "sessions (snd (agent_api cr now uuid rte r d)) = sessions d"
    "config_versions (snd (agent_api cr now uuid rte r d)) = config_versions d"
    by (simp_all add: config_tables_of_def)
qed

section \<open>The fleet\<close>

definition gateways_ok :: "gateway table \<Rightarrow> bool" where
  "gateways_ok t \<longleftrightarrow> keys_ok gw_pk t \<and> distinct (map fingerprint (rows t)) \<and> distinct (map gateway_uid (rows t))"

definition fleet_ok :: "library \<Rightarrow> database \<Rightarrow> bool" where
  "fleet_ok lib d \<longleftrightarrow> gateways_ok (gateways d) \<and> history_ok lib d \<and> pointers_ok d"

definition leads :: "config_version table \<Rightarrow> gateway \<Rightarrow> bool" where
  "leads t g \<longleftrightarrow> (\<forall>i. desired_version_id g = Some i \<longrightarrow> (\<exists>v \<in> set (rows t). version_pk v = i \<and> version_gateway v = gw_pk g))"

lemma pointers_leads: "pointers_ok d \<longleftrightarrow> (\<forall>g \<in> set (rows (gateways d)). leads (config_versions d) g)"
  by (simp add: pointers_ok_def leads_def)

lemma leads_more: "leads t g \<Longrightarrow> set (rows t) \<subseteq> set (rows u) \<Longrightarrow> leads u g"
  unfolding leads_def by blast

text \<open>The columns that identify a gateway.\<close>

definition ident :: "gateway \<Rightarrow> int \<times> string \<times> string" where
  "ident g = (gw_pk g, fingerprint g, gateway_uid g)"

lemma gateways_ok_update:
  assumes "gateways_ok t" "\<And>g. ident (f g) = ident g"
  shows "gateways_ok (sql_update P f t)"
proof -
  have "gw_pk (f g) = gw_pk g" "fingerprint (f g) = fingerprint g" "gateway_uid (f g) = gateway_uid g" for g
    using assms(2) [of g] by (simp_all add: ident_def)
  moreover from this have "map fingerprint (rows (sql_update P f t)) = map fingerprint (rows t)"
    "map gateway_uid (rows (sql_update P f t)) = map gateway_uid (rows t)" by simp_all
  ultimately show ?thesis using assms(1) gws.update_ok [of t f P] by (simp only: gateways_ok_def)
qed

lemma gateways_ok_delete: "gateways_ok t \<Longrightarrow> gateways_ok (sql_delete P t)"
  by (simp add: gateways_ok_def gws.delete_ok distinct_map_filter)

lemma gateways_ok_insert:
  assumes "gateways_ok (gateways d)" "insert_gateway g d = Inr d'"
  shows "gateways_ok (gateways d')"
proof -
  have new: "fingerprint g \<notin> fingerprint ` set (rows (gateways d))" "gateway_uid g \<notin> gateway_uid ` set (rows (gateways d))"
    and d': "d' = d\<lparr>gateways := sql_insert (\<lambda>i. g\<lparr>gw_pk := i\<rparr>) (gateways d)\<rparr>"
    using assms(2) by (force simp: insert_gateway_def split: if_splits)+
  show ?thesis
    using assms(1) new gws.insert_ok [of "gateways d" g] by (simp add: gateways_ok_def d')
qed

lemma insert_gateway_rows:
  "insert_gateway g d = Inr d' \<Longrightarrow> rows (gateways d') = rows (gateways d) @ [g\<lparr>gw_pk := next_id (gateways d)\<rparr>]"
  by (auto simp: insert_gateway_def split: if_splits)

text \<open>The three ways a step writes the gateways: pointing one at a version of its own, changing what is not a pointer, removal.\<close>

lemma pointers_point:
  assumes "\<And>g. g \<in> set (rows (gateways d)) \<Longrightarrow> leads t g" "v \<in> set (rows t)" "version_gateway v = gw"
    and "\<And>g. gw_pk (f g) = gw_pk g \<and> desired_version_id (f g) = Some (version_pk v)"
  shows "\<forall>g \<in> set (rows (sql_update (\<lambda>g. gw_pk g = gw) f (gateways d))). leads t g"
  using assms by (auto simp: leads_def)

lemma fleet_update:
  assumes "fleet_ok lib d" "\<And>g. ident (f g) = ident g \<and> desired_version_id (f g) = desired_version_id g"
    and "gateways d' = sql_update P f (gateways d)" "config_versions d' = config_versions d"
  shows "fleet_ok lib d'"
proof -
  have "gateways_ok (gateways d')" using assms by (simp add: fleet_ok_def gateways_ok_update)
  moreover have "history_ok lib d'" using assms(1,4) history_ok_cong [of d' d] by (simp add: fleet_ok_def)
  moreover have "leads t (f g) = leads t g" for t g using assms(2) [of g] by (simp add: leads_def ident_def)
  then have "pointers_ok d'" using assms(1,3,4) by (auto simp: fleet_ok_def pointers_leads)
  ultimately show ?thesis by (simp add: fleet_ok_def)
qed

lemma fleet_cong:
  assumes "gateways d' = gateways d" "config_versions d' = config_versions d" "fleet_ok lib d"
  shows "fleet_ok lib d'"
  by (rule fleet_update [OF assms(3), of id _ "\<lambda>_. False"]) (use assms in \<open>simp_all add: sql_update_def\<close>)

lemma fleet_forget:
  assumes "fleet_ok lib d"
  shows "fleet_ok lib (forget_gateway i d)"
proof -
  have "leads (config_versions (forget_gateway i d)) g" if "g \<in> set (rows (gateways d))" "gw_pk g \<noteq> i" for g
    using assms that by (fastforce simp: fleet_ok_def pointers_leads leads_def forget_gateway_def)
  then have "pointers_ok (forget_gateway i d)" by (simp add: pointers_leads) (simp add: forget_gateway_def)
  moreover have "gateways_ok (gateways (forget_gateway i d))"
    using assms by (simp add: fleet_ok_def forget_gateway_def gateways_ok_delete)
  ultimately show ?thesis using assms forget_history by (simp add: fleet_ok_def)
qed

text \<open>Where a deploy points the gateway.\<close>

lemma deploy_points:
  assumes "history_ok lib d" "deploy_in_transaction lib env cache now gw who memo d = Inr (r, d')"
  shows "\<exists>v f. v \<in> set (rows (config_versions d')) \<and> version_gateway v = gw
      \<and> set (rows (config_versions d)) \<subseteq> set (rows (config_versions d'))
      \<and> gateways d' = sql_update (\<lambda>g. gw_pk g = gw) f (gateways d)
      \<and> (\<forall>g. ident (f g) = ident g \<and> desired_version_id (f g) = Some (version_pk v))"
proof -
  obtain c where c: "compose_bundle lib env cache d gw = Inr c"
    using assms(2) by (cases "compose_bundle lib env cache d gw") (simp_all add: deploy_tx_cases [OF assms(1)])
  let ?sha = "bundle_digest lib (serialise_bundle c)"
  note tx = assms(2) [unfolded deploy_tx_cases [OF assms(1)] c sum.case Let_def]
  show ?thesis
  proof (cases "latest_version d gw \<noteq> None \<and> bundle_sha256 (the (latest_version d gw)) = ?sha")
    case True
    then obtain l where l: "latest_version d gw = Some l" by auto
    have d': "d' = point_gateway gw (\<lambda>g. g\<lparr>desired_version_id := Some (version_pk l)\<rparr>) d"
      using tx unfolding if_P [OF True] by (simp add: l)
    show ?thesis
      using latest_version_row [OF l]
      by (intro exI [of _ l] exI [of _ "\<lambda>g. g\<lparr>desired_version_id := Some (version_pk l)\<rparr>"]) (simp add: d' ident_def)
  next
    case False
    let ?v = "new_version d now gw who memo (serialise_bundle c) ?sha"
    have d': "d' = after_deploy ?v gw who memo d" using tx unfolding if_not_P [OF False] by simp
    have "?v \<in> set (rows (config_versions d'))" "version_gateway ?v = gw"
      by (simp_all add: d' after_deploy_simps) (simp_all add: new_version_def)
    then show ?thesis
      by (intro exI [of _ ?v] exI [of _ "\<lambda>g. g\<lparr>desired_version_id := Some (version_pk ?v), apply_error := None\<rparr>"])
        (auto simp: d' after_deploy_simps ident_def)
  qed
qed

lemma fleet_deploy:
  assumes "fleet_ok lib d" "deploy_bundle lib env cache now b gw who memo d = (x, d', ls)"
  shows "fleet_ok lib d'"
proof (cases x)
  case (Inl e)
  then have "d' = d" using assms(2) by (auto simp: deploy_bundle_def dest!: run_tx_InlD split: prod.splits sum.splits)
  with assms(1) show ?thesis by simp
next
  case (Inr r)
  then have tx: "deploy_in_transaction lib env cache now gw who memo d = Inr (r, d')"
    using assms(2) by (auto simp: deploy_bundle_def dest!: run_tx_InrD split: prod.splits sum.splits)
  have h: "history_ok lib d" and g: "gateways_ok (gateways d)" and p: "pointers_ok d" using assms(1) by (simp_all add: fleet_ok_def)
  have h': "history_ok lib d'" by (rule deploy_history [OF h tx])
  from deploy_points [OF h tx] obtain v f where v: "v \<in> set (rows (config_versions d'))" "version_gateway v = gw"
      "set (rows (config_versions d)) \<subseteq> set (rows (config_versions d'))"
      "gateways d' = sql_update (\<lambda>g. gw_pk g = gw) f (gateways d)"
    and f: "\<And>g. ident (f g) = ident g \<and> desired_version_id (f g) = Some (version_pk v)" by blast
  have old: "leads (config_versions d') g" if "g \<in> set (rows (gateways d))" for g
    using p that leads_more [OF _ v(3)] by (simp add: pointers_leads)
  have "gw_pk (f g) = gw_pk g \<and> desired_version_id (f g) = Some (version_pk v)" for g using f [of g] by (simp add: ident_def)
  then have "pointers_ok d'" unfolding pointers_leads v(4) by (intro pointers_point [OF old v(1,2)])
  moreover have "gateways_ok (gateways d')" unfolding v(4) using gateways_ok_update [OF g] f by blast
  ultimately show ?thesis using h' by (simp add: fleet_ok_def)
qed

lemma rollback_points:
  assumes "rollback_number b gw x who d = (y, d', ls)"
  shows "d' = d \<or> (\<exists>v \<in> set (rows (config_versions d)). version_gateway v = gw \<and> config_versions d' = config_versions d
    \<and> gateways d' = sql_update (\<lambda>g. gw_pk g = gw) (\<lambda>g. g\<lparr>desired_version_id := Some (version_pk v), apply_error := None\<rparr>) (gateways d))"
proof (cases "is_integer x")
  case True
  let ?find = "first_row (sql_select (\<lambda>v. version_pk v = to_int x \<and> version_gateway v = gw) (config_versions d))"
  note s = assms [unfolded rollback_number_def if_P [OF True] rollback_to_def run_tx_def rollback_in_transaction_def]
  show ?thesis
  proof (cases ?find)
    case None
    with s show ?thesis by simp
  next
    case (Some v)
    then have "v \<in> set (rows (config_versions d))" "version_gateway v = gw" by (auto dest: first_row_SomeD)
    moreover have "config_versions d' = config_versions d"
      "gateways d' = sql_update (\<lambda>g. gw_pk g = gw) (\<lambda>g. g\<lparr>desired_version_id := Some (version_pk v), apply_error := None\<rparr>) (gateways d)"
      using s Some by (auto simp: Let_def)
    ultimately show ?thesis by blast
  qed
qed (use assms in \<open>simp add: rollback_number_def\<close>)

lemma fleet_rollback:
  assumes "fleet_ok lib d" "rollback_number b gw x who d = (y, d', ls)"
  shows "fleet_ok lib d'"
  using rollback_points [OF assms(2)]
proof
  assume "\<exists>v \<in> set (rows (config_versions d)). version_gateway v = gw \<and> config_versions d' = config_versions d
    \<and> gateways d' = sql_update (\<lambda>g. gw_pk g = gw) (\<lambda>g. g\<lparr>desired_version_id := Some (version_pk v), apply_error := None\<rparr>) (gateways d)"
  then obtain v where v: "v \<in> set (rows (config_versions d))" "version_gateway v = gw" and c: "config_versions d' = config_versions d"
    and g: "gateways d' = sql_update (\<lambda>g. gw_pk g = gw) (\<lambda>g. g\<lparr>desired_version_id := Some (version_pk v), apply_error := None\<rparr>) (gateways d)"
    by blast
  have "pointers_ok d'" unfolding pointers_leads g c
    by (rule pointers_point [OF _ v]) (use assms(1) in \<open>simp_all add: fleet_ok_def pointers_leads\<close>)
  moreover have "history_ok lib d'" using assms(1) history_ok_cong [OF c] by (simp add: fleet_ok_def)
  moreover have "gateways_ok (gateways d')" unfolding g
    by (rule gateways_ok_update) (use assms(1) in \<open>simp_all add: fleet_ok_def ident_def\<close>)
  ultimately show ?thesis by (simp add: fleet_ok_def)
qed (use assms in simp)

text \<open>What the agent's routes do to the gateways: refresh what the gateway reports, or file a new one.\<close>

definition refreshes :: "database \<Rightarrow> database \<Rightarrow> bool" where
  "refreshes d d' \<longleftrightarrow>
     (\<exists>P f. gateways d' = sql_update P f (gateways d) \<and> (\<forall>g. ident (f g) = ident g \<and> desired_version_id (f g) = desired_version_id g))
     \<or> (\<exists>g. insert_gateway g d = Inr d' \<and> desired_version_id g = None)"

lemma refreshes_same: "refreshes d d"
  unfolding refreshes_def by (intro disjI1 exI [of _ "\<lambda>_. False"] exI [of _ id]) (simp add: sql_update_def)

lemma trust_ident: "trust (f g) = trust g \<Longrightarrow> ident (f g) = ident g \<and> desired_version_id (f g) = desired_version_id g"
  by (simp add: trust_def ident_def)

lemma refreshes_update:
  assumes "\<And>g. trust (f g) = trust g"
  shows "refreshes d (d\<lparr>gateways := sql_update P f (gateways d)\<rparr>)"
    "refreshes d (d\<lparr>gateways := sql_update P f (gateways d), gateway_metrics := ms\<rparr>)"
  unfolding refreshes_def using trust_ident [of f] assms by auto

lemma refreshes_new: "insert_gateway (new_gateway i uid fp t) d = Inr d' \<Longrightarrow> refreshes d d'"
  unfolding refreshes_def
  by (intro disjI2 exI [of _ "new_gateway i uid fp t"]) (simp add: new_gateway_def systeminfo_def)

lemmas refreshes_intros = refreshes_same refreshes_update refreshes_new

lemma signed_refreshes: "(\<And>g. refreshes d (snd (h g d))) \<Longrightarrow> refreshes d (snd (signed cr now h r d))"
  by (auto simp: signed_def intro: refreshes_same split: sum.split)

lemma agent_refreshes: "refreshes d (snd (agent_api cr now uuid rte r d))"
proof -
  have "refreshes d (snd (register_handler cr now uuid r d))"
    by (auto simp: register_handler_def Let_def intro: refreshes_intros split: sum.split option.split)
  moreover have "refreshes d (snd (status_handler now g d))" "refreshes d (snd (config_handler g d))"
    "refreshes d (snd (report_handler cr now r g d))" for g
    by (auto simp: status_handler_def config_handler_def report_handler_def Let_def intro: refreshes_intros
        split: sum.split option.split)
  ultimately show ?thesis by (cases rte) (simp_all add: agent_api_def signed_refreshes)
qed

lemma fleet_agent:
  assumes "fleet_ok lib d"
  shows "fleet_ok lib (snd (agent_api cr now uuid rte r d))"
proof -
  let ?d = "snd (agent_api cr now uuid rte r d)"
  have c: "config_versions ?d = config_versions d" by (rule agent_keeps)
  consider P f where "gateways ?d = sql_update P f (gateways d)"
      "\<And>g. ident (f g) = ident g \<and> desired_version_id (f g) = desired_version_id g"
    | g where "insert_gateway g d = Inr ?d" "desired_version_id g = None"
    using agent_refreshes [of d cr now uuid rte r] unfolding refreshes_def by blast
  then show ?thesis
  proof cases
    case (1 P f)
    then show ?thesis using fleet_update [OF assms _ _ c] by blast
  next
    case (2 g)
    then have "rows (gateways ?d) = rows (gateways d) @ [g\<lparr>gw_pk := next_id (gateways d)\<rparr>]"
      using insert_gateway_rows by blast
    then have "pointers_ok ?d" using assms 2(2) by (auto simp: fleet_ok_def pointers_leads c leads_def)
    moreover have "gateways_ok (gateways ?d)" using assms gateways_ok_insert [OF _ 2(1)] by (simp add: fleet_ok_def)
    moreover have "history_ok lib ?d" using assms history_ok_cong [OF c] by (simp add: fleet_ok_def)
    ultimately show ?thesis by (simp add: fleet_ok_def)
  qed
qed

lemma fleet_operated:
  assumes "fleet_ok (a_library a) d"
  shows "fleet_ok (a_library a) (snd (fst (fleet_change a act r d)))"
proof -
  obtain who d1 where w: "who_is (a_library a) (a_now a) r d = (who, d1)" by fastforce
  then have "fleet_tables d1 = fleet_tables d" using who_is_frame looked_keeps(1) by metis
  then have d1: "fleet_ok (a_library a) d1" using fleet_cong [OF _ _ assms] by (simp add: fleet_tables_def)
  show ?thesis
  proof (cases act)
    case SetStatus
    have "fleet_ok (a_library a) (d1\<lparr>gateways := sql_update P (\<lambda>g. if s = ''approved'' then
          g\<lparr>gw_status := s, approved_by := x, approved_at := y\<rparr> else g\<lparr>gw_status := s\<rparr>) (gateways d1)\<rparr>)" for P s x y
      by (rule fleet_update [OF d1, of "\<lambda>g. if s = ''approved'' then
          g\<lparr>gw_status := s, approved_by := x, approved_at := y\<rparr> else g\<lparr>gw_status := s\<rparr>" _ P]) (simp_all add: ident_def)
    with SetStatus assms show ?thesis
      by (auto simp: fleet_change_def set_status_def quiet_def w Let_def split: option.split sum.split)
  next
    case Rename
    have "fleet_ok (a_library a) (d\<lparr>gateways := sql_update P (\<lambda>g. g\<lparr>gw_name := x\<rparr>) (gateways d)\<rparr>)" for P x
      by (rule fleet_update [OF assms, of "\<lambda>g. g\<lparr>gw_name := x\<rparr>" _ P]) (simp_all add: ident_def)
    with Rename assms show ?thesis
      by (auto simp: fleet_change_def rename_gateway_def Let_def split: option.split sum.split)
  next
    case Assign
    have "fleet_ok (a_library a) e" if "save_in_transaction i body d = Inr (u, e)" for i body u e
      using fleet_cong [OF _ _ assms] save_keeps(4,5) [OF that] by blast
    with Assign assms show ?thesis
      by (auto simp: fleet_change_def save_assignments_def run_tx_def split: option.split sum.split)
  next
    case DeployNow
    with assms fleet_deploy [OF d1] show ?thesis
      by (auto simp: fleet_change_def deploy_handler_def quiet_def w Let_def split: option.split sum.split prod.split)
  next
    case Rollback
    with assms fleet_rollback [OF d1] show ?thesis
      by (auto simp: fleet_change_def rollback_handler_def quiet_def w Let_def split: option.split sum.split prod.split)
  next
    case Forget
    with assms fleet_forget show ?thesis by (auto simp: fleet_change_def delete_handler_def split: option.split)
  qed
qed

end
