(* ===== verification/Startup.thy ===== *)
theory Startup
  imports Rows
begin

text \<open>
  Bringing the console up: \<open>webui-fastify/src/checkenv.ts\<close>, \<open>webui-fastify/db/index.ts\<close>, \<open>webui-fastify/src/tls.ts\<close>,
  \<open>webui-fastify/src/index.ts\<close>, and the purge of the audit log from \<open>webui-fastify/src/middleware/logger.ts\<close>. Time is
  explicit: \<open>tables_at t\<close> are the tables the database has at millisecond \<open>t\<close> and \<open>lag t\<close> is how long the query
  sent at \<open>t\<close> takes. The file system is a map from paths to contents and modes; a certificate is the record of
  what is put into it, and \<open>pem\<close> stands for the RSA key, the signature and the encoding of the library.
\<close>

section \<open>Required variables\<close>

definition required_env :: "(string \<times> string) list" where
  "required_env =
     [(''DB_HOST'', ''database host, e.g. 127.0.0.1''), (''DB_NAME'', ''database name''), (''DB_USER'', ''database user''),
      (''DB_PASS'', ''database password''), (''SIGN_COOKIE'', ''cookie signing secret (random string)'')]"

definition missing_env :: "env \<Rightarrow> (string \<times> string) list" where
  "missing_env env = filter (\<lambda>(name, hint). \<not> truthy_str (env name)) required_env"

section \<open>Waiting for the schema\<close>

definition table_names :: "string list" where
  "table_names = [''Users'', ''Sessions'', ''RelayGroups'', ''Relays'', ''CredentialSets'', ''SmtpCredentials'', ''Logs'',
     ''Exceptions'', ''Gateways'', ''ConfigProfiles'', ''GatewayAssignments'', ''ConfigVersions'', ''ConfigDeployments'',
     ''GatewayMetrics'']"

definition expected_tables :: "string list" where
  "expected_tables = sort_key js_key table_names"

definition missing_tables :: "string list \<Rightarrow> string list \<Rightarrow> string list" where
  "missing_tables have want = filter (\<lambda>t. to_lower t \<notin> set (map to_lower have)) want"

definition schema_wait_timeout :: "env \<Rightarrow> rat" where
  "schema_wait_timeout env =
     (case env ''SCHEMA_WAIT_TIMEOUT_MS'' of
        None \<Rightarrow> 90000
      | Some raw \<Rightarrow> if raw = [] then 90000
          else (case js_number raw of Fin q \<Rightarrow> if q < 0 then 90000 else q | _ \<Rightarrow> 90000))"

text \<open>\<open>setTimeout\<close> waits one millisecond when asked for less than that or for more than its limit.\<close>

definition sleep_ms :: "int \<Rightarrow> int" where
  "sleep_ms p = (if p < 1 \<or> 2 ^ 31 - 1 < p then 1 else p)"

definition seconds :: "rat \<Rightarrow> string" where
  "seconds ms = int_to_string \<lfloor>ms / 1000 + 1 / 2\<rfloor>"

text \<open>How the wait ended: the result, the time and the lines printed.\<close>

type_synonym waited = "unit res \<times> int \<times> string list"

function wait_loop ::
  "(int \<Rightarrow> string list) \<Rightarrow> (int \<Rightarrow> nat) \<Rightarrow> string list \<Rightarrow> rat \<Rightarrow> int \<Rightarrow> rat \<Rightarrow> int \<Rightarrow> int \<Rightarrow> bool \<Rightarrow> int \<Rightarrow> string list \<Rightarrow> waited"
where
  "wait_loop tables_at lag want timeout poll deadline startedAt t announced lastProgress out =
     (let missing = missing_tables (tables_at t) want; now = t + int (lag t); names = js_join '', '' missing
      in if missing = [] then
           (Inr (), now, if announced then out @ [''Schema: ready after '' @ seconds (of_int (now - startedAt)) @ ''s''] else out)
         else
           (let report = announced \<and> 10000 \<le> now - lastProgress;
                out' = (if \<not> announced
                        then out @ [''Schema: waiting for logservice to migrate '' @ nat_to_string (length missing) @ '' of ''
                                    @ nat_to_string (length want) @ '' tables ('' @ names @ '')'']
                        else if report then out @ [''Schema: still missing '' @ names] else out);
                progress = (if \<not> announced \<or> report then now else lastProgress)
            in if deadline \<le> of_int (now + poll)
               then (Inl (''schema not migrated after '' @ seconds timeout @ ''s - missing '' @ names
                       @ ''. logservice applies these migrations when it starts; check that it is running and healthy.''), now, out')
               else wait_loop tables_at lag want timeout poll deadline startedAt (now + sleep_ms poll) True progress out'))"
  by pat_completeness auto
termination
proof (relation "measure (\<lambda>(tables_at, lag, want, timeout, poll, deadline, startedAt, t, announced, lastProgress, out).
    nat (\<lceil>deadline\<rceil> - poll - t))", goal_cases)
  case (2 tables_at lag want timeout poll deadline startedAt t announced lastProgress out missing now names report out' progress)
  then have "of_int (t + int (lag t) + poll) < deadline" by simp
  then have "t + int (lag t) + poll < \<lceil>deadline\<rceil>" by (simp add: less_ceiling_iff)
  moreover have "1 \<le> sleep_ms poll" by (simp add: sleep_ms_def)
  ultimately show ?case using 2 by simp
qed simp

declare wait_loop.simps [simp del]

definition wait_for_schema :: "(int \<Rightarrow> string list) \<Rightarrow> (int \<Rightarrow> nat) \<Rightarrow> rat \<Rightarrow> int \<Rightarrow> int \<Rightarrow> waited" where
  "wait_for_schema tables_at lag timeoutMs pollMs now =
     (if timeoutMs \<le> 0 then (Inr (), now, [])
      else wait_loop tables_at lag expected_tables timeoutMs pollMs (of_int now + timeoutMs) now now False 0 [])"

section \<open>The TLS pair\<close>

type_synonym files = "string \<Rightarrow> (string \<times> nat) option"

record certificate =
  serial_number :: string
  not_before :: int
  not_after :: int
  common_name :: string
  organization :: string
  subject_alt_names :: "(nat \<times> string) list"

definition tls_days :: int where
  "tls_days = 825"

definition is_ip :: "string \<Rightarrow> bool" where
  "is_ip v \<longleftrightarrow>
     (let parts = js_split (CHR ''.'') v
      in length parts = 4 \<and> list_all (\<lambda>p. list_all is_digit p \<and> 1 \<le> length p \<and> length p \<le> 3) parts)
     \<or> CHR '':'' \<in> set v"

text \<open>\<open>[...new Set(xs)]\<close>: the first occurrence of each.\<close>

definition unique :: "'a list \<Rightarrow> 'a list" where
  "unique xs = rev (remdups (rev xs))"

definition alt_names :: "env \<Rightarrow> string \<Rightarrow> string list" where
  "alt_names env this_host = unique ([''localhost'', ''127.0.0.1'', this_host] @ list_setting (env ''TLS_HOSTS''))"

text \<open>\<open>bytes\<close> are the 16 random bytes.\<close>

definition random_serial :: "string \<Rightarrow> string" where
  "random_serial bytes =
     (let hex = to_hex bytes in if 8 \<le> the (hex_val (hd hex)) then ''0'' @ hex else hex)"

definition self_sign :: "string \<Rightarrow> int \<Rightarrow> string list \<Rightarrow> certificate" where
  "self_sign bytes now names = \<lparr>serial_number = random_serial bytes, not_before = now, not_after = now + tls_days * 86400000,
     common_name = hd names, organization = ''mailgw console (self-signed)'',
     subject_alt_names = map (\<lambda>v. if is_ip v then (7, v) else (2, v)) names\<rparr>"

definition ensure_tls_pair ::
  "(certificate \<Rightarrow> string \<times> string) \<Rightarrow> env \<Rightarrow> string \<Rightarrow> string \<Rightarrow> int \<Rightarrow> string \<Rightarrow> files \<Rightarrow> (string \<times> string) res \<times> files"
where
  "ensure_tls_pair pem env this_host bytes now dir fs =
     (let keyPath = dir @ ''/server.key''; crtPath = dir @ ''/server.crt''
      in case (fs keyPath, fs crtPath) of
           (Some (k, _), Some (c, _)) \<Rightarrow> (Inr (k, c), fs)
         | (None, None) \<Rightarrow>
             (case pem (self_sign bytes now (alt_names env this_host)) of
                (k, c) \<Rightarrow> (Inr (k, c), fs(keyPath \<mapsto> (k, 384), crtPath \<mapsto> (c, 420))))
         | _ \<Rightarrow> (Inl (dir @ '' holds one half of a TLS pair - expected both server.key and server.crt. ''
                @ ''Remove the one that is there to have a self-signed pair generated, or add the other.''), fs))"

section \<open>Retention of the audit log\<close>

text \<open>A date is whole milliseconds, cut toward zero, within \<open>8.64e15\<close> of the epoch; any other does not format.\<close>

definition date_of :: "rat \<Rightarrow> int option" where
  "date_of q = (let i = (if 0 \<le> q then \<lfloor>q\<rfloor> else \<lceil>q\<rceil>) in if \<bar>i\<bar> \<le> 8640000000000000 then Some i else None)"

definition purge_old_logs :: "int \<Rightarrow> jsnum \<Rightarrow> database \<Rightarrow> nat res \<times> database" where
  "purge_old_logs now retentionDays d =
     (case retentionDays of
        NInf \<Rightarrow> (Inr 0, d)
      | Fin q \<Rightarrow>
          (if q \<le> 0 then (Inr 0, d)
           else (case date_of (of_int now - q * 86400000) of
               None \<Rightarrow> (Inl ''Invalid time value'', d)
             | Some cutoff \<Rightarrow>
                 (let old = (\<lambda>r. log_created r < cutoff)
                  in (Inr (length (sql_select old (logs d))), d\<lparr>logs := sql_delete old (logs d)\<rparr>))))
      | _ \<Rightarrow> (Inl ''Invalid time value'', d))"

section \<open>Boot and shutdown\<close>

text \<open>What the process meets while it starts.\<close>

record surroundings =
  sr_env :: env
  db_ping :: "unit res"
  db_tables :: "int \<Rightarrow> string list"
  db_lag :: "int \<Rightarrow> nat"
  sr_files :: files
  sr_host :: string
  sr_bytes :: string
  sr_pem :: "certificate \<Rightarrow> string \<times> string"
  sr_listen :: "unit res"

text \<open>The process exits with a code, stops on an error nobody catches (\<open>errhandler.ts\<close> records it), or listens.\<close>

datatype booted = Exits int | Throws string | Listens jsnum "string \<times> string"

definition listen_port :: "env \<Rightarrow> jsnum" where
  "listen_port env =
     (let x = (case env ''PORT'' of None \<Rightarrow> NaN | Some s \<Rightarrow> js_number s) in if x = NaN \<or> x = Fin 0 then Fin 4000 else x)"

definition boot :: "surroundings \<Rightarrow> int \<Rightarrow> booted \<times> files" where
  "boot s now =
     (let env = sr_env s; fs = sr_files s
      in if missing_env env \<noteq> [] then (Exits 1, fs)
         else (case db_ping s of
             Inl e \<Rightarrow> (Exits 1, fs)
           | Inr _ \<Rightarrow>
               (case wait_for_schema (db_tables s) (db_lag s) (schema_wait_timeout env) 1000 now of
                  (Inl e, t, out) \<Rightarrow> (Exits 1, fs)
                | (Inr _, t, out) \<Rightarrow>
                    (case ensure_tls_pair (sr_pem s) env (sr_host s) (sr_bytes s) t
                            (if truthy_str (env ''TLS_DIR'') then the (env ''TLS_DIR'') else ''./certs'') fs of
                       (Inl e, fs') \<Rightarrow> (Throws e, fs')
                     | (Inr pair, fs') \<Rightarrow>
                         (case sr_listen s of
                            Inl e \<Rightarrow> (Exits 1, fs')
                          | Inr _ \<Rightarrow> (Listens (listen_port env) pair, fs'))))))"

text \<open>\<open>shutdown\<close>: the flag, and the exit code of a signal that is not the second one. \<open>ended\<close> is how closing the server
  and the pool ended.\<close>

definition shutdown :: "unit res \<Rightarrow> bool \<Rightarrow> bool \<times> int option" where
  "shutdown ended shuttingDown =
     (if shuttingDown then (True, None) else (True, Some (case ended of Inl _ \<Rightarrow> 1 | Inr _ \<Rightarrow> 0)))"

end
