(* ===== verification/System.thy ===== *)
theory System
  imports Laws Startup
begin

text \<open>
  The console over time: any number of requests on any routes, interleaved with the timers (the sweep of expired sessions, the
  purge of the audit log) and with recorded exceptions. A law of the console is a predicate on its database that every
  step keeps; the locale \<open>console_law\<close> proves once that it then holds in every state reached, and the laws are its
  interpretations.
\<close>

section \<open>The command line\<close>

text \<open>\<open>create_user.ts\<close> and \<open>check_user.ts\<close>: the exit code and the line printed. \<open>argv\<close> holds the interpreter and the script first.\<close>

definition create_user_cli :: "library \<Rightarrow> string \<Rightarrow> string list \<Rightarrow> database \<Rightarrow> (int \<times> string) \<times> database" where
  "create_user_cli cr salt argv d =
     (if length argv < 4 then ((1, ''Usage node create_user.ts <username> <password> [role]''), d)
      else (let e = argv ! 2; pass = argv ! 3; r = (if 4 < length argv then argv ! 4 else ''admin'')
        in if r \<noteq> ''admin'' \<and> r \<noteq> ''viewer''
           then ((1, ''Unknown role '' @ nullish (json_stringify (Str r)) [] @ '': use admin or viewer''), d)
           else (case create_user cr salt e pass r d of
               Inl m \<Rightarrow> ((0, ''Error creating user: '' @ m), d)
             | Inr d' \<Rightarrow> ((0, ''User created ('' @ r @ '')!''), d'))))"

definition check_user_cli :: "library \<Rightarrow> string list \<Rightarrow> database \<Rightarrow> int \<times> string" where
  "check_user_cli cr argv d =
     (if length argv < 4 then (1, ''Usage node check_user.ts <username> <password>'')
      else (0, if check_auth cr d (argv ! 2) (argv ! 3) then ''Auth success'' else ''Auth failed''))"

lemma create_user_cli_cases:
  "snd (create_user_cli cr salt argv d) = d \<or> (\<exists>e p r. create_user cr salt e p r d = Inr (snd (create_user_cli cr salt argv d)))"
  by (auto simp: create_user_cli_def Let_def split: sum.split)

section \<open>Steps\<close>

inductive console_step :: "library \<Rightarrow> database \<Rightarrow> database \<Rightarrow> bool" for lib where
  request: "a_library a = lib \<Longrightarrow> console_step lib d (db_of (serve a static chosen r d))"
| sweep: "console_step lib d (sweep_sessions now d)"
| purge: "console_step lib d (snd (purge_old_logs now days d))"
| command: "console_step lib d (snd (create_user_cli lib salt argv d))"
| crash: "console_step lib d (persist_exception written info d)"

inductive_cases console_stepE: "console_step lib d d'"

abbreviation reaches :: "library \<Rightarrow> database \<Rightarrow> database \<Rightarrow> bool" where
  "reaches lib \<equiv> (console_step lib)\<^sup>*\<^sup>*"

locale console_law =
  fixes I :: "library \<Rightarrow> database \<Rightarrow> bool"
  assumes law_logs: "I lib d \<Longrightarrow> I lib (d\<lparr>logs := l\<rparr>)"
    and law_exceptions: "I lib d \<Longrightarrow> I lib (d\<lparr>exceptions := e\<rparr>)"
    and law_looked: "I lib d \<Longrightarrow> I lib (looked a r d)"
    and law_sweep: "I lib d \<Longrightarrow> I lib (sweep_sessions now d)"
    and law_create: "I lib d \<Longrightarrow> create_user lib salt m k w d = Inr d' \<Longrightarrow> I lib d'"
    and law_effect: "I lib d \<Longrightarrow> a_library a = lib \<Longrightarrow> effect p a r d d' \<Longrightarrow> I lib d'"
begin

lemma law_passed:
  assumes "I lib d" "passed a sr r d d1"
  shows "I lib d1"
proof -
  have "I lib (logged a sr r d)" using logged_logs [of a sr r d] law_logs [OF assms(1)] by auto
  then show ?thesis using assms(2) law_looked by (auto simp: passed_def)
qed

lemma law_serve:
  assumes "I lib d" "a_library a = lib"
  shows "I lib (db_of (serve a static chosen r d))"
proof (cases "\<exists>c sr. chosen = Some c \<and> find_route c = Some sr")
  case False
  then show ?thesis using assms(1) by (auto simp: serve_def split: option.split)
next
  case True
  then obtain c sr where c: "chosen = Some c" "find_route c = Some sr" by blast
  obtain rep d' ls where s: "serve_route a sr r d = (rep, d', ls)" by (metis prod_cases3)
  obtain d1 where d1: "passed a sr r d d1" and out: "d' = d1 \<or> (\<exists>r'. d' = db_of (rt_run (snd sr) a r' d1))"
    using serve_route_step [OF s] by blast
  note ok = law_passed [OF assms(1) d1]
  have "I lib d'"
    using out ok law_effect [OF ok assms(2) route_effect [OF found_route [OF c(2)]]] by blast
  then show ?thesis using c s by (simp add: serve_def db_of_def)
qed

lemma law_command:
  assumes "I lib d"
  shows "I lib (snd (create_user_cli lib salt argv d))"
  using create_user_cli_cases [of lib salt argv d] law_create [OF assms] assms by auto

lemma law_step: "I lib d \<Longrightarrow> console_step lib d d' \<Longrightarrow> I lib d'"
  by (elim console_stepE)
    (auto simp: purge_old_logs_def persist_exception_def Let_def intro: law_serve law_sweep law_logs law_exceptions law_command
      split: jsnum.split option.split sum.split)

lemma law_reaches:
  assumes "reaches lib d d'" "I lib d"
  shows "I lib d'"
  using assms by (induction rule: rtranclp_induct) (auto intro: law_step)

end

section \<open>Accounts and sessions\<close>

lemma accounts_cong: "users d = users e \<Longrightarrow> accounts_ok d = accounts_ok e"
  by (simp add: accounts_ok_def)

text \<open>The accounts are well formed, and once there is one there always is one.\<close>

definition settled :: "nat \<Rightarrow> database \<Rightarrow> bool" where
  "settled n d \<longleftrightarrow> accounts_ok d \<and> n \<le> count_users d \<and> n \<le> 1"

lemma settled_cong: "users d = users e \<Longrightarrow> settled n d = settled n e"
  using accounts_cong [of d e] by (simp add: settled_def count_users_def)

lemma managed_settled:
  assumes "settled n d"
  shows "settled n (snd (user_management cr now salt act r d))"
proof -
  have ok: "accounts_ok d" "n \<le> count_users d" "n \<le> 1" using assms by (simp_all add: settled_def)
  show ?thesis
  proof (cases act)
    case Create
    have "settled n d'" if "create_user cr salt e p x d = Inr d'" for e p x d'
      using create_user_ok [OF ok(1) that] that ok by (auto simp: settled_def create_user_def count_users_def split: if_splits)
    with Create assms show ?thesis by (auto simp: user_management_def users_create_handle_def split: sum.split)
  next
    case Edit
    have "settled n d'" if "update_user cr salt i e p x d = Inr d'" for i e p x d'
      using update_user_ok [OF ok(1) that] that ok by (auto simp: settled_def update_user_def count_users_def split: if_splits)
    with Edit assms show ?thesis by (auto simp: user_management_def users_edit_handle_def Let_def split: sum.split)
  next
    case Delete
    have "settled n (delete_user i d)" if "\<not> count_users d \<le> 1" for i
      using delete_safe [OF ok(1), of i] that ok(3) by (auto simp: settled_def safe_step_def)
    with Delete assms show ?thesis by (auto simp: user_management_def users_delete_handle_def)
  next
    case ChangePassword
    obtain e d1 where s: "session_email_of cr now r d = (e, d1)" by fastforce
    then have d1: "settled n d1" using assms settled_cong [of d1 d n] looked_keeps(3) [of cr now r d] by simp
    then have "settled n (update_password cr salt m p d1)" for m p
      using update_password_ok [of d1 cr salt m p] by (simp add: settled_def count_users_def update_password_def)
    with d1 s ChangePassword show ?thesis by (auto simp: user_management_def profile_submit_def split: sum.split)
  qed
qed

lemma setup_settled:
  assumes "settled n d"
  shows "settled n (snd (setup_submit cr salt r d))"
proof -
  have "settled n d'" if "create_user cr salt e p x d = Inr d'" for e p x d'
    using create_user_ok [OF _ that] that assms by (auto simp: settled_def create_user_def count_users_def split: if_splits)
  with assms show ?thesis by (auto simp: setup_submit_def split: sum.split)
qed

lemma create_settled: "settled n d \<Longrightarrow> create_user cr salt e p x d = Inr d' \<Longrightarrow> settled n d'"
  using create_user_ok [of d cr salt e p x d'] by (auto simp: settled_def create_user_def count_users_def split: if_splits)

lemma create_keeps:
  assumes "create_user cr salt e p x d = Inr d'"
  shows "fleet_tables d' = fleet_tables d" "config_tables_of d' = config_tables_of d" "sessions d' = sessions d"
  using assms by (auto simp: create_user_def tables_of split: if_splits)

lemma effect_settled:
  assumes "effect p a r d d'" "settled n d"
  shows "settled n d'"
proof -
  have keep: "settled n e" if "users e = users d" for e using that assms(2) settled_cong by blast
  from assms(1) show ?thesis
    by (rule effect_cases)
      (simp_all add: keep assms(2) managed_settled setup_settled
        looked_keeps login_keeps logout_keeps config_keeps fleet_keeps agent_keeps)
qed

interpretation accounts: console_law "\<lambda>lib. settled n" for n
proof
  fix lib :: library and d :: database and a :: ambient and r :: request and now :: int and l e
  assume s: "settled n d"
  note keep = settled_cong [THEN iffD1, OF _ s]
  show "settled n (d\<lparr>logs := l\<rparr>)" "settled n (d\<lparr>exceptions := e\<rparr>)" "settled n (looked a r d)" "settled n (sweep_sessions now d)"
    by (rule keep; simp add: looked_def looked_keeps sweep_sessions_def)+
qed (rule create_settled effect_settled; assumption)+

text \<open>No two sessions share an id.\<close>

lemma sessions_looked: "db_valid (sessions d) \<Longrightarrow> db_valid (sessions (looked a r d))"
  using db.valid_steps(1) [of "sessions d"]
  by (auto simp: looked_def session_email_of_def get_session_def split: prod.split) (metis snd_conv)+

lemma managed_sessions:
  "sessions (snd (user_management (a_library a) (a_now a) salt act r d)) \<in> {sessions d, sessions (looked a r d)}"
  by (cases act)
    (auto simp: user_management_def users_create_handle_def create_user_def users_edit_handle_def update_user_def users_delete_handle_def
      delete_user_def profile_submit_def update_password_def looked_def Let_def split: sum.split prod.split)

lemma login_sessions:
  assumes "db_valid (sessions d)"
  shows "db_valid (sessions (snd (login cr now uuid r d)))"
proof -
  have "db_valid (sessions e)" if "create_session i x d = Inr e" for i x e
    using that db.valid_steps(4) [OF assms, of i x] by (cases "db_create i x (sessions d)") (auto simp: create_session_def)
  with assms show ?thesis by (auto simp: login_def split: sum.split)
qed

lemma effect_sessions:
  assumes "effect p a r d d'" "db_valid (sessions d)"
  shows "db_valid (sessions d')"
proof -
  note look = sessions_looked [OF assms(2), of a r]
  have "db_valid (sessions (snd (login (a_library a) (a_now a) (a_uuid a) r d)))" by (rule login_sessions [OF assms(2)])
  moreover have "db_valid (sessions (snd (logout (a_library a) r d)))"
    using assms(2) db.valid_steps(2) by (auto simp: logout_def delete_session_def)
  moreover have "db_valid (sessions (snd (user_management (a_library a) (a_now a) (a_salt a) act r d)))" for act
    using managed_sessions [of a "a_salt a" act r d] assms(2) look by auto
  moreover have "db_valid (sessions (snd (fst (fleet_change a act r d))))" for act
    using fleet_keeps(3) [of a act r d] assms(2) look by auto
  ultimately show ?thesis
    using assms look by (elim effect_cases) (simp_all add: config_keeps setup_keeps agent_keeps looked_def)
qed

interpretation live: console_law "\<lambda>lib d. db_valid (sessions d)"
proof
  show "db_valid (sessions (sweep_sessions now d))" if "db_valid (sessions d)" for now d
    using db.valid_steps(3) [OF that] by (simp add: sweep_sessions_def)
qed (simp_all add: sessions_looked effect_sessions create_keeps)

section \<open>Configuration and fleet\<close>

lemma config_cong: "config_tables_of d = config_tables_of e \<Longrightarrow> config_ok d = config_ok e"
  by (simp add: config_ok_def config_tables_of_def)

lemma effect_config:
  assumes "effect p a r d d'" "config_ok d"
  shows "config_ok d'"
proof -
  have keep: "config_ok e" if "config_tables_of e = config_tables_of d" for e using that assms(2) config_cong by blast
  from assms(1) show ?thesis
    by (rule effect_cases)
      (simp_all add: keep assms(2) config_change_ok
        looked_keeps login_keeps logout_keeps setup_keeps managed_keeps fleet_keeps agent_keeps)
qed

interpretation conf: console_law "\<lambda>lib. config_ok"
proof
  fix lib :: library and d :: database and a :: ambient and r :: request and now :: int and l e
  assume s: "config_ok d"
  note keep = config_cong [THEN iffD1, OF _ s]
  show "config_ok (d\<lparr>logs := l\<rparr>)" "config_ok (d\<lparr>exceptions := e\<rparr>)" "config_ok (sweep_sessions now d)"
    by (rule keep; simp add: sweep_sessions_def config_tables_of_def)+
  show "config_ok (looked a r d)" by (rule keep) (simp add: looked_def looked_keeps)
qed (metis config_cong create_keeps(2), rule effect_config)

lemma fleet_tables_cong: "fleet_tables d' = fleet_tables d \<Longrightarrow> fleet_ok lib d \<Longrightarrow> fleet_ok lib d'"
  by (rule fleet_cong) (simp_all add: fleet_tables_def)

lemma effect_fleet:
  assumes "fleet_ok lib d" "a_library a = lib" "effect p a r d d'"
  shows "fleet_ok lib d'"
proof -
  have keep: "fleet_ok lib e" if "fleet_tables e = fleet_tables d" for e using that assms(1) fleet_tables_cong by blast
  have "fleet_ok lib (snd (fst (fleet_change a act r d)))" for act using fleet_operated [of a d act r] assms by simp
  moreover have "fleet_ok lib (snd (agent_api (a_library a) (a_now a) (a_uuid a) rte r d))" for rte by (rule fleet_agent [OF assms(1)])
  ultimately show ?thesis
    using assms(3) by (elim effect_cases)
      (simp_all add: keep assms(1) looked_keeps login_keeps logout_keeps setup_keeps managed_keeps config_keeps)
qed

interpretation fleet: console_law fleet_ok
proof
  fix lib :: library and d :: database and a :: ambient and r :: request and now :: int and l e
  assume s: "fleet_ok lib d"
  note keep = fleet_tables_cong [OF _ s]
  show "fleet_ok lib (d\<lparr>logs := l\<rparr>)" "fleet_ok lib (d\<lparr>exceptions := e\<rparr>)" "fleet_ok lib (sweep_sessions now d)"
    by (rule keep; simp add: sweep_sessions_def fleet_tables_def)+
  show "fleet_ok lib (looked a r d)" by (rule keep) (simp add: looked_def looked_keeps)
qed (metis fleet_tables_cong create_keeps(1), rule effect_fleet)

section \<open>Versions\<close>

text \<open>The version table only ever gains a row under the next key or loses rows.\<close>

definition version_step :: "config_version table \<Rightarrow> config_version table \<Rightarrow> bool" where
  "version_step t t' \<longleftrightarrow> t' = t \<or> (\<exists>mk. (\<forall>i. version_pk (mk i) = i) \<and> t' = sql_insert mk t) \<or> (\<exists>P. t' = sql_delete P t)"

lemma version_steps:
  "version_step t t" "(\<And>i. version_pk (mk i) = i) \<Longrightarrow> version_step t (sql_insert mk t)" "version_step t (sql_delete P t)"
  by (auto simp: version_step_def)

lemma deploy_versions:
  assumes "deploy_bundle cr env cache now b i who memo d = (x, d', ls)"
  shows "version_step (config_versions d) (config_versions d')"
proof -
  have new: "version_step (config_versions d) (config_versions e)" if "deploy_new now i who memo s sha v d = Inr (y, e)" for s sha v y e
    using that by (auto simp: deploy_new_def insert_version_def Let_def intro!: version_steps(2) split: if_splits option.splits)
  have "version_step (config_versions d) (config_versions e)" if "deploy_in_transaction cr env cache now i who memo d = Inr (y, e)" for y e
    using that new by (cases "compose_bundle cr env cache d i")
      (auto simp: deploy_in_transaction_def Let_def intro: version_steps split: if_splits)
  then show ?thesis
    using assms by (auto simp: deploy_bundle_def run_tx_def intro: version_steps split: sum.splits prod.splits)
qed

lemma fleet_versions: "version_step (config_versions d) (config_versions (snd (fst (fleet_change a act r d))))"
proof -
  obtain who d1 where w: "who_is (a_library a) (a_now a) r d = (who, d1)" by fastforce
  then have "fleet_tables d1 = fleet_tables d" using who_is_frame looked_keeps(1) by metis
  then have d1: "config_versions d1 = config_versions d" by (simp add: fleet_tables_def)
  have rb: "config_versions d2 = config_versions d" if "rollback_number b i x who d1 = (y, d2, ls)" for b i x y d2 ls
    using rollback_points [OF that] d1 by auto
  show ?thesis
  proof (cases act)
    case DeployNow
    then show ?thesis using deploy_versions [of _ _ _ _ _ _ _ _ d1] version_steps(1)
      by (auto simp: fleet_change_def deploy_handler_def quiet_def w d1 Let_def split: option.split sum.split prod.split)
  next
    case Rollback
    then show ?thesis using rb version_steps(1)
      by (auto simp: fleet_change_def rollback_handler_def quiet_def w split: option.split sum.split prod.split)
  next
    case Assign
    then show ?thesis using save_keeps(5) version_steps(1)
      by (auto simp: fleet_change_def save_assignments_def run_tx_def split: option.split sum.split prod.split)
  qed (use d1 in \<open>auto simp: fleet_change_def set_status_def rename_gateway_def delete_handler_def forget_gateway_def quiet_def
      w Let_def intro: version_steps split: option.split sum.split\<close>)
qed

text \<open>What a version row, once filed, stands for: its key is taken for good and never names another row.\<close>

definition filed :: "config_version \<Rightarrow> database \<Rightarrow> bool" where
  "filed v d \<longleftrightarrow> version_pk v < next_id (config_versions d)
     \<and> (\<forall>w \<in> set (rows (config_versions d)). version_pk w = version_pk v \<longrightarrow> w = v)"

lemma filed_step: "filed v d \<Longrightarrow> version_step (config_versions d) (config_versions d') \<Longrightarrow> filed v d'"
  by (auto simp: filed_def version_step_def)

lemma effect_filed:
  assumes "filed v d" "effect p a r d d'"
  shows "filed v d'"
proof -
  have keep: "filed v e" if "fleet_tables e = fleet_tables d" for e
    using that assms(1) by (simp add: filed_def fleet_tables_def)
  have "filed v (snd (fst (fleet_change a act r d)))" for act by (rule filed_step [OF assms(1) fleet_versions])
  moreover have "filed v (snd (agent_api cr now uuid rte r d))" for cr now uuid rte
    using assms(1) by (simp add: filed_def agent_keeps)
  ultimately show ?thesis
    using assms(2) by (elim effect_cases)
      (simp_all add: keep assms(1) looked_keeps login_keeps logout_keeps setup_keeps managed_keeps config_keeps)
qed

interpretation filing: console_law "\<lambda>lib. filed v" for v
proof
  fix lib :: library and d :: database and a :: ambient and r :: request and now :: int and l e
  assume s: "filed v d"
  show "filed v (d\<lparr>logs := l\<rparr>)" "filed v (d\<lparr>exceptions := e\<rparr>)" "filed v (sweep_sessions now d)"
    using s by (simp_all add: filed_def sweep_sessions_def)
  show "filed v (looked a r d)"
    using s looked_keeps(1) [of "a_library a" "a_now a" r d] by (simp add: filed_def looked_def fleet_tables_def)
next
  show "filed v d'" if "filed v d" "create_user lib salt e p r d = Inr d'" for lib d salt e p r d'
    using that create_keeps(1) [OF that(2)] by (simp add: filed_def fleet_tables_def)
qed (rule effect_filed)

section \<open>Properties\<close>

text \<open>C1. Whatever happens to a console that started empty, requests on any route by anyone in any order, gateways, timers,
  failures, its database stays sound: accounts have unique keys and e-mails, session ids are unique, the configuration
  tables are well formed, gateways have unique keys, uids and fingerprints, the versions of each gateway are numbered without gaps
  and carry the digest of their text, and every gateway points at nothing or at a version of its own.\<close>

theorem console_invariant:
  assumes "reaches lib empty_database d"
  shows "accounts_ok d \<and> db_valid (sessions d) \<and> config_ok d \<and> gateways_ok (gateways d) \<and> history_ok lib d \<and> pointers_ok d"
proof -
  have start: "settled 0 empty_database" "db_valid (sessions empty_database)" "config_ok empty_database"
    "fleet_ok lib empty_database"
    by (simp_all add: settled_def accounts_ok_def count_users_def db_valid_def config_ok_def fleet_ok_def gateways_ok_def history_ok_def
        pointers_ok_def versions_of_def sql_select_def keys_ok_def empty_database_def)
  show ?thesis
    using accounts.law_reaches [OF assms start(1)] live.law_reaches [OF assms start(2)] conf.law_reaches [OF assms start(3)]
      fleet.law_reaches [OF assms start(4)]
    by (simp add: settled_def fleet_ok_def)
qed

text \<open>C26. First-run setup closes for good: from a state with an account no sequence of steps, not even deleting accounts, leads
  back to one without, so in every later state setup answers with the login page and changes nothing.\<close>

theorem setup_never_reopens:
  assumes "reaches lib d d'" "accounts_ok d" "1 \<le> count_users d"
  shows "1 \<le> count_users d' \<and> setup_submit cr salt r d' = (Redirect ''/login'', d')"
proof -
  have "settled 1 d'" by (rule accounts.law_reaches [OF assms(1)]) (use assms(2,3) in \<open>simp add: settled_def\<close>)
  then show ?thesis by (simp add: settled_def setup_submit_def)
qed

text \<open>C6. A configuration version is immutable and its id is never reused: once a row is in the version table, then in every state
  the console can reach, after any deploys, rollbacks and removals of gateways, the row with that id, if there is one,
  is that very row.\<close>

theorem versions_immutable:
  assumes "fleet_ok lib d" "v \<in> set (rows (config_versions d))" "reaches lib d d'"
    and "w \<in> set (rows (config_versions d'))" "version_pk w = version_pk v"
  shows "w = v"
proof -
  have keys: "keys_ok version_pk (config_versions d)" using assms(1) history_keys by (auto simp: fleet_ok_def)
  then have "filed v d"
    using assms(2) vers.key_bounds [OF keys assms(2)] vers.key_unique [OF keys] unfolding filed_def by blast
  then have "filed v d'" by (rule filing.law_reaches [OF assms(3)])
  with assms(4,5) show ?thesis by (simp add: filed_def)
qed

section \<open>Concrete applications\<close>

lemma one_request: "reaches sample_library d (db_of (serve sample_ambient static chosen r d))"
  by (intro r_into_rtranclp console_step.request) (simp add: sample_ambient_def)

lemma console_invariant_witness:
  "accounts_ok (sweep_sessions 9 (db_of (serve sample_ambient (\<lambda>_. TextReply 404 []) (Some (''POST'', ''/setup''))
     (sample_form None (Obj [])) empty_database)))"
  using console_invariant [OF rtranclp.rtrancl_into_rtrancl [OF one_request console_step.sweep]] by blast

lemma setup_never_reopens_witness:
  "1 \<le> count_users (db_of (serve sample_ambient (\<lambda>_. TextReply 404 []) (Some (''POST'', ''/users/delete/:id''))
     (sample_form None (Obj [])) sample_database))"
  using setup_never_reopens [OF one_request sample_accounts] by blast

definition filed_database :: database where
  "filed_database = sample_database\<lparr>config_versions := \<lparr>rows = [\<lparr>version_pk = 1, version_gateway = 1, version = 1, bundle_text = ''{}'',
     bundle_sha256 = bundle_digest sample_library ''{}'', version_note = None, created_by = None, version_created = 5\<rparr>], next_id = 2\<rparr>\<rparr>"

lemma filed_fleet: "fleet_ok sample_library filed_database"
proof -
  have g: "gateways_ok (gateways filed_database)"
    by (simp add: gateways_ok_def keys_ok_def filed_database_def sample_database_def sample_gateway_def)
  have "versions_of filed_database gw = (if gw = 1 then rows (config_versions filed_database) else [])" for gw
    by (simp add: versions_of_def sql_select_def filed_database_def)
  then have "history_ok sample_library filed_database" by (simp add: history_ok_def keys_ok_def filed_database_def)
  moreover have "pointers_ok filed_database"
    by (simp add: pointers_ok_def filed_database_def sample_database_def sample_gateway_def)
  ultimately show ?thesis using g by (simp add: fleet_ok_def)
qed

lemma versions_immutable_witness:
  "\<exists>w. rows (config_versions (sweep_sessions 9 filed_database)) = [w] \<and> w = hd (rows (config_versions filed_database))"
proof -
  let ?v = "hd (rows (config_versions filed_database))"
  obtain w where w: "rows (config_versions (sweep_sessions 9 filed_database)) = [w]" "version_pk w = version_pk ?v"
    by (simp add: filed_database_def sweep_sessions_def)
  have "reaches sample_library filed_database (sweep_sessions 9 filed_database)" by (intro r_into_rtranclp console_step.sweep)
  from versions_immutable [OF filed_fleet _ this, of ?v w] w show ?thesis by (simp add: filed_database_def)
qed

end
