(* ===== verification/Divergences.thy ===== *)
theory Divergences
  imports AppProps
begin

text \<open>
  Places where the code does not do what a comment beside it, or the code around it, says: each with the concrete behaviour.
\<close>


text \<open>\<open>verify.ts\<close> means an unknown gateway and a wrong signature to get the same answer; the answers differ, so an
  unauthenticated caller can tell which gateway ids exist.\<close>

lemma unknown_gateway_is_told:
  assumes "truthy_str (headers r ''x-gw-id'')" "truthy_str (headers r ''x-gw-signature'')"
    and "check_timestamp (headers r ''x-gw-timestamp'') s = None"
  shows "find_gateway_by_uid d (the (headers r ''x-gw-id'')) = None \<Longrightarrow> authenticate_gateway cr s d r = Inl ''unknown gateway''"
    and "find_gateway_by_uid d (the (headers r ''x-gw-id'')) = Some g \<Longrightarrow>
      authenticate_gateway cr s d r \<in> {Inr g, Inl ''signature verification failed''}"
  using assms by (simp_all add: authenticate_gateway_def)

text \<open>Without a key \<open>encrypt\<close> stores a password as it is; one that begins with the marker of sealed values is then taken for a
  sealed value, and no bundle with it can be composed.\<close>

lemma marked_password_lost:
  assumes "\<not> truthy_str (env ''CONFIG_SECRET_KEY'')"
  shows "encrypt cr env None iv (prefix_v1 @ p) = Inr (prefix_v1 @ p)"
    and "\<exists>e. decrypt cr env None (Some (prefix_v1 @ p)) = Inl e"
  using assms by (simp_all add: encrypt_def decrypt_def key_def prefix_v1_def starts_with_def truthy_str_def)

text \<open>A body the agent's own parser cannot read is an error without a status, so a malformed request is answered as an internal
  error, and a gateway that does not ask for JSON is sent a page.\<close>

lemma malformed_agent_body:
  assumes "a_agent_json a r" "a_parser a r = None" "\<not> rt_limited rt" "agent_body_parser (raw_body r) = None"
  shows "serve_route a (Agent, rt) r d = stopped (error_handler None ''SyntaxError'' r) d"
    and "reply_code (error_handler None ''SyntaxError'' r) = 500"
  using assms
  by (simp_all add: serve_route_def early_error_def agent_served_def error_handler_def status_error_def error_page_def reply_code_def)

end
