(* ===== verification/SearchProps.thy ===== *)
theory SearchProps
  imports Search
begin

text \<open>
  What the search endpoints promise: the request they forward is a normal form of the one they accepted, and
  every behaviour of the log service has its answer.
\<close>

section \<open>Validation is a normal form\<close>

lemma z_enum_Inr [simp]: "z_enum opts v = Inr s \<longleftrightarrow> v = Str s \<and> s \<in> set opts"
  by (cases v) (auto simp: z_enum_def)

lemma z_object_Inr: "z_object s v = Inr x \<longleftrightarrow> (\<exists>ps. v = Obj ps) \<and> s v = Inr x"
  by (cases v) (auto simp: z_object_def invalid_type_def)

lemma z_elements_Inr: "z_elements i s vs = Inr xs \<longleftrightarrow> list_all2 (\<lambda>v x. s v = Inr x) vs xs"
  by (induction i s vs arbitrary: xs rule: z_elements.induct)
    (auto simp: list_all2_Cons1 map_sum_Inr_iff)

lemma z_array_Inr: "z_array s v = Inr xs \<longleftrightarrow> (\<exists>vs. v = Arr vs \<and> list_all2 (\<lambda>v x. s v = Inr x) vs xs)"
  by (cases v) (auto simp: z_array_def invalid_type_def z_elements_Inr)

lemma z_array_again:
  assumes "z_array s v = Inr xs" "\<And>w x. s w = Inr x \<Longrightarrow> s (val x) = Inr x"
  shows "z_array s (Arr (map val xs)) = Inr xs"
proof -
  obtain vs where l: "list_all2 (\<lambda>v x. s v = Inr x) vs xs" using assms(1) by (auto simp: z_array_Inr)
  have "s (val x) = Inr x" if "x \<in> set xs" for x
  proof -
    from that obtain i where i: "i < length xs" "x = xs ! i" by (auto simp: in_set_conv_nth)
    then have "s (vs ! i) = Inr x" using l by (simp add: list_all2_conv_all_nth)
    then show ?thesis by (rule assms(2))
  qed
  then show ?thesis by (auto simp: z_array_Inr list.rel_map list_all2_same)
qed

lemma scalar_again: "scalar v = Inr x \<Longrightarrow> x = v"
  by (cases v) (auto simp: scalar_def z_union_def invalid_type_def split: if_splits)

lemma scalar_pair_again: "scalar_pair v = Inr x \<Longrightarrow> x = v"
  by (cases v) (auto simp: scalar_pair_def invalid_type_def map_sum_Inr_iff dest: scalar_again split: list.splits)

lemma value_again: "z_union scalar scalar_pair v = Inr x \<Longrightarrow> x = v"
  by (auto simp: z_union_def dest: scalar_again scalar_pair_again split: sum.splits)

lemma value_accepted: "z_union scalar scalar_pair v = Inr x \<Longrightarrow> z_union scalar scalar_pair x = Inr x"
  using value_again by fastforce

lemma search_param_again: "search_param_schema v = Inr p \<Longrightarrow> search_param_schema (search_param_val p) = Inr p"
  by (auto simp: search_param_schema_def z_object_Inr field_def map_sum_Inr_iff search_param_val_def get_prop_def
      z_string_Inr dest: value_accepted)

lemma sort_param_again: "sort_param_schema v = Inr p \<Longrightarrow> sort_param_schema (sort_param_val p) = Inr p"
  by (auto simp: sort_param_schema_def z_object_Inr field_def map_sum_Inr_iff sort_param_val_def get_prop_def present_def
      z_string_Inr z_optional_Inr List.map_filter_def)

lemma optional_again:
  assumes "z_optional s v = Inr y" "\<And>w x. s w = Inr x \<Longrightarrow> s (val x) = Inr x \<and> val x \<noteq> Undef"
  shows "z_optional s (case y of None \<Rightarrow> Undef | Some x \<Rightarrow> val x) = Inr y"
  using assms by (auto simp: z_optional_Inr split: option.splits)

lemma natural_again: "natural v = Inr i \<Longrightarrow> natural (num_of i) = Inr i"
  by (auto simp: natural_def z_int_Inr num_of_def)

lemma get_present:
  assumes "distinct (map fst ps)" "(k, v) \<in> set ps"
  shows "get_prop (present ps) k = (case v of None \<Rightarrow> Undef | Some x \<Rightarrow> x)"
  using assms
proof (induction ps)
  case (Cons p ps)
  have none: "map_of (List.map_filter (\<lambda>(k, v). map_option (Pair k) v) qs) j = None" if "j \<notin> fst ` set qs" for qs :: "(string \<times> jsval option) list" and j
    using that by (induction qs) (auto simp: List.map_filter_simps split: option.split)
  obtain k' v' where p: "p = (k', v')" by (cases p)
  show ?case
  proof (cases "k' = k")
    case True
    then have "v' = v" using Cons.prems p by (auto simp: image_iff) 
    with True p Cons.prems none [of k ps] show ?thesis
      by (cases v) (auto simp: present_def get_prop_def List.map_filter_simps)
  next
    case False
    with p Cons show ?thesis by (cases v') (auto simp: present_def get_prop_def List.map_filter_simps)
  qed
qed simp

lemma search_request_fields:
  "get_prop (search_request_val q) ''search'' = (case sr_search q of None \<Rightarrow> Undef | Some ps \<Rightarrow> Arr (map search_param_val ps))"
  "get_prop (search_request_val q) ''searchLogic'' = (case sr_logic q of None \<Rightarrow> Undef | Some l \<Rightarrow> Str l)"
  "get_prop (search_request_val q) ''sort'' = (case sr_sort q of None \<Rightarrow> Undef | Some ps \<Rightarrow> Arr (map sort_param_val ps))"
  "get_prop (search_request_val q) ''limit'' = (case sr_limit q of None \<Rightarrow> Undef | Some i \<Rightarrow> num_of i)"
  "get_prop (search_request_val q) ''offset'' = (case sr_offset q of None \<Rightarrow> Undef | Some i \<Rightarrow> num_of i)"
  unfolding search_request_val_def by (subst get_present; (simp split: option.split)?; force)+

lemma search_request_again:
  assumes "search_request_schema v = Inr q"
  shows "search_request_schema (search_request_val q) = Inr q"
proof -
  let ?w = "search_request_val q"
  have o: "\<exists>ps. ?w = Obj ps" by (simp add: search_request_val_def present_def)
  have f: "z_optional (z_array search_param_schema) (get_prop v ''search'') = Inr (sr_search q)"
    "z_optional (z_enum [''AND'', ''OR'']) (get_prop v ''searchLogic'') = Inr (sr_logic q)"
    "z_optional (z_array sort_param_schema) (get_prop v ''sort'') = Inr (sr_sort q)"
    "z_optional natural (get_prop v ''limit'') = Inr (sr_limit q)"
    "z_optional natural (get_prop v ''offset'') = Inr (sr_offset q)"
    using assms by (auto simp: search_request_schema_def z_object_Inr field_def map_sum_Inr_iff)
  note g = search_request_fields [of q]
  have "z_optional (z_array search_param_schema) (get_prop ?w ''search'') = Inr (sr_search q)"
    unfolding g by (rule optional_again [OF f(1)]) (use z_array_again search_param_again in auto)
  moreover have "z_optional (z_enum [''AND'', ''OR'']) (get_prop ?w ''searchLogic'') = Inr (sr_logic q)"
    unfolding g by (rule optional_again [OF f(2)]) auto
  moreover have "z_optional (z_array sort_param_schema) (get_prop ?w ''sort'') = Inr (sr_sort q)"
    unfolding g by (rule optional_again [OF f(3)]) (use z_array_again sort_param_again in auto)
  moreover have "z_optional natural (get_prop ?w ''limit'') = Inr (sr_limit q)"
    unfolding g by (rule optional_again [OF f(4)]) (auto simp: num_of_def dest: natural_again)
  moreover have "z_optional natural (get_prop ?w ''offset'') = Inr (sr_offset q)"
    unfolding g by (rule optional_again [OF f(5)]) (auto simp: num_of_def dest: natural_again)
  ultimately show ?thesis using o
    by (auto simp: search_request_schema_def z_object_Inr field_def map_sum_Inr_iff)
qed

lemma json_ok_get: "json_ok v \<Longrightarrow> get_prop v k = Undef \<or> json_ok (get_prop v k)"
  by (cases v) (auto simp: get_prop_def dest: map_of_SomeD split: option.split)

lemma json_ok_present:
  assumes "distinct (map fst ps)" "\<And>k x. (k, Some x) \<in> set ps \<Longrightarrow> json_ok x"
  shows "json_ok (present ps)"
proof -
  have "map fst (List.map_filter (\<lambda>(k, v). map_option (Pair k) v) ps) = map fst (filter (\<lambda>p. snd p \<noteq> None) ps)"
    by (induction ps) (auto simp: List.map_filter_simps split: option.split)
  then have "distinct (map fst (List.map_filter (\<lambda>(k, v). map_option (Pair k) v) ps))"
    using assms(1) by (simp add: distinct_map_filter)
  then show ?thesis using assms(2) by (auto simp: present_def map_filter_def)
qed

lemma some_map: "Some x = map_option f y \<longleftrightarrow> (\<exists>z. y = Some z \<and> x = f z)"
  by (cases y) auto

lemma json_ok_search_request:
  assumes "search_request_schema v = Inr q" "json_ok v"
  shows "json_ok (search_request_val q)"
proof -
  have f: "z_optional (z_array search_param_schema) (get_prop v ''search'') = Inr (sr_search q)"
    "z_optional natural (get_prop v ''limit'') = Inr (sr_limit q)" "z_optional natural (get_prop v ''offset'') = Inr (sr_offset q)"
    using assms by (auto simp: search_request_schema_def z_object_Inr field_def map_sum_Inr_iff)
  have param: "json_ok (search_param_val p)" if "search_param_schema w = Inr p" "json_ok w" for w p
  proof -
    have "z_union scalar scalar_pair (get_prop w ''value'') = Inr (sp_value p)"
      using that(1) by (auto simp: search_param_schema_def z_object_Inr field_def map_sum_Inr_iff)
    moreover from this have "sp_value p = get_prop w ''value''" by (rule value_again)
    moreover have "z_union scalar scalar_pair Undef \<noteq> Inr x" for x
      by (simp add: z_union_def scalar_def scalar_pair_def invalid_type_def)
    ultimately have "sp_value p = get_prop w ''value''" "get_prop w ''value'' \<noteq> Undef" by metis+
    then show ?thesis using json_ok_get [OF that(2), of "''value''"] by (simp add: search_param_val_def)
  qed
  have search: "json_ok (Arr (map search_param_val ps))" if sq: "sr_search q = Some ps" for ps
  proof -
    obtain vs where vs: "get_prop v ''search'' = Arr vs" "list_all2 (\<lambda>w p. search_param_schema w = Inr p) vs ps"
      using f(1) sq by (auto simp: z_optional_Inr z_array_Inr)
    then have "\<forall>w \<in> set vs. json_ok w" using json_ok_get [OF assms(2), of "''search''"] by simp
    moreover have "json_ok (search_param_val p)" if "p \<in> set ps" for p
    proof -
      from that obtain i where i: "i < length ps" "p = ps ! i" by (auto simp: in_set_conv_nth)
      with vs(2) have "i < length vs" "search_param_schema (vs ! i) = Inr p" by (simp_all add: list_all2_conv_all_nth)
      with \<open>\<forall>w \<in> set vs. json_ok w\<close> show ?thesis using param [of "vs ! i" p] by simp
    qed
    ultimately show ?thesis by simp
  qed
  have sort: "json_ok (sort_param_val p)" for p
    unfolding sort_param_val_def by (rule json_ok_present) (cases "so_direction p"; auto)+
  have nat: "json_ok (num_of i)" if "z_optional natural w = Inr (Some i)" for w i
    using that by (auto simp: z_optional_Inr natural_def z_int_Inr num_of_def abs_less_iff)
  show ?thesis unfolding search_request_val_def
    by (rule json_ok_present) (use f search sort nat in \<open>auto simp: some_map\<close>)
qed

lemma empty_no_json: "json_parse [] = None"
  by code_simp

text \<open>What the console forwards is a normal form: for a request whose numbers are integers JSON carries exactly, the
  forwarded text parses back to the validated request, and the console forwards that text unchanged.\<close>

lemma forwarded_request:
  assumes "parse_search_request cr (Str s) = Inr (Some t)" "json_parse s = Some v" "json_ok v"
  obtains q where "search_request_schema v = Inr q" "json_parse t = Some (search_request_val q)" "t \<noteq> []"
    "parse_search_request cr (Str t) = Inr (Some t)"
proof -
  have "s \<noteq> []" using assms(1) by (auto simp: parse_search_request_def)
  then obtain q where q: "search_request_schema v = Inr q" "json_stringify (search_request_val q) = Some t"
    using assms(1,2) by (auto simp: parse_search_request_def split: sum.splits)
  have t: "json_parse t = Some (search_request_val q)"
    using json_parse_stringify [OF json_ok_search_request [OF q(1) assms(3)]] q(2) by simp
  moreover have "t \<noteq> []" using t empty_no_json by auto
  ultimately show ?thesis
    using that q search_request_again [OF q(1)] by (simp add: parse_search_request_def)
qed

section \<open>Errors of the log service\<close>

lemma forwarded_text:
  assumes "parse_search_request cr v = Inr q"
  shows "q \<noteq> Some []"
  using assms by (auto simp: parse_search_request_def search_request_val_def present_def split: if_splits jsval.splits option.splits sum.splits)

text \<open>The log service can not break the console: whatever it answers, a search is answered 400 exactly when the request
  is malformed, and then the service is not even asked; otherwise 502 when the service answered with an error status,
  504 when it could not be reached or its answer is no JSON, and 200 with the parsed answer as it is in every other
  case; only a log service URL that is no URL raises an error.\<close>

theorem proxy_search_outcomes:
  "(\<exists>m. parse_search_request cr (get_prop (rq_query r) ''request'') = Inl m
      \<and> (\<forall>fetch'. proxy_search cr env fetch' p r = Inr (status_error 400 m)))
   \<or> (\<exists>q sent. parse_search_request cr (get_prop (rq_query r) ''request'') = Inr q
      \<and> lr_url sent = ls_base env @ p \<and> lr_query sent = q
      \<and> proxy_search cr env fetch p r =
          (case fetch sent of
             BadUrl \<Rightarrow> Inl ''Invalid URL''
           | Failed _ _ \<Rightarrow> Inr (status_error 504 ''logservice unavailable'')
           | Answered status b \<Rightarrow>
               if status < 200 \<or> 299 < status then Inr (status_error 502 ''logservice unavailable'')
               else (case json_parse b of
                   None \<Rightarrow> Inr (status_error 504 ''logservice unavailable'')
                 | Some v \<Rightarrow> Inr (JsonReply 200 v))))"
proof (cases "parse_search_request cr (get_prop (rq_query r) ''request'')")
  case (Inl m)
  then show ?thesis by (simp add: proxy_search_def)
next
  case (Inr q)
  let ?sent = "\<lparr>lr_url = ls_base env @ p, lr_query = q,
     lr_headers = (if ls_api_key env \<noteq> [] then [(''X-API-Key'', ls_api_key env)] else []), lr_timeout = ls_timeout env\<rparr>"
  have "(if truthy_str q then q else None) = q" using forwarded_text [OF Inr] by (cases q) auto
  then have "proxy_search cr env fetch p r =
          (case fetch ?sent of
             BadUrl \<Rightarrow> Inl ''Invalid URL''
           | Failed _ _ \<Rightarrow> Inr (status_error 504 ''logservice unavailable'')
           | Answered status b \<Rightarrow>
               if status < 200 \<or> 299 < status then Inr (status_error 502 ''logservice unavailable'')
               else (case json_parse b of
                   None \<Rightarrow> Inr (status_error 504 ''logservice unavailable'')
                 | Some v \<Rightarrow> Inr (JsonReply 200 v)))"
    by (auto simp: proxy_search_def Inr search_logs_def Let_def split: fetched.split option.split)
  with Inr show ?thesis by (intro disjI2 exI [of _ q] exI [of _ ?sent]) simp
qed

end
