(* ===== verification/StartupProps.thy ===== *)
theory StartupProps
  imports Startup
begin

text \<open>
  What starting the console guarantees: the wait for the schema ends in time and with the truth, the TLS pair is never
  overwritten, and nothing listens before the variables, the database, the schema and the TLS pair are there.
\<close>

section \<open>The wait\<close>

text \<open>Every wait ends with one query, at \<open>q\<close>: it found the tables complete, or it failed and the next one would be late.\<close>

lemma wait_loop_last_query:
  assumes "1 \<le> poll" "poll < 2 ^ 31"
    and "wait_loop tables_at lag want timeout poll deadline startedAt t announced lastProgress out = (r, finish, out')"
  shows "\<exists>q \<ge> t. finish = q + int (lag q) \<and> (q = t \<or> of_int q < deadline)
    \<and> (r = Inr () \<longleftrightarrow> missing_tables (tables_at q) want = []) \<and> (r \<noteq> Inr () \<longrightarrow> deadline \<le> of_int (finish + poll))"
  using assms
proof (induction tables_at lag want timeout poll deadline startedAt t announced lastProgress out rule: wait_loop.induct)
  case (1 tables_at lag want timeout poll deadline startedAt t announced lastProgress out)
  let ?now = "t + int (lag t)"
  note unfolded = 1(4) [unfolded wait_loop.simps [of tables_at lag want timeout poll deadline startedAt t]]
  show ?case
  proof (cases "missing_tables (tables_at t) want = [] \<or> deadline \<le> of_int (?now + poll)")
    case True
    with unfolded show ?thesis by (intro exI [of _ t]) (auto simp: Let_def split: if_splits)
  next
    case False
    have s: "sleep_ms poll = poll" using 1(2,3) by (simp add: sleep_ms_def)
    obtain lp o' where rest: "wait_loop tables_at lag want timeout poll deadline startedAt (?now + poll) True lp o' = (r, finish, out')"
      and ih: "\<exists>q \<ge> ?now + poll. finish = q + int (lag q) \<and> (q = ?now + poll \<or> of_int q < deadline)
        \<and> (r = Inr () \<longleftrightarrow> missing_tables (tables_at q) want = []) \<and> (r \<noteq> Inr () \<longrightarrow> deadline \<le> of_int (finish + poll))"
      using False unfolded 1(1) [OF refl refl refl _ refl refl refl _ 1(2,3)] by (auto simp: Let_def s)
    from ih show ?thesis using False 1(2) by force
  qed
qed


text \<open>A database whose tables appear 1.5 seconds in, each query taking 10 ms.\<close>

definition late_tables :: "int \<Rightarrow> string list" where
  "late_tables t = (if t < 1500 then [''Users''] else table_names)"

lemma missing_none: "missing_tables table_names expected_tables = []"
  by (simp add: missing_tables_def expected_tables_def filter_empty_conv)


section \<open>The TLS pair\<close>

lemma tls_paths [simp]: "dir @ ''/server.key'' \<noteq> dir @ ''/server.crt''" "dir @ ''/server.crt'' \<noteq> dir @ ''/server.key''"
  by auto

text \<open>The TLS pair is never overwritten. A pair that is there is served as it is; half a pair stops the boot; in both
  cases no file changes. Without one a pair for the host's names is generated and written, the key readable by its
  owner alone, no other file is touched, and every later start serves the same pair.\<close>

theorem tls_pair_kept:
  "case (fs (dir @ ''/server.key''), fs (dir @ ''/server.crt'')) of
     (Some (k, _), Some (c, _)) \<Rightarrow> ensure_tls_pair pem env host bytes now dir fs = (Inr (k, c), fs)
   | (None, None) \<Rightarrow>
       (\<exists>k c fs'. pem (self_sign bytes now (alt_names env host)) = (k, c) \<and> ensure_tls_pair pem env host bytes now dir fs = (Inr (k, c), fs')
          \<and> fs' = fs(dir @ ''/server.key'' \<mapsto> (k, 384), dir @ ''/server.crt'' \<mapsto> (c, 420))
          \<and> (\<forall>pem' env' host' bytes' later. ensure_tls_pair pem' env' host' bytes' later dir fs' = (Inr (k, c), fs')))
   | _ \<Rightarrow> (\<exists>e. ensure_tls_pair pem env host bytes now dir fs = (Inl e, fs))"
  by (auto simp: ensure_tls_pair_def Let_def split: option.split prod.split)

section \<open>Booting\<close>

text \<open>Nothing is served too early: when the process listens, every required variable was set, the database answered,
  some query found the schema complete (or the wait is switched off), and the TLS pair it serves is on disk. When it
  does not listen, no file was written except possibly the generated TLS pair.\<close>

theorem boot_guarded:
  "case boot s now of
     (Listens port pair, fs') \<Rightarrow>
        missing_env (sr_env s) = [] \<and> db_ping s = Inr () \<and> sr_listen s = Inr () \<and> port = listen_port (sr_env s)
        \<and> (schema_wait_timeout (sr_env s) \<le> 0 \<or> (\<exists>q \<ge> now. missing_tables (db_tables s q) expected_tables = []))
        \<and> (\<exists>dir. map_option fst (fs' (dir @ ''/server.key'')) = Some (fst pair)
             \<and> map_option fst (fs' (dir @ ''/server.crt'')) = Some (snd pair))
   | (_, fs') \<Rightarrow> fs' = sr_files s \<or> (\<exists>dir k c. sr_files s (dir @ ''/server.key'') = None \<and> sr_files s (dir @ ''/server.crt'') = None
        \<and> fs' = (sr_files s)(dir @ ''/server.key'' \<mapsto> (k, 384), dir @ ''/server.crt'' \<mapsto> (c, 420)))"
proof (cases "missing_env (sr_env s) = [] \<and> db_ping s = Inr ()")
  case False
  then have "boot s now = (Exits 1, sr_files s)" by (cases "db_ping s") (auto simp: boot_def Let_def)
  then show ?thesis by simp
next
  case up: True
  obtain r t out where w: "wait_for_schema (db_tables s) (db_lag s) (schema_wait_timeout (sr_env s)) 1000 now = (r, t, out)"
    by (metis prod_cases3)
  let ?dir = "if truthy_str (sr_env s ''TLS_DIR'') then the (sr_env s ''TLS_DIR'') else ''./certs''"
  obtain p fs' where e: "ensure_tls_pair (sr_pem s) (sr_env s) (sr_host s) (sr_bytes s) t ?dir (sr_files s) = (p, fs')"
    by fastforce
  have ready: "schema_wait_timeout (sr_env s) \<le> 0 \<or> (\<exists>q \<ge> now. missing_tables (db_tables s q) expected_tables = [])" if "r = Inr ()"
  proof (cases "schema_wait_timeout (sr_env s) \<le> 0")
    case pos: False
    have "\<exists>q \<ge> now. t = q + int (db_lag s q) \<and> (q = now \<or> of_int q < of_int now + schema_wait_timeout (sr_env s))
      \<and> (r = Inr () \<longleftrightarrow> missing_tables (db_tables s q) expected_tables = [])
      \<and> (r \<noteq> Inr () \<longrightarrow> of_int now + schema_wait_timeout (sr_env s) \<le> of_int (t + 1000))"
      by (rule wait_loop_last_query [where out = "[]" and announced = False and lastProgress = 0
            and startedAt = now and timeout = "schema_wait_timeout (sr_env s)" and out' = out])
        (use w pos in \<open>simp_all add: wait_for_schema_def\<close>)
    with that show ?thesis by auto
  qed simp
  have files: "fs' = sr_files s \<or> (\<exists>dir k c. sr_files s (dir @ ''/server.key'') = None \<and> sr_files s (dir @ ''/server.crt'') = None
        \<and> fs' = (sr_files s)(dir @ ''/server.key'' \<mapsto> (k, 384), dir @ ''/server.crt'' \<mapsto> (c, 420)))"
    using e unfolding ensure_tls_pair_def Let_def by (auto split: option.splits prod.splits)
  have pair: "map_option fst (fs' (?dir @ ''/server.key'')) = Some (fst kc) \<and> map_option fst (fs' (?dir @ ''/server.crt'')) = Some (snd kc)"
    if "p = Inr kc" for kc
    using e that unfolding ensure_tls_pair_def Let_def by (auto simp: case_prod_beta split: option.splits)
  show ?thesis
  proof (cases r)
    case (Inl m)
    with up w show ?thesis by (simp add: boot_def Let_def)
  next
    case ok: (Inr u)
    show ?thesis
    proof (cases p)
      case (Inl m)
      then have "boot s now = (Throws m, fs')" using up w e ok by (simp add: boot_def Let_def)
      then show ?thesis using files by simp
    next
      case (Inr kc)
      note made = pair [OF Inr]
      show ?thesis
      proof (cases "sr_listen s")
        case (Inl m)
        then have "boot s now = (Exits 1, fs')" using up w e ok Inr by (simp add: boot_def Let_def)
        then show ?thesis using files by simp
      next
        case (Inr v)
        then have "boot s now = (Listens (listen_port (sr_env s)) kc, fs')" using up w e ok \<open>p = Inr kc\<close> by (simp add: boot_def Let_def)
        then show ?thesis using up ready ok Inr exI [of "\<lambda>dir. map_option fst (fs' (dir @ ''/server.key'')) = Some (fst kc)
             \<and> map_option fst (fs' (dir @ ''/server.crt'')) = Some (snd kc)", OF made] by simp
      qed
    qed
  qed
qed

end
