(* ===== verification/JsonFuel.thy ===== *)
theory JsonFuel
  imports JsonText
begin

text \<open>
  The fuel of the JSON parser is enough: every call that succeeds consumes input, and once the fuel exceeds twice the
  length of the text (plus one inside brackets) more of it changes nothing, neither a result nor a failure.
\<close>

lemma length_skip_ws: "length (skip_ws s) \<le> length s"
  by (simp add: skip_ws_def length_dropWhile_le)

text \<open>One step of the string scanner: it stops, or it adds to what it reads from a shorter text.\<close>

definition scans :: "string \<Rightarrow> (string \<times> string) option \<Rightarrow> bool" where
  "scans s x \<longleftrightarrow> x = None \<or> (\<exists>r. x = Some ([], r) \<and> length r < length s)
     \<or> (\<exists>w g. x = map_option (\<lambda>(t, q). (g t, q)) (p_string w) \<and> length w < length s)"

lemma scans_intros:
  "scans s None" "length r < length s \<Longrightarrow> scans s (Some ([], r))"
  "length w < length s \<Longrightarrow> scans s (map_option (\<lambda>(t, q). (g t, q)) (p_string w))"
  by (auto simp: scans_def)

lemma scans_if: "(b \<Longrightarrow> scans s x) \<Longrightarrow> (\<not> b \<Longrightarrow> scans s y) \<Longrightarrow> scans s (if b then x else y)"
  by simp

lemma scans_option: "scans s x \<Longrightarrow> (\<And>u. scans s (f u)) \<Longrightarrow> scans s (case v of None \<Rightarrow> x | Some u \<Rightarrow> f u)"
  by (cases v) simp_all

lemma scans_list: "(v = [] \<Longrightarrow> scans s x) \<Longrightarrow> (\<And>c u. v = c # u \<Longrightarrow> scans s (f c u)) \<Longrightarrow> scans s (case v of [] \<Rightarrow> x | c # u \<Rightarrow> f c u)"
  by (cases v) simp_all

lemma p_string_scans: "scans s (p_string s)"
  unfolding p_string.simps [of s] Let_def
  by (intro scans_list scans_if scans_option scans_intros) simp_all

lemma p_string_shorter: "p_string s = Some (t, r) \<Longrightarrow> length r < length s"
proof (induction s arbitrary: t r rule: length_induct)
  case (1 s)
  from p_string_scans [of s] show ?case unfolding scans_def
  proof (elim disjE exE conjE)
    fix w g assume w: "p_string s = map_option (\<lambda>(t, q). (g t, q)) (p_string w)" "length w < length s"
    then obtain t' where "p_string w = Some (t', r)" using 1(2) by (cases "p_string w") auto
    with 1(1) w(2) show "length r < length s" by (meson less_trans)
  qed (use 1(2) in simp_all)
qed

lemma length_tl_le: "length (tl s) \<le> length s"
  by (cases s) auto

lemma scan_exponent_shorter: "length (snd (scan_exponent s)) \<le> length s"
proof (cases s)
  case (Cons c q)
  let ?t = "if starts_with q ''-'' \<or> starts_with q ''+'' then tl q else q"
  have "length (dropWhile is_digit ?t) \<le> length ?t" by (rule length_dropWhile_le)
  also have "\<dots> \<le> length q" by (simp add: length_tl_le)
  finally show ?thesis by (simp add: Cons scan_exponent_def Let_def)
qed (simp add: scan_exponent_def)

lemma p_number_shorter:
  assumes "p_number s = Some (x, r)"
  shows "length r < length s"
proof -
  let ?t = "if starts_with s ''-'' then tl s else s"
  let ?ds = "takeWhile is_digit ?t" and ?r = "dropWhile is_digit ?t"
  let ?q = "if starts_with ?r ''.'' then dropWhile is_digit (tl ?r) else ?r"
  obtain e where e: "scan_exponent ?q = (e, r)" and ds: "?ds \<noteq> []"
    using assms unfolding p_number_def Let_def by (simp split: if_split_asm prod.splits)
  have "length r \<le> length ?q" using scan_exponent_shorter [of ?q] e by simp
  also have "\<dots> \<le> length ?r" using length_dropWhile_le [of is_digit "tl ?r"] length_tl_le [of ?r] by auto
  also have "\<dots> < length ?t"
  proof -
    have "length ?ds + length ?r = length ?t" by (metis length_append takeWhile_dropWhile_id)
    with ds show ?thesis by (cases ?ds) auto
  qed
  also have "\<dots> \<le> length s" by (simp add: length_tl_le)
  finally show ?thesis .
qed

lemma skip_ws_Cons: "skip_ws s = c # r \<Longrightarrow> length r < length s"
  using length_skip_ws [of s] by simp

lemma p_shorter:
  "p_value n s = Some (v, r) \<Longrightarrow> length r < length s"
  "p_elems n s = Some (vs, r) \<Longrightarrow> length r < length s"
  "p_members n s = Some (ps, r) \<Longrightarrow> length r < length s"
proof (induction n arbitrary: s v vs ps r)
  case (Suc n)
  {
    case 1
    then obtain c q where c: "skip_ws s = c # q" by (cases "skip_ws s") auto
    have q: "length q < length s" by (rule skip_ws_Cons [OF c])
    have t: "length (tl (skip_ws q)) \<le> length q" using length_skip_ws [of q] length_tl_le [of "skip_ws q"] by simp
    have "length (drop k (c # q)) \<le> length q" if "0 < k" for k :: nat using that by simp
    with 1 c q t Suc.IH(2) [of q] Suc.IH(3) [of q] p_string_shorter [of q] p_number_shorter [of "c # q"]
    show ?case by (fastforce split: if_splits)
  next
    case 2
    then obtain w u c q where w: "p_value n s = Some (w, u)" "skip_ws u = c # q"
      by (auto split: option.splits list.splits)
    have q: "length q < length s" using Suc.IH(1) [OF w(1)] skip_ws_Cons [OF w(2)] by simp
    with 2 w show ?case using Suc.IH(2) [of q] by (fastforce split: if_splits)
  next
    case 3
    then obtain c q k r1 w u d z where c: "skip_ws s = c # q" "p_string q = Some (k, r1)"
        "p_value n (tl (skip_ws r1)) = Some (w, u)" "skip_ws u = d # z"
      by (auto split: option.splits list.splits if_splits)
    have "length r1 < length s" using skip_ws_Cons [OF c(1)] p_string_shorter [OF c(2)] by simp
    moreover have "length (tl (skip_ws r1)) \<le> length r1" using length_skip_ws [of r1] length_tl_le [of "skip_ws r1"] by simp
    ultimately have z: "length z < length s" using Suc.IH(1) [OF c(3)] skip_ws_Cons [OF c(4)] by simp
    with 3 c show ?case using Suc.IH(3) [of z] by (fastforce split: if_splits)
  }
qed simp_all

text \<open>More fuel changes nothing.\<close>

lemma p_stable:
  "2 * length s < n \<Longrightarrow> p_value (Suc n) s = p_value n s"
  "2 * length s + 1 < n \<Longrightarrow> p_elems (Suc n) s = p_elems n s"
  "2 * length s + 1 < n \<Longrightarrow> p_members (Suc n) s = p_members n s"
proof (induction n arbitrary: s)
  case (Suc n)
  {
    case 1
    show ?case
    proof (cases "skip_ws s")
      case (Cons c q)
      then have "length q < length s" by (rule skip_ws_Cons)
      then have "p_members (Suc n) q = p_members n q" "p_elems (Suc n) q = p_elems n q"
        using 1 Suc.IH(2,3) [of q] by simp_all
      with Cons show ?thesis by (simp only: p_value.simps list.case)
    qed simp
  next
    case 2
    have v: "p_value (Suc n) s = p_value n s" using 2 by (intro Suc.IH) simp
    have e: "p_elems (Suc n) q = p_elems n q" if "p_value n s = Some (w, u)" "skip_ws u = c # q" for w u c q
      using p_shorter(1) [OF that(1)] skip_ws_Cons [OF that(2)] 2 by (intro Suc.IH) simp
    show ?case
    proof (cases "p_value n s")
      case (Some x)
      obtain w u where x: "x = (w, u)" by fastforce
      show ?thesis
      proof (cases "skip_ws u")
        case (Cons c q)
        with e [of w u c q] Some x show ?thesis by (simp only: p_elems.simps(2) v option.case prod.case list.case)
      qed (simp only: p_elems.simps(2) v Some x option.case prod.case list.case)
    qed (simp only: p_elems.simps(2) v option.case)
  next
    case 3
    show ?case
    proof (cases "\<exists>c q k r1. skip_ws s = c # q \<and> p_string q = Some (k, r1)")
      case False
      then have none: "p_string q = None" if "skip_ws s = c # q" for c q using that by (cases "p_string q") auto
      show ?thesis
      proof (cases "skip_ws s")
        case (Cons c q)
        show ?thesis by (simp only: p_members.simps(2) Cons none [OF Cons] list.case option.case)
      qed (simp only: p_members.simps(2) list.case)
    next
      case True
      then obtain c q k r1 where c: "skip_ws s = c # q" and k: "p_string q = Some (k, r1)" by blast
      have "length (tl (skip_ws r1)) \<le> length r1" using length_skip_ws [of r1] length_tl_le [of "skip_ws r1"] by simp
      then have l: "length (tl (skip_ws r1)) < length s" using skip_ws_Cons [OF c] p_string_shorter [OF k] by simp
      with 3 have v: "p_value (Suc n) (tl (skip_ws r1)) = p_value n (tl (skip_ws r1))" by (intro Suc.IH) simp
      show ?thesis
      proof (cases "p_value n (tl (skip_ws r1))")
        case (Some x)
        obtain w u where x: "x = (w, u)" by fastforce
        show ?thesis
        proof (cases "skip_ws u")
          case (Cons d z)
          have "length z < length s" using p_shorter(1) [OF Some [unfolded x]] skip_ws_Cons [OF Cons] l by simp
          with 3 have "p_members (Suc n) z = p_members n z" by (intro Suc.IH) simp
          with c k v Some x Cons show ?thesis by (simp only: p_members.simps(2) option.case prod.case list.case)
        qed (simp only: p_members.simps(2) c k v Some x option.case prod.case list.case)
      qed (simp only: p_members.simps(2) c k v option.case prod.case list.case)
    qed
  }
qed simp_all

text \<open>The parser of JSON text never runs out of fuel: with any amount at or above the one \<open>json_parse\<close> starts with it gives the
  same value or the same failure, so a text is rejected because of what it is and never for its length.\<close>

lemma p_fuel_enough:
  "p_value (Suc (2 * length s) + k) s = p_value (Suc (2 * length s)) s"
proof (induction k)
  case (Suc k)
  have "p_value (Suc (Suc (2 * length s) + k)) s = p_value (Suc (2 * length s) + k) s" by (rule p_stable) simp
  with Suc show ?case by simp
qed simp

end
