(* ===== verification/LogQuery.thy ===== *)
theory LogQuery
  imports Search
begin

text \<open>
  The query language of the log service: \<open>legacy/logservice/src/query/builder.ts\<close> and \<open>query/search.ts\<close>. A query is
  what the caller wrote into \<open>?q=\<close>, so every value of it may have any JSON type; reading \<open>null\<close>, iterating what is not
  iterable and writing an object whose \<open>toString\<close> is a value throw a \<open>TypeError\<close>. The database is a parameter that
  answers one statement after the other: from the statements a request has already sent and the next one to its rows or
  to an error. A search returns the statements it sent, in order, beside its result.
\<close>

section \<open>Conversions that can throw\<close>

text \<open>\<open>String(v)\<close> of a parsed value: an own \<open>toString\<close> is not callable, and then no primitive is found.\<close>

fun to_text :: "jsval \<Rightarrow> string res" where
  "to_text (Arr vs) =
     map_sum id (js_join '','') (map_res (\<lambda>v. case v of Undef \<Rightarrow> Inr [] | Null \<Rightarrow> Inr [] | _ \<Rightarrow> to_text v) vs)"
| "to_text (Obj ps) = (if ''toString'' \<in> fst ` set ps then Inl ''TypeError'' else Inr ''[object Object]'')"
| "to_text v = Inr (js_string v)"

text \<open>The code points of a string, and \<open>for (const item of v)\<close>.\<close>

fun code_points :: "string \<Rightarrow> string list" where
  "code_points [] = []"
| "code_points (c # s) =
     (case s of
        [] \<Rightarrow> [[c]]
      | d # _ \<Rightarrow> (if byte_units d = 0 then (c # hd (code_points s)) # tl (code_points s) else [c] # code_points s))"

definition items_of :: "jsval \<Rightarrow> jsval list res" where
  "items_of v = (case v of Arr vs \<Rightarrow> Inr vs | Str s \<Rightarrow> Inr (map Str (code_points s)) | _ \<Rightarrow> Inl ''TypeError'')"

definition or_default :: "jsval \<Rightarrow> jsval \<Rightarrow> jsval" where
  "or_default v d = (if v = Undef \<or> v = Null then d else v)"

section \<open>Conditions\<close>

definition column :: "string option \<Rightarrow> string \<Rightarrow> string" where
  "column pre f = (if truthy_str pre then ''`'' @ the pre @ ''`.`'' @ f @ ''`'' else ''`'' @ f @ ''`'')"

text \<open>The \<open>switch\<close> on the operator: the conditions and values it adds.\<close>

definition condition :: "string \<Rightarrow> jsval \<Rightarrow> jsval \<Rightarrow> (string list \<times> jsval list) res" where
  "condition col operator value =
     (case operator of
        Str op \<Rightarrow>
          if op = ''is'' \<or> op = ''='' then Inr ([col @ '' = ?''], [value])
          else if op = ''begins'' then map_sum id (\<lambda>t. ([col @ '' LIKE ?''], [Str (t @ ''%'')])) (to_text value)
          else if op = ''contains'' then map_sum id (\<lambda>t. ([col @ '' LIKE ?''], [Str (''%'' @ t @ ''%'')])) (to_text value)
          else if op = ''ends'' then map_sum id (\<lambda>t. ([col @ '' LIKE ?''], [Str (''%'' @ t)])) (to_text value)
          else if op = ''between'' then
            (case value of Arr [a, b] \<Rightarrow> Inr ([col @ '' BETWEEN ? AND ?''], [a, b]) | _ \<Rightarrow> Inr ([], []))
          else if op = ''>'' \<or> op = ''more'' then Inr ([col @ '' > ?''], [value])
          else if op = ''>='' then Inr ([col @ '' >= ?''], [value])
          else if op = ''<'' \<or> op = ''less'' then Inr ([col @ '' < ?''], [value])
          else if op = ''<='' then Inr ([col @ '' <= ?''], [value])
          else Inr ([], [])
      | _ \<Rightarrow> Inr ([], []))"

text \<open>\<open>allowedFields.has(field)\<close>.\<close>

definition allows :: "string list \<Rightarrow> jsval \<Rightarrow> string option" where
  "allows permitted f = (case f of Str s \<Rightarrow> if s \<in> set permitted then Some s else None | _ \<Rightarrow> None)"

fun where_loop :: "string list \<Rightarrow> string option \<Rightarrow> jsval list \<Rightarrow> string list \<Rightarrow> jsval list \<Rightarrow> (string list \<times> jsval list) res" where
  "where_loop permitted pre [] conditions values = Inr (conditions, values)"
| "where_loop permitted pre (item # items) conditions values =
     (case read_prop item ''value'' of
        Inl e \<Rightarrow> Inl e
      | Inr value \<Rightarrow>
          if \<not> truthy value \<and> value \<noteq> Num (Fin 0) then where_loop permitted pre items conditions values
          else (case allows permitted (get_prop item ''field'') of
              None \<Rightarrow> where_loop permitted pre items conditions values
            | Some f \<Rightarrow>
                (case condition (column pre f) (get_prop item ''operator'') value of
                   Inl e \<Rightarrow> Inl e
                 | Inr (cs, vs) \<Rightarrow> where_loop permitted pre items (conditions @ cs) (values @ vs))))"

definition join_operator :: "jsval \<Rightarrow> string res" where
  "join_operator logic = map_sum id (\<lambda>t. if to_upper t = ''OR'' then ''OR'' else ''AND'') (to_text logic)"

definition build_where :: "jsval \<Rightarrow> jsval \<Rightarrow> string list \<Rightarrow> string option \<Rightarrow> (string \<times> jsval list) res" where
  "build_where params logic permitted pre =
     res_bind (items_of params) (\<lambda>items.
     res_bind (where_loop permitted pre items [] []) (\<lambda>(conditions, values).
     map_sum id (\<lambda>op. (js_join ('' '' @ op @ '' '') conditions, values)) (join_operator logic)))"

section \<open>Order\<close>

text \<open>\<open>sort.length === 0\<close>.\<close>

definition zero_length :: "jsval \<Rightarrow> bool" where
  "zero_length v = (case v of Arr vs \<Rightarrow> vs = [] | Str s \<Rightarrow> s = [] | Obj _ \<Rightarrow> get_prop v ''length'' = Num (Fin 0) | _ \<Rightarrow> False)"

fun order_loop :: "string list \<Rightarrow> string option \<Rightarrow> jsval list \<Rightarrow> string list \<Rightarrow> string list res" where
  "order_loop permitted pre [] parts = Inr parts"
| "order_loop permitted pre (item # items) parts =
     (case read_prop item ''field'' of
        Inl e \<Rightarrow> Inl e
      | Inr v \<Rightarrow>
          (case allows permitted v of
             None \<Rightarrow> order_loop permitted pre items parts
           | Some f \<Rightarrow>
               (case to_text (get_prop item ''direction'') of
                  Inl e \<Rightarrow> Inl e
                | Inr t \<Rightarrow> order_loop permitted pre items
                    (parts @ [column pre f @ '' '' @ (if to_lower t = ''asc'' then ''ASC'' else ''DESC'')]))))"

definition build_order_by :: "jsval \<Rightarrow> string list \<Rightarrow> string \<Rightarrow> string option \<Rightarrow> string res" where
  "build_order_by sorting permitted fallback pre =
     (if \<not> truthy sorting \<or> zero_length sorting then Inr fallback
      else res_bind (items_of sorting) (\<lambda>items.
           map_sum id (\<lambda>parts. if parts \<noteq> [] then js_join '', '' parts else fallback) (order_loop permitted pre items [])))"

section \<open>The query\<close>

definition parse_search_query :: "string option \<Rightarrow> jsval res" where
  "parse_search_query raw =
     (if \<not> truthy_str raw then Inr (Obj [])
      else (case json_parse (the raw) of
          None \<Rightarrow> Inr (Obj [])
        | Some (Obj q) \<Rightarrow>
            map_sum id (\<lambda>t. Obj (obj_put q ''searchLogic'' (Str (if to_upper t = ''OR'' then ''OR'' else ''AND''))))
              (to_text (get_prop (Obj q) ''searchLogic''))
        | Some _ \<Rightarrow> Inr (Obj [])))"

definition delivery_fields :: "string list" where
  "delivery_fields = [''id'', ''uuid'', ''dt'', ''sender'', ''rcpt_domain'', ''rcpt_list'', ''rcpt_accepted'', ''tls_forced'',
     ''tls'', ''auth'', ''host'', ''ip'', ''port'', ''response'', ''delay'', ''gateway'', ''route_rule'']"

definition connection_fields :: "string list" where
  "connection_fields = [''id'', ''uuid'', ''dt'', ''encoding'', ''hello_name'', ''remoteAddr'', ''remotePort'',
     ''remote_host'', ''remote_info'', ''remote_is_local'', ''remote_is_private'',
     ''using_tls'', ''tran_count'', ''rcpt_count_accept'', ''rcpt_count_tempfail'', ''rcpt_count_reject'', ''gateway'']"

definition transaction_fields :: "string list" where
  "transaction_fields = [''id'', ''uuid'', ''dt'', ''action'', ''encoding'', ''sender'', ''rcpt_list'',
     ''rcpt_count_accept'', ''rcpt_count_tempfail'', ''rcpt_count_reject'',
     ''delay_data_post'', ''data_bytes'', ''mime_part_count'', ''gateway'']"

definition hashlookup_fields :: "string list" where
  "hashlookup_fields = [''id'', ''txn_uuid'', ''md5'', ''contentType'', ''filename'', ''size'', ''action'', ''createdAt'']"

section \<open>Searching\<close>

record statement =
  st_sql :: string
  st_values :: "jsval list"

type_synonym answers = "statement list \<Rightarrow> statement \<Rightarrow> jsval list res"

definition total_of :: "jsval list \<Rightarrow> jsnum" where
  "total_of counts = js_to_number (or_default (case counts of [] \<Rightarrow> Undef | c # _ \<Rightarrow> get_prop c ''total'') (num_of 0))"

definition found :: "jsnum \<Rightarrow> jsval list \<Rightarrow> jsval" where
  "found n rs = Obj [(''status'', Str ''success''), (''total'', Num n), (''records'', Arr rs)]"

definition where_sql :: "string \<Rightarrow> string" where
  "where_sql w = (if w \<noteq> [] then ''WHERE '' @ w else [])"

definition search_table :: "answers \<Rightarrow> string \<Rightarrow> string list \<Rightarrow> jsval \<Rightarrow> jsval \<Rightarrow> jsval \<Rightarrow> jsval \<Rightarrow> jsval \<Rightarrow> statement list \<times> jsval res" where
  "search_table ask table permitted params logic limit offset sorting =
     (case build_where params logic permitted None of
        Inl e \<Rightarrow> ([], Inl e)
      | Inr (w, values) \<Rightarrow>
          (let count = \<lparr>st_sql = ''SELECT COUNT(*) AS total FROM `'' @ table @ ''` '' @ where_sql w, st_values = values\<rparr>
           in case ask [] count of
                Inl e \<Rightarrow> ([count], Inl e)
              | Inr counts \<Rightarrow>
                  (case build_order_by sorting permitted ''`id` DESC'' None of
                     Inl e \<Rightarrow> ([count], Inl e)
                   | Inr orderBy \<Rightarrow>
                       (let select = \<lparr>st_sql = ''SELECT * FROM `'' @ table @ ''` '' @ where_sql w @ '' ORDER BY '' @ orderBy
                                        @ '' LIMIT ? OFFSET ?'', st_values = values @ [limit, offset]\<rparr>
                        in ([count, select], map_sum id (found (total_of counts)) (ask [count] select))))))"

definition search_query :: "answers \<Rightarrow> string \<Rightarrow> string list \<Rightarrow> jsval \<Rightarrow> statement list \<times> jsval res" where
  "search_query ask table permitted q =
     search_table ask table permitted (or_default (get_prop q ''search'') (Arr [])) (or_default (get_prop q ''searchLogic'') (Str ''AND''))
       (or_default (get_prop q ''limit'') (num_of 100)) (or_default (get_prop q ''offset'') (num_of 0)) (get_prop q ''sort'')"

definition search_delivery :: "answers \<Rightarrow> string option \<Rightarrow> statement list \<times> jsval res" where
  "search_delivery ask raw =
     (case parse_search_query raw of Inl e \<Rightarrow> ([], Inl e) | Inr q \<Rightarrow> search_query ask ''Delivery'' delivery_fields q)"

definition search_connection :: "answers \<Rightarrow> string option \<Rightarrow> statement list \<times> jsval res" where
  "search_connection ask raw =
     (case parse_search_query raw of Inl e \<Rightarrow> ([], Inl e) | Inr q \<Rightarrow> search_query ask ''Connection'' connection_fields q)"

definition search_transaction :: "answers \<Rightarrow> string option \<Rightarrow> statement list \<times> jsval res" where
  "search_transaction ask raw =
     (case parse_search_query raw of Inl e \<Rightarrow> ([], Inl e) | Inr q \<Rightarrow> search_query ask ''Transaction'' transaction_fields q)"

text \<open>The statements of the joined search, with their line breaks: \<open>line n\<close> starts a line indented by \<open>n\<close> spaces.\<close>

definition line :: "nat \<Rightarrow> string \<Rightarrow> string" where
  "line n t = CHR 0x0A # replicate n (CHR '' '') @ t"

definition from_join :: "string \<Rightarrow> string" where
  "from_join w = line 8 ''FROM `HashLookups` h'' @ line 8 ''LEFT JOIN `Transaction` t ON t.uuid = h.txn_uuid'' @ line 8 (where_sql w)"

definition hash_columns :: string where
  "hash_columns = line 8 ''SELECT h.*,'' @ line 15 ''t.dt, t.sender, t.rcpt_list, t.encoding,''
     @ line 15 ''t.action AS txn_action,'' @ line 15 ''t.rcpt_count_accept, t.rcpt_count_tempfail, t.rcpt_count_reject,''
     @ line 15 ''t.delay_data_post, t.data_bytes, t.mime_part_count''"

definition search_hashlookup :: "answers \<Rightarrow> string option \<Rightarrow> statement list \<times> jsval res" where
  "search_hashlookup ask raw =
     (case res_bind (parse_search_query raw) (\<lambda>q.
           res_bind (build_where (or_default (get_prop q ''search'') (Arr [])) (or_default (get_prop q ''searchLogic'') (Str ''AND''))
                       hashlookup_fields (Some ''h'')) (\<lambda>(w, values).
           map_sum id (\<lambda>orderBy. (q, w, values, orderBy))
             (build_order_by (get_prop q ''sort'') hashlookup_fields ''`h`.`id` DESC'' (Some ''h'')))) of
        Inl e \<Rightarrow> ([], Inl e)
      | Inr (q, w, values, orderBy) \<Rightarrow>
          (let count = \<lparr>st_sql = ''SELECT COUNT(*) AS total '' @ from_join w, st_values = values\<rparr>;
               select = \<lparr>st_sql = hash_columns @ line 8 (from_join w) @ line 8 (''ORDER BY '' @ orderBy) @ line 8 ''LIMIT ? OFFSET ?'',
                 st_values = values @ [or_default (get_prop q ''limit'') (num_of 100), or_default (get_prop q ''offset'') (num_of 0)]\<rparr>
           in case ask [] count of
                Inl e \<Rightarrow> ([count], Inl e)
              | Inr counts \<Rightarrow> ([count, select], map_sum id (found (total_of counts)) (ask [count] select))))"

text \<open>The four tables that can be searched.\<close>

datatype log_table = Deliveries | Connections | Transactions | Lookups

definition log_search :: "answers \<Rightarrow> log_table \<Rightarrow> string option \<Rightarrow> statement list \<times> jsval res" where
  "log_search ask k raw = (case k of
     Deliveries \<Rightarrow> search_delivery ask raw | Connections \<Rightarrow> search_connection ask raw
   | Transactions \<Rightarrow> search_transaction ask raw | Lookups \<Rightarrow> search_hashlookup ask raw)"

end
