(* ===== verification/MailPlugins.thy ===== *)
theory MailPlugins
  imports LogQuery
begin

text \<open>
  The plugins of the Haraka gateway, \<open>legacy/mailgw/plugins/\<close>: the IP allowlist (\<open>npFilter.js\<close>), routing (\<open>Route.js\<close>,
  \<open>RoutingTable.js\<close>, \<open>npRoute.js\<close>), the attachment filter (\<open>AttachChecker.js\<close>, \<open>npFilterAttach.js\<close>) and the log events
  (\<open>functions.js\<close>, \<open>npConnection.js\<close>, \<open>npData.js\<close>, \<open>npQueue.js\<close>, \<open>npLogDelivery.js\<close>). Haraka itself, the MIME parser and \<open>fetch\<close>
  are the other side: the objects Haraka hands to a hook are values whose properties are read, a configuration file is its parsed
  value, and a hook ends by what it passes to \<open>next\<close>. Local log files are not modelled.
\<close>

section \<open>What a hook answers\<close>

text \<open>A property found by \<open>in\<close>: an own one with its value, or one inherited from a prototype.\<close>

datatype property = Own jsval | Inherited string

datatype verdict =
    Continue
  | Ok "property option"
  | Cont
  | DenySoft string
  | DenyDisconnect

section \<open>Addresses\<close>

definition or_empty :: "jsval \<Rightarrow> string" where
  "or_empty v = (if truthy v then js_string v else [])"

definition get_addr :: "jsval \<Rightarrow> string" where
  "get_addr addr = (if \<not> truthy addr then [] else or_empty (get_prop addr ''user'') @ ''@'' @ or_empty (get_prop addr ''host''))"

fun addr_list_loop :: "string \<Rightarrow> jsval list \<Rightarrow> string" where
  "addr_list_loop res [] = res"
| "addr_list_loop res (a # as) = addr_list_loop (if res = [] then res @ get_addr a else res @ '','' @ get_addr a) as"

text \<open>\<open>arr.forEach\<close>: anything but an array has none.\<close>

definition get_addr_list :: "jsval \<Rightarrow> string res" where
  "get_addr_list v = (case v of Arr as \<Rightarrow> Inr (addr_list_loop [] as) | _ \<Rightarrow> Inl ''TypeError'')"

section \<open>Routing\<close>

text \<open>A predicate of a rule: \<open>None\<close> is the wildcard.\<close>

type_synonym checker = "string option"

record route_rule =
  rr_relay :: jsval
  rr_sender :: checker
  rr_sender_domain :: checker
  rr_rcpt :: checker
  rr_rcpt_domain :: checker

definition get_domain :: "string \<Rightarrow> string" where
  "get_domain addr = rev (takeWhile (\<lambda>c. c \<noteq> CHR ''@'') (rev addr))"

definition get_checker :: "jsval \<Rightarrow> checker res" where
  "get_checker param =
     (if param = Undef \<or> param = Null then Inr None
      else map_sum id (\<lambda>t. if t \<noteq> [] then Some (to_lower t) else None) (to_text param))"

definition passes :: "checker \<Rightarrow> string \<Rightarrow> bool" where
  "passes c val = (case c of None \<Rightarrow> True | Some expected \<Rightarrow> to_lower val = expected)"

definition new_route :: "jsval \<Rightarrow> jsval \<Rightarrow> jsval \<Rightarrow> jsval \<Rightarrow> jsval \<Rightarrow> route_rule res" where
  "new_route relay sender sender_domain rcpt rcpt_domain =
     res_bind (get_checker sender) (\<lambda>s.
     res_bind (get_checker sender_domain) (\<lambda>sd.
     res_bind (get_checker rcpt) (\<lambda>r.
     map_sum id (\<lambda>rd. \<lparr>rr_relay = relay, rr_sender = s, rr_sender_domain = sd, rr_rcpt = r, rr_rcpt_domain = rd\<rparr>)
       (get_checker rcpt_domain))))"

definition rule_matches :: "route_rule \<Rightarrow> string \<Rightarrow> string \<Rightarrow> bool" where
  "rule_matches r sender rcpt \<longleftrightarrow> passes (rr_sender r) sender \<and> passes (rr_sender_domain r) (get_domain sender)
     \<and> passes (rr_rcpt r) rcpt \<and> passes (rr_rcpt_domain r) (get_domain rcpt)"

text \<open>The names every object, and every array, inherits.\<close>

definition object_proto :: "string list" where
  "object_proto = [''constructor'', ''__defineGetter__'', ''__defineSetter__'', ''hasOwnProperty'', ''__lookupGetter__'',
     ''__lookupSetter__'', ''isPrototypeOf'', ''propertyIsEnumerable'', ''toString'', ''valueOf'', ''__proto__'', ''toLocaleString'']"

definition array_proto :: "string list" where
  "array_proto = [''at'', ''concat'', ''copyWithin'', ''fill'', ''find'', ''findIndex'', ''findLast'', ''findLastIndex'', ''lastIndexOf'',
     ''pop'', ''push'', ''reverse'', ''shift'', ''unshift'', ''slice'', ''sort'', ''splice'', ''includes'', ''indexOf'', ''join'', ''keys'',
     ''entries'', ''values'', ''forEach'', ''filter'', ''flat'', ''flatMap'', ''map'', ''every'', ''some'', ''reduce'', ''reduceRight'',
     ''toReversed'', ''toSorted'', ''toSpliced'', ''with'']"

definition inherits :: "string list \<Rightarrow> string \<Rightarrow> property option" where
  "inherits names k = (if k \<in> set names then Some (Inherited k) else None)"

text \<open>\<open>k in v\<close> and \<open>v[k]\<close> in one: the property, if there is one.\<close>

definition property_of :: "jsval \<Rightarrow> string \<Rightarrow> property option res" where
  "property_of v k = (case v of
     Obj ps \<Rightarrow> Inr (case map_of ps k of Some x \<Rightarrow> Some (Own x) | None \<Rightarrow> inherits object_proto k)
   | Arr vs \<Rightarrow> Inr (case map_of (zip (map nat_to_string [0..<length vs]) vs @ [(''length'', num_of (int (length vs)))]) k of
       Some x \<Rightarrow> Some (Own x) | None \<Rightarrow> inherits (array_proto @ object_proto) k)
   | _ \<Rightarrow> Inl ''TypeError'')"

record routing_table =
  table_relays :: jsval
  table_routes :: "route_rule list"

definition table_find_route :: "routing_table \<Rightarrow> string \<Rightarrow> string \<Rightarrow> property option res" where
  "table_find_route t sender rcpt =
     (case find (\<lambda>r. rule_matches r sender rcpt) (table_routes t) of
        None \<Rightarrow> Inr None
      | Some r \<Rightarrow> res_bind (to_text (rr_relay r)) (property_of (table_relays t)))"

text \<open>\<open>Object.values\<close>: the values of index-like keys first, in the order of the indices.\<close>

definition index_key :: "string \<Rightarrow> bool" where
  "index_key k \<longleftrightarrow> k \<noteq> [] \<and> list_all is_digit k \<and> nat_to_string (digits_val k) = k \<and> digits_val k < 2 ^ 32 - 1"

definition object_values :: "jsval \<Rightarrow> jsval list res" where
  "object_values v = (case v of
     Undef \<Rightarrow> Inl ''TypeError'' | Null \<Rightarrow> Inl ''TypeError'' | Arr vs \<Rightarrow> Inr vs
   | Str s \<Rightarrow> Inr (map Str (code_points s))
   | Obj ps \<Rightarrow> Inr (map snd (sort_key (\<lambda>p. digits_val (fst p)) (filter (\<lambda>p. index_key (fst p)) ps) @ filter (\<lambda>p. \<not> index_key (fst p)) ps))
   | _ \<Rightarrow> Inr [])"

definition route_of :: "jsval \<Rightarrow> route_rule res" where
  "route_of param =
     (if param = Undef \<or> param = Null then Inl ''TypeError''
      else new_route (get_prop param ''relay'') (get_prop param ''sender'') (get_prop param ''sender_domain'')
             (get_prop param ''rcpt'') (get_prop param ''rcpt_domain''))"

definition get_routes :: "jsval \<Rightarrow> route_rule list res" where
  "get_routes cfgobj = res_bind (object_values cfgobj) (map_res route_of)"

text \<open>\<open>register\<close>, from the two configuration files.\<close>

definition register_routing :: "jsval \<Rightarrow> jsval \<Rightarrow> routing_table res" where
  "register_routing relays_json routing_json =
     map_sum id (\<lambda>rs. \<lparr>table_relays = relays_json, table_routes = rs\<rparr>) (get_routes routing_json)"

definition usable :: "property \<Rightarrow> bool" where
  "usable p = (case p of Own v \<Rightarrow> truthy v | Inherited _ \<Rightarrow> True)"

text \<open>Haraka's \<open>rcpt_to\<close> is an array or absent.\<close>

definition hook_get_mx :: "routing_table \<Rightarrow> jsval \<Rightarrow> verdict res" where
  "hook_get_mx t todo =
     (let rcpt_to = get_prop todo ''rcpt_to''
      in case rcpt_to of
           Arr (first # _) \<Rightarrow>
             map_sum id (\<lambda>relay. case relay of
                 Some p \<Rightarrow> if usable p then Ok (Some p) else DenySoft ''No route found''
               | None \<Rightarrow> DenySoft ''No route found'')
               (table_find_route t (get_addr (get_prop todo ''mail_from'')) (get_addr first))
         | _ \<Rightarrow> Inr (DenySoft ''No recipients''))"

section \<open>The IP allowlist\<close>

text \<open>What the hooks read and write of a connection.\<close>

record smtp_connection =
  remote_ip :: string
  relaying :: bool

definition filter_connect :: "jsval \<Rightarrow> smtp_connection \<Rightarrow> verdict \<times> smtp_connection" where
  "filter_connect cfg c =
     (case (if truthy cfg then get_prop cfg ''allowed'' else Undef) of
        Arr allowed_ips \<Rightarrow>
          if Str (remote_ip c) \<in> set allowed_ips then (Ok None, c\<lparr>relaying := True\<rparr>) else (DenyDisconnect, c)
      | _ \<Rightarrow> (DenyDisconnect, c))"

definition filter_rcpt :: "smtp_connection \<Rightarrow> verdict \<times> smtp_connection" where
  "filter_rcpt c = (Ok None, c)"

definition filter_queue_outbound :: "smtp_connection \<Rightarrow> verdict \<times> smtp_connection" where
  "filter_queue_outbound c = (Cont, c)"

text \<open>\<open>isBlacklistedIP\<close> is false of every address.\<close>

definition connection_connect :: "smtp_connection \<Rightarrow> verdict \<times> smtp_connection" where
  "connection_connect c = (Continue, c)"

section \<open>Log events\<close>

record http_post =
  hp_url :: jsval
  hp_headers :: "(string \<times> string) list"
  hp_body :: "string option"

text \<open>What came of a request: it failed with an error, or was answered with a status and a body.\<close>

datatype posted = PostFailed string | PostAnswered int string

definition api_headers :: "env \<Rightarrow> (string \<times> string) list" where
  "api_headers env = [(''Accept'', ''application/json''), (''Content-Type'', ''application/json'')]
     @ (if truthy_str (env ''API_KEY'') then [(''X-API-Key'', the (env ''API_KEY''))] else [])"

text \<open>\<open>httplog\<close>: the request it sends; a failure is caught, and the promise then holds nothing.\<close>

definition httplog_request :: "env \<Rightarrow> jsval \<Rightarrow> jsval \<Rightarrow> http_post" where
  "httplog_request env obj url = \<lparr>hp_url = url, hp_headers = api_headers env, hp_body = json_stringify obj\<rparr>"

definition httplog :: "env \<Rightarrow> (http_post \<Rightarrow> posted) \<Rightarrow> jsval \<Rightarrow> jsval \<Rightarrow> posted option res" where
  "httplog env fetch obj url = (case fetch (httplog_request env obj url) of
     PostFailed e \<Rightarrow> Inr None | PostAnswered status body \<Rightarrow> Inr (Some (PostAnswered status body)))"

datatype log_note = NoteStatus int | NoteLogfail | NoteConnectError string

definition post_with_logging :: "env \<Rightarrow> (http_post \<Rightarrow> posted) \<Rightarrow> jsval \<Rightarrow> jsval \<Rightarrow> log_note" where
  "post_with_logging env fetch payload url = (case httplog env fetch payload url of
     Inr (Some (PostAnswered status _)) \<Rightarrow> if status \<noteq> 0 then NoteStatus status else NoteLogfail
   | Inr _ \<Rightarrow> NoteLogfail
   | Inl e \<Rightarrow> NoteConnectError e)"

definition build_conn_info :: "jsval \<Rightarrow> jsval" where
  "build_conn_info c = Obj
     [(''uuid'', get_prop c ''uuid''), (''dt'', get_prop c ''start_time''), (''state'', get_prop c ''state''),
      (''encoding'', get_prop c ''encoding''), (''remoteAddr'', get_prop (get_prop c ''client'') ''remoteAddress''),
      (''remotePort'', get_prop (get_prop c ''client'') ''remotePort''), (''remote_is_local'', get_prop c ''remote_is_local''),
      (''remote_is_private'', get_prop c ''remote_is_private''), (''remote_host'', get_prop c ''remote_host''),
      (''remote_info'', get_prop c ''remote_info''), (''hello_name'', get_prop (get_prop c ''hello'') ''host''),
      (''using_tls'', get_prop c ''using_tls''), (''tran_count'', get_prop c ''tran_count''), (''pipelining'', get_prop c ''pipelining''),
      (''rcpt_count_accept'', get_prop (get_prop c ''rcpt_count'') ''accept''),
      (''rcpt_count_tempfail'', get_prop (get_prop c ''rcpt_count'') ''tempfail''),
      (''rcpt_count_reject'', get_prop (get_prop c ''rcpt_count'') ''reject'')]"

definition build_txn_info :: "jsval \<Rightarrow> jsval res" where
  "build_txn_info c =
     (let txn = get_prop c ''transaction''; rcpts = get_prop txn ''rcpt_to''
      in if \<not> truthy txn then Inr Null
         else map_sum id (\<lambda>rcpt_list. Obj
           [(''uuid'', get_prop txn ''uuid''), (''dt'', get_prop txn ''data_post_start''), (''action'', get_prop txn ''action''),
            (''encoding'', get_prop txn ''encoding''), (''sender'', Str (get_addr (get_prop txn ''mail_from''))),
            (''rcpt_list'', Str rcpt_list), (''rcpt_count_accept'', get_prop (get_prop txn ''rcpt_count'') ''accept''),
            (''rcpt_count_tempfail'', get_prop (get_prop txn ''rcpt_count'') ''tempfail''),
            (''rcpt_count_reject'', get_prop (get_prop txn ''rcpt_count'') ''reject''),
            (''delay_data_post'', get_prop txn ''data_post_delay''), (''data_bytes'', get_prop txn ''data_bytes''),
            (''mime_part_count'', get_prop txn ''mime_part_count'')])
           (get_addr_list (if truthy rcpts then rcpts else Arr [])))"

definition transaction_event :: "jsval \<Rightarrow> jsval" where
  "transaction_event txn =
     (if \<not> truthy txn then Obj [(''status'', Str ''empty'')]
      else Obj
        [(''uuid'', get_prop txn ''uuid''), (''dt'', get_prop txn ''data_post_start''), (''action'', get_prop txn ''action''),
         (''delay_data_post'', get_prop txn ''data_post_delay''), (''encoding'', get_prop txn ''encoding''),
         (''data_bytes'', get_prop txn ''data_bytes''), (''mime_part_count'', get_prop txn ''mime_part_count''),
         (''sender'', Str (get_addr (get_prop txn ''mail_from''))), (''rcpt_to'', get_prop txn ''rcpt_to''),
         (''rcpt_count_accept'', get_prop (get_prop txn ''rcpt_count'') ''accept''),
         (''rcpt_count_tempfail'', get_prop (get_prop txn ''rcpt_count'') ''tempfail''),
         (''rcpt_count_reject'', get_prop (get_prop txn ''rcpt_count'') ''reject''),
         (''headers'', get_prop (get_prop txn ''header'') ''headers_decoded'')])"

definition log_transaction :: "env \<Rightarrow> jsval \<Rightarrow> jsval \<Rightarrow> http_post" where
  "log_transaction env txn url = httplog_request env (transaction_event txn) url"

definition log_connection :: "env \<Rightarrow> jsval \<Rightarrow> jsval \<Rightarrow> http_post" where
  "log_connection env c url = httplog_request env (build_conn_info c) url"

text \<open>The hooks that post an event, from \<open>logging.json\<close> and what Haraka hands them: the request they send; each then
  goes on whatever comes of it.\<close>

definition data_hook :: "env \<Rightarrow> jsval \<Rightarrow> jsval \<Rightarrow> http_post res" where
  "data_hook env cfg c = map_sum id (httplog_request env (build_conn_info c)) (read_prop cfg ''url_conn'')"

definition queue_hook :: "env \<Rightarrow> jsval \<Rightarrow> jsval \<Rightarrow> http_post res" where
  "queue_hook env cfg c =
     res_bind (build_txn_info c) (\<lambda>obj. map_sum id (httplog_request env obj) (read_prop cfg ''url_queue''))"

definition nth_or_undef :: "jsval list \<Rightarrow> nat \<Rightarrow> jsval" where
  "nth_or_undef vs i = (if i < length vs then vs ! i else Undef)"

definition delivery_event :: "jsval \<Rightarrow> jsval list \<Rightarrow> jsval res" where
  "delivery_event hmail params =
     (let todo = get_prop hmail ''todo''; p = nth_or_undef params
      in res_bind (get_addr_list (get_prop todo ''rcpt_to'')) (\<lambda>rcpt_list.
         map_sum id (\<lambda>rcpt_accepted. Obj
           [(''uuid'', get_prop todo ''uuid''), (''dt'', get_prop todo ''queue_time''), (''sender'', Str (get_addr (get_prop todo ''mail_from''))),
            (''rcpt_domain'', get_prop todo ''domain''), (''rcpt_list'', Str rcpt_list), (''rcpt_accepted'', Str rcpt_accepted),
            (''tls_forced'', get_prop hmail ''force_tls''), (''tls'', p 7), (''auth'', p 8), (''host'', p 0), (''ip'', p 1),
            (''port'', p 4), (''response'', p 2), (''delay'', p 3)])
           (get_addr_list (p 6))))"

definition delivered_hook :: "env \<Rightarrow> jsval \<Rightarrow> jsval \<Rightarrow> jsval list \<Rightarrow> http_post res" where
  "delivered_hook env cfg hmail params =
     res_bind (read_prop cfg ''url_delivery'') (\<lambda>url. map_sum id (\<lambda>e. httplog_request env e url) (delivery_event hmail params))"

section \<open>The attachment filter\<close>

text \<open>The parts the MIME parser reports; \<open>None\<close> is a parser that throws.\<close>

record mime_part =
  mp_disposition :: jsval
  mp_content_type :: jsval
  mp_filename :: jsval
  mp_size :: jsval
  mp_checksum :: jsval

definition loose_is :: "jsval \<Rightarrow> string \<Rightarrow> bool" where
  "loose_is v s = (case v of Str t \<Rightarrow> t = s | Arr _ \<Rightarrow> to_text v = Inr s | Obj _ \<Rightarrow> to_text v = Inr s | _ \<Rightarrow> False)"

definition get_attachments :: "jsval \<Rightarrow> mime_part list \<Rightarrow> jsval list" where
  "get_attachments uuid parts =
     map (\<lambda>p. Obj [(''contentType'', mp_content_type p), (''filename'', mp_filename p), (''size'', mp_size p),
                   (''md5'', mp_checksum p), (''txn_uuid'', uuid)])
       (filter (\<lambda>p. loose_is (mp_disposition p) ''attachment'') parts)"

definition check_hash_list :: "env \<Rightarrow> (http_post \<Rightarrow> posted) \<Rightarrow> string \<Rightarrow> jsval list \<Rightarrow> jsval" where
  "check_hash_list env fetch url attachments =
     (case fetch \<lparr>hp_url = Str url, hp_headers = api_headers env, hp_body = json_stringify (Arr attachments)\<rparr> of
        PostFailed _ \<Rightarrow> Str ''allow''
      | PostAnswered _ body \<Rightarrow> (case json_parse body of None \<Rightarrow> Str ''allow'' | Some v \<Rightarrow> get_prop v ''action''))"

definition check_attachments :: "env \<Rightarrow> (http_post \<Rightarrow> posted) \<Rightarrow> string \<Rightarrow> jsval \<Rightarrow> mime_part list option \<Rightarrow> jsval" where
  "check_attachments env fetch url uuid parsed = (case parsed of
     None \<Rightarrow> Str ''allow'' | Some parts \<Rightarrow> check_hash_list env fetch url (get_attachments uuid parts))"

definition url_filter :: string where
  "url_filter = ''http://localhost:3000/filter/md5''"

text \<open>\<open>hook_data_post\<close>: \<open>parse\<close> is the parser on the message; the events it posts are the last component.\<close>

definition hook_data_post :: "env \<Rightarrow> (http_post \<Rightarrow> posted) \<Rightarrow> jsval \<Rightarrow> mime_part list option \<Rightarrow> verdict \<times> http_post list" where
  "hook_data_post env fetch c parsed =
     (let txn = get_prop c ''transaction''
      in if \<not> truthy txn then (Continue, [])
         else (let result = check_attachments env fetch url_filter (get_prop txn ''uuid'') parsed;
                   txn' = (case txn of Obj ps \<Rightarrow> Obj (obj_put ps ''action'' result) | _ \<Rightarrow> txn);
                   events = [log_connection env c (Str ''http://localhost:3000/api/connection''),
                             log_transaction env txn' (Str ''http://localhost:3000/api/queue'')]
               in (if loose_is result ''allow'' then Continue else DenySoft ''Blocked: Attach Scan'', events)))"

end
