(* ===== verification/Regex.thy ===== *)
theory Regex
  imports Prelude
begin

text \<open>
  JavaScript regular expressions of the anchored kind the log service validates with (\<open>/^...$/\<close> without flags): classes
  of characters, alternatives, sequences, \<open>*\<close>, and \<open>+\<close>, \<open>?\<close> and \<open>{m,n}\<close> built from them. \<open>rx_test\<close> decides a string by
  derivatives; \<open>lang\<close> is the set of strings of an expression, and the two agree.
\<close>

datatype rx = Never | Empty | Class "char \<Rightarrow> bool" | Alt rx rx | Seq rx rx | Many rx

fun nullable :: "rx \<Rightarrow> bool" where
  "nullable Never = False"
| "nullable Empty = True"
| "nullable (Class _) = False"
| "nullable (Alt r s) = (nullable r \<or> nullable s)"
| "nullable (Seq r s) = (nullable r \<and> nullable s)"
| "nullable (Many _) = True"

fun deriv :: "char \<Rightarrow> rx \<Rightarrow> rx" where
  "deriv c Never = Never"
| "deriv c Empty = Never"
| "deriv c (Class p) = (if p c then Empty else Never)"
| "deriv c (Alt r s) = Alt (deriv c r) (deriv c s)"
| "deriv c (Seq r s) = (if nullable r then Alt (Seq (deriv c r) s) (deriv c s) else Seq (deriv c r) s)"
| "deriv c (Many r) = Seq (deriv c r) (Many r)"

definition rx_test :: "rx \<Rightarrow> string \<Rightarrow> bool" where
  "rx_test r s = nullable (fold deriv s r)"

section \<open>The language\<close>

inductive_set star :: "string set \<Rightarrow> string set" for L where
  star_nil: "[] \<in> star L"
| star_step: "\<lbrakk> u \<in> L; v \<in> star L \<rbrakk> \<Longrightarrow> u @ v \<in> star L"

fun lang :: "rx \<Rightarrow> string set" where
  "lang Never = {}"
| "lang Empty = {[]}"
| "lang (Class p) = {[c] | c. p c}"
| "lang (Alt r s) = lang r \<union> lang s"
| "lang (Seq r s) = {u @ v | u v. u \<in> lang r \<and> v \<in> lang s}"
| "lang (Many r) = star (lang r)"

lemma nullable_iff: "nullable r \<longleftrightarrow> [] \<in> lang r"
  by (induction r) (auto intro: star_nil)

lemma star_Cons: "c # w \<in> star L \<longleftrightarrow> (\<exists>u v. c # u \<in> L \<and> v \<in> star L \<and> w = u @ v)"
proof
  have "x \<in> star L \<Longrightarrow> x = c # w \<Longrightarrow> \<exists>u v. c # u \<in> L \<and> v \<in> star L \<and> w = u @ v" for x
    by (induction arbitrary: w rule: star.induct) (auto simp: append_eq_Cons_conv)
  then show "c # w \<in> star L \<Longrightarrow> \<exists>u v. c # u \<in> L \<and> v \<in> star L \<and> w = u @ v" by blast
qed (use star_step [of "c # _"] in auto)

lemma deriv_iff: "w \<in> lang (deriv c r) \<longleftrightarrow> c # w \<in> lang r"
proof (induction r arbitrary: w)
  case (Seq r s)
  then show ?case by (auto simp: nullable_iff Cons_eq_append_conv)
next
  case (Many r)
  then show ?case by (auto simp: star_Cons)
qed auto

theorem rx_test_iff: "rx_test r s \<longleftrightarrow> s \<in> lang r"
  by (induction s arbitrary: r) (auto simp: rx_test_def nullable_iff deriv_iff)

section \<open>The constructs of the patterns\<close>

definition opt :: "rx \<Rightarrow> rx" where
  "opt r = Alt r Empty"

definition some1 :: "rx \<Rightarrow> rx" where
  "some1 r = Seq r (Many r)"

definition lit :: "char \<Rightarrow> rx" where
  "lit c = Class (\<lambda>d. d = c)"

fun times :: "nat \<Rightarrow> rx \<Rightarrow> rx" where
  "times 0 r = Empty"
| "times (Suc n) r = Seq r (times n r)"

lemma lang_opt [simp]: "lang (opt r) = lang r \<union> {[]}"
  by (simp add: opt_def)

lemma lang_lit [simp]: "lang (lit c) = {[c]}"
  by (auto simp: lit_def)

lemma star_class: "w \<in> star {[c] | c. p c} \<longleftrightarrow> list_all p w"
proof
  show "w \<in> star {[c] | c. p c} \<Longrightarrow> list_all p w" by (induction rule: star.induct) auto
  show "list_all p w \<Longrightarrow> w \<in> star {[c] | c. p c}"
  proof (induction w)
    case (Cons c w)
    then have "[c] @ w \<in> star {[c] | c. p c}" by (intro star_step) auto
    then show ?case by simp
  qed (rule star_nil)
qed

lemma lang_class_Seq: "w \<in> lang (Seq (Class p) r) \<longleftrightarrow> (case w of [] \<Rightarrow> False | c # v \<Rightarrow> p c \<and> v \<in> lang r)"
proof
  assume "case w of [] \<Rightarrow> False | c # v \<Rightarrow> p c \<and> v \<in> lang r"
  then obtain c v where "w = [c] @ v" "[c] \<in> lang (Class p)" "v \<in> lang r"
    by (auto split: list.splits)
  then show "w \<in> lang (Seq (Class p) r)" by (simp only: lang.simps) blast
qed auto

lemma lang_some_class [simp]: "w \<in> lang (some1 (Class p)) \<longleftrightarrow> w \<noteq> [] \<and> list_all p w"
  unfolding some1_def lang_class_Seq by (auto simp: star_class split: list.split)

text \<open>The characters an expression can consume bound those of its strings.\<close>

fun chars_ok :: "(char \<Rightarrow> bool) \<Rightarrow> rx \<Rightarrow> bool" where
  "chars_ok q (Class p) = (\<forall>c. p c \<longrightarrow> q c)"
| "chars_ok q (Alt r s) = (chars_ok q r \<and> chars_ok q s)"
| "chars_ok q (Seq r s) = (chars_ok q r \<and> chars_ok q s)"
| "chars_ok q (Many r) = chars_ok q r"
| "chars_ok q _ = True"

lemma chars_ok_lang: "chars_ok q r \<Longrightarrow> w \<in> lang r \<Longrightarrow> list_all q w"
proof (induction r arbitrary: w)
  case (Many r)
  from Many.prems(2) have "w \<in> star (lang r)" by simp
  then show ?case using Many by (induction rule: star.induct) auto
qed auto

end
