(* ===== verification/LogService.thy ===== *)
theory LogService
  imports LogQuery Regex
begin

text \<open>
  The log service: \<open>legacy/logservice/src/\<close> \<open>validation/delivery.ts\<close>, \<open>query/hash.ts\<close>, \<open>models/*.ts\<close>,
  \<open>routes/*.ts\<close>, \<open>middleware/*.ts\<close>, \<open>index.ts\<close> and \<open>dbmigrate.ts\<close>. The state is the tables it writes. What the database refuses is a
  parameter: \<open>refuse table values\<close> is the error of an insert, if it has one, and \<open>matches\<close> is the comparison of a
  bound value with the column \<open>md5\<close> under its collation. Only methods the service registers are modelled; anything
  else is answered by the fallback.
\<close>

section \<open>The delivery event\<close>

abbreviation digit :: rx where "digit \<equiv> Class is_digit"

definition between_chars :: "char \<Rightarrow> char \<Rightarrow> rx" where
  "between_chars a b = Class (\<lambda>c. byte a \<le> byte c \<and> byte c \<le> byte b)"

definition is_alnum :: "char \<Rightarrow> bool" where
  "is_alnum c \<longleftrightarrow> is_digit c \<or> (97 \<le> byte c \<and> byte c \<le> 122) \<or> (65 \<le> byte c \<and> byte c \<le> 90)"

definition is_hex :: "char \<Rightarrow> bool" where
  "is_hex c \<longleftrightarrow> is_digit c \<or> (97 \<le> byte c \<and> byte c \<le> 102) \<or> (65 \<le> byte c \<and> byte c \<le> 70)"

text \<open>\<open>hostSchema\<close>: an address in optional brackets, or labels of letters, digits and inner hyphens.\<close>

definition label_rx :: rx where
  "label_rx = Seq (Class is_alnum) (opt (Seq (Many (Class (\<lambda>c. is_alnum c \<or> c = CHR ''-''))) (Class is_alnum)))"

definition host_rx :: rx where
  "host_rx = Alt (Seq (opt (lit (CHR ''['')))
                      (Seq (some1 (Class (\<lambda>c. is_hex c \<or> c = CHR '':'' \<or> c = CHR ''.''))) (opt (lit (CHR '']'')))))
                 (Seq label_rx (Many (Seq (lit (CHR ''.'')) label_rx)))"

definition octet_rx :: rx where
  "octet_rx = Alt (Seq (lit (CHR ''2'')) (Seq (lit (CHR ''5'')) (between_chars (CHR ''0'') (CHR ''5''))))
             (Alt (Seq (lit (CHR ''2'')) (Seq (between_chars (CHR ''0'') (CHR ''4'')) digit))
                  (Seq (opt (between_chars (CHR ''0'') (CHR ''1''))) (Seq digit (opt digit))))"

definition ipv4_rx :: rx where
  "ipv4_rx = Seq (times 3 (Seq octet_rx (lit (CHR ''.'')))) octet_rx"

definition ipv6_rx :: rx where
  "ipv6_rx = Seq (some1 (Class (\<lambda>c. is_hex c \<or> c = CHR '':'')))
     (opt (Seq (lit (CHR '':'')) (Seq (times 3 (Seq (Seq digit (Seq (opt digit) (opt digit))) (lit (CHR ''.''))))
                                      (Seq digit (Seq (opt digit) (opt digit))))))"

definition pattern :: "rx \<Rightarrow> string \<Rightarrow> bool \<times> message" where
  "pattern r s = (rx_test r s, Builtin ''invalid_string'')"

definition host_schema :: "jsval \<Rightarrow> string parsed" where
  "host_schema = z_string (\<lambda>s. [at_least 1 s, at_most 255 s, (rx_test host_rx s, Custom ''must be a hostname or IP literal'')])"

definition ip_text :: "string \<Rightarrow> bool" where
  "ip_text s \<longleftrightarrow> s = [] \<or> rx_test ipv4_rx s \<or> (CHR '':'' \<in> set s \<and> rx_test ipv6_rx s)"

definition ip_schema :: "jsval \<Rightarrow> string parsed" where
  "ip_schema = z_string (\<lambda>s. [(ip_text s, Custom ''must be an IPv4 or IPv6 address'')])"

definition port_schema :: "jsval \<Rightarrow> string parsed" where
  "port_schema = z_string (\<lambda>s. [pattern (some1 digit) s])"

definition email_schema :: "library \<Rightarrow> jsval \<Rightarrow> string parsed" where
  "email_schema cr = z_string (\<lambda>s. [(email_pattern cr s, Builtin ''invalid_string'')])"

definition sender_schema :: "library \<Rightarrow> jsval \<Rightarrow> string parsed" where
  "sender_schema cr = z_union (\<lambda>v. case v of Str s \<Rightarrow> if s = [] then Inr s else invalid_type | _ \<Rightarrow> invalid_type) (email_schema cr)"

text \<open>\<open>z.number()\<close> of this version: any number but \<open>NaN\<close>.\<close>

definition z_num :: "jsval \<Rightarrow> jsnum parsed" where
  "z_num v = (case v of Num x \<Rightarrow> if x = NaN then invalid_type else Inr x | _ \<Rightarrow> invalid_type)"

record delivery =
  d_uuid :: string
  d_dt :: jsnum
  d_sender :: string
  d_rcpt_domain :: string
  d_rcpt_list :: string
  d_rcpt_accepted :: string
  d_tls_forced :: bool
  d_tls :: bool
  d_auth :: bool
  d_host :: string
  d_ip :: string
  d_port :: string
  d_response :: string
  d_delay :: jsnum
  d_gateway :: "string option"
  d_route_rule :: "string option"

definition any_string :: "jsval \<Rightarrow> string parsed" where
  "any_string = z_string (\<lambda>s. [])"

definition schema_delivery :: "library \<Rightarrow> jsval \<Rightarrow> delivery parsed" where
  "schema_delivery cr = z_object (\<lambda>v.
     map_sum id (\<lambda>(u, t, s, rd, rl, ra, tf, tl, a, h, i, p, r, y, g, rr). \<lparr>d_uuid = u, d_dt = t, d_sender = s, d_rcpt_domain = rd,
         d_rcpt_list = rl, d_rcpt_accepted = ra, d_tls_forced = tf, d_tls = tl, d_auth = a, d_host = h, d_ip = i, d_port = p,
         d_response = r, d_delay = y, d_gateway = g, d_route_rule = rr\<rparr>)
      (both (field v ''uuid'' any_string)
      (both (field v ''dt'' z_num)
      (both (field v ''sender'' (sender_schema cr))
      (both (field v ''rcpt_domain'' host_schema)
      (both (field v ''rcpt_list'' (email_schema cr))
      (both (field v ''rcpt_accepted'' (email_schema cr))
      (both (field v ''tls_forced'' z_bool)
      (both (field v ''tls'' z_bool)
      (both (field v ''auth'' z_bool)
      (both (field v ''host'' host_schema)
      (both (field v ''ip'' ip_schema)
      (both (field v ''port'' port_schema)
      (both (field v ''response'' any_string)
      (both (field v ''delay'' z_num)
      (both (field v ''gateway'' (z_optional (z_string (\<lambda>s. [at_most 64 s]))))
            (field v ''route_rule'' (z_optional (z_string (\<lambda>s. [at_most 255 s]))))))))))))))))))))"

section \<open>Tables\<close>

text \<open>A row as the values bound to its insert, by column. \<open>FROM_UNIXTIME\<close>, \<open>NOW()\<close> and the ids are the database's.\<close>

type_synonym event_row = "(string \<times> jsval) list"

record log_db =
  delivery_rows :: "event_row list"
  connection_rows :: "event_row list"
  transaction_rows :: "event_row list"
  hash_lookups :: "event_row list"
  block_md5s :: "string option list"

type_synonym refusal = "string \<Rightarrow> event_row \<Rightarrow> js_error option"

definition delivery_row :: "delivery \<Rightarrow> event_row" where
  "delivery_row d =
     [(''uuid'', Str (d_uuid d)), (''dt'', Num (d_dt d)), (''sender'', Str (d_sender d)), (''rcpt_domain'', Str (d_rcpt_domain d)),
      (''rcpt_list'', Str (d_rcpt_list d)), (''rcpt_accepted'', Str (d_rcpt_accepted d)), (''tls_forced'', Bool (d_tls_forced d)),
      (''tls'', Bool (d_tls d)), (''auth'', Bool (d_auth d)), (''host'', Str (d_host d)), (''ip'', Str (d_ip d)),
      (''port'', Str (d_port d)), (''response'', Str (d_response d)), (''delay'', Num (d_delay d)),
      (''gateway'', str_or_null (d_gateway d)), (''route_rule'', str_or_null (d_route_rule d))]"

definition insert_delivery :: "refusal \<Rightarrow> delivery \<Rightarrow> log_db \<Rightarrow> unit res \<times> log_db" where
  "insert_delivery refuse d db = (case refuse ''Delivery'' (delivery_row d) of
     Some e \<Rightarrow> (Inl e, db) | None \<Rightarrow> (Inr (), db\<lparr>delivery_rows := delivery_rows db @ [delivery_row d]\<rparr>))"

definition connection_columns :: "(string \<times> jsval) list" where
  "connection_columns =
     [(''uuid'', Null), (''dt'', Null), (''encoding'', Null), (''hello_name'', Null), (''remoteAddr'', Null), (''remotePort'', Null),
      (''remote_host'', Null), (''remote_info'', Null), (''remote_is_local'', Bool False), (''remote_is_private'', Bool False),
      (''using_tls'', Bool False), (''tran_count'', num_of 0), (''rcpt_count_accept'', num_of 0), (''rcpt_count_tempfail'', num_of 0),
      (''rcpt_count_reject'', num_of 0), (''gateway'', Null)]"

definition transaction_columns :: "(string \<times> jsval) list" where
  "transaction_columns =
     [(''uuid'', Null), (''dt'', Null), (''action'', Null), (''encoding'', Null), (''sender'', Null), (''rcpt_list'', Null),
      (''rcpt_count_accept'', num_of 0), (''rcpt_count_tempfail'', num_of 0), (''rcpt_count_reject'', num_of 0),
      (''delay_data_post'', Null), (''data_bytes'', Null), (''mime_part_count'', Null), (''gateway'', Null)]"

text \<open>\<open>body.column ?? default\<close> for each column.\<close>

definition row_of_body :: "(string \<times> jsval) list \<Rightarrow> jsval \<Rightarrow> event_row res" where
  "row_of_body columns body =
     (if body = Undef \<or> body = Null then Inl ''TypeError''
      else Inr (map (\<lambda>(k, d). (k, or_default (get_prop body k) d)) columns))"

definition to_connection_row :: "jsval \<Rightarrow> event_row res" where
  "to_connection_row = row_of_body connection_columns"

definition to_transaction_row :: "jsval \<Rightarrow> event_row res" where
  "to_transaction_row = row_of_body transaction_columns"

definition insert_connection :: "refusal \<Rightarrow> event_row \<Rightarrow> log_db \<Rightarrow> unit res \<times> log_db" where
  "insert_connection refuse c db = (case refuse ''Connection'' c of
     Some e \<Rightarrow> (Inl e, db) | None \<Rightarrow> (Inr (), db\<lparr>connection_rows := connection_rows db @ [c]\<rparr>))"

definition insert_transaction :: "refusal \<Rightarrow> event_row \<Rightarrow> log_db \<Rightarrow> unit res \<times> log_db" where
  "insert_transaction refuse t db = (case refuse ''Transaction'' t of
     Some e \<Rightarrow> (Inl e, db) | None \<Rightarrow> (Inr (), db\<lparr>transaction_rows := transaction_rows db @ [t]\<rparr>))"

definition insert_hash_lookup :: "refusal \<Rightarrow> event_row \<Rightarrow> log_db \<Rightarrow> unit res \<times> log_db" where
  "insert_hash_lookup refuse r db = (case refuse ''HashLookups'' r of
     Some e \<Rightarrow> (Inl e, db) | None \<Rightarrow> (Inr (), db\<lparr>hash_lookups := hash_lookups db @ [r]\<rparr>))"

section \<open>The attachment blocklist\<close>

text \<open>\<open>findBlockedMD5s\<close>: the rows whose md5 equals one of those asked for.\<close>

definition find_blocked_md5s :: "(jsval \<Rightarrow> string \<Rightarrow> bool) \<Rightarrow> jsval list \<Rightarrow> log_db \<Rightarrow> string list" where
  "find_blocked_md5s matches md5s db =
     (if md5s = [] then []
      else filter (\<lambda>m. list_ex (\<lambda>v. matches v m) md5s) (List.map_filter id (block_md5s db)))"

definition decide :: "string list \<Rightarrow> jsval \<Rightarrow> string" where
  "decide blocked a = (case get_prop a ''md5'' of Str m \<Rightarrow> if m \<in> set blocked then ''block'' else ''allow'' | _ \<Rightarrow> ''allow'')"

definition decide_actions :: "jsval list \<Rightarrow> string list \<Rightarrow> string \<times> (jsval \<times> string) list" where
  "decide_actions attachments blocked =
     (let decisions = map (\<lambda>a. (a, decide blocked a)) attachments
      in (if list_ex (\<lambda>(a, act). act = ''block'') decisions then ''block'' else ''allow'', decisions))"

definition lookup_row :: "jsval \<times> string \<Rightarrow> event_row" where
  "lookup_row d =
     [(''txn_uuid'', or_default (get_prop (fst d) ''txn_uuid'') (Str [])), (''md5'', or_default (get_prop (fst d) ''md5'') (Str [])),
      (''contentType'', or_default (get_prop (fst d) ''contentType'') Null), (''filename'', or_default (get_prop (fst d) ''filename'') Null),
      (''size'', or_default (get_prop (fst d) ''size'') Null), (''action'', Str (snd d))]"

text \<open>The inserts run side by side: each one stores its row or not, and the first failure is the outcome.\<close>

fun insert_lookups :: "refusal \<Rightarrow> event_row list \<Rightarrow> log_db \<Rightarrow> unit res \<times> log_db" where
  "insert_lookups refuse [] db = (Inr (), db)"
| "insert_lookups refuse (r # rs) db =
     (case insert_hash_lookup refuse r db of (o1, db1) \<Rightarrow>
      case insert_lookups refuse rs db1 of (o2, db2) \<Rightarrow> (case o1 of Inl e \<Rightarrow> Inl e | Inr _ \<Rightarrow> o2, db2))"

definition hash_list_lookup :: "(jsval \<Rightarrow> string \<Rightarrow> bool) \<Rightarrow> refusal \<Rightarrow> jsval list \<Rightarrow> log_db \<Rightarrow> string res \<times> log_db" where
  "hash_list_lookup matches refuse attachments db =
     (case map_res (\<lambda>a. read_prop a ''md5'') attachments of
        Inl e \<Rightarrow> (Inl e, db)
      | Inr md5s \<Rightarrow>
          (let asked = filter (\<lambda>m. m \<noteq> Undef \<and> m \<noteq> Null \<and> m \<noteq> Str []) md5s;
               blocked = find_blocked_md5s matches asked db;
               (overall, decisions) = decide_actions attachments blocked
           in case insert_lookups refuse (map lookup_row decisions) db of
                (Inl e, db') \<Rightarrow> (Inl e, db')
              | (Inr _, db') \<Rightarrow> (Inr overall, db')))"

section \<open>Routes\<close>

record log_request =
  lq_method :: string
  lq_path :: string
  lq_key :: "string option"
  lq_query :: "string option"
  lq_body :: string

datatype log_response = LogJson int jsval | LogText int string

text \<open>The parts the service is given: the library, the database's refusals, comparison and answers.\<close>

record log_parts =
  lp_library :: library
  lp_refuse :: refusal
  lp_matches :: "jsval \<Rightarrow> string \<Rightarrow> bool"
  lp_ask :: "log_db \<Rightarrow> answers"

type_synonym log_handler = "log_request \<Rightarrow> log_db \<Rightarrow> log_response res \<times> log_db"

definition status_json :: "int \<Rightarrow> string \<Rightarrow> log_response" where
  "status_json code t = LogJson code (Obj [(''status'', Str t)])"

definition read_json :: "log_request \<Rightarrow> jsval res" where
  "read_json r = (case json_parse (lq_body r) of None \<Rightarrow> Inl ''SyntaxError'' | Some v \<Rightarrow> Inr v)"

definition stored :: "unit res \<times> log_db \<Rightarrow> log_response res \<times> log_db" where
  "stored r = map_prod (map_sum id (\<lambda>_. status_json 200 ''OK'')) id r"

definition root_route :: log_handler where
  "root_route r db = (Inr (status_json 200 ''OK''), db)"

definition delivery_route :: "log_parts \<Rightarrow> log_handler" where
  "delivery_route lp r db =
     (case read_json r of
        Inl e \<Rightarrow> (Inl e, db)
      | Inr body \<Rightarrow>
          (case schema_delivery (lp_library lp) body of
             Inl is \<Rightarrow> (Inr (status_json 400 ''Fail''), db)
           | Inr d \<Rightarrow> stored (insert_delivery (lp_refuse lp) d db)))"

definition queue_route :: "log_parts \<Rightarrow> log_handler" where
  "queue_route lp r db =
     (case res_bind (read_json r) to_transaction_row of
        Inl e \<Rightarrow> (Inl e, db) | Inr t \<Rightarrow> stored (insert_transaction (lp_refuse lp) t db))"

definition connection_route :: "log_parts \<Rightarrow> log_handler" where
  "connection_route lp r db =
     (case res_bind (read_json r) to_connection_row of
        Inl e \<Rightarrow> (Inl e, db) | Inr c \<Rightarrow> stored (insert_connection (lp_refuse lp) c db))"

definition filter_md5_route :: "log_parts \<Rightarrow> log_handler" where
  "filter_md5_route lp r db =
     (case read_json r of
        Inl e \<Rightarrow> (Inl e, db)
      | Inr body \<Rightarrow>
          (case hash_list_lookup (lp_matches lp) (lp_refuse lp) (case body of Arr vs \<Rightarrow> vs | _ \<Rightarrow> []) db of
             (o', db') \<Rightarrow> (map_sum id (\<lambda>a. LogJson 200 (Obj [(''action'', Str a)])) o', db')))"

definition search_route :: "log_parts \<Rightarrow> log_table \<Rightarrow> log_handler" where
  "search_route lp k r db = (map_sum id (LogJson 200) (snd (log_search (lp_ask lp db) k (lq_query r))), db)"

section \<open>Middleware and the server\<close>

definition with_error_handling :: "log_handler \<Rightarrow> log_request \<Rightarrow> log_db \<Rightarrow> log_response \<times> log_db" where
  "with_error_handling h r db =
     (case h r db of
        (Inr reply, db') \<Rightarrow> (reply, db')
      | (Inl e, db') \<Rightarrow> (LogJson 500 (Obj [(''status'', Str ''Error''), (''message'', Str ''Internal server error'')]), db'))"

definition with_auth ::
  "string option \<Rightarrow> (log_request \<Rightarrow> log_db \<Rightarrow> log_response \<times> log_db) \<Rightarrow> log_request \<Rightarrow> log_db \<Rightarrow> log_response \<times> log_db"
where
  "with_auth service_key h r db =
     (if truthy_str service_key \<and> lq_key r \<noteq> service_key then (status_json 401 ''Unauthorized'', db) else h r db)"

definition handle :: "string option \<Rightarrow> log_handler \<Rightarrow> log_request \<Rightarrow> log_db \<Rightarrow> log_response \<times> log_db" where
  "handle service_key h = with_auth service_key (with_error_handling h)"

definition api_handlers :: "log_parts \<Rightarrow> ((string \<times> string) \<times> log_handler) list" where
  "api_handlers lp =
     [((''/api/delivery'', ''POST''), delivery_route lp), ((''/api/delivery'', ''GET''), search_route lp Deliveries),
      ((''/api/connection'', ''POST''), connection_route lp), ((''/api/connection'', ''GET''), search_route lp Connections),
      ((''/api/queue'', ''POST''), queue_route lp),
      ((''/api/transaction'', ''GET''), search_route lp Transactions),
      ((''/api/hashlookup'', ''GET''), search_route lp Lookups),
      ((''/filter/md5'', ''POST''), filter_md5_route lp)]"

definition serve_logs :: "string option \<Rightarrow> log_parts \<Rightarrow> log_request \<Rightarrow> log_db \<Rightarrow> log_response \<times> log_db" where
  "serve_logs service_key lp r db =
     (if (lq_path r, lq_method r) = (''/'', ''GET'') then with_error_handling root_route r db
      else (case map_of (api_handlers lp) (lq_path r, lq_method r) of
          None \<Rightarrow> (LogText 404 (''Resource does not exist'' @ [CHR 0x0A]), db)
        | Some h \<Rightarrow> handle service_key h r db))"

section \<open>Migrations\<close>

text \<open>Waiting for the database: attempt \<open>n\<close> fails with \<open>probe n\<close> or succeeds.\<close>

function wait_for_db :: "(nat \<Rightarrow> js_error option) \<Rightarrow> string \<Rightarrow> nat \<Rightarrow> unit res \<times> nat" where
  "wait_for_db probe target attempt =
     (if attempt > 10 then (Inr (), 0)
      else (case probe attempt of
          None \<Rightarrow> (Inr (), 0)
        | Some reason \<Rightarrow>
            if attempt = 10
            then (Inl (''could not connect to the database at '' @ target @ '' after 10 attempts '' @ em_dash
                    @ '' is MariaDB running and reachable? (last error: '' @ reason @ '')''), 0)
            else (case wait_for_db probe target (attempt + 1) of (o', slept) \<Rightarrow> (o', slept + 2000))))"
  by pat_completeness auto
termination
  by (relation "measure (\<lambda>(probe, target, attempt). 11 - attempt)") auto

declare wait_for_db.simps [simp del]

text \<open>The schema is a state of its own: a script that fails may have changed it. \<open>apply_sql\<close> runs a script, \<open>stamp\<close> is the
  error of recording a name, \<open>prepare\<close> that of creating or reading the table of names, if they have one; \<open>dir\<close> lists the directory. The result carries the names whose scripts ran.\<close>

record 's migrator =
  mg_schema :: 's
  mg_applied :: "string list"

fun migrate_loop ::
  "(string \<Rightarrow> string res) \<Rightarrow> (string \<Rightarrow> 's \<Rightarrow> js_error option \<times> 's) \<Rightarrow> (string \<Rightarrow> js_error option) \<Rightarrow> string list
   \<Rightarrow> string list \<Rightarrow> nat \<Rightarrow> 's migrator \<Rightarrow> nat res \<times> 's migrator \<times> string list"
where
  "migrate_loop read apply_sql stamp done_before [] n m = (Inr n, m, [])"
| "migrate_loop read apply_sql stamp done_before (f # files) n m =
     (if f \<in> set done_before then migrate_loop read apply_sql stamp done_before files n m
      else (case read f of
          Inl e \<Rightarrow> (Inl e, m, [])
        | Inr sql \<Rightarrow>
            (case apply_sql sql (mg_schema m) of
               (Some reason, s') \<Rightarrow> (Inl (''migration '' @ f @ '' failed: '' @ reason), m\<lparr>mg_schema := s'\<rparr>, [f])
             | (None, s') \<Rightarrow>
                 (case stamp f of
                    Some reason \<Rightarrow> (Inl (''migration '' @ f @ '' failed: '' @ reason), m\<lparr>mg_schema := s'\<rparr>, [f])
                  | None \<Rightarrow>
                      (case migrate_loop read apply_sql stamp done_before files (n + 1)
                              (m\<lparr>mg_schema := s', mg_applied := mg_applied m @ [f]\<rparr>) of
                         (r, m', rest) \<Rightarrow> (r, m', f # rest))))))"

definition migration_files :: "string list \<Rightarrow> string list" where
  "migration_files dir = sort_key js_key (filter (\<lambda>f. suffix ''.sql'' f) dir)"

definition run_migrations ::
  "(nat \<Rightarrow> js_error option) \<Rightarrow> string \<Rightarrow> js_error option \<Rightarrow> string list \<Rightarrow> (string \<Rightarrow> string res) \<Rightarrow> (string \<Rightarrow> 's \<Rightarrow> js_error option \<times> 's)
   \<Rightarrow> (string \<Rightarrow> js_error option) \<Rightarrow> 's migrator \<Rightarrow> nat res \<times> 's migrator \<times> string list"
where
  "run_migrations probe target prepare dir read apply_sql stamp m =
     (case wait_for_db probe target 1 of
        (Inl e, _) \<Rightarrow> (Inl e, m, [])
      | (Inr _, _) \<Rightarrow>
          (case prepare of
             Some e \<Rightarrow> (Inl e, m, [])
           | None \<Rightarrow> migrate_loop read apply_sql stamp (mg_applied m) (migration_files dir) 0 m))"

end
