(* ===== verification/LogServiceProps.thy ===== *)
theory LogServiceProps
  imports LogService SearchProps
begin

text \<open>
  What the log service guarantees: the addresses and hosts its patterns admit, the rows a delivery event becomes, the
  verdict on attachments, the key in front of every endpoint, and migrations that run once, in order, and resume.
\<close>

section \<open>Patterns\<close>

definition octet :: "string \<Rightarrow> bool" where
  "octet p \<longleftrightarrow> p \<noteq> [] \<and> length p \<le> 3 \<and> list_all is_digit p \<and> digits_val p \<le> 255"

lemma lang_lit_Seq: "w \<in> lang (Seq (lit c) r) \<longleftrightarrow> (case w of [] \<Rightarrow> False | d # v \<Rightarrow> d = c \<and> v \<in> lang r)"
  unfolding lit_def lang_class_Seq by (simp split: list.split)

lemma lang_opt_Seq: "w \<in> lang (Seq (opt q) r) \<longleftrightarrow> w \<in> lang (Seq q r) \<or> w \<in> lang r"
  by auto

lemma digits_val_simps [simp]:
  "digits_val [] = 0" "digits_val [a] = digit_val a" "digits_val [a, b] = 10 * digit_val a + digit_val b"
  "digits_val [a, b, c] = 100 * digit_val a + 10 * digit_val b + digit_val c"
  by (simp_all add: digits_val_def)

lemma lang_class [simp]: "w \<in> lang (Class p) \<longleftrightarrow> (case w of [c] \<Rightarrow> p c | _ \<Rightarrow> False)"
  by (auto split: list.splits)

lemma octet_lang: "p \<in> lang octet_rx \<longleftrightarrow> octet p"
proof -
  have eq: "c = CHR ''2'' \<longleftrightarrow> byte c = 50" "c = CHR ''5'' \<longleftrightarrow> byte c = 53" for c
    using byte_inject [of c "CHR ''2''"] byte_inject [of c "CHR ''5''"] by simp_all
  have "p \<in> lang octet_rx \<longleftrightarrow> (case p of [a] \<Rightarrow> is_digit a | [a, b] \<Rightarrow> is_digit a \<and> is_digit b
     | [a, b, c] \<Rightarrow> (byte a = 50 \<and> byte b = 53 \<and> 48 \<le> byte c \<and> byte c \<le> 53) \<or> (byte a = 50 \<and> 48 \<le> byte b \<and> byte b \<le> 52 \<and> is_digit c)
         \<or> (48 \<le> byte a \<and> byte a \<le> 49 \<and> is_digit b \<and> is_digit c) | _ \<Rightarrow> False)"
    unfolding octet_rx_def between_chars_def lang.simps(4) Un_iff lang_lit_Seq lang_class_Seq lang_opt_Seq
    by (auto simp: eq is_digit_def split: list.splits)
  also have "\<dots> \<longleftrightarrow> octet p"
    by (auto simp: octet_def is_digit_def digit_val_def split: list.split)
  finally show ?thesis .
qed

lemma octet_no_dot: "octet p \<Longrightarrow> CHR ''.'' \<notin> set p"
  by (auto simp: octet_def list_all_iff is_digit_def)

lemma lang_Seq_iff: "w \<in> lang (Seq q r) \<longleftrightarrow> (\<exists>u \<in> lang q. \<exists>v \<in> lang r. w = u @ v)"
  by auto

lemma lang_SeqI: "u \<in> lang q \<Longrightarrow> v \<in> lang r \<Longrightarrow> u @ v \<in> lang (Seq q r)"
  by auto

lemma lang_SeqE:
  assumes "w \<in> lang (Seq q r)"
  obtains u v where "u \<in> lang q" "v \<in> lang r" "w = u @ v"
  using assms by auto

lemma lang_Seq_assoc: "w \<in> lang (Seq (Seq p q) r) \<longleftrightarrow> w \<in> lang (Seq p (Seq q r))"
proof
  assume "w \<in> lang (Seq (Seq p q) r)"
  then show "w \<in> lang (Seq p (Seq q r))" by (elim lang_SeqE) (simp only: append.assoc lang_SeqI)
next
  assume "w \<in> lang (Seq p (Seq q r))"
  then show "w \<in> lang (Seq (Seq p q) r)" by (elim lang_SeqE) (simp only: append.assoc [symmetric] lang_SeqI)
qed

lemma lang_Seq_Empty: "w \<in> lang (Seq Empty r) \<longleftrightarrow> w \<in> lang r"
  unfolding lang_Seq_iff by simp

lemma lang_dotted: "w \<in> lang (Seq octet_rx (Seq (lit (CHR ''.'')) r)) \<longleftrightarrow> (\<exists>a. octet a \<and> (\<exists>v \<in> lang r. w = a @ CHR ''.'' # v))"
proof -
  have "v \<in> lang (Seq (lit (CHR ''.'')) r) \<longleftrightarrow> (\<exists>x \<in> lang r. v = CHR ''.'' # x)" for v
    unfolding lang_lit_Seq by (auto split: list.splits)
  then show ?thesis unfolding lang_Seq_iff [of w] Bex_def octet_lang by blast
qed

lemma ipv4_test:
  "rx_test ipv4_rx s \<longleftrightarrow> length (js_split (CHR ''.'') s) = 4 \<and> list_all octet (js_split (CHR ''.'') s)"
proof -
  have "rx_test ipv4_rx s \<longleftrightarrow> (\<exists>a b c d. octet a \<and> octet b \<and> octet c \<and> octet d \<and> s = a @ CHR ''.'' # b @ CHR ''.'' # c @ CHR ''.'' # d)"
  proof -
    have three: "times 3 r = Seq r (Seq r (Seq r Empty))" for r by (simp add: eval_nat_numeral)
    show ?thesis
      unfolding rx_test_iff ipv4_rx_def three Bex_def lang_Seq_assoc lang_Seq_Empty lang_dotted octet_lang by metis
  qed
  also have "\<dots> \<longleftrightarrow> (\<exists>a b c d. octet a \<and> octet b \<and> octet c \<and> octet d \<and> js_split (CHR ''.'') s = [a, b, c, d])"
  proof (intro iff_exI conj_cong refl)
    fix a b c d assume o': "octet a" "octet b" "octet c" "octet d"
    show "s = a @ CHR ''.'' # b @ CHR ''.'' # c @ CHR ''.'' # d \<longleftrightarrow> js_split (CHR ''.'') s = [a, b, c, d]"
      using o' js_join_split [of "CHR ''.''" s] by (auto simp: js_split_piece js_split_plain octet_no_dot)
  qed
  also have "\<dots> \<longleftrightarrow> length (js_split (CHR ''.'') s) = 4 \<and> list_all octet (js_split (CHR ''.'') s)"
    by (auto simp: eval_nat_numeral length_Suc_conv)
  finally show ?thesis .
qed

definition host_char :: "char \<Rightarrow> bool" where
  "host_char c \<longleftrightarrow> is_alnum c \<or> c \<in> set ''.:-[]''"

definition ip_char :: "char \<Rightarrow> bool" where
  "ip_char c \<longleftrightarrow> is_hex c \<or> c = CHR '':'' \<or> c = CHR ''.''"

lemma hex_alnum: "is_hex c \<Longrightarrow> is_alnum c"
  by (auto simp: is_hex_def is_alnum_def)

lemma host_chars: "rx_test host_rx s \<Longrightarrow> list_all host_char s"
  unfolding rx_test_iff
  by (rule chars_ok_lang [of _ host_rx])
    (auto simp: host_rx_def label_rx_def opt_def some1_def lit_def host_char_def dest: hex_alnum)

lemma ipv6_chars: "rx_test ipv6_rx s \<Longrightarrow> list_all ip_char s"
  unfolding rx_test_iff
  by (rule chars_ok_lang [of _ ipv6_rx])
    (auto simp: ipv6_rx_def opt_def some1_def lit_def ip_char_def is_hex_def eval_nat_numeral)

lemma port_digits: "rx_test (some1 digit) s \<longleftrightarrow> s \<noteq> [] \<and> list_all is_digit s"
  unfolding rx_test_iff by (rule lang_some_class)

section \<open>Delivery events\<close>

definition host_ok :: "string \<Rightarrow> bool" where
  "host_ok h \<longleftrightarrow> h \<noteq> [] \<and> js_length h \<le> 255 \<and> list_all host_char h"

definition address_ok :: "string \<Rightarrow> bool" where
  "address_ok a \<longleftrightarrow> a = [] \<or> (CHR '':'' \<in> set a \<and> list_all ip_char a)
     \<or> (length (js_split (CHR ''.'') a) = 4 \<and> list_all octet (js_split (CHR ''.'') a))"

definition delivery_ok :: "library \<Rightarrow> delivery \<Rightarrow> bool" where
  "delivery_ok cr d \<longleftrightarrow> (d_sender d = [] \<or> email_pattern cr (d_sender d)) \<and> email_pattern cr (d_rcpt_list d)
     \<and> email_pattern cr (d_rcpt_accepted d) \<and> host_ok (d_host d) \<and> host_ok (d_rcpt_domain d) \<and> address_ok (d_ip d)
     \<and> d_port d \<noteq> [] \<and> list_all is_digit (d_port d) \<and> d_dt d \<noteq> NaN \<and> d_delay d \<noteq> NaN
     \<and> js_length (nullish (d_gateway d) []) \<le> 64 \<and> js_length (nullish (d_route_rule d) []) \<le> 255"

lemma host_schema_ok: "host_schema v = Inr h \<Longrightarrow> host_ok h"
  by (auto simp: host_schema_def z_string_Inr host_ok_def at_least_def at_most_def js_length_def dest: host_chars)

lemma ip_schema_ok: "ip_schema v = Inr a \<Longrightarrow> address_ok a"
  by (auto simp: ip_schema_def z_string_Inr address_ok_def ip_text_def ipv4_test dest: ipv6_chars)

lemma sender_schema_ok: "sender_schema cr v = Inr s \<Longrightarrow> s = [] \<or> email_pattern cr s"
  by (auto simp: sender_schema_def z_union_def email_schema_def z_string_Inr invalid_type_def split: jsval.splits sum.splits if_split_asm)

lemma z_num_ok: "z_num v = Inr x \<Longrightarrow> x \<noteq> NaN"
  by (auto simp: z_num_def invalid_type_def split: jsval.splits if_split_asm)

lemma schema_delivery_parts:
  assumes "schema_delivery cr v = Inr d"
  shows "\<exists>ps. v = Obj ps" "z_num (get_prop v ''dt'') = Inr (d_dt d)" "sender_schema cr (get_prop v ''sender'') = Inr (d_sender d)"
    "host_schema (get_prop v ''rcpt_domain'') = Inr (d_rcpt_domain d)" "email_schema cr (get_prop v ''rcpt_list'') = Inr (d_rcpt_list d)"
    "email_schema cr (get_prop v ''rcpt_accepted'') = Inr (d_rcpt_accepted d)" "host_schema (get_prop v ''host'') = Inr (d_host d)"
    "ip_schema (get_prop v ''ip'') = Inr (d_ip d)" "port_schema (get_prop v ''port'') = Inr (d_port d)"
    "z_num (get_prop v ''delay'') = Inr (d_delay d)"
    "z_optional (z_string (\<lambda>s. [at_most 64 s])) (get_prop v ''gateway'') = Inr (d_gateway d)"
    "z_optional (z_string (\<lambda>s. [at_most 255 s])) (get_prop v ''route_rule'') = Inr (d_route_rule d)"
  using assms by (auto simp: schema_delivery_def z_object_Inr field_def map_sum_Inr_iff)

lemma schema_delivery_ok:
  assumes "schema_delivery cr v = Inr d"
  shows "delivery_ok cr d"
proof -
  note p = schema_delivery_parts [OF assms]
  have "email_pattern cr (d_rcpt_list d)" "email_pattern cr (d_rcpt_accepted d)"
    using p(5,6) by (simp_all add: email_schema_def z_string_Inr)
  moreover have "d_port d \<noteq> []" "list_all is_digit (d_port d)"
    using p(9) by (simp_all add: port_schema_def z_string_Inr pattern_def port_digits)
  moreover have "js_length (nullish (d_gateway d) []) \<le> 64" "js_length (nullish (d_route_rule d) []) \<le> 255"
    using p(11,12) by (auto simp: z_optional_Inr z_string_Inr at_most_def js_length_def)
  ultimately show ?thesis
    using sender_schema_ok [OF p(3)] host_schema_ok [OF p(4)] host_schema_ok [OF p(7)] ip_schema_ok [OF p(8)]
      z_num_ok [OF p(2)] z_num_ok [OF p(10)] by (simp add: delivery_ok_def)
qed


text \<open>A sample service: nothing is refused, values compare as they are, searches find nothing.\<close>

definition sample_parts :: log_parts where
  "sample_parts = \<lparr>lp_library = sample_library, lp_refuse = (\<lambda>_ _. None), lp_matches = (\<lambda>v m. v = Str m), lp_ask = (\<lambda>_ _ _. Inr [])\<rparr>"

definition empty_log :: log_db where
  "empty_log = \<lparr>delivery_rows = [], connection_rows = [], transaction_rows = [], hash_lookups = [], block_md5s = [Some ''bad'', None]\<rparr>"

definition post_to :: "string \<Rightarrow> string \<Rightarrow> log_request" where
  "post_to p b = \<lparr>lq_method = ''POST'', lq_path = p, lq_key = Some ''k1'', lq_query = None, lq_body = b\<rparr>"

definition sample_event :: jsval where
  "sample_event = Obj [(''uuid'', Str ''u''), (''dt'', num_of 17), (''sender'', Str []), (''rcpt_domain'', Str ''b''),
     (''rcpt_list'', Str ''x@b''), (''rcpt_accepted'', Str ''x@b''), (''tls_forced'', Bool False), (''tls'', Bool True),
     (''auth'', Bool False), (''host'', Str ''mx-1.b''), (''ip'', Str ''10.0.0.255''), (''port'', Str ''25''), (''response'', Str ''250 ok''),
     (''delay'', num_of 2), (''role'', Str ''admin'')]"

definition sample_body :: string where
  "sample_body = the (json_stringify sample_event)"

lemma sample_body_parsed: "json_parse sample_body = Some sample_event"
proof -
  have ok: "json_ok sample_event"
    using is_integer_of_int [of 17] is_integer_of_int [of 2] by (simp add: sample_event_def num_of_def)
  show ?thesis
    using json_parse_stringify [OF ok] json_ok_text [OF ok] by (auto simp: sample_body_def)
qed

lemma sample_texts:
  "rx_test host_rx ''b''" "rx_test host_rx ''mx-1.b''" "rx_test ipv4_rx ''10.0.0.255''" "rx_test (some1 digit) ''25''"
  "email_pattern sample_library ''x@b''"
  by code_simp+

lemma sample_event_accepted: "\<exists>d. schema_delivery sample_library sample_event = Inr d"
  by (simp add: schema_delivery_def z_object_Inr field_def map_sum_Inr_iff sample_event_def get_prop_def
      any_string_def z_string_def checked_def z_num_def num_of_def host_schema_def at_least_def at_most_def js_length_def byte_units_def
      sample_texts ip_schema_def ip_text_def port_schema_def pattern_def email_schema_def sender_schema_def z_union_def z_bool_def
      z_optional_def) blast


section \<open>Attachments\<close>

text \<open>An attachment is listed when its md5 is a string of the blocklist, letter for letter.\<close>

definition listed :: "log_db \<Rightarrow> jsval \<Rightarrow> bool" where
  "listed db a = (case get_prop a ''md5'' of Str m \<Rightarrow> Some m \<in> set (block_md5s db) | _ \<Rightarrow> False)"

lemma map_res_read: "list_all (\<lambda>a. a \<noteq> Undef \<and> a \<noteq> Null) as \<Longrightarrow> map_res (\<lambda>a. read_prop a k) as = Inr (map (\<lambda>a. get_prop a k) as)"
  by (rule map_res_total) (auto simp: read_prop_def list_all_iff)

lemma insert_lookups_all:
  assumes "\<And>row. refuse ''HashLookups'' row = None"
  shows "insert_lookups refuse rs db = (Inr (), db\<lparr>hash_lookups := hash_lookups db @ rs\<rparr>)"
  by (induction rs arbitrary: db) (simp_all add: insert_hash_lookup_def assms)

lemma set_some_strings: "m \<in> set (List.map_filter id xs) \<longleftrightarrow> Some m \<in> set xs"
  by (induction xs) (auto simp: List.map_filter_simps split: option.split)

lemma decide_listed:
  assumes "a \<in> set attachments" "\<And>m. matches (Str m) m" "Some [] \<notin> set (block_md5s db)"
  shows "decide (find_blocked_md5s matches (filter (\<lambda>m. m \<noteq> Undef \<and> m \<noteq> Null \<and> m \<noteq> Str []) (map (\<lambda>a. get_prop a ''md5'') attachments)) db) a
    = (if listed db a then ''block'' else ''allow'')"
proof (cases "\<exists>m. get_prop a ''md5'' = Str m")
  case True
  then obtain m where m: "get_prop a ''md5'' = Str m" by blast
  let ?asked = "filter (\<lambda>m. m \<noteq> Undef \<and> m \<noteq> Null \<and> m \<noteq> Str []) (map (\<lambda>a. get_prop a ''md5'') attachments)"
  have "m \<in> set (find_blocked_md5s matches ?asked db) \<longleftrightarrow> Some m \<in> set (block_md5s db)"
  proof
    show "m \<in> set (find_blocked_md5s matches ?asked db) \<Longrightarrow> Some m \<in> set (block_md5s db)"
      by (simp add: find_blocked_md5s_def set_some_strings split: if_split_asm)
    assume s: "Some m \<in> set (block_md5s db)"
    with assms(3) have "m \<noteq> []" by auto
    then have "Str m \<in> set ?asked" using assms(1) m by force
    then have "?asked \<noteq> []" "list_ex (\<lambda>v. matches v m) ?asked"
      unfolding list_ex_iff using assms(2) by (metis empty_iff list.set(1), blast)
    then show "m \<in> set (find_blocked_md5s matches ?asked db)"
      using s by (simp only: find_blocked_md5s_def set_some_strings if_False set_filter mem_Collect_eq)
  qed
  with m show ?thesis by (simp add: decide_def listed_def)
next
  case False
  then show ?thesis by (cases "get_prop a ''md5''") (simp_all add: decide_def listed_def)
qed

lemma hash_lookup_verdict:
  assumes "list_all (\<lambda>a. a \<noteq> Undef \<and> a \<noteq> Null) attachments" "\<And>m. matches (Str m) m" "Some [] \<notin> set (block_md5s db)"
    "\<And>row. refuse ''HashLookups'' row = None"
  shows "hash_list_lookup matches refuse attachments db
    = (Inr (if list_ex (listed db) attachments then ''block'' else ''allow''),
       db\<lparr>hash_lookups := hash_lookups db @ map (\<lambda>a. lookup_row (a, if listed db a then ''block'' else ''allow'')) attachments\<rparr>)"
proof -
  let ?b = "find_blocked_md5s matches (filter (\<lambda>m. m \<noteq> Undef \<and> m \<noteq> Null \<and> m \<noteq> Str []) (map (\<lambda>a. get_prop a ''md5'') attachments)) db"
  have "map (\<lambda>a. (a, decide ?b a)) attachments = map (\<lambda>a. (a, if listed db a then ''block'' else ''allow'')) attachments"
    using decide_listed [of _ attachments matches db] assms(2,3) by simp
  then have "decide_actions attachments ?b = (if list_ex (listed db) attachments then ''block'' else ''allow'',
      map (\<lambda>a. (a, if listed db a then ''block'' else ''allow'')) attachments)"
    by (simp add: decide_actions_def Let_def list_ex_iff image_iff)
  then show ?thesis
    using insert_lookups_all [of refuse] assms(4)
    by (simp add: hash_list_lookup_def map_res_read [OF assms(1)] Let_def comp_def)
qed

text \<open>The attachment filter answers the blocklist. For a list of attachments, with a comparison that finds a value it is
  given and inserts that succeed, the verdict is \<open>block\<close> exactly when the md5 of some attachment is on the blocklist letter for letter
  (whatever else the database's collation calls equal), and one lookup per attachment is recorded, in order, with that
  attachment's own verdict.\<close>

theorem filter_blocks_listed:
  assumes "json_parse (lq_body r) = Some (Arr attachments)" "list_all (\<lambda>a. a \<noteq> Undef \<and> a \<noteq> Null) attachments"
    "\<And>m. lp_matches lp (Str m) m" "Some [] \<notin> set (block_md5s db)" "\<And>row. lp_refuse lp ''HashLookups'' row = None"
  shows "filter_md5_route lp r db
    = (Inr (LogJson 200 (Obj [(''action'', Str (if list_ex (listed db) attachments then ''block'' else ''allow''))])),
       db\<lparr>hash_lookups := hash_lookups db @ map (\<lambda>a. lookup_row (a, if listed db a then ''block'' else ''allow'')) attachments\<rparr>)"
  using hash_lookup_verdict [of attachments "lp_matches lp" db "lp_refuse lp"] assms
  by (simp add: filter_md5_route_def read_json_def)

lemma filter_blocks_listed_witness:
  "fst (filter_md5_route sample_parts (post_to ''/filter/md5'' ''[{\"md5\":\"ok\"},{\"md5\":\"bad\"}]'') empty_log)
    = Inr (LogJson 200 (Obj [(''action'', Str ''block'')]))"
proof -
  let ?r = "post_to ''/filter/md5'' ''[{\"md5\":\"ok\"},{\"md5\":\"bad\"}]''"
  let ?as = "[Obj [(''md5'', Str ''ok'')], Obj [(''md5'', Str ''bad'')]]"
  have "json_parse (lq_body ?r) = Some (Arr ?as)" by code_simp
  moreover have "list_ex (listed empty_log) ?as" by code_simp
  ultimately show ?thesis
    using filter_blocks_listed [of ?r ?as sample_parts empty_log] by (simp add: sample_parts_def empty_log_def)
qed

section \<open>The key\<close>

text \<open>With a key configured, nothing is done for a request without it. Every endpoint of the table answers 401, anything
  else 404, the health check alone its fixed answer; the tables stay as they are, and the answer does not depend on them
  or on anything the database would say.\<close>

theorem log_requests_need_key:
  assumes "truthy_str k" "lq_key r \<noteq> k"
  shows "serve_logs k lp r db = (if (lq_path r, lq_method r) = (''/'', ''GET'') then status_json 200 ''OK''
      else if (lq_path r, lq_method r) \<in> fst ` set (api_handlers lp) then status_json 401 ''Unauthorized''
      else LogText 404 (''Resource does not exist'' @ [CHR 0x0A]), db)"
proof (cases "(lq_path r, lq_method r) = (''/'', ''GET'')")
  case True
  then show ?thesis by (simp add: serve_logs_def with_error_handling_def root_route_def)
next
  case False
  show ?thesis
  proof (cases "map_of (api_handlers lp) (lq_path r, lq_method r)")
    case None
    then have "(lq_path r, lq_method r) \<notin> fst ` set (api_handlers lp)" by (simp add: map_of_eq_None_iff)
    with None False show ?thesis by (auto simp: serve_logs_def)
  next
    case (Some h)
    then have "(lq_path r, lq_method r) \<in> fst ` set (api_handlers lp)" by (metis map_of_eq_None_iff option.distinct(1))
    with Some False assms show ?thesis by (auto simp: serve_logs_def handle_def with_auth_def)
  qed
qed

lemma log_requests_need_key_witness:
  "fst (serve_logs (Some ''k2'') sample_parts (post_to ''/api/delivery'' sample_body) empty_log) = status_json 401 ''Unauthorized''"
  using log_requests_need_key [of "Some ''k2''" "post_to ''/api/delivery'' sample_body" sample_parts empty_log]
  by (simp add: post_to_def api_handlers_def)

section \<open>Migrations\<close>

lemma wait_for_db_bound: "attempt \<le> 10 \<Longrightarrow> wait_for_db probe target attempt = (r, slept) \<Longrightarrow>
    slept \<le> 2000 * (10 - attempt)
    \<and> (r = Inr () \<longleftrightarrow> (\<exists>n \<ge> attempt. n \<le> 10 \<and> probe n = None))"
proof (induction probe target attempt arbitrary: r slept rule: wait_for_db.induct)
  case (1 probe target attempt)
  show ?case
  proof (cases "probe attempt")
    case None
    with 1(2,3) show ?thesis by (subst (asm) wait_for_db.simps) auto
  next
    case (Some reason)
    show ?thesis
    proof (cases "attempt = 10")
      case True
      with Some 1(3) have "r = Inl (''could not connect to the database at '' @ target @ '' after 10 attempts '' @ em_dash
                    @ '' is MariaDB running and reachable? (last error: '' @ reason @ '')'')" "slept = 0"
        by (subst (asm) wait_for_db.simps; simp)+
      with True Some show ?thesis by (auto dest: le_antisym)
    next
      case False
      obtain s' where rest: "wait_for_db probe target (attempt + 1) = (r, s')" "slept = s' + 2000"
        using 1(2,3) Some False by (subst (asm) wait_for_db.simps) (auto split: prod.splits)
      from False 1(1) [OF _ Some _ _ rest(1)] 1(2)
      have ih: "s' \<le> 2000 * (10 - (attempt + 1))" "r = Inr () \<longleftrightarrow> (\<exists>n \<ge> attempt + 1. n \<le> 10 \<and> probe n = None)"
        by auto
      have "(\<exists>n \<ge> attempt + 1. n \<le> 10 \<and> probe n = None) \<longleftrightarrow> (\<exists>n \<ge> attempt. n \<le> 10 \<and> probe n = None)"
        using Some by (metis Suc_eq_plus1 Suc_leD Suc_leI le_neq_implies_less option.distinct(1))
      with ih rest(2) False 1(2) show ?thesis by auto
    qed
  qed
qed

definition pending_files :: "string list \<Rightarrow> 's migrator \<Rightarrow> string list" where
  "pending_files dir m = filter (\<lambda>f. f \<notin> set (mg_applied m)) (migration_files dir)"

lemma migrate_loop_runs:
  assumes "migrate_loop read apply_sql stamp before files n m = (r, m', executed)"
  shows "prefix executed (filter (\<lambda>f. f \<notin> set before) files)
    \<and> (\<exists>finished. mg_applied m' = mg_applied m @ finished \<and> (executed = finished \<or> (\<exists>f. executed = finished @ [f] \<and> (\<exists>e. r = Inl e)))
        \<and> prefix finished executed)
    \<and> (\<forall>k. r = Inr k \<longrightarrow> executed = filter (\<lambda>f. f \<notin> set before) files \<and> mg_applied m' = mg_applied m @ executed \<and> k = n + length executed)"
  using assms
proof (induction files arbitrary: n m r m' executed)
  case (Cons f files)
  consider (skip) "f \<in> set before" "migrate_loop read apply_sql stamp before files n m = (r, m', executed)"
    | (unread) "f \<notin> set before" "mg_applied m' = mg_applied m" "executed = []" "\<exists>e. r = Inl e"
    | (failed) "f \<notin> set before" "mg_applied m' = mg_applied m" "executed = [f]" "\<exists>e. r = Inl e"
    | (ok) s' rest where "f \<notin> set before" "executed = f # rest"
        "migrate_loop read apply_sql stamp before files (n + 1) (m\<lparr>mg_schema := s', mg_applied := mg_applied m @ [f]\<rparr>) = (r, m', rest)"
    using Cons.prems by (auto split: if_split_asm sum.splits option.splits prod.splits)
  then show ?case
  proof cases
    case skip
    with Cons.IH [OF skip(2)] show ?thesis by auto
  next
    case unread
    then show ?thesis by auto
  next
    case failed
    then show ?thesis by auto
  next
    case ok
    from Cons.IH [OF ok(3)] obtain finished where "prefix rest (filter (\<lambda>f. f \<notin> set before) files)"
      "mg_applied m' = mg_applied m @ f # finished" "rest = finished \<or> (\<exists>f. rest = finished @ [f] \<and> (\<exists>e. r = Inl e))"
      "prefix finished rest"
      "\<forall>k. r = Inr k \<longrightarrow> rest = filter (\<lambda>f. f \<notin> set before) files \<and> mg_applied m' = (mg_applied m @ [f]) @ rest \<and> k = (n + 1) + length rest"
      by auto
    with ok(1,2) show ?thesis by (auto intro!: exI [of _ "f # finished"])
  qed
qed auto

lemma run_migrations_executes:
  assumes "run_migrations probe target prepare dir read apply_sql stamp m = (r, m', executed)"
  shows "\<exists>finished. prefix executed (pending_files dir m) \<and> mg_applied m' = mg_applied m @ finished \<and> prefix finished executed
    \<and> (executed = finished \<or> (\<exists>f. executed = finished @ [f] \<and> (\<exists>e. r = Inl e)))
    \<and> (\<forall>k. r = Inr k \<longrightarrow> executed = pending_files dir m \<and> finished = executed \<and> k = length executed)"
proof (cases "migrate_loop read apply_sql stamp (mg_applied m) (migration_files dir) 0 m = (r, m', executed)")
  case True
  from migrate_loop_runs [OF this] show ?thesis unfolding pending_files_def by fastforce
next
  case False
  then have "executed = [] \<and> m' = m \<and> (\<exists>e. r = Inl e)"
    using assms by (auto simp: run_migrations_def split: prod.splits sum.splits option.splits)
  then show ?thesis by auto
qed

lemma filter_remaining: "distinct xs \<Longrightarrow> xs = us @ vs \<Longrightarrow> filter (\<lambda>f. f \<notin> set us) xs = vs"
  by (auto intro: filter_True simp: filter_empty_conv)

text \<open>C31. Migrations run once each, in order, and an interrupted run is resumed. Whatever a first run did, with a directory of distinct
  names: the scripts it recorded are an initial part of the pending ones in the order of their names, it executed those and at most the
  one that failed, and a later run that succeeds (whatever has become of the database, the scripts and the failures in between) executes exactly
  the rest, beginning with the failed one; then every script of the directory is recorded and nothing is pending.\<close>

theorem migrations_resume:
  assumes "distinct dir"
    and "run_migrations probe target prepare dir read apply_sql stamp m = (r, m1, executed)"
    and "run_migrations probe' target prepare' dir read' apply_sql' stamp' m1 = (Inr k, m2, executed')"
  shows "\<exists>finished. mg_applied m1 = mg_applied m @ finished \<and> finished @ executed' = pending_files dir m \<and> k = length executed'
    \<and> (executed = finished \<or> (\<exists>f. executed = finished @ [f] \<and> executed' \<noteq> [] \<and> hd executed' = f))
    \<and> sorted (map js_key (pending_files dir m)) \<and> pending_files dir m2 = []"
proof -
  obtain finished where one: "prefix executed (pending_files dir m)" "mg_applied m1 = mg_applied m @ finished" "prefix finished executed"
      "executed = finished \<or> (\<exists>f. executed = finished @ [f])"
    using run_migrations_executes [OF assms(2)] by blast
  have two: "executed' = pending_files dir m1" "mg_applied m2 = mg_applied m1 @ executed'" "k = length executed'"
    using run_migrations_executes [OF assms(3)] by auto
  have d: "distinct (pending_files dir m)"
    using assms(1) by (simp add: pending_files_def migration_files_def)
  obtain rest where rest: "pending_files dir m = finished @ rest"
    using prefix_order.trans [OF one(3,1)] by (auto simp: prefix_def)
  have "pending_files dir m1 = filter (\<lambda>f. f \<notin> set finished) (pending_files dir m)"
    by (simp add: pending_files_def one(2) conj_commute)
  with filter_remaining [OF d rest] have e: "executed' = rest" by (simp add: two(1))
  have "executed = finished \<or> (\<exists>f. executed = finished @ [f] \<and> executed' \<noteq> [] \<and> hd executed' = f)"
    using one(1,4) rest e by (auto simp: prefix_def)
  moreover have "sorted (map js_key (pending_files dir m))"
    by (simp add: pending_files_def migration_files_def sorted_filter)
  moreover have "pending_files dir m2 = []"
  proof -
    have "f \<in> set (mg_applied m2)" if "f \<in> set (migration_files dir)" for f
      using that by (cases "f \<in> set (mg_applied m1)") (simp_all add: two(2) two(1) pending_files_def)
    then show ?thesis by (simp add: pending_files_def filter_empty_conv)
  qed
  ultimately show ?thesis using one(2) rest e two(3) by (intro exI [of _ finished]) simp
qed

lemma migrations_resume_witness:
  "snd (snd (run_migrations (\<lambda>n. if n < 3 then Some ''refused'' else None) ''db:3306'' None [''2.sql'', ''readme'', ''1.sql'', ''3.sql''] Inr
      (\<lambda>sql s. if sql = ''2.sql'' then (Some ''syntax'', s) else (None, s + (1::nat))) (\<lambda>_. None) \<lparr>mg_schema = 0, mg_applied = []\<rparr>))
    = [''1.sql'', ''2.sql'']
   \<and> (\<exists>finished. mg_applied \<lparr>mg_schema = 1::nat, mg_applied = [''1.sql'']\<rparr> = finished \<and> finished @ [''2.sql'', ''3.sql''] = [''1.sql'', ''2.sql'', ''3.sql''])"
proof -
  let ?dir = "[''2.sql'', ''readme'', ''1.sql'', ''3.sql'']" and ?m = "\<lparr>mg_schema = 0::nat, mg_applied = []\<rparr>"
  let ?bad = "\<lambda>sql s. if sql = ''2.sql'' then (Some ''syntax'', s) else (None, s + (1::nat))" and ?good = "\<lambda>sql s. (None, s + (1::nat))"
  let ?probe = "\<lambda>n. if n < 3 then Some ''refused'' else None"
  have one: "run_migrations ?probe ''db:3306'' None ?dir Inr ?bad (\<lambda>_. None) ?m
      = (Inl ''migration 2.sql failed: syntax'', \<lparr>mg_schema = 1, mg_applied = [''1.sql'']\<rparr>, [''1.sql'', ''2.sql''])"
    by code_simp
  have two: "run_migrations (\<lambda>_. None) ''db:3306'' None ?dir Inr ?good (\<lambda>_. None) \<lparr>mg_schema = 1, mg_applied = [''1.sql'']\<rparr>
      = (Inr 2, \<lparr>mg_schema = 3, mg_applied = [''1.sql'', ''2.sql'', ''3.sql'']\<rparr>, [''2.sql'', ''3.sql''])"
    by code_simp
  have pending: "pending_files ?dir ?m = [''1.sql'', ''2.sql'', ''3.sql'']" by code_simp
  have dir: "distinct ?dir" by simp
  from migrations_resume [OF dir one two, unfolded pending] show ?thesis unfolding one by simp
qed

end
