(* ===== verification/MailProps.thy ===== *)
theory MailProps
  imports MailPlugins LogServiceProps
begin

text \<open>
  What the plugins guarantee of a connection, a route and a message, and how their requests fare at the log service.
\<close>

section \<open>Relaying\<close>

definition allowlisted :: "jsval \<Rightarrow> string \<Rightarrow> bool" where
  "allowlisted cfg ip \<longleftrightarrow> (\<exists>ips. get_prop cfg ''allowed'' = Arr ips \<and> Str ip \<in> set ips)"

lemma allowlisted_truthy: "get_prop cfg k = Arr ips \<Longrightarrow> truthy cfg"
  by (cases cfg) (auto simp: get_prop_def truthy_def)

lemma filter_connect_cases:
  "filter_connect cfg c = (if allowlisted cfg (remote_ip c) then (Ok None, c\<lparr>relaying := True\<rparr>) else (DenyDisconnect, c))"
  by (cases "get_prop cfg ''allowed''") (auto simp: filter_connect_def allowlisted_def dest: allowlisted_truthy)

text \<open>The hooks of a connection, in whatever order Haraka runs them; \<open>hooks_run cfgs\<close> keeps the configuration each connect
  hook has read, which may change between two of them.\<close>

inductive hooks_run :: "jsval list \<Rightarrow> smtp_connection \<Rightarrow> smtp_connection \<Rightarrow> bool" where
  run_start: "hooks_run [] c c"
| run_filter_connect: "hooks_run cfgs c c' \<Longrightarrow> hooks_run (cfg # cfgs) c (snd (filter_connect cfg c'))"
| run_connection_connect: "hooks_run cfgs c c' \<Longrightarrow> hooks_run cfgs c (snd (connection_connect c'))"
| run_rcpt: "hooks_run cfgs c c' \<Longrightarrow> hooks_run cfgs c (snd (filter_rcpt c'))"
| run_queue: "hooks_run cfgs c c' \<Longrightarrow> hooks_run cfgs c (snd (filter_queue_outbound c'))"

text \<open>C10. Nobody relay_cfg without being on the allowlist. After any sequence of hooks a connection may relay only if it could at the start or
  its address was, letter for letter, in the list some connect hook had read; the address never changes. The connect hook
  answers OK for a listed address and disconnects every other, also when the file is missing or its list is not
  an array, and then leaves the connection as it was.\<close>

theorem relaying_needs_allowlist:
  assumes "hooks_run cfgs c c'"
  shows "remote_ip c' = remote_ip c \<and> (relaying c' \<longleftrightarrow> relaying c \<or> (\<exists>cfg \<in> set cfgs. allowlisted cfg (remote_ip c)))
    \<and> filter_connect cfg c' = (if allowlisted cfg (remote_ip c) then (Ok None, c'\<lparr>relaying := True\<rparr>) else (DenyDisconnect, c'))"
  using assms
  by (induction rule: hooks_run.induct)
    (auto simp: filter_connect_cases connection_connect_def filter_rcpt_def filter_queue_outbound_def)

lemma relaying_needs_allowlist_witness:
  "\<not> relaying (snd (filter_connect (Obj [(''allowed'', Str ''10.0.0.1'')]) \<lparr>remote_ip = ''10.0.0.1'', relaying = False\<rparr>))"
  using relaying_needs_allowlist [OF run_filter_connect [OF run_start],
      of "Obj [(''allowed'', Str ''10.0.0.1'')]" "\<lparr>remote_ip = ''10.0.0.1'', relaying = False\<rparr>"]
  by (simp add: allowlisted_def get_prop_def)

section \<open>Routing\<close>

text \<open>A rule of \<open>routing.json\<close> as it reads: a field that is absent, \<open>null\<close> or empty asks for nothing, another for equality up to case.\<close>

definition wants :: "jsval \<Rightarrow> string \<Rightarrow> string \<Rightarrow> bool" where
  "wants rule k val = (case get_prop rule k of Str s \<Rightarrow> s = [] \<or> to_lower val = to_lower s | _ \<Rightarrow> True)"

definition rule_applies :: "jsval \<Rightarrow> string \<Rightarrow> string \<Rightarrow> bool" where
  "rule_applies rule sender rcpt \<longleftrightarrow> wants rule ''sender'' sender \<and> wants rule ''sender_domain'' (get_domain sender)
     \<and> wants rule ''rcpt'' rcpt \<and> wants rule ''rcpt_domain'' (get_domain rcpt)"

text \<open>A rule written as intended: its predicates are strings, \<open>null\<close> or absent, its relay one of those configured.\<close>

definition text_or_absent :: "jsval \<Rightarrow> bool" where
  "text_or_absent v = (case v of Str _ \<Rightarrow> True | Null \<Rightarrow> True | Undef \<Rightarrow> True | _ \<Rightarrow> False)"

definition rule_ok :: "(string \<times> jsval) list \<Rightarrow> jsval \<Rightarrow> bool" where
  "rule_ok relay_cfg rule \<longleftrightarrow> list_all (\<lambda>k. text_or_absent (get_prop rule k)) [''sender'', ''sender_domain'', ''rcpt'', ''rcpt_domain'']
     \<and> (case get_prop rule ''relay'' of Str n \<Rightarrow> n \<in> fst ` set relay_cfg | _ \<Rightarrow> False)"

definition relay_for :: "(string \<times> jsval) list \<Rightarrow> jsval \<Rightarrow> jsval option" where
  "relay_for relay_cfg rule = (case get_prop rule ''relay'' of Str n \<Rightarrow> map_of relay_cfg n | _ \<Rightarrow> None)"

lemma get_checker_text:
  assumes "text_or_absent (get_prop rule k)"
  shows "\<exists>c. get_checker (get_prop rule k) = Inr c \<and> (\<forall>val. passes c val = wants rule k val)"
  using assms by (cases "get_prop rule k") (auto simp: text_or_absent_def get_checker_def passes_def wants_def)

lemma route_of_rule:
  assumes "rule_ok relay_cfg rule"
  shows "\<exists>r. route_of rule = Inr r \<and> rr_relay r = get_prop rule ''relay'' \<and> (\<forall>s t. rule_matches r s t = rule_applies rule s t)"
proof -
  have obj: "rule \<noteq> Undef" "rule \<noteq> Null" using assms by (auto simp: rule_ok_def get_prop_def)
  have t: "text_or_absent (get_prop rule ''sender'')" "text_or_absent (get_prop rule ''sender_domain'')"
    "text_or_absent (get_prop rule ''rcpt'')" "text_or_absent (get_prop rule ''rcpt_domain'')"
    using assms by (simp_all add: rule_ok_def)
  from get_checker_text [OF t(1)] get_checker_text [OF t(2)] get_checker_text [OF t(3)] get_checker_text [OF t(4)]
  show ?thesis using obj by (auto simp: route_of_def new_route_def rule_matches_def rule_applies_def)
qed

lemma find_first:
  "find P xs = Some x \<longleftrightarrow> (\<exists>i < length xs. P (xs ! i) \<and> x = xs ! i \<and> (\<forall>j < i. \<not> P (xs ! j)))"
  by (auto simp: find_Some_iff)

lemma find_routes:
  assumes "list_all2 (\<lambda>rule r. rr_relay r = get_prop rule ''relay'' \<and> (\<forall>s t. rule_matches r s t = rule_applies rule s t)) rules rs"
  shows "(case find (\<lambda>r. rule_matches r s t) rs of None \<Rightarrow> None | Some r \<Rightarrow> Some (rr_relay r))
    = (case find (\<lambda>rule. rule_applies rule s t) rules of None \<Rightarrow> None | Some rule \<Rightarrow> Some (get_prop rule ''relay''))"
  using assms by (induction rule: list_all2_induct) auto

definition chosen_relay :: "(string \<times> jsval) list \<Rightarrow> jsval list \<Rightarrow> string \<Rightarrow> string \<Rightarrow> jsval option" where
  "chosen_relay relay_cfg rules sender rcpt =
     (case find (\<lambda>rule. rule_applies rule sender rcpt) rules of None \<Rightarrow> None | Some rule \<Rightarrow> relay_for relay_cfg rule)"

lemma hook_get_mx_rules:
  assumes "list_all (rule_ok relay_cfg) rules" "register_routing (Obj relay_cfg) (Arr rules) = Inr t"
    and "get_prop todo ''rcpt_to'' = Arr (first # others)"
  shows "hook_get_mx t todo = Inr (case chosen_relay relay_cfg rules (get_addr (get_prop todo ''mail_from'')) (get_addr first) of
      Some v \<Rightarrow> if truthy v then Ok (Some (Own v)) else DenySoft ''No route found'' | None \<Rightarrow> DenySoft ''No route found'')"
proof -
  let ?s = "get_addr (get_prop todo ''mail_from'')" and ?r = "get_addr first"
  obtain rs where t: "t = \<lparr>table_relays = Obj relay_cfg, table_routes = rs\<rparr>" and rs: "map_res route_of rules = Inr rs"
    using assms(2) by (auto simp: register_routing_def map_sum_Inr_iff get_routes_def object_values_def)
  from rs have "list_all2 (\<lambda>rule r. route_of rule = Inr r) rules rs" by (simp add: map_res_Inr_iff)
  then have l: "list_all2 (\<lambda>rule r. rr_relay r = get_prop rule ''relay'' \<and> (\<forall>s t. rule_matches r s t = rule_applies rule s t)) rules rs"
  proof (rule list.rel_mono_strong)
    fix rule r assume r: "rule \<in> set rules" "route_of rule = Inr r"
    then have "rule_ok relay_cfg rule" using assms(1) unfolding list_all_iff by blast
    then obtain r' where r': "route_of rule = Inr r'"
        "rr_relay r' = get_prop rule ''relay'' \<and> (\<forall>s t. rule_matches r' s t = rule_applies rule s t)"
      using route_of_rule by blast
    have "r' = r" using r(2) r'(1) by (metis sum.inject(2))
    with r'(2) show "rr_relay r = get_prop rule ''relay'' \<and> (\<forall>s t. rule_matches r s t = rule_applies rule s t)"
      by blast
  qed
  note same = find_routes [OF l, of ?s ?r]
  show ?thesis
  proof (cases "find (\<lambda>rule. rule_applies rule ?s ?r) rules")
    case None
    with same have "find (\<lambda>r. rule_matches r ?s ?r) rs = None" by (simp split: option.splits)
    with None show ?thesis by (simp add: hook_get_mx_def assms(3) table_find_route_def t chosen_relay_def)
  next
    case (Some rule)
    with same obtain r where r: "find (\<lambda>r. rule_matches r ?s ?r) rs = Some r" "rr_relay r = get_prop rule ''relay''"
      by (auto split: option.splits)
    from Some have "rule \<in> set rules" by (auto simp: find_Some_iff)
    with assms(1) have "rule_ok relay_cfg rule" by (simp add: list_all_iff)
    then obtain n where n: "get_prop rule ''relay'' = Str n" "n \<in> fst ` set relay_cfg"
      by (cases "get_prop rule ''relay''") (simp_all add: rule_ok_def)
    then obtain v where "map_of relay_cfg n = Some v" by (metis map_of_eq_None_iff option.exhaust)
    with Some r n show ?thesis
      by (simp add: hook_get_mx_def assms(3) table_find_route_def t property_of_def chosen_relay_def relay_for_def usable_def)
  qed
qed

text \<open>C12. A message goes where the first rule that applies sends it. For a routing file whose rules name configured relays:
  the hook answers OK with a relay exactly when it is the usable relay of a rule that applies to the sender and the first recipient (each of the
  four fields empty or equal up to case) and no earlier rule applies; a later rule never overrides it, the other recipients play no
  part, and every other message is deferred.\<close>

theorem routed_by_first_match:
  assumes "list_all (rule_ok relay_cfg) rules" "register_routing (Obj relay_cfg) (Arr rules) = Inr t"
    and "get_prop todo ''rcpt_to'' = Arr (first # others)"
    and "s = get_addr (get_prop todo ''mail_from'')" "r = get_addr first"
  shows "(hook_get_mx t todo = Inr (Ok (Some p)) \<longleftrightarrow> (\<exists>i v. i < length rules \<and> rule_applies (rules ! i) s r \<and> (\<forall>j < i. \<not> rule_applies (rules ! j) s r)
      \<and> relay_for relay_cfg (rules ! i) = Some v \<and> truthy v \<and> p = Own v))
    \<and> ((\<exists>p. hook_get_mx t todo = Inr (Ok (Some p))) \<or> hook_get_mx t todo = Inr (DenySoft ''No route found''))"
proof -
  note hook = hook_get_mx_rules [OF assms(1-3), folded assms(4,5)]
  have chosen: "chosen_relay relay_cfg rules s r = Some v \<longleftrightarrow> (\<exists>i < length rules. rule_applies (rules ! i) s r
      \<and> (\<forall>j < i. \<not> rule_applies (rules ! j) s r) \<and> relay_for relay_cfg (rules ! i) = Some v)" for v
  proof -
    have "chosen_relay relay_cfg rules s r = Some v
        \<longleftrightarrow> (\<exists>rule. find (\<lambda>rule. rule_applies rule s r) rules = Some rule \<and> relay_for relay_cfg rule = Some v)"
      by (simp add: chosen_relay_def split: option.split)
    then show ?thesis unfolding find_first by auto
  qed
  have "hook_get_mx t todo = Inr (Ok (Some p)) \<longleftrightarrow> (\<exists>v. chosen_relay relay_cfg rules s r = Some v \<and> truthy v \<and> p = Own v)"
    by (auto simp: hook split: option.split)
  moreover have "(\<exists>p. hook_get_mx t todo = Inr (Ok (Some p))) \<or> hook_get_mx t todo = Inr (DenySoft ''No route found'')"
    by (auto simp: hook split: option.split)
  ultimately show ?thesis unfolding chosen by blast
qed

definition sample_relays :: "(string \<times> jsval) list" where
  "sample_relays = [(''Exchange'', Arr [Str ''mx1'']), (''Outbound'', Arr [Str ''mx2''])]"

definition sample_rules :: "jsval list" where
  "sample_rules =
     [Obj [(''sender'', Str []), (''rcpt_domain'', Str ''NGM.dev''), (''relay'', Str ''Exchange'')], Obj [(''rcpt'', Null), (''relay'', Str ''Outbound'')]]"

definition mail_to :: "string \<Rightarrow> jsval" where
  "mail_to h = Obj [(''mail_from'', Null), (''rcpt_to'', Arr [Obj [(''user'', Str ''a''), (''host'', Str h)], Obj [(''user'', Str ''b''), (''host'', Str ''x.org'')]])]"

lemma routed_by_first_match_witness:
  "\<exists>t. register_routing (Obj sample_relays) (Arr sample_rules) = Inr t
    \<and> hook_get_mx t (mail_to ''ngm.DEV'') = Inr (Ok (Some (Own (Arr [Str ''mx1'']))))"
proof -
  have ok: "list_all (rule_ok sample_relays) sample_rules" by code_simp
  obtain t where t: "register_routing (Obj sample_relays) (Arr sample_rules) = Inr t"
    by (simp add: register_routing_def get_routes_def object_values_def sample_rules_def route_of_def new_route_def get_checker_def get_prop_def)
  have to: "get_prop (mail_to ''ngm.DEV'') ''rcpt_to'' = Arr (Obj [(''user'', Str ''a''), (''host'', Str ''ngm.DEV'')]
      # [Obj [(''user'', Str ''b''), (''host'', Str ''x.org'')]])" by (simp add: mail_to_def get_prop_def)
  have "rule_applies (sample_rules ! 0) (get_addr (get_prop (mail_to ''ngm.DEV'') ''mail_from''))
      (get_addr (Obj [(''user'', Str ''a''), (''host'', Str ''ngm.DEV'')]))"
    "relay_for sample_relays (sample_rules ! 0) = Some (Arr [Str ''mx1''])" "0 < length sample_rules"
    by code_simp+
  then have "hook_get_mx t (mail_to ''ngm.DEV'') = Inr (Ok (Some (Own (Arr [Str ''mx1'']))))"
    using routed_by_first_match [OF ok t to refl refl, of "Own (Arr [Str ''mx1''])"] by (fastforce simp: truthy_def)
  with t show ?thesis by blast
qed

text \<open>A rule whose relay is not configured but named like an inherited property finds that property.\<close>

lemma inherited_relay:
  "(case register_routing (Obj []) (Arr [Obj [(''relay'', Str ''constructor'')]]) of
      Inl _ \<Rightarrow> False | Inr t \<Rightarrow> hook_get_mx t (mail_to ''x'') = Inr (Ok (Some (Inherited ''constructor''))))"
  by code_simp

section \<open>Requests to the log service\<close>

text \<open>\<open>fetch\<close> when it reaches the log service at \<open>base\<close>: the answer's body is the text of its JSON.\<close>

definition service_request :: "string \<Rightarrow> http_post \<Rightarrow> log_request" where
  "service_request p post = \<lparr>lq_method = ''POST'', lq_path = p, lq_key = map_of (hp_headers post) ''X-API-Key'', lq_query = None,
     lq_body = nullish (hp_body post) []\<rparr>"

definition answer_of :: "log_response \<Rightarrow> posted" where
  "answer_of reply = (case reply of LogJson code v \<Rightarrow> PostAnswered code (nullish (json_stringify v) []) | LogText code t \<Rightarrow> PostAnswered code t)"

definition service_fetch :: "string \<Rightarrow> string option \<Rightarrow> log_parts \<Rightarrow> log_db \<Rightarrow> http_post \<Rightarrow> posted" where
  "service_fetch base k lp db post = (case hp_url post of
     Str u \<Rightarrow> if starts_with u base then answer_of (fst (serve_logs k lp (service_request (drop (length base) u) post) db)) else PostFailed ''ENOTFOUND''
   | _ \<Rightarrow> PostFailed ''ENOTFOUND'')"

text \<open>What is left of an object in its text: the members that are defined.\<close>

definition defined :: "jsval \<Rightarrow> jsval" where
  "defined v = (case v of Obj ps \<Rightarrow> Obj (filter (\<lambda>p. snd p \<noteq> Undef) ps) | _ \<Rightarrow> v)"

definition plain_members :: "jsval \<Rightarrow> bool" where
  "plain_members v = (case v of Obj ps \<Rightarrow> distinct (map fst ps) \<and> list_all (\<lambda>p. snd p = Undef \<or> json_ok (snd p)) ps | _ \<Rightarrow> False)"

lemma member_texts_defined:
  "member_texts (map (\<lambda>(k, v). (k, json_stringify v)) ps) = member_texts (map (\<lambda>(k, v). (k, json_stringify v)) (filter (\<lambda>p. snd p \<noteq> Undef) ps))"
  by (induction ps) (auto split: option.split)

lemma stringify_defined: "json_stringify (defined v) = json_stringify v"
  by (cases v) (simp_all add: defined_def member_texts_defined [symmetric])

lemma json_ok_defined: "plain_members v \<Longrightarrow> json_ok (defined v)"
  by (cases v) (auto simp: plain_members_def defined_def list_all_iff distinct_map_filter)

lemma map_of_defined: "(case map_of (filter (\<lambda>p. snd p \<noteq> Undef) ps) k of None \<Rightarrow> Undef | Some x \<Rightarrow> x)
    = (case map_of ps k of None \<Rightarrow> Undef | Some x \<Rightarrow> x)" if "distinct (map fst ps)"
  using that
proof (induction ps)
  case (Cons p ps)
  then show ?case
    by (cases p; cases "snd p = Undef"; cases "fst p = k")
      (auto simp: map_of_eq_None_iff split: option.split dest: map_of_SomeD intro: rev_image_eqI)
qed simp

lemma get_prop_defined: "plain_members v \<Longrightarrow> get_prop (defined v) k = get_prop v k"
  by (cases v) (simp_all add: plain_members_def defined_def get_prop_def map_of_defined)

lemma parse_sent:
  assumes "list_all plain_members vs"
  shows "json_parse (nullish (json_stringify (Arr vs)) []) = Some (Arr (map defined vs))"
proof -
  have "json_stringify (Arr vs) = json_stringify (Arr (map defined vs))"
    by (simp add: comp_def stringify_defined)
  moreover have ok: "json_ok (Arr (map defined vs))"
    using assms json_ok_defined by (auto simp: list_all_iff)
  ultimately show ?thesis using json_parse_stringify [OF ok] by auto
qed

section \<open>Attachments, end to end\<close>

definition log_base :: string where
  "log_base = ''http://localhost:3000''"

definition plain_part :: "mime_part \<Rightarrow> bool" where
  "plain_part p \<longleftrightarrow> list_all (\<lambda>v. v = Undef \<or> json_ok v) [mp_content_type p, mp_filename p, mp_size p, mp_checksum p]"

definition carries_listed :: "log_db \<Rightarrow> mime_part list \<Rightarrow> bool" where
  "carries_listed db parts \<longleftrightarrow> list_ex (\<lambda>p. loose_is (mp_disposition p) ''attachment''
     \<and> (case mp_checksum p of Str m \<Rightarrow> Some m \<in> set (block_md5s db) | _ \<Rightarrow> False)) parts"

lemma attachments_plain:
  assumes "list_all plain_part parts" "uuid = Undef \<or> json_ok uuid"
  shows "list_all plain_members (get_attachments uuid parts)"
  using assms by (auto simp: get_attachments_def plain_members_def plain_part_def list_all_iff)

lemma listed_attachments:
  assumes "list_all plain_part parts" "uuid = Undef \<or> json_ok uuid"
  shows "list_ex (listed db) (map defined (get_attachments uuid parts)) = carries_listed db parts"
proof -
  have "listed db (defined d) = listed db d" if "d \<in> set (get_attachments uuid parts)" for d
    using that attachments_plain [OF assms] by (simp add: listed_def get_prop_defined list_all_iff)
  then have "list_ex (listed db) (map defined (get_attachments uuid parts)) = list_ex (listed db) (get_attachments uuid parts)"
    by (simp add: list_ex_iff)
  also have "\<dots> = carries_listed db parts"
    by (auto simp: carries_listed_def get_attachments_def list_ex_iff listed_def get_prop_def)
  finally show ?thesis .
qed

lemma sent_key: "map_of (api_headers env) ''X-API-Key'' = (if truthy_str (env ''API_KEY'') then env ''API_KEY'' else None)"
  by (cases "env ''API_KEY''") (simp_all add: api_headers_def)

lemma serve_filter:
  assumes "truthy_str k \<Longrightarrow> lq_key r = k" "lq_path r = ''/filter/md5''" "lq_method r = ''POST''"
  shows "serve_logs k lp r db = with_error_handling (filter_md5_route lp) r db"
  using assms by (auto simp: serve_logs_def api_handlers_def handle_def with_auth_def)

lemma check_answer:
  assumes "truthy_str k \<Longrightarrow> env ''API_KEY'' = k" "list_all plain_part parts" "uuid = Undef \<or> json_ok uuid"
    "\<And>m. lp_matches lp (Str m) m" "Some [] \<notin> set (block_md5s db)" "\<And>row. lp_refuse lp ''HashLookups'' row = None"
  shows "check_attachments env (service_fetch log_base k lp db) url_filter uuid (Some parts)
    = Str (if carries_listed db parts then ''block'' else ''allow'')"
proof -
  let ?as = "get_attachments uuid parts" and ?verdict = "if carries_listed db parts then ''block'' else ''allow''"
  let ?post = "\<lparr>hp_url = Str url_filter, hp_headers = api_headers env, hp_body = json_stringify (Arr ?as)\<rparr>"
  let ?r = "service_request ''/filter/md5'' ?post"
  have url: "starts_with url_filter log_base" "drop (length log_base) url_filter = ''/filter/md5''" by code_simp+
  have "map_of (hp_headers ?post) ''X-API-Key'' = k" if "truthy_str k" using that assms(1) [OF that] by (simp add: sent_key)
  then have "serve_logs k lp ?r db = with_error_handling (filter_md5_route lp) ?r db"
    by (intro serve_filter) (simp_all add: service_request_def)
  moreover have "json_parse (lq_body ?r) = Some (Arr (map defined ?as))"
    using parse_sent [OF attachments_plain [OF assms(2,3)]] by (simp add: service_request_def)
  moreover have "list_all (\<lambda>a. a \<noteq> Undef \<and> a \<noteq> Null) (map defined ?as)"
    by (auto simp: list_all_iff get_attachments_def defined_def)
  note verdict = hash_lookup_verdict [OF this, of "lp_matches lp" db "lp_refuse lp", unfolded listed_attachments [OF assms(2,3)]]
  ultimately have "fst (serve_logs k lp ?r db) = LogJson 200 (Obj [(''action'', Str ?verdict)])"
    using verdict assms(4-6) by (simp add: with_error_handling_def filter_md5_route_def read_json_def)
  then have "service_fetch log_base k lp db ?post = PostAnswered 200 (the (json_stringify (Obj [(''action'', Str ?verdict)])))"
    by (simp add: service_fetch_def url answer_of_def)
  moreover have "json_parse (the (json_stringify (Obj [(''action'', Str ?verdict)]))) = Some (Obj [(''action'', Str ?verdict)])"
    using json_parse_stringify [of "Obj [(''action'', Str ?verdict)]"] by auto
  ultimately show ?thesis by (simp add: check_attachments_def check_hash_list_def get_prop_def)
qed

text \<open>C11. A listed attachment stops its message, from the SMTP hook to the blocklist and back. When the log service is reached with
  its key, with a comparison that finds a value it is given and inserts that succeed, the message is deferred exactly when some part
  declared as an attachment has an md5 on the blocklist; every other message goes on.\<close>

theorem listed_attachments_stopped:
  assumes "truthy_str k \<Longrightarrow> env ''API_KEY'' = k" "truthy (get_prop c ''transaction'')" "list_all plain_part parts"
    "get_prop (get_prop c ''transaction'') ''uuid'' = Str uuid"
    "\<And>m. lp_matches lp (Str m) m" "Some [] \<notin> set (block_md5s db)" "\<And>row. lp_refuse lp ''HashLookups'' row = None"
  shows "fst (hook_data_post env (service_fetch log_base k lp db) c (Some parts))
    = (if carries_listed db parts then DenySoft ''Blocked: Attach Scan'' else Continue)"
  using check_answer [of k env parts "Str uuid" lp db] assms
  by (simp add: hook_data_post_def Let_def loose_is_def)

lemma listed_attachments_stopped_witness:
  "fst (hook_data_post [''API_KEY'' \<mapsto> ''k1''] (service_fetch log_base (Some ''k1'') sample_parts empty_log)
      (Obj [(''transaction'', Obj [(''uuid'', Str ''t-1'')])])
      (Some [\<lparr>mp_disposition = Str ''attachment'', mp_content_type = Str ''a/b'', mp_filename = Undef, mp_size = Undef, mp_checksum = Str ''bad''\<rparr>]))
    = DenySoft ''Blocked: Attach Scan''"
proof -
  let ?part = "\<lparr>mp_disposition = Str ''attachment'', mp_content_type = Str ''a/b'', mp_filename = Undef, mp_size = Undef, mp_checksum = Str ''bad''\<rparr>"
  have "carries_listed empty_log [?part]" by code_simp
  then show ?thesis
    using listed_attachments_stopped [of "Some ''k1''" "[''API_KEY'' \<mapsto> ''k1'']" "Obj [(''transaction'', Obj [(''uuid'', Str ''t-1'')])]" "[?part]" "''t-1''"
        sample_parts empty_log]
    by (simp add: get_prop_def truthy_def plain_part_def sample_parts_def empty_log_def)
qed

text \<open>The filter fails open: a parser that throws, a service that is not reached or an answer that is not JSON lets every message through;
  but an answer without an action, as the one to a wrong key, defers every message, with attachments or without.\<close>

lemma filter_fails_open:
  "fst (hook_data_post env fetch c None) = Continue"
  "(\<And>q. \<exists>e. fetch q = PostFailed e) \<Longrightarrow> fst (hook_data_post env fetch c (Some parts)) = Continue"
  by (auto simp: hook_data_post_def Let_def check_attachments_def check_hash_list_def loose_is_def split: posted.split)
    (metis posted.distinct(1))

lemma wrong_key_defers:
  "fst (hook_data_post [''API_KEY'' \<mapsto> ''old''] (service_fetch log_base (Some ''new'') sample_parts empty_log)
      (Obj [(''transaction'', Obj [(''uuid'', Str ''t'')])]) (Some [])) = DenySoft ''Blocked: Attach Scan''"
  by code_simp

section \<open>Delivery events\<close>

text \<open>The list of two or more addresses is one text with a comma.\<close>

lemma addr_list_keeps: "c \<in> set res \<Longrightarrow> c \<in> set (addr_list_loop res as)"
  by (induction res as rule: addr_list_loop.induct) auto

lemma addr_list_comma:
  assumes "get_addr a \<noteq> []"
  shows "get_addr_list (Arr (a # b # as)) = Inr (addr_list_loop (get_addr a @ '','' @ get_addr b) as)"
    "CHR '','' \<in> set (addr_list_loop (get_addr a @ '','' @ get_addr b) as)"
  using assms addr_list_keeps [of "CHR '',''"] by (simp_all add: get_addr_list_def)

text \<open>An event with such a list is refused by the service, and nothing is stored: the row of a delivery to several recipients is lost.\<close>

lemma several_recipients_lost:
  assumes "\<And>s. email_pattern (lp_library lp) s \<Longrightarrow> CHR '','' \<notin> set s"
    and "delivery_event hmail params = Inr e" "plain_members e"
    and "nth_or_undef params 6 = Arr (a # b # as)" "get_addr a \<noteq> []"
    and "lq_body r = nullish (json_stringify e) []"
  shows "delivery_route lp r db = (Inr (status_json 400 ''Fail''), db)"
proof -
  obtain s where s: "get_prop e ''rcpt_accepted'' = Str s" "CHR '','' \<in> set s"
    using assms(2,4) addr_list_comma [OF assms(5), of b as]
    by (auto simp: delivery_event_def Let_def map_sum_Inr_iff get_prop_def elim!: res_bind_InrE)
  have ok: "json_ok (defined e)" using json_ok_defined [OF assms(3)] .
  then have parsed: "json_parse (lq_body r) = Some (defined e)"
    using json_parse_stringify [OF ok] stringify_defined [of e] assms(6) by auto
  have "\<exists>is. schema_delivery (lp_library lp) (defined e) = Inl is"
  proof (cases "schema_delivery (lp_library lp) (defined e)")
    case (Inr d)
    from schema_delivery_parts(6) [OF Inr] have "email_pattern (lp_library lp) s"
      by (simp add: get_prop_defined [OF assms(3)] s(1) email_schema_def z_string_Inr)
    with assms(1) s(2) show ?thesis by blast
  qed blast
  with parsed show ?thesis by (auto simp: delivery_route_def read_json_def)
qed

text \<open>A failed post is noted as if the service had answered: the note of a failed connection is never written.\<close>

lemma connect_error_unnoted: "fetch (httplog_request env payload url) = PostFailed e \<Longrightarrow> post_with_logging env fetch payload url = NoteLogfail"
  by (simp add: post_with_logging_def httplog_def)

end
