(* ===== verification/LogQueryProps.thy ===== *)
theory LogQueryProps
  imports LogQuery SearchProps
begin

text \<open>
  What a search sends to the database. The statements are described apart from the code that builds them: conditions of
  seven shapes on the columns of the table, joined by \<open>AND\<close> or \<open>OR\<close>, and an order on those columns. Every statement of
  every query is one of these with its values passed beside the text, and the filter the console has validated arrives
  as the conditions it names.
\<close>

section \<open>The statements, described\<close>

datatype shape = Equals | Like | Between | More | AtLeast | Below | AtMost

definition shape_text :: "shape \<Rightarrow> string" where
  "shape_text s = (case s of Equals \<Rightarrow> '' = ?'' | Like \<Rightarrow> '' LIKE ?'' | Between \<Rightarrow> '' BETWEEN ? AND ?'' | More \<Rightarrow> '' > ?''
     | AtLeast \<Rightarrow> '' >= ?'' | Below \<Rightarrow> '' < ?'' | AtMost \<Rightarrow> '' <= ?'')"

definition places :: "shape \<Rightarrow> nat" where
  "places s = (if s = Between then 2 else 1)"

definition cond_text :: "string option \<Rightarrow> string \<times> shape \<Rightarrow> string" where
  "cond_text pre c = column pre (fst c) @ shape_text (snd c)"

definition where_text :: "string option \<Rightarrow> string \<Rightarrow> (string \<times> shape) list \<Rightarrow> string" where
  "where_text pre op cs = js_join ('' '' @ op @ '' '') (map (cond_text pre) cs)"

definition order_part :: "string option \<Rightarrow> string \<times> bool \<Rightarrow> string" where
  "order_part pre p = column pre (fst p) @ '' '' @ (if snd p then ''ASC'' else ''DESC'')"

definition order_text :: "string option \<Rightarrow> string \<Rightarrow> (string \<times> bool) list \<Rightarrow> string" where
  "order_text pre fallback os = (if os = [] then fallback
     else js_join '', '' (map (order_part pre) os))"

definition table_name :: "log_table \<Rightarrow> string" where
  "table_name k = (case k of Deliveries \<Rightarrow> ''Delivery'' | Connections \<Rightarrow> ''Connection'' | Transactions \<Rightarrow> ''Transaction'' | Lookups \<Rightarrow> ''HashLookups'')"

definition columns_of :: "log_table \<Rightarrow> string list" where
  "columns_of k = (case k of Deliveries \<Rightarrow> delivery_fields | Connections \<Rightarrow> connection_fields
     | Transactions \<Rightarrow> transaction_fields | Lookups \<Rightarrow> hashlookup_fields)"

definition alias_of :: "log_table \<Rightarrow> string option" where
  "alias_of k = (if k = Lookups then Some ''h'' else None)"

definition newest_first :: "log_table \<Rightarrow> string" where
  "newest_first k = column (alias_of k) ''id'' @ '' DESC''"

definition count_sql :: "log_table \<Rightarrow> string \<Rightarrow> string" where
  "count_sql k w = (if k = Lookups then ''SELECT COUNT(*) AS total '' @ from_join w
     else ''SELECT COUNT(*) AS total FROM `'' @ table_name k @ ''` '' @ where_sql w)"

definition select_sql :: "log_table \<Rightarrow> string \<Rightarrow> string \<Rightarrow> string" where
  "select_sql k w ob = (if k = Lookups
     then hash_columns @ line 8 (from_join w) @ line 8 (''ORDER BY '' @ ob) @ line 8 ''LIMIT ? OFFSET ?''
     else ''SELECT * FROM `'' @ table_name k @ ''` '' @ where_sql w @ '' ORDER BY '' @ ob @ '' LIMIT ? OFFSET ?'')"

text \<open>A statement has a value for every placeholder of its text.\<close>

definition placeholders :: "string \<Rightarrow> nat" where
  "placeholders s = count_list s (CHR ''?'')"

definition bound :: "statement \<Rightarrow> bool" where
  "bound st \<longleftrightarrow> placeholders (st_sql st) = length (st_values st)"

section \<open>Building\<close>

definition shaped :: "string \<Rightarrow> string list \<Rightarrow> jsval list \<Rightarrow> bool" where
  "shaped col cs vs \<longleftrightarrow> (cs = [] \<and> vs = []) \<or> (\<exists>s. cs = [col @ shape_text s] \<and> length vs = places s)"

lemma shapedI: "t = shape_text s \<Longrightarrow> length vs = places s \<Longrightarrow> shaped col [col @ t] vs"
  by (auto simp: shaped_def)

lemma shaped_texts [simp]:
  "shaped col [] []" "shaped col [col @ '' = ?''] [v]" "shaped col [col @ '' LIKE ?''] [v]"
  "shaped col [col @ '' BETWEEN ? AND ?''] [v, w]" "shaped col [col @ '' > ?''] [v]" "shaped col [col @ '' >= ?''] [v]"
  "shaped col [col @ '' < ?''] [v]" "shaped col [col @ '' <= ?''] [v]"
proof -
  show "shaped col [] []" by (simp add: shaped_def)
  show "shaped col [col @ '' = ?''] [v]" by (rule shapedI [of _ Equals]) (simp_all add: shape_text_def places_def)
  show "shaped col [col @ '' LIKE ?''] [v]" by (rule shapedI [of _ Like]) (simp_all add: shape_text_def places_def)
  show "shaped col [col @ '' BETWEEN ? AND ?''] [v, w]" by (rule shapedI [of _ Between]) (simp_all add: shape_text_def places_def)
  show "shaped col [col @ '' > ?''] [v]" by (rule shapedI [of _ More]) (simp_all add: shape_text_def places_def)
  show "shaped col [col @ '' >= ?''] [v]" by (rule shapedI [of _ AtLeast]) (simp_all add: shape_text_def places_def)
  show "shaped col [col @ '' < ?''] [v]" by (rule shapedI [of _ Below]) (simp_all add: shape_text_def places_def)
  show "shaped col [col @ '' <= ?''] [v]" by (rule shapedI [of _ AtMost]) (simp_all add: shape_text_def places_def)
qed

definition shaped_result :: "string \<Rightarrow> (string list \<times> jsval list) res \<Rightarrow> bool" where
  "shaped_result col r = (case r of Inl _ \<Rightarrow> True | Inr (cs, vs) \<Rightarrow> shaped col cs vs)"

lemma shaped_result_simps [simp]:
  "shaped_result col (Inr (cs, vs)) = shaped col cs vs"
  "shaped_result col (if b then r else s) = (if b then shaped_result col r else shaped_result col s)"
  "shaped_result col (map_sum id (\<lambda>t. ([col @ '' LIKE ?''], [f t])) q)"
  by (cases q; simp add: shaped_result_def)+

lemma condition_shape:
  assumes "condition col operator value = Inr (cs, vs)"
  shows "shaped col cs vs"
proof -
  have pair: "shaped_result col (case value of Arr [a, b] \<Rightarrow> Inr ([col @ '' BETWEEN ? AND ?''], [a, b]) | _ \<Rightarrow> Inr ([], []))"
    by (simp split: jsval.split list.split)
  have "shaped_result col (condition col operator value)"
    by (cases operator) (simp_all add: condition_def pair)
  with assms show ?thesis by simp
qed

lemma where_stepE:
  assumes "where_loop permitted pre (item # items) cs0 vs0 = Inr (cs, vs)"
  obtains "where_loop permitted pre items cs0 vs0 = Inr (cs, vs)"
  | f cs' vs' where "f \<in> set permitted" "condition (column pre f) (get_prop item ''operator'') (get_prop item ''value'') = Inr (cs', vs')"
      "where_loop permitted pre items (cs0 @ cs') (vs0 @ vs') = Inr (cs, vs)"
  using assms by (auto simp: read_prop_def allows_def split: if_split_asm option.splits sum.splits jsval.splits)

lemma where_loop_shape:
  assumes "where_loop permitted pre items cs0 vs0 = Inr (cs, vs)"
  shows "\<exists>l. set (map fst l) \<subseteq> set permitted \<and> cs = cs0 @ map (cond_text pre) l
    \<and> length vs = length vs0 + sum_list (map (places \<circ> snd) l)"
  using assms
proof (induction items arbitrary: cs0 vs0)
  case (Cons item items)
  from Cons.prems show ?case
  proof (cases rule: where_stepE)
    case 1
    then show ?thesis by (rule Cons.IH)
  next
    case (2 f cs' vs')
    from Cons.IH [OF 2(3)] obtain l where l: "set (map fst l) \<subseteq> set permitted" "cs = (cs0 @ cs') @ map (cond_text pre) l"
        "length vs = length (vs0 @ vs') + sum_list (map (places \<circ> snd) l)"
      by blast
    from condition_shape [OF 2(2), unfolded shaped_def] show ?thesis
    proof (elim disjE exE conjE)
      assume "cs' = []" "vs' = []"
      with l show ?thesis by (intro exI [of _ l]) (simp add: comp_def)
    next
      fix s assume "cs' = [column pre f @ shape_text s]" "length vs' = places s"
      with l 2(1) show ?thesis by (intro exI [of _ "(f, s) # l"]) (simp add: cond_text_def comp_def)
    qed
  qed
qed (rule exI [of _ "[]"], simp)

lemma order_stepE:
  assumes "order_loop permitted pre (item # items) ps = Inr qs"
  obtains "order_loop permitted pre items ps = Inr qs"
  | f asc where "f \<in> set permitted" "order_loop permitted pre items (ps @ [order_part pre (f, asc)]) = Inr qs"
  using assms
  by (auto simp: read_prop_def allows_def order_part_def [of pre "(_, _)", symmetric, simplified]
      split: if_split_asm option.splits sum.splits jsval.splits)

lemma order_loop_shape:
  assumes "order_loop permitted pre items ps = Inr qs"
  shows "\<exists>l. set (map fst l) \<subseteq> set permitted \<and> qs = ps @ map (order_part pre) l"
  using assms
proof (induction items arbitrary: ps)
  case (Cons item items)
  from Cons.prems show ?case
  proof (cases rule: order_stepE)
    case 1
    then show ?thesis by (rule Cons.IH)
  next
    case (2 f asc)
    then obtain l where "set (map fst l) \<subseteq> set permitted" "qs = (ps @ [order_part pre (f, asc)]) @ map (order_part pre) l"
      using Cons.IH by blast
    with 2(1) show ?thesis by (intro exI [of _ "(f, asc) # l"]) simp
  qed
qed (rule exI [of _ "[]"], simp)

lemma build_where_shape:
  assumes "build_where params logic permitted pre = Inr (w, vs)"
  shows "\<exists>cs op. set (map fst cs) \<subseteq> set permitted \<and> (op = ''AND'' \<or> op = ''OR'') \<and> w = where_text pre op cs
    \<and> length vs = sum_list (map (places \<circ> snd) cs)"
proof -
  obtain items cs op where "where_loop permitted pre items [] [] = Inr (cs, vs)"
      and "w = js_join ('' '' @ op @ '' '') cs" and "join_operator logic = Inr op"
    using assms by (auto simp: build_where_def map_sum_Inr_iff elim!: res_bind_InrE)
  moreover from this(3) have "op = ''AND'' \<or> op = ''OR''"
    by (auto simp: join_operator_def map_sum_Inr_iff)
  ultimately show ?thesis
    using where_loop_shape [of permitted pre items "[]" "[]" cs vs] by (auto simp: where_text_def)
qed

lemma build_order_shape:
  assumes "build_order_by sorting permitted fallback pre = Inr ob"
  shows "\<exists>os. set (map fst os) \<subseteq> set permitted \<and> ob = order_text pre fallback os"
proof (cases "\<not> truthy sorting \<or> zero_length sorting")
  case True
  then show ?thesis using assms by (intro exI [of _ "[]"]) (auto simp: build_order_by_def order_text_def)
next
  case False
  then obtain items parts where "order_loop permitted pre items [] = Inr parts"
      and "ob = (if parts \<noteq> [] then js_join '', '' parts else fallback)"
    using assms by (auto simp: build_order_by_def map_sum_Inr_iff elim!: res_bind_InrE)
  then show ?thesis using order_loop_shape [of permitted pre items "[]" parts] by (auto simp: order_text_def)
qed

section \<open>Placeholders\<close>

lemma placeholders_append [simp]: "placeholders (s @ t) = placeholders s + placeholders t"
  by (simp add: placeholders_def)

lemma placeholders_Cons [simp]: "placeholders (c # s) = (if c = CHR ''?'' then 1 else 0) + placeholders s"
  by (simp add: placeholders_def)

lemma placeholders_Nil [simp]: "placeholders [] = 0"
  by (simp add: placeholders_def)

lemma placeholders_line [simp]: "placeholders (line n t) = placeholders t"
  by (induction n) (simp_all add: line_def)

lemma placeholders_join: "placeholders sep = 0 \<Longrightarrow> placeholders (js_join sep ts) = sum_list (map placeholders ts)"
  by (induction sep ts rule: js_join.induct) auto

lemma columns_plain:
  assumes "f \<in> set (columns_of k)" shows "placeholders f = 0"
proof -
  have "list_all (\<lambda>k. list_all (\<lambda>f. placeholders f = 0) (columns_of k)) [Deliveries, Connections, Transactions, Lookups]"
    by code_simp
  with assms show ?thesis by (cases k) (auto simp: list_all_iff)
qed

lemma placeholders_column: "placeholders f = 0 \<Longrightarrow> placeholders (column (alias_of k) f) = 0"
  by (simp add: column_def alias_of_def truthy_str_def)

lemma placeholders_where:
  assumes "set (map fst cs) \<subseteq> set (columns_of k)" "op = ''AND'' \<or> op = ''OR''"
  shows "placeholders (where_text (alias_of k) op cs) = sum_list (map (places \<circ> snd) cs)"
proof -
  have "placeholders (cond_text (alias_of k) c) = places (snd c)" if "c \<in> set cs" for c
    using that assms(1) placeholders_column [OF columns_plain, of "fst c" k k]
    by (cases "snd c") (auto simp: cond_text_def shape_text_def places_def)
  then have "map placeholders (map (cond_text (alias_of k)) cs) = map (places \<circ> snd) cs"
    by simp
  moreover have "placeholders ('' '' @ op @ '' '') = 0" using assms(2) by auto
  ultimately show ?thesis by (simp only: where_text_def placeholders_join)
qed

lemma placeholders_order:
  assumes "set (map fst os) \<subseteq> set (columns_of k)"
  shows "placeholders (order_text (alias_of k) (newest_first k) os) = 0"
proof -
  have "placeholders (order_part (alias_of k) p) = 0" if "p \<in> set os" for p
    using that assms placeholders_column [OF columns_plain, of "fst p" k k] by (auto simp: order_part_def)
  then show ?thesis
    using placeholders_column [of "''id''" k] by (simp add: order_text_def newest_first_def placeholders_join)
qed

section \<open>Every search\<close>

text \<open>How a search goes: nothing is sent when the query cannot be read; else the count, and then the page.\<close>

definition sends :: "log_table \<Rightarrow> string \<Rightarrow> nat \<Rightarrow> string \<Rightarrow> nat \<Rightarrow> statement list \<Rightarrow> bool" where
  "sends k w p ob n sent \<longleftrightarrow>
     map (\<lambda>st. (st_sql st, length (st_values st))) sent = take n [(count_sql k w, p), (select_sql k w ob, p + 2)]"

lemma search_table_sends:
  assumes "k \<noteq> Lookups"
  shows "\<exists>cs op os n. set (map fst cs) \<subseteq> set (columns_of k) \<and> set (map fst os) \<subseteq> set (columns_of k) \<and> (op = ''AND'' \<or> op = ''OR'')
    \<and> sends k (where_text (alias_of k) op cs) (sum_list (map (places \<circ> snd) cs)) (order_text (alias_of k) (newest_first k) os) n
        (fst (search_table ask (table_name k) (columns_of k) params logic limit offset sorting))"
    (is "\<exists>cs op os n. ?P cs op os n")
proof (cases "build_where params logic (columns_of k) None")
  case (Inl e)
  then have "?P [] ''AND'' [] 0" by (simp add: search_table_def sends_def)
  then show ?thesis by blast
next
  case (Inr r)
  then obtain w vs where b: "build_where params logic (columns_of k) None = Inr (w, vs)" by (cases r) auto
  from build_where_shape [OF b] obtain cs op where cs: "set (map fst cs) \<subseteq> set (columns_of k)" "op = ''AND'' \<or> op = ''OR''"
      "w = where_text None op cs" "length vs = sum_list (map (places \<circ> snd) cs)" by blast
  have al: "alias_of k = None" "newest_first k = ''`id` DESC''"
    using assms by (auto simp: alias_of_def newest_first_def column_def truthy_str_def)
  show ?thesis
  proof (cases "build_order_by sorting (columns_of k) (newest_first k) None")
    case (Inl e)
    with cs b assms have "?P cs op [] 1"
      by (auto simp: search_table_def sends_def al count_sql_def Let_def split: sum.split)
    then show ?thesis by blast
  next
    case (Inr ob)
    from build_order_shape [OF this] obtain os where "set (map fst os) \<subseteq> set (columns_of k)"
        "ob = order_text None (newest_first k) os" by blast
    with cs b Inr assms have "?P cs op os 2 \<or> ?P cs op os 1"
      by (auto simp: search_table_def sends_def al count_sql_def select_sql_def Let_def split: sum.split)
    then show ?thesis by blast
  qed
qed

lemma search_hashlookup_sends:
  "\<exists>cs op os n. set (map fst cs) \<subseteq> set (columns_of Lookups) \<and> set (map fst os) \<subseteq> set (columns_of Lookups) \<and> (op = ''AND'' \<or> op = ''OR'')
    \<and> sends Lookups (where_text (alias_of Lookups) op cs) (sum_list (map (places \<circ> snd) cs)) (order_text (alias_of Lookups) (newest_first Lookups) os) n
        (fst (search_hashlookup ask raw))"
    (is "\<exists>cs op os n. ?P cs op os n")
proof (cases "fst (search_hashlookup ask raw)")
  case Nil
  then have "?P [] ''AND'' [] 0" by (simp add: sends_def)
  then show ?thesis by blast
next
  case (Cons st sent)
  then obtain q w vs ob where b: "build_where (or_default (get_prop q ''search'') (Arr [])) (or_default (get_prop q ''searchLogic'') (Str ''AND''))
        hashlookup_fields (Some ''h'') = Inr (w, vs)"
      and o': "build_order_by (get_prop q ''sort'') hashlookup_fields ''`h`.`id` DESC'' (Some ''h'') = Inr ob"
      and q: "parse_search_query raw = Inr q"
    by (auto simp: search_hashlookup_def map_sum_Inr_iff split: sum.splits elim!: res_bind_InrE)
  from build_where_shape [OF b] obtain cs op where cs: "set (map fst cs) \<subseteq> set hashlookup_fields" "op = ''AND'' \<or> op = ''OR''"
      "w = where_text (Some ''h'') op cs" "length vs = sum_list (map (places \<circ> snd) cs)" by blast
  from build_order_shape [OF o'] obtain os where os: "set (map fst os) \<subseteq> set hashlookup_fields"
      "ob = order_text (Some ''h'') ''`h`.`id` DESC'' os" by blast
  have al: "alias_of Lookups = Some ''h''" "columns_of Lookups = hashlookup_fields" "newest_first Lookups = ''`h`.`id` DESC''"
    by (simp_all add: alias_of_def columns_of_def newest_first_def column_def truthy_str_def)
  from b o' q cs os have "?P cs op os 2 \<or> ?P cs op os 1"
    by (auto simp: search_hashlookup_def sends_def al count_sql_def select_sql_def Let_def split: sum.split)
  then show ?thesis by blast
qed

end
