(* ===== verification/LogFilter.thy ===== *)
theory LogFilter
  imports LogQueryProps
begin

text \<open>
  The two ends of a log search together: what the console validates and forwards, and the statements the log service
  sends for it.
\<close>

section \<open>Every search\<close>

lemma sends_bound:
  assumes "sends k w p ob n sent" "placeholders (count_sql k w) = p" "placeholders (select_sql k w ob) = p + 2"
  shows "list_all bound sent"
proof -
  have "list_all (\<lambda>(t, l). placeholders t = l) (map (\<lambda>st. (st_sql st, length (st_values st))) sent)"
    using assms by (cases n) (auto simp: sends_def list_all_iff dest: in_set_takeD)
  then show ?thesis by (simp add: list_all_iff bound_def)
qed

lemma placeholders_statements:
  assumes "placeholders ob = 0"
  shows "placeholders (count_sql k w) = placeholders w" "placeholders (select_sql k w ob) = placeholders w + 2"
  using assms by (cases k; simp add: count_sql_def select_sql_def from_join_def hash_columns_def table_name_def where_sql_def)+

lemma log_search_table:
  assumes "k \<noteq> Lookups"
  shows "log_search ask k raw = (case parse_search_query raw of Inl e \<Rightarrow> ([], Inl e) | Inr q \<Rightarrow> search_query ask (table_name k) (columns_of k) q)"
  using assms
  by (cases k) (simp_all only: log_search_def search_delivery_def search_connection_def search_transaction_def
      table_name_def columns_of_def log_table.case simp_thms)

lemma log_search_sends:
  "\<exists>cs op os n. set (map fst cs) \<subseteq> set (columns_of k) \<and> set (map fst os) \<subseteq> set (columns_of k) \<and> (op = ''AND'' \<or> op = ''OR'')
    \<and> sends k (where_text (alias_of k) op cs) (sum_list (map (places \<circ> snd) cs)) (order_text (alias_of k) (newest_first k) os) n
        (fst (log_search ask k raw))"
    (is "\<exists>cs op os n. ?P cs op os n")
proof -
  have none: ?thesis if "fst (log_search ask k raw) = []"
  proof -
    have "?P [] ''AND'' [] 0" using that by (simp add: sends_def)
    then show ?thesis by blast
  qed
  have table: ?thesis if "k \<noteq> Lookups"
      "log_search ask k raw = (case parse_search_query raw of Inl e \<Rightarrow> ([], Inl e) | Inr q \<Rightarrow> search_query ask (table_name k) (columns_of k) q)"
    using that none search_table_sends [OF that(1), of ask] by (cases "parse_search_query raw") (simp_all add: search_query_def)
  show ?thesis
  proof (cases "k = Lookups")
    case True
    then show ?thesis using search_hashlookup_sends [of ask raw] by (simp add: log_search_def)
  next
    case False
    with table log_search_table show ?thesis by blast
  qed
qed

text \<open>C8. No search can be turned into SQL injection. Whatever the query, whatever the database answers, a search sends
  nothing, the count, or the count and the page; the texts are those of a list of conditions and an order on the
  columns of the searched table, joined by AND or OR and nothing else; and every statement has exactly one value, passed beside the text, for
  each placeholder in it.\<close>

theorem search_parametrised:
  "\<exists>cs op os n. set (map fst cs) \<subseteq> set (columns_of k) \<and> set (map fst os) \<subseteq> set (columns_of k) \<and> (op = ''AND'' \<or> op = ''OR'')
    \<and> sends k (where_text (alias_of k) op cs) (sum_list (map (places \<circ> snd) cs)) (order_text (alias_of k) (newest_first k) os) n
        (fst (log_search ask k raw))
    \<and> list_all bound (fst (log_search ask k raw))"
proof -
  obtain cs op os n where s: "set (map fst cs) \<subseteq> set (columns_of k)" "set (map fst os) \<subseteq> set (columns_of k)" "op = ''AND'' \<or> op = ''OR''"
      "sends k (where_text (alias_of k) op cs) (sum_list (map (places \<circ> snd) cs)) (order_text (alias_of k) (newest_first k) os) n
        (fst (log_search ask k raw))"
    using log_search_sends [of k ask raw] by blast
  have "list_all bound (fst (log_search ask k raw))"
    by (rule sends_bound [OF s(4)])
      (simp_all only: placeholders_statements [OF placeholders_order [OF s(2)]] placeholders_where [OF s(1,3)])
  with s show ?thesis by blast
qed

section \<open>The filter of the console\<close>

text \<open>What a condition of a validated request asks for: its column, its shape and its values. A value that is empty, a
  column the table does not have and a \<open>between\<close> without two ends ask for nothing.\<close>

definition shape_of :: "string \<Rightarrow> shape" where
  "shape_of op = (if op = ''is'' \<or> op = ''='' then Equals else if op = ''begins'' \<or> op = ''contains'' \<or> op = ''ends'' then Like
     else if op = ''between'' then Between else if op = ''>'' \<or> op = ''more'' then More else if op = ''>='' then AtLeast
     else if op = ''<'' \<or> op = ''less'' then Below else AtMost)"

definition values_of :: "string \<Rightarrow> jsval \<Rightarrow> jsval list" where
  "values_of op v = (if op = ''begins'' then [Str (js_string v @ ''%'')]
     else if op = ''contains'' then [Str (''%'' @ js_string v @ ''%'')]
     else if op = ''ends'' then [Str (''%'' @ js_string v)]
     else if op = ''between'' then (case v of Arr vs \<Rightarrow> vs | _ \<Rightarrow> []) else [v])"

definition is_list :: "jsval \<Rightarrow> bool" where
  "is_list v = (case v of Arr _ \<Rightarrow> True | _ \<Rightarrow> False)"

lemma is_list_iff: "is_list v \<longleftrightarrow> (\<exists>vs. v = Arr vs)"
  by (cases v) (simp_all add: is_list_def)

definition asked :: "log_table \<Rightarrow> search_param \<Rightarrow> ((string \<times> shape) \<times> jsval list) option" where
  "asked k p = (if sp_value p = Str [] \<or> sp_field p \<notin> set (columns_of k) \<or> (sp_operator p = ''between'' \<and> \<not> is_list (sp_value p))
     then None else Some ((sp_field p, shape_of (sp_operator p)), values_of (sp_operator p) (sp_value p)))"

definition sorted_by :: "log_table \<Rightarrow> sort_param \<Rightarrow> (string \<times> bool) option" where
  "sorted_by k p = (if so_field p \<in> set (columns_of k) then Some (so_field p, so_direction p = Some ''asc'') else None)"

text \<open>The values the schema admits.\<close>

definition scalar_val :: "jsval \<Rightarrow> bool" where
  "scalar_val v = (case v of Str _ \<Rightarrow> True | Num x \<Rightarrow> is_finite x | _ \<Rightarrow> False)"

definition filter_val :: "jsval \<Rightarrow> bool" where
  "filter_val v = (case v of Arr vs \<Rightarrow> length vs = 2 \<and> list_all scalar_val vs | _ \<Rightarrow> scalar_val v)"

lemma scalar_Inr: "scalar v = Inr x \<Longrightarrow> scalar_val x"
  by (cases v) (auto simp: scalar_def z_union_def invalid_type_def scalar_val_def split: if_split_asm)

lemma filter_Inr: "z_union scalar scalar_pair v = Inr x \<Longrightarrow> filter_val x"
proof (cases "scalar v")
  case (Inr y)
  then show "z_union scalar scalar_pair v = Inr x \<Longrightarrow> filter_val x"
    using scalar_Inr [OF Inr] by (cases y) (auto simp: z_union_def filter_val_def scalar_val_def)
next
  case (Inl e)
  assume "z_union scalar scalar_pair v = Inr x"
  with Inl have "scalar_pair v = Inr x" by (simp add: z_union_def split: sum.splits)
  then obtain a b y z where "x = Arr [y, z]" "scalar a = Inr y" "scalar b = Inr z"
    by (auto simp: scalar_pair_def invalid_type_def map_sum_Inr_iff split: jsval.splits list.splits)
  then show "filter_val x" using scalar_Inr by (auto simp: filter_val_def)
qed

lemma to_text_scalar: "scalar_val v \<Longrightarrow> to_text v = Inr (js_string v)"
  by (cases v) (simp_all add: scalar_val_def)

lemma to_text_filter:
  assumes "filter_val v" shows "to_text v = Inr (js_string v)"
proof (cases v)
  case (Arr vs)
  with assms have all: "list_all scalar_val vs" by (simp add: filter_val_def)
  have "map_res (\<lambda>v. case v of Undef \<Rightarrow> Inr [] | Null \<Rightarrow> Inr [] | _ \<Rightarrow> to_text v) vs
      = Inr (map (\<lambda>v. case v of Undef \<Rightarrow> [] | Null \<Rightarrow> [] | _ \<Rightarrow> js_string v) vs)"
    by (rule map_res_total) (use all in \<open>auto simp: list_all_iff to_text_scalar scalar_val_def split: jsval.splits\<close>)
  with Arr show ?thesis by simp
qed (use assms in \<open>simp_all add: filter_val_def scalar_val_def\<close>)

lemma condition_asked:
  assumes "filter_val v" "op \<in> set operators" "op = ''between'' \<Longrightarrow> is_list v"
  shows "condition col (Str op) v = Inr ([col @ shape_text (shape_of op)], values_of op v)"
proof -
  have pair: "\<exists>a b. v = Arr [a, b]" if "op = ''between''"
    using that assms(1,3) by (auto simp: is_list_iff filter_val_def length_Suc_conv numeral_2_eq_2)
  have "op = ''is'' \<or> op = ''='' \<or> op = ''begins'' \<or> op = ''contains'' \<or> op = ''ends'' \<or> op = ''between'' \<or> op = ''>'' \<or> op = ''>=''
      \<or> op = ''<'' \<or> op = ''<='' \<or> op = ''less'' \<or> op = ''more''"
    using assms(2) by (simp add: operators_def)
  then show ?thesis
    using pair by (elim disjE) (auto simp: condition_def to_text_filter [OF assms(1)] shape_of_def values_of_def shape_text_def)
qed

lemma falsy_filter: "filter_val v \<Longrightarrow> (\<not> truthy v \<and> v \<noteq> Num (Fin 0)) = (v = Str [])"
  by (cases v) (auto simp: filter_val_def scalar_val_def truthy_def is_finite_def)

lemma search_param_fields [simp]:
  "get_prop (search_param_val p) ''field'' = Str (sp_field p)" "get_prop (search_param_val p) ''operator'' = Str (sp_operator p)"
  "read_prop (search_param_val p) ''value'' = Inr (sp_value p)"
  by (simp_all add: search_param_val_def get_prop_def read_prop_def)

lemma sort_param_fields [simp]:
  "read_prop (sort_param_val p) ''field'' = Inr (Str (so_field p))"
  "get_prop (sort_param_val p) ''direction'' = (case so_direction p of None \<Rightarrow> Undef | Some t \<Rightarrow> Str t)"
  by (cases "so_direction p"; simp add: sort_param_val_def present_def get_prop_def read_prop_def List.map_filter_simps)+

definition conditions_asked :: "log_table \<Rightarrow> search_param list \<Rightarrow> ((string \<times> shape) \<times> jsval list) list" where
  "conditions_asked k ps = List.map_filter (asked k) ps"

lemma condition_dropped:
  assumes "filter_val v" "\<not> is_list v"
  shows "condition col (Str ''between'') v = Inr ([], [])"
  using assms by (cases v) (auto simp: condition_def is_list_def)

lemma where_loop_asked:
  assumes "list_all (\<lambda>p. filter_val (sp_value p) \<and> sp_operator p \<in> set operators) ps"
  shows "where_loop (columns_of k) pre (map search_param_val ps) cs vs
    = Inr (cs @ map (cond_text pre \<circ> fst) (conditions_asked k ps), vs @ concat (map snd (conditions_asked k ps)))"
  using assms
proof (induction ps arbitrary: cs vs)
  case (Cons p ps)
  then have v: "filter_val (sp_value p)" "sp_operator p \<in> set operators" by simp_all
  note falsy = falsy_filter [OF v(1)]
  consider (no) "sp_value p = Str [] \<or> sp_field p \<notin> set (columns_of k)"
    | (half) "sp_value p \<noteq> Str []" "sp_field p \<in> set (columns_of k)" "sp_operator p = ''between''" "\<not> is_list (sp_value p)"
    | (yes) "sp_value p \<noteq> Str []" "sp_field p \<in> set (columns_of k)" "sp_operator p = ''between'' \<Longrightarrow> is_list (sp_value p)"
    by blast
  then show ?case
  proof cases
    case no
    then show ?thesis using Cons by (auto simp: falsy allows_def conditions_asked_def asked_def List.map_filter_simps)
  next
    case half
    then show ?thesis using Cons condition_dropped [OF v(1)]
      by (simp add: falsy allows_def conditions_asked_def asked_def List.map_filter_simps)
  next
    case yes
    then have "asked k p = Some ((sp_field p, shape_of (sp_operator p)), values_of (sp_operator p) (sp_value p))"
      by (auto simp: asked_def)
    then show ?thesis using Cons yes condition_asked [OF v yes(3)]
      by (simp add: falsy allows_def conditions_asked_def List.map_filter_simps cond_text_def)
  qed
qed (simp add: conditions_asked_def List.map_filter_simps)

definition order_asked :: "log_table \<Rightarrow> sort_param list \<Rightarrow> (string \<times> bool) list" where
  "order_asked k ps = List.map_filter (sorted_by k) ps"

lemma order_loop_asked:
  assumes "list_all (\<lambda>p. so_direction p \<in> {None, Some ''asc'', Some ''desc''}) ps"
  shows "order_loop (columns_of k) pre (map sort_param_val ps) qs = Inr (qs @ map (order_part pre) (order_asked k ps))"
  using assms
proof (induction ps arbitrary: qs)
  case (Cons p ps)
  have lower: "to_lower ''asc'' = ''asc''" "to_lower ''desc'' = ''desc''" "to_lower ''undefined'' = ''undefined''" by code_simp+
  from Cons.prems have "so_direction p \<in> {None, Some ''asc'', Some ''desc''}" by simp
  then show ?case using Cons
    by (auto simp: allows_def order_asked_def sorted_by_def List.map_filter_simps order_part_def lower)
qed (simp add: order_asked_def List.map_filter_simps)

section \<open>From the console to the database\<close>

definition the_params :: "search_request \<Rightarrow> search_param list" where
  "the_params q = nullish (sr_search q) []"

definition join_word :: "search_request \<Rightarrow> string" where
  "join_word q = (if sr_logic q = Some ''OR'' then ''OR'' else ''AND'')"

definition asked_where :: "log_table \<Rightarrow> search_request \<Rightarrow> string" where
  "asked_where k q = where_text (alias_of k) (join_word q) (map fst (conditions_asked k (the_params q)))"

definition asked_values :: "log_table \<Rightarrow> search_request \<Rightarrow> jsval list" where
  "asked_values k q = concat (map snd (conditions_asked k (the_params q)))"

definition asked_order :: "log_table \<Rightarrow> search_request \<Rightarrow> string" where
  "asked_order k q = order_text (alias_of k) (newest_first k) (order_asked k (nullish (sr_sort q) []))"

definition asked_count :: "log_table \<Rightarrow> search_request \<Rightarrow> statement" where
  "asked_count k q = \<lparr>st_sql = count_sql k (asked_where k q), st_values = asked_values k q\<rparr>"

definition asked_page :: "log_table \<Rightarrow> search_request \<Rightarrow> statement" where
  "asked_page k q = \<lparr>st_sql = select_sql k (asked_where k q) (asked_order k q),
     st_values = asked_values k q @ [num_of (nullish (sr_limit q) 100), num_of (nullish (sr_offset q) 0)]\<rparr>"

lemma z_array_all:
  assumes "z_optional (z_array s) v = Inr y" "\<And>w x. s w = Inr x \<Longrightarrow> P x"
  shows "list_all P (nullish y [])"
proof (cases y)
  case (Some xs)
  with assms(1) obtain vs where "list_all2 (\<lambda>v x. s v = Inr x) vs xs" by (auto simp: z_optional_Inr z_array_Inr)
  then have "list_all P xs" using assms(2) by (induction rule: list_all2_induct) auto
  with Some show ?thesis by simp
qed simp

lemma schema_parts:
  assumes "search_request_schema v = Inr q"
  shows "list_all (\<lambda>p. filter_val (sp_value p) \<and> sp_operator p \<in> set operators) (the_params q)"
    "list_all (\<lambda>p. so_direction p \<in> {None, Some ''asc'', Some ''desc''}) (nullish (sr_sort q) [])"
    "sr_logic q \<in> {None, Some ''AND'', Some ''OR''}"
proof -
  have f: "z_optional (z_array search_param_schema) (get_prop v ''search'') = Inr (sr_search q)"
    "z_optional (z_enum [''AND'', ''OR'']) (get_prop v ''searchLogic'') = Inr (sr_logic q)"
    "z_optional (z_array sort_param_schema) (get_prop v ''sort'') = Inr (sr_sort q)"
    using assms by (auto simp: search_request_schema_def z_object_Inr field_def map_sum_Inr_iff)
  have param: "filter_val (sp_value p) \<and> sp_operator p \<in> set operators" if "search_param_schema w = Inr p" for w p
    using that by (auto simp: search_param_schema_def z_object_Inr field_def map_sum_Inr_iff dest: filter_Inr)
  have sort_dir: "so_direction p \<in> {None, Some ''asc'', Some ''desc''}" if "sort_param_schema w = Inr p" for w p
    using that by (auto simp: sort_param_schema_def z_object_Inr field_def map_sum_Inr_iff z_optional_Inr)
  show "list_all (\<lambda>p. filter_val (sp_value p) \<and> sp_operator p \<in> set operators) (the_params q)"
    unfolding the_params_def by (rule z_array_all [OF f(1) param])
  show "list_all (\<lambda>p. so_direction p \<in> {None, Some ''asc'', Some ''desc''}) (nullish (sr_sort q) [])"
    by (rule z_array_all [OF f(3) sort_dir])
  show "sr_logic q \<in> {None, Some ''AND'', Some ''OR''}"
    using f(2) by (auto simp: z_optional_Inr)
qed

lemma parsed_query:
  assumes "search_request_schema v = Inr q" "json_parse t = Some (search_request_val q)" "t \<noteq> []"
  obtains p where "parse_search_query (Some t) = Inr p"
    "or_default (get_prop p ''search'') (Arr []) = Arr (map search_param_val (the_params q))"
    "or_default (get_prop p ''searchLogic'') (Str ''AND'') = Str (join_word q)"
    "get_prop p ''sort'' = (case sr_sort q of None \<Rightarrow> Undef | Some ps \<Rightarrow> Arr (map sort_param_val ps))"
    "or_default (get_prop p ''limit'') (num_of 100) = num_of (nullish (sr_limit q) 100)"
    "or_default (get_prop p ''offset'') (num_of 0) = num_of (nullish (sr_offset q) 0)"
proof -
  obtain ps where ps: "search_request_val q = Obj ps" by (simp add: search_request_val_def present_def)
  note fields = search_request_fields [of q, unfolded ps]
  have upper: "to_upper ''AND'' = ''AND''" "to_upper ''OR'' = ''OR''" "to_upper ''undefined'' = ''UNDEFINED''" by code_simp+
  have "parse_search_query (Some t) = Inr (Obj (obj_put ps ''searchLogic'' (Str (join_word q))))"
    using assms schema_parts(3) [OF assms(1)]
    by (auto simp: parse_search_query_def truthy_str_def ps fields(2) join_word_def upper)
  then show ?thesis
    by (rule that) (auto simp: get_prop_obj_put fields or_default_def the_params_def num_of_def split: option.split)
qed

lemma build_where_asked:
  assumes "search_request_schema v = Inr q"
  shows "build_where (Arr (map search_param_val (the_params q))) (Str (join_word q)) (columns_of k) (alias_of k)
    = Inr (asked_where k q, asked_values k q)"
proof -
  have "join_operator (Str (join_word q)) = Inr (join_word q)"
    using schema_parts(3) [OF assms] by (auto simp: join_operator_def join_word_def; code_simp)
  with where_loop_asked [OF schema_parts(1) [OF assms], of k "alias_of k" "[]" "[]"] show ?thesis
    by (simp add: build_where_def items_of_def asked_where_def where_text_def asked_values_def comp_def)
qed

lemma build_order_asked:
  assumes "search_request_schema v = Inr q"
  shows "build_order_by (case sr_sort q of None \<Rightarrow> Undef | Some ps \<Rightarrow> Arr (map sort_param_val ps)) (columns_of k) (newest_first k) (alias_of k)
    = Inr (asked_order k q)"
proof (cases "sr_sort q")
  case None
  then show ?thesis by (simp add: build_order_by_def truthy_def asked_order_def order_asked_def order_text_def List.map_filter_simps)
next
  case (Some ps)
  show ?thesis
  proof (cases "ps = []")
    case True
    with Some show ?thesis
      by (simp add: build_order_by_def zero_length_def asked_order_def order_asked_def order_text_def List.map_filter_simps)
  next
    case False
    with Some order_loop_asked [OF schema_parts(2) [OF assms], of k "alias_of k" "[]"] show ?thesis
      by (simp add: build_order_by_def zero_length_def truthy_def items_of_def asked_order_def order_text_def)
  qed
qed

lemma asked_texts:
  "k \<noteq> Lookups \<Longrightarrow> alias_of k = None \<and> newest_first k = ''`id` DESC''"
  "alias_of Lookups = Some ''h'' \<and> newest_first Lookups = ''`h`.`id` DESC'' \<and> columns_of Lookups = hashlookup_fields"
  by (simp_all add: alias_of_def newest_first_def columns_of_def column_def truthy_str_def)

lemma log_search_asked:
  assumes "search_request_schema v = Inr q" "json_parse t = Some (search_request_val q)" "t \<noteq> []"
  shows "log_search ask k (Some t) = (case ask [] (asked_count k q) of
      Inl e \<Rightarrow> ([asked_count k q], Inl e)
    | Inr counts \<Rightarrow> ([asked_count k q, asked_page k q], map_sum id (found (total_of counts)) (ask [asked_count k q] (asked_page k q))))"
proof -
  obtain p where p: "parse_search_query (Some t) = Inr p"
    "or_default (get_prop p ''search'') (Arr []) = Arr (map search_param_val (the_params q))"
    "or_default (get_prop p ''searchLogic'') (Str ''AND'') = Str (join_word q)"
    "get_prop p ''sort'' = (case sr_sort q of None \<Rightarrow> Undef | Some ps \<Rightarrow> Arr (map sort_param_val ps))"
    "or_default (get_prop p ''limit'') (num_of 100) = num_of (nullish (sr_limit q) 100)"
    "or_default (get_prop p ''offset'') (num_of 0) = num_of (nullish (sr_offset q) 0)"
    using parsed_query [OF assms] by metis
  note built = build_where_asked [OF assms(1), of k] build_order_asked [OF assms(1), of k]
  show ?thesis
  proof (cases "k = Lookups")
    case True
    note texts = conjunct1 [OF asked_texts(2)] conjunct1 [OF conjunct2 [OF asked_texts(2)]] conjunct2 [OF conjunct2 [OF asked_texts(2)]]
    show ?thesis using built
      by (simp add: True log_search_def search_hashlookup_def p texts asked_count_def asked_page_def count_sql_def select_sql_def
          Let_def split: sum.split)
  next
    case False
    note texts = conjunct1 [OF asked_texts(1) [OF False]] conjunct2 [OF asked_texts(1) [OF False]]
    show ?thesis using built
      by (simp add: False log_search_table search_query_def search_table_def p texts asked_count_def asked_page_def count_sql_def
          select_sql_def Let_def split: sum.split)
  qed
qed



text \<open>A \<open>between\<close> with one value is accepted by the console and asks for nothing: every row is returned.\<close>

lemma half_between_ignored:
  "search_request_schema (Obj [(''search'', Arr [search_param_val \<lparr>sp_field = ''dt'', sp_operator = ''between'', sp_value = num_of 5\<rparr>])])
     = Inr \<lparr>sr_search = Some [\<lparr>sp_field = ''dt'', sp_operator = ''between'', sp_value = num_of 5\<rparr>], sr_logic = None, sr_sort = None,
        sr_limit = None, sr_offset = None\<rparr>"
  "conditions_asked Deliveries [\<lparr>sp_field = ''dt'', sp_operator = ''between'', sp_value = num_of 5\<rparr>] = []"
  by code_simp+

text \<open>Only the outermost shape of a query is checked: one whose \<open>search\<close> is not a list, or whose \<open>searchLogic\<close> has a \<open>toString\<close> of
  its own, throws before anything is sent.\<close>

lemma misshapen_query_throws:
  "log_search ask Deliveries (Some ''{\"search\":{}}'') = ([], Inl ''TypeError'')"
  "log_search ask Lookups (Some ''{\"searchLogic\":{\"toString\":\"\"}}'') = ([], Inl ''TypeError'')"
  by code_simp+

end
