(* ===== verification/Grids.thy ===== *)
theory Grids
  imports LogFilter
begin

text \<open>
  The log grids in the browser: \<open>webui-fastify/public/js/grids/aggrid-common.js\<close> and the four grids beside it, and \<open>login.js\<close>. AG Grid keeps
  the filter and sort models and asks the data source for a block of rows; the code builds the request from them and
  hands the rows of the answer back. The filter model is \<open>null\<close> or an object from column to filter, the sort model a
  list or nothing, as AG Grid documents; the members of a filter may be any value.
\<close>

section \<open>The request\<close>

definition fmt_dt :: "jsval \<Rightarrow> string" where
  "fmt_dt v =
     (if truthy v
      then (let s = js_slice 19 (js_string v)
            in if CHR ''T'' \<in> set s
               then takeWhile (\<lambda>c. c \<noteq> CHR ''T'') s @ '' '' @ tl (dropWhile (\<lambda>c. c \<noteq> CHR ''T'') s)
               else s)
      else [])"

definition map_op :: "jsval \<Rightarrow> string option" where
  "map_op type = (case type of
     Str t \<Rightarrow>
       if t = ''contains'' then Some ''contains''
       else if t = ''equals'' then Some ''=''
       else if t = ''startsWith'' then Some ''begins''
       else if t = ''endsWith'' then Some ''ends''
       else if t = ''lessThan'' then Some ''<''
       else if t = ''lessThanOrEqual'' then Some ''<=''
       else if t = ''greaterThan'' then Some ''>''
       else if t = ''greaterThanOrEqual'' then Some ''>=''
       else if t = ''inRange'' then Some ''between''
       else None
   | _ \<Rightarrow> None)"

definition absent :: "jsval \<Rightarrow> bool" where
  "absent v \<longleftrightarrow> v = Undef \<or> v = Null"

definition condition_val :: "string \<Rightarrow> string \<Rightarrow> jsval \<Rightarrow> jsval" where
  "condition_val fld op v = Obj [(''field'', Str fld), (''operator'', Str op), (''value'', v)]"

text \<open>The body of the \<open>forEach\<close> for one column: the conditions it pushes.\<close>

definition push_condition :: "string \<times> jsval \<Rightarrow> jsval list res" where
  "push_condition = (\<lambda>(fld, f). res_bind (read_prop f ''type'') (\<lambda>type.
     let a = get_prop f ''filter''; b = get_prop f ''filterTo''
     in case map_op type of
          None \<Rightarrow> Inr []
        | Some op \<Rightarrow>
            if op = ''between''
            then Inr (if \<not> absent a \<and> \<not> absent b then [condition_val fld ''between'' (Arr [a, b])] else [])
            else Inr (if \<not> absent a \<and> a \<noteq> Str [] then [condition_val fld op a] else [])))"

definition build_search :: "(string \<times> jsval) list option \<Rightarrow> jsval list res" where
  "build_search model = (case model of
     None \<Rightarrow> Inr []
   | Some fs \<Rightarrow> map_sum id concat (map_res push_condition fs))"

text \<open>\<open>params\<close> of \<open>getRows\<close>.\<close>

record rows_params =
  start_row :: int
  end_row :: int
  filter_model :: "(string \<times> jsval) list option"
  sort_model :: "jsval list option"

definition sort_item :: "jsval \<Rightarrow> jsval res" where
  "sort_item s = map_sum id (\<lambda>c. Obj [(''field'', c), (''direction'', get_prop s ''sort'')]) (read_prop s ''colId'')"

definition grid_request :: "rows_params \<Rightarrow> jsval res" where
  "grid_request p =
     res_bind (build_search (filter_model p)) (\<lambda>search.
     map_sum id (\<lambda>sorting.
        Obj ([(''limit'', num_of (end_row p - start_row p)), (''offset'', num_of (start_row p))]
             @ (if search \<noteq> [] then [(''search'', Arr search), (''searchLogic'', Str ''AND'')] else [])
             @ (if sorting \<noteq> [] then [(''sort'', Arr sorting)] else [])))
      (map_res sort_item (nullish (sort_model p) [])))"

text \<open>\<open>encodeURIComponent\<close> keeps letters, digits and \<open>- _ . ! ~ * ' ( )\<close> and writes every other byte as \<open>%XX\<close>.\<close>

definition uri_plain :: "char \<Rightarrow> bool" where
  "uri_plain c \<longleftrightarrow> (65 \<le> byte c \<and> byte c \<le> 90) \<or> (97 \<le> byte c \<and> byte c \<le> 122) \<or> is_digit c
     \<or> c \<in> {CHR ''-'', CHR ''_'', CHR ''.'', CHR ''!'', CHR ''~'', CHR ''*'', CHR 0x27, CHR ''('', CHR '')''}"

definition uri_char :: "char \<Rightarrow> string" where
  "uri_char c = (if uri_plain c then [c] else ''%'' @ to_upper (to_hex [c]))"

definition encode_uri_component :: "string \<Rightarrow> string" where
  "encode_uri_component s = concat (map uri_char s)"

definition grid_url :: "string \<Rightarrow> rows_params \<Rightarrow> string res" where
  "grid_url url p =
     map_sum id (\<lambda>req. url @ ''?request='' @ encode_uri_component (nullish (json_stringify req) ''undefined'')) (grid_request p)"

section \<open>The answer\<close>

text \<open>What the grid is told: rows with the index of the last row (\<open>undefined\<close> while it is not known), or a failure.\<close>

datatype grid_reply = GridRows jsval jsval | GridFailed

text \<open>\<open>rows.length < block\<close> for the truthy values \<open>records\<close> may have, objects with a \<open>length\<close> of their own apart.\<close>

definition shorter_than :: "jsval \<Rightarrow> int \<Rightarrow> int option" where
  "shorter_than rs block = (case rs of
     Arr vs \<Rightarrow> if int (length vs) < block then Some (int (length vs)) else None
   | Str s \<Rightarrow> if int (js_length s) < block then Some (int (js_length s)) else None
   | _ \<Rightarrow> None)"

definition last_row :: "rows_params \<Rightarrow> jsval \<Rightarrow> jsval \<Rightarrow> jsval" where
  "last_row p d rs = (case get_prop d ''total'' of
     Num n \<Rightarrow> Num n
   | _ \<Rightarrow> (case shorter_than rs (end_row p - start_row p) of
        Some n \<Rightarrow> num_of (start_row p + n)
      | None \<Rightarrow> Undef))"

definition grid_answer :: "rows_params \<Rightarrow> fetched \<Rightarrow> grid_reply" where
  "grid_answer p answer = (case answer of
     Answered status b \<Rightarrow>
       if \<not> (200 \<le> status \<and> status \<le> 299) then GridFailed
       else (case json_parse b of
           None \<Rightarrow> GridFailed
         | Some d \<Rightarrow>
             (case read_prop d ''records'' of
                Inl _ \<Rightarrow> GridFailed
              | Inr r \<Rightarrow> (let rs = (if truthy r then r else Arr []) in GridRows rs (last_row p d rs))))
   | _ \<Rightarrow> GridFailed)"

section \<open>The columns\<close>

definition text_opts :: "string list" where
  "text_opts = [''contains'', ''equals'', ''startsWith'', ''endsWith'']"

definition num_opts :: "string list" where
  "num_opts = [''equals'', ''greaterThan'', ''greaterThanOrEqual'', ''lessThan'', ''lessThanOrEqual'', ''inRange'']"

text \<open>What a column definition says of data: the filters it offers (none: \<open>filter: false\<close>), whether a date is formatted, and
  whether it is sortable and hidden at first. Widths are left out.\<close>

datatype col_kind = TextCol | NumCol | DateCol | DisplayCol

record grid_column =
  gc_field :: string
  gc_header :: string
  gc_kind :: col_kind
  gc_options :: "string list option"
  gc_sortable :: bool
  gc_hide :: bool

definition text_col :: "string \<Rightarrow> string \<Rightarrow> bool \<Rightarrow> grid_column" where
  "text_col fld header hide = \<lparr>gc_field = fld, gc_header = header, gc_kind = TextCol, gc_options = Some text_opts,
     gc_sortable = True, gc_hide = hide\<rparr>"

definition num_col :: "string \<Rightarrow> string \<Rightarrow> bool \<Rightarrow> grid_column" where
  "num_col fld header hide = \<lparr>gc_field = fld, gc_header = header, gc_kind = NumCol, gc_options = Some num_opts,
     gc_sortable = True, gc_hide = hide\<rparr>"

definition dt_col :: "string \<Rightarrow> string \<Rightarrow> grid_column" where
  "dt_col fld header = \<lparr>gc_field = fld, gc_header = header, gc_kind = DateCol,
     gc_options = Some [''startsWith'', ''contains'', ''equals''], gc_sortable = True, gc_hide = False\<rparr>"

definition display_col :: "string \<Rightarrow> string \<Rightarrow> grid_column" where
  "display_col fld header = \<lparr>gc_field = fld, gc_header = header, gc_kind = DisplayCol, gc_options = None,
     gc_sortable = False, gc_hide = False\<rparr>"

record log_grid =
  lg_url :: string
  lg_columns :: "grid_column list"

definition connection_grid :: log_grid where
  "connection_grid = \<lparr>lg_url = ''/api/connection'', lg_columns =
     [dt_col ''dt'' ''DT'', text_col ''gateway'' ''Gateway'' False, text_col ''hello_name'' ''Src HELO'' False,
      text_col ''remoteAddr'' ''Src Addr'' False, text_col ''remote_is_private'' ''isPrivate'' False,
      text_col ''using_tls'' ''TLS'' False, num_col ''tran_count'' ''Txns'' False, num_col ''rcpt_count_accept'' ''Rcpt OK'' False,
      text_col ''uuid'' ''UUID'' True, text_col ''encoding'' ''Encoding'' True, num_col ''remotePort'' ''Src Port'' True,
      text_col ''remote_host'' ''Src Host'' True, text_col ''remote_info'' ''Src Info'' True,
      text_col ''remote_is_local'' ''isLocal'' True, num_col ''rcpt_count_tempfail'' ''Rcpt Tempfail'' True,
      num_col ''rcpt_count_reject'' ''Rcpt Rejected'' True]\<rparr>"

definition delivery_grid :: log_grid where
  "delivery_grid = \<lparr>lg_url = ''/api/delivery'', lg_columns =
     [dt_col ''dt'' ''DT'', text_col ''gateway'' ''Gateway'' False, text_col ''sender'' ''Sender'' False,
      text_col ''rcpt_list'' ''Rcpt'' False, text_col ''host'' ''Host'' False, text_col ''ip'' ''IP'' False,
      num_col ''port'' ''Port'' False, text_col ''response'' ''Response'' False, text_col ''uuid'' ''UUID'' True,
      text_col ''route_rule'' ''Route rule'' True, text_col ''rcpt_domain'' ''Rcpt Domain'' True,
      text_col ''rcpt_accepted'' ''Rcpt Accepted'' True, text_col ''tls_forced'' ''TLS Enforced'' True,
      text_col ''tls'' ''TLS'' True, text_col ''auth'' ''Auth'' True, num_col ''delay'' ''Delay'' True]\<rparr>"

definition lookups_grid :: log_grid where
  "lookups_grid = \<lparr>lg_url = ''/api/hashlookups'', lg_columns =
     [dt_col ''createdAt'' ''DT'', display_col ''sender'' ''Sender'', display_col ''rcpt_list'' ''Rcpt'',
      text_col ''md5'' ''MD5'' False, text_col ''contentType'' ''Content Type'' False, text_col ''filename'' ''Filename'' False,
      num_col ''size'' ''Size'' False, text_col ''action'' ''Action'' False]\<rparr>"

definition mails_grid :: log_grid where
  "mails_grid = \<lparr>lg_url = ''/api/queue'', lg_columns =
     [dt_col ''dt'' ''DT'', text_col ''gateway'' ''Gateway'' False, text_col ''sender'' ''Sender'' False,
      text_col ''rcpt_list'' ''Rcpt'' False, num_col ''rcpt_count_accept'' ''Rcpt Accepted'' False,
      num_col ''data_bytes'' ''Data Bytes'' False, text_col ''uuid'' ''UUID'' True, text_col ''encoding'' ''Encoding'' True,
      num_col ''rcpt_count_tempfail'' ''Rcpt Tempfail'' True, num_col ''rcpt_count_reject'' ''Rcpt Rejected'' True,
      num_col ''delay_data_post'' ''Delay'' True, num_col ''mime_part_count'' ''Mime Parts'' True]\<rparr>"

section \<open>The login page\<close>

text \<open>\<open>login.js\<close>: the alert for the \<open>msg\<close> of the address, \<open>None\<close> if there is none. \<open>inherited\<close> is the text of what every object inherits
  under a name, which the lookup finds too.\<close>

definition login_messages :: "(string \<times> string) list" where
  "login_messages =
     [(''InvalidAuth'', ''Invalid username or password''), (''ValidationError'', ''Please enter a valid email and password''),
      (''TooManyAttempts'', ''Too many login attempts. Please wait a minute and try again.'')]"

definition login_alert :: "(string \<Rightarrow> string option) \<Rightarrow> string option \<Rightarrow> string option" where
  "login_alert inherited msg = map_option (\<lambda>m.
     case map_of login_messages m of
       Some t \<Rightarrow> t
     | None \<Rightarrow> (case inherited m of Some t \<Rightarrow> t | None \<Rightarrow> the (map_of login_messages ''InvalidAuth''))) msg"

end
