(* ===== verification/GridProps.thy ===== *)
theory GridProps
  imports Grids
begin

text \<open>
  A filter set in a grid is the condition the database is asked. The filters an operator can set are described apart from
  the objects AG Grid keeps for them; from there the request goes through the URL, the validation of the console, and the
  query builder of the log service.
\<close>

section \<open>The query string\<close>

text \<open>What a server makes of the value of a query parameter.\<close>

fun percent_decode :: "string \<Rightarrow> string" where
  "percent_decode [] = []"
| "percent_decode (c # s) =
     (if c = CHR ''%''
      then (case s of
          a # b # r \<Rightarrow>
            (case (hex_digit_val a, hex_digit_val b) of
               (Some x, Some y) \<Rightarrow> char_of (16 * x + y) # percent_decode r
             | _ \<Rightarrow> c # percent_decode s)
        | _ \<Rightarrow> c # percent_decode s)
      else (if c = CHR ''+'' then CHR '' '' else c) # percent_decode s)"

lemma upper_nibble: "n < 16 \<Longrightarrow> \<exists>a. to_upper [hex_char n] = [a] \<and> hex_digit_val a = Some n"
proof -
  assume "n < 16"
  moreover have "list_all (\<lambda>n. \<exists>a. to_upper [hex_char n] = [a] \<and> hex_digit_val a = Some n) [0..<16]"
    by (simp add: upt_rec hex_char_def to_upper_def hex_digit_val_def Let_def of_char_of)
  ultimately show ?thesis by (simp add: list_all_iff)
qed

lemma percent_decode_char: "percent_decode (uri_char c @ s) = c # percent_decode s"
proof (cases "uri_plain c")
  case True
  then have "c \<noteq> CHR ''%''" "c \<noteq> CHR ''+''" by (auto simp: uri_plain_def is_digit_def)
  with True show ?thesis by (simp add: uri_char_def)
next
  case False
  obtain a b where ab: "to_upper [hex_char (byte c div 16)] = [a]" "hex_digit_val a = Some (byte c div 16)"
      "to_upper [hex_char (byte c mod 16)] = [b]" "hex_digit_val b = Some (byte c mod 16)"
    using upper_nibble [OF nibbles(1) [of c]] upper_nibble [OF nibbles(2) [of c]] by blast
  have "uri_char c = [CHR ''%'', a, b]"
    using False ab(1,3) by (simp add: uri_char_def to_hex_def to_upper_def)
  with ab nibbles(3) [of c] show ?thesis by simp
qed

lemma percent_decode_encode: "percent_decode (encode_uri_component s) = s"
  by (induction s) (simp_all add: encode_uri_component_def percent_decode_char)

section \<open>Filters an operator can set\<close>

datatype ag_filter = TextFilter string string | NumberFilter string int | RangeFilter int int

text \<open>The object AG Grid keeps for a filter.\<close>

definition ag_model :: "ag_filter \<Rightarrow> jsval" where
  "ag_model f = (case f of
     TextFilter type t \<Rightarrow> Obj [(''filterType'', Str ''text''), (''type'', Str type), (''filter'', Str t)]
   | NumberFilter type n \<Rightarrow> Obj [(''filterType'', Str ''number''), (''type'', Str type), (''filter'', num_of n)]
   | RangeFilter a b \<Rightarrow> Obj [(''filterType'', Str ''number''), (''type'', Str ''inRange''), (''filter'', num_of a), (''filterTo'', num_of b)])"

definition can_filter :: "grid_column \<Rightarrow> ag_filter \<Rightarrow> bool" where
  "can_filter c f = (case f of
     TextFilter type t \<Rightarrow> (gc_kind c = TextCol \<or> gc_kind c = DateCol) \<and> type \<in> set (nullish (gc_options c) []) \<and> t \<noteq> []
   | NumberFilter type n \<Rightarrow> gc_kind c = NumCol \<and> type \<in> set (nullish (gc_options c) []) \<and> type \<noteq> ''inRange'' \<and> \<bar>n\<bar> < 2 ^ 53
   | RangeFilter a b \<Rightarrow> gc_kind c = NumCol \<and> ''inRange'' \<in> set (nullish (gc_options c) []) \<and> \<bar>a\<bar> < 2 ^ 53 \<and> \<bar>b\<bar> < 2 ^ 53)"

text \<open>What a filter means: the shape of its condition and its values.\<close>

definition meant_shape :: "ag_filter \<Rightarrow> shape" where
  "meant_shape f = (case f of
     TextFilter type t \<Rightarrow> if type = ''equals'' then Equals else Like
   | NumberFilter type n \<Rightarrow> if type = ''equals'' then Equals else if type = ''greaterThan'' then More
       else if type = ''greaterThanOrEqual'' then AtLeast else if type = ''lessThan'' then Below else AtMost
   | RangeFilter a b \<Rightarrow> Between)"

definition meant_values :: "ag_filter \<Rightarrow> jsval list" where
  "meant_values f = (case f of
     TextFilter type t \<Rightarrow> [Str (if type = ''contains'' then ''%'' @ t @ ''%'' else if type = ''startsWith'' then t @ ''%''
       else if type = ''endsWith'' then ''%'' @ t else t)]
   | NumberFilter type n \<Rightarrow> [num_of n]
   | RangeFilter a b \<Rightarrow> [num_of a, num_of b])"

definition grid_of :: "log_table \<Rightarrow> log_grid" where
  "grid_of k = (case k of Deliveries \<Rightarrow> delivery_grid | Connections \<Rightarrow> connection_grid | Transactions \<Rightarrow> mails_grid | Lookups \<Rightarrow> lookups_grid)"

definition ag_state :: "int \<Rightarrow> int \<Rightarrow> (grid_column \<times> ag_filter) list \<Rightarrow> (grid_column \<times> bool) list \<Rightarrow> rows_params" where
  "ag_state a b fs os = \<lparr>start_row = a, end_row = b, filter_model = Some (map (\<lambda>(c, f). (gc_field c, ag_model f)) fs),
     sort_model = Some (map (\<lambda>(c, up). Obj [(''colId'', Str (gc_field c)), (''sort'', Str (if up then ''asc'' else ''desc''))]) os)\<rparr>"

section \<open>The request of a grid\<close>

definition ag_param :: "grid_column \<times> ag_filter \<Rightarrow> search_param" where
  "ag_param = (\<lambda>(c, f). \<lparr>sp_field = gc_field c,
     sp_operator = (case f of TextFilter type t \<Rightarrow> nullish (map_op (Str type)) [] | NumberFilter type n \<Rightarrow> nullish (map_op (Str type)) []
       | RangeFilter a b \<Rightarrow> ''between''),
     sp_value = (case f of TextFilter type t \<Rightarrow> Str t | NumberFilter type n \<Rightarrow> num_of n | RangeFilter a b \<Rightarrow> Arr [num_of a, num_of b])\<rparr>)"

definition ag_sort :: "grid_column \<times> bool \<Rightarrow> sort_param" where
  "ag_sort = (\<lambda>(c, up). \<lparr>so_field = gc_field c, so_direction = Some (if up then ''asc'' else ''desc'')\<rparr>)"

definition ag_request :: "int \<Rightarrow> int \<Rightarrow> (grid_column \<times> ag_filter) list \<Rightarrow> (grid_column \<times> bool) list \<Rightarrow> search_request" where
  "ag_request a b fs os = \<lparr>sr_search = (if fs = [] then None else Some (map ag_param fs)),
     sr_logic = (if fs = [] then None else Some ''AND''), sr_sort = (if os = [] then None else Some (map ag_sort os)),
     sr_limit = Some (b - a), sr_offset = Some a\<rparr>"

text \<open>The columns of a grid: plain names the log service knows, with the options of their kind.\<close>

definition column_ok :: "log_table \<Rightarrow> grid_column \<Rightarrow> bool" where
  "column_ok k c \<longleftrightarrow> gc_field c \<noteq> [] \<and> js_length (gc_field c) \<noteq> 0
    \<and> (gc_options c \<noteq> None \<or> gc_sortable c \<longrightarrow> gc_field c \<in> set (columns_of k))
    \<and> (gc_kind c = NumCol \<longrightarrow> gc_options c = Some num_opts)
    \<and> (gc_kind c = TextCol \<or> gc_kind c = DateCol \<longrightarrow> set (nullish (gc_options c) []) \<subseteq> set text_opts)"

lemma grid_columns_ok: "list_all (column_ok k) (lg_columns (grid_of k))"
proof -
  have "list_all (\<lambda>k. list_all (column_ok k) (lg_columns (grid_of k))) [Deliveries, Connections, Transactions, Lookups]"
    by code_simp
  then show ?thesis by (cases k) simp_all
qed

lemma map_op_texts:
  "map_op (Str ''contains'') = Some ''contains''" "map_op (Str ''equals'') = Some ''=''" "map_op (Str ''startsWith'') = Some ''begins''"
  "map_op (Str ''endsWith'') = Some ''ends''" "map_op (Str ''lessThan'') = Some ''<''" "map_op (Str ''lessThanOrEqual'') = Some ''<=''"
  "map_op (Str ''greaterThan'') = Some ''>''" "map_op (Str ''greaterThanOrEqual'') = Some ''>=''" "map_op (Str ''inRange'') = Some ''between''"
  by code_simp+

lemma ag_model_fields:
  "read_prop (ag_model f) ''type'' = Inr (Str (case f of TextFilter type t \<Rightarrow> type | NumberFilter type n \<Rightarrow> type | RangeFilter a b \<Rightarrow> ''inRange''))"
  "get_prop (ag_model f) ''filter'' = (case f of TextFilter type t \<Rightarrow> Str t | NumberFilter type n \<Rightarrow> num_of n | RangeFilter a b \<Rightarrow> num_of a)"
  "get_prop (ag_model f) ''filterTo'' = (case f of RangeFilter a b \<Rightarrow> num_of b | _ \<Rightarrow> Undef)"
  by (cases f; simp add: ag_model_def read_prop_def get_prop_def)+

lemma scalar_values:
  "z_union scalar scalar_pair (Str t) = Inr (Str t)" "z_union scalar scalar_pair (num_of n) = Inr (num_of n)"
  "z_union scalar scalar_pair (Arr [num_of a, num_of b]) = Inr (Arr [num_of a, num_of b])"
  by (simp_all add: z_union_def scalar_def scalar_pair_def invalid_type_def num_of_def is_finite_def both_def under_def)

definition text_types :: "(string \<times> string) list" where
  "text_types = [(''contains'', ''contains''), (''equals'', ''=''), (''startsWith'', ''begins''), (''endsWith'', ''ends'')]"

definition number_types :: "(string \<times> string) list" where
  "number_types = [(''equals'', ''=''), (''greaterThan'', ''>''), (''greaterThanOrEqual'', ''>=''), (''lessThan'', ''<''), (''lessThanOrEqual'', ''<='')]"

lemma filter_cases:
  assumes "can_filter c f" "column_ok k c"
  obtains (texts) type t op where "f = TextFilter type t" "t \<noteq> []" "(type, op) \<in> set text_types"
  | (numbers) type n op where "f = NumberFilter type n" "\<bar>n\<bar> < 2 ^ 53" "(type, op) \<in> set number_types"
  | (between) a b where "f = RangeFilter a b" "\<bar>a\<bar> < 2 ^ 53" "\<bar>b\<bar> < 2 ^ 53"
proof (cases f)
  case (TextFilter type t)
  with assms have "t \<noteq> []" "type \<in> set text_opts" by (auto simp: can_filter_def column_ok_def)
  moreover from this(2) obtain op where "(type, op) \<in> set text_types" by (auto simp: text_opts_def text_types_def)
  ultimately show ?thesis using TextFilter texts by blast
next
  case (NumberFilter type n)
  with assms have n: "\<bar>n\<bar> < 2 ^ 53" "type \<in> set num_opts" "type \<noteq> ''inRange''" by (auto simp: can_filter_def column_ok_def)
  have "list_all (\<lambda>type. type = ''inRange'' \<or> type \<in> fst ` set number_types) num_opts" by code_simp
  with n(2,3) obtain op where "(type, op) \<in> set number_types" by (auto simp: list_all_iff)
  with n(1) NumberFilter numbers show ?thesis by blast
next
  case (RangeFilter a b)
  with assms between show ?thesis by (auto simp: can_filter_def)
qed

lemma type_ops:
  "(type, op) \<in> set text_types \<union> set number_types \<Longrightarrow> map_op (Str type) = Some op \<and> op \<in> set operators \<and> op \<noteq> ''between''"
proof -
  have "list_all (\<lambda>(type, op). map_op (Str type) = Some op \<and> op \<in> set operators \<and> op \<noteq> ''between'') (text_types @ number_types)"
    by code_simp
  then show "(type, op) \<in> set text_types \<union> set number_types \<Longrightarrow> ?thesis" by (auto simp: list_all_iff)
qed

lemma type_meaning:
  "(type, op) \<in> set text_types \<Longrightarrow> shape_of op = meant_shape (TextFilter type t) \<and> values_of op (Str t) = meant_values (TextFilter type t)"
  "(type, op) \<in> set number_types \<Longrightarrow> shape_of op = meant_shape (NumberFilter type n) \<and> values_of op (num_of n) = meant_values (NumberFilter type n)"
  unfolding text_types_def number_types_def
  by (simp only: list.set insert_iff empty_iff prod.inject, elim disjE conjE;
      simp add: shape_of_def values_of_def meant_shape_def meant_values_def)+

lemma sound_param:
  assumes "js_length fld \<noteq> 0" "op \<in> set operators" "z_union scalar scalar_pair v = Inr v"
  shows "search_param_schema (search_param_val \<lparr>sp_field = fld, sp_operator = op, sp_value = v\<rparr>) = Inr \<lparr>sp_field = fld, sp_operator = op, sp_value = v\<rparr>"
proof -
  have "get_prop (search_param_val \<lparr>sp_field = fld, sp_operator = op, sp_value = v\<rparr>) ''value'' = v"
    by (simp add: search_param_val_def get_prop_def)
  with assms show ?thesis
    by (auto simp: search_param_schema_def z_object_Inr field_def map_sum_Inr_iff z_string_Inr at_least_def)
      (auto simp: search_param_val_def)
qed

lemma set_filter:
  assumes "can_filter c f" "column_ok k c"
  shows "gc_field c \<in> set (columns_of k)"
    "push_condition (gc_field c, ag_model f) = Inr [search_param_val (ag_param (c, f))]"
    "json_ok (search_param_val (ag_param (c, f)))"
    "search_param_schema (search_param_val (ag_param (c, f))) = Inr (ag_param (c, f))"
    "asked k (ag_param (c, f)) = Some ((gc_field c, meant_shape f), meant_values f)"
proof -
  show l: "gc_field c \<in> set (columns_of k)"
    using assms by (auto simp: can_filter_def column_ok_def nullish_def split: ag_filter.splits option.splits)
  have n: "0 < js_length (gc_field c)" using assms(2) by (simp add: column_ok_def)
  have between: "''between'' \<in> set operators" by (simp add: operators_def)
  note unfolds = push_condition_def ag_model_fields ag_param_def absent_def condition_val_def search_param_val_def num_of_def map_op_texts
  from assms show "push_condition (gc_field c, ag_model f) = Inr [search_param_val (ag_param (c, f))]"
    by (cases rule: filter_cases) (auto simp: unfolds dest!: type_ops [OF UnI1] type_ops [OF UnI2])
  from assms show "json_ok (search_param_val (ag_param (c, f)))"
    by (cases rule: filter_cases) (auto simp: search_param_val_def ag_param_def num_of_def)
  from assms show "search_param_schema (search_param_val (ag_param (c, f))) = Inr (ag_param (c, f))"
    by (cases rule: filter_cases)
      (auto simp: ag_param_def scalar_values n between intro!: sound_param dest!: type_ops [OF UnI1] type_ops [OF UnI2])
  from assms show "asked k (ag_param (c, f)) = Some ((gc_field c, meant_shape f), meant_values f)"
  proof (cases rule: filter_cases)
    case (texts type t op)
    then show ?thesis using type_ops [OF UnI1, OF texts(3)] type_meaning(1) [OF texts(3), of t] l
      by (simp add: asked_def ag_param_def)
  next
    case (numbers type m op)
    then show ?thesis using type_ops [OF UnI2, OF numbers(3)] type_meaning(2) [OF numbers(3), of m] l
      by (simp add: asked_def ag_param_def num_of_def)
  next
    case (between a b)
    then show ?thesis using l
      by (simp add: asked_def ag_param_def is_list_def shape_of_def values_of_def meant_shape_def meant_values_def)
  qed
qed

text \<open>The object the grid sends.\<close>

definition grid_val :: "int \<Rightarrow> int \<Rightarrow> (grid_column \<times> ag_filter) list \<Rightarrow> (grid_column \<times> bool) list \<Rightarrow> jsval" where
  "grid_val a b fs os = Obj ([(''limit'', num_of (b - a)), (''offset'', num_of a)]
     @ (if fs \<noteq> [] then [(''search'', Arr (map (search_param_val \<circ> ag_param) fs)), (''searchLogic'', Str ''AND'')] else [])
     @ (if os \<noteq> [] then [(''sort'', Arr (map (sort_param_val \<circ> ag_sort) os))] else []))"

definition grid_set :: "log_table \<Rightarrow> (grid_column \<times> ag_filter) list \<Rightarrow> (grid_column \<times> bool) list \<Rightarrow> bool" where
  "grid_set k fs os \<longleftrightarrow> list_all (\<lambda>(c, f). c \<in> set (lg_columns (grid_of k)) \<and> can_filter c f) fs
     \<and> list_all (\<lambda>(c, up). c \<in> set (lg_columns (grid_of k)) \<and> gc_sortable c) os"

lemma grid_setD:
  assumes "grid_set k fs os"
  shows "(c, f) \<in> set fs \<Longrightarrow> can_filter c f \<and> column_ok k c"
    "(c, up) \<in> set os \<Longrightarrow> gc_field c \<in> set (columns_of k) \<and> js_length (gc_field c) \<noteq> 0"
  using assms grid_columns_ok [of k] by (fastforce simp: grid_set_def list_all_iff column_ok_def)+

lemma grid_setE:
  assumes "grid_set k fs os" "x \<in> set fs"
  obtains c f where "x = (c, f)" "can_filter c f" "column_ok k c"
  using grid_setD(1) [OF assms(1)] assms(2) by (cases x) blast

lemma grid_request_built:
  assumes "grid_set k fs os"
  shows "grid_request (ag_state a b fs os) = Inr (grid_val a b fs os)"
proof -
  have "push_condition ((\<lambda>(c, f). (gc_field c, ag_model f)) x) = Inr [search_param_val (ag_param x)]" if "x \<in> set fs" for x
    using assms that by (rule grid_setE) (simp add: set_filter(2))
  then have "map_res push_condition (map (\<lambda>(c, f). (gc_field c, ag_model f)) fs) = Inr (map (\<lambda>x. [search_param_val (ag_param x)]) fs)"
    unfolding map_res_map by (rule map_res_total)
  then have search: "build_search (filter_model (ag_state a b fs os)) = Inr (map (search_param_val \<circ> ag_param) fs)"
    by (simp add: build_search_def ag_state_def concat_map_singleton comp_def)
  have "map_res (\<lambda>x. sort_item ((\<lambda>(c, up). Obj [(''colId'', Str (gc_field c)), (''sort'', Str (if up then ''asc'' else ''desc''))]) x)) os
      = Inr (map (sort_param_val \<circ> ag_sort) os)"
    by (rule map_res_total)
      (auto simp: sort_item_def read_prop_def get_prop_def sort_param_val_def ag_sort_def present_def List.map_filter_simps)
  then have sorting: "map_res sort_item (nullish (sort_model (ag_state a b fs os)) []) = Inr (map (sort_param_val \<circ> ag_sort) os)"
    by (simp add: ag_state_def map_res_map comp_def)
  show ?thesis
    by (simp add: grid_request_def search sorting) (simp add: grid_val_def ag_state_def)
qed

lemma grid_val_fields:
  "get_prop (grid_val a b fs os) ''search'' = (if fs = [] then Undef else Arr (map (search_param_val \<circ> ag_param) fs))"
  "get_prop (grid_val a b fs os) ''searchLogic'' = (if fs = [] then Undef else Str ''AND'')"
  "get_prop (grid_val a b fs os) ''sort'' = (if os = [] then Undef else Arr (map (sort_param_val \<circ> ag_sort) os))"
  "get_prop (grid_val a b fs os) ''limit'' = num_of (b - a)" "get_prop (grid_val a b fs os) ''offset'' = num_of a"
  by (simp_all add: grid_val_def get_prop_def)

lemma num_of_props:
  "\<bar>i\<bar> < 2 ^ 53 \<Longrightarrow> json_ok (num_of i)" "0 \<le> i \<Longrightarrow> i < 2 ^ 53 \<Longrightarrow> z_optional natural (num_of i) = Inr (Some i)"
  by (simp_all add: num_of_def z_optional_Inr natural_def z_int_Inr)

lemma sort_parsed:
  assumes "js_length fld \<noteq> 0" "d = ''asc'' \<or> d = ''desc''"
  shows "sort_param_schema (sort_param_val \<lparr>so_field = fld, so_direction = Some d\<rparr>) = Inr \<lparr>so_field = fld, so_direction = Some d\<rparr>"
proof -
  have "sort_param_val \<lparr>so_field = fld, so_direction = Some d\<rparr> = Obj [(''field'', Str fld), (''direction'', Str d)]"
    by (simp add: sort_param_val_def present_def List.map_filter_simps)
  then show ?thesis using assms
    by (auto simp: sort_param_schema_def z_object_Inr field_def map_sum_Inr_iff get_prop_def z_string_Inr z_optional_Inr at_least_def)
qed

lemma grid_val_ok:
  assumes "grid_set k fs os" "0 \<le> a" "a \<le> b" "b < 2 ^ 53"
  shows "json_ok (grid_val a b fs os)"
proof -
  have "json_ok (search_param_val (ag_param x))" if "x \<in> set fs" for x
    using assms(1) that by (rule grid_setE) (simp add: set_filter(3))
  moreover have "json_ok (sort_param_val (ag_sort x))" for x
    by (cases x) (simp add: sort_param_val_def ag_sort_def present_def List.map_filter_simps)
  ultimately show ?thesis using assms(2-4) by (auto simp: grid_val_def num_of_props simp del: json_ok.simps(4))
qed

lemma grid_val_parsed:
  assumes "grid_set k fs os" "0 \<le> a" "a \<le> b" "b < 2 ^ 53"
  shows "search_request_schema (grid_val a b fs os) = Inr (ag_request a b fs os)"
proof -
  have "search_param_schema (search_param_val (ag_param x)) = Inr (ag_param x)" if "x \<in> set fs" for x
    using assms(1) that by (rule grid_setE) (simp add: set_filter(4))
  then have "z_optional (z_array search_param_schema) (get_prop (grid_val a b fs os) ''search'') = Inr (sr_search (ag_request a b fs os))"
    by (auto simp: grid_val_fields ag_request_def z_optional_Inr z_array_Inr list.rel_map list_all2_same)
  moreover have "sort_param_schema (sort_param_val (ag_sort x)) = Inr (ag_sort x)" if "x \<in> set os" for x
    using that grid_setD(2) [OF assms(1)] by (cases x rule: prod.exhaust) (auto simp: ag_sort_def intro!: sort_parsed)
  then have "z_optional (z_array sort_param_schema) (get_prop (grid_val a b fs os) ''sort'') = Inr (sr_sort (ag_request a b fs os))"
    by (auto simp: grid_val_fields ag_request_def z_optional_Inr z_array_Inr list.rel_map list_all2_same)
  moreover have "z_optional natural (get_prop (grid_val a b fs os) ''limit'') = Inr (sr_limit (ag_request a b fs os))"
    "z_optional natural (get_prop (grid_val a b fs os) ''offset'') = Inr (sr_offset (ag_request a b fs os))"
    "z_optional (z_enum [''AND'', ''OR'']) (get_prop (grid_val a b fs os) ''searchLogic'') = Inr (sr_logic (ag_request a b fs os))"
    using assms(2-4) by (simp_all add: grid_val_fields ag_request_def num_of_props z_optional_Inr)
  moreover have "\<exists>ps. grid_val a b fs os = Obj ps" by (simp add: grid_val_def)
  ultimately show ?thesis by (auto simp: search_request_schema_def z_object_Inr field_def map_sum_Inr_iff)
qed

section \<open>From the grid to the database\<close>

lemma conditions_of_grid:
  assumes "grid_set k fs os"
  shows "conditions_asked k (map ag_param fs) = map (\<lambda>(c, f). ((gc_field c, meant_shape f), meant_values f)) fs"
proof -
  have "asked k (ag_param x) = Some ((\<lambda>(c, f). ((gc_field c, meant_shape f), meant_values f)) x)" if "x \<in> set fs" for x
    using assms that by (rule grid_setE) (simp add: set_filter(5))
  then show ?thesis unfolding conditions_asked_def
    by (induction fs) (simp_all add: List.map_filter_simps)
qed

lemma order_of_grid:
  assumes "grid_set k fs os"
  shows "order_asked k (map ag_sort os) = map (\<lambda>(c, up). (gc_field c, up)) os"
proof -
  have "sorted_by k (ag_sort x) = Some ((\<lambda>(c, up). (gc_field c, up)) x)" if "x \<in> set os" for x
    using that grid_setD(2) [OF assms] by (cases x rule: prod.exhaust) (auto simp: ag_sort_def sorted_by_def)
  then show ?thesis unfolding order_asked_def
    by (induction os) (simp_all add: List.map_filter_simps)
qed

text \<open>The two statements a grid's state stands for.\<close>

definition meant_where :: "log_table \<Rightarrow> (grid_column \<times> ag_filter) list \<Rightarrow> string" where
  "meant_where k fs = where_text (alias_of k) ''AND'' (map (\<lambda>(c, f). (gc_field c, meant_shape f)) fs)"

definition meant_order :: "log_table \<Rightarrow> (grid_column \<times> bool) list \<Rightarrow> string" where
  "meant_order k os = order_text (alias_of k) (newest_first k) (map (\<lambda>(c, up). (gc_field c, up)) os)"

definition meant_count :: "log_table \<Rightarrow> (grid_column \<times> ag_filter) list \<Rightarrow> statement" where
  "meant_count k fs = \<lparr>st_sql = count_sql k (meant_where k fs), st_values = concat (map (meant_values \<circ> snd) fs)\<rparr>"

definition meant_page :: "log_table \<Rightarrow> int \<Rightarrow> int \<Rightarrow> (grid_column \<times> ag_filter) list \<Rightarrow> (grid_column \<times> bool) list \<Rightarrow> statement" where
  "meant_page k a b fs os = \<lparr>st_sql = select_sql k (meant_where k fs) (meant_order k os),
     st_values = concat (map (meant_values \<circ> snd) fs) @ [num_of (b - a), num_of a]\<rparr>"

lemma meant_statements:
  assumes "grid_set k fs os"
  shows "asked_count k (ag_request a b fs os) = meant_count k fs" "asked_page k (ag_request a b fs os) = meant_page k a b fs os"
proof -
  have fs: "the_params (ag_request a b fs os) = map ag_param fs" and os: "nullish (sr_sort (ag_request a b fs os)) [] = map ag_sort os"
    and join: "join_word (ag_request a b fs os) = ''AND''"
    by (simp_all add: the_params_def ag_request_def join_word_def)
  have w: "asked_where k (ag_request a b fs os) = meant_where k fs"
    "asked_values k (ag_request a b fs os) = concat (map (meant_values \<circ> snd) fs)"
    by (simp_all add: asked_where_def asked_values_def fs conditions_of_grid [OF assms] meant_where_def join comp_def
        case_prod_unfold)
  have o': "asked_order k (ag_request a b fs os) = meant_order k os"
    by (simp add: asked_order_def os order_of_grid [OF assms] meant_order_def)
  show "asked_count k (ag_request a b fs os) = meant_count k fs" "asked_page k (ag_request a b fs os) = meant_page k a b fs os"
    by (simp_all add: asked_count_def asked_page_def w o' meant_count_def meant_page_def) (simp_all add: ag_request_def)
qed

text \<open>C9. What an operator sets in a log grid is what the database is asked. For any filters offered by the columns of one of the
  four grids, any sort on its sortable columns and any block of rows, the grid's URL carries a request the console accepts,
  and from what the console forwards the log service counts and selects with exactly the conditions set, all of them
  joined by AND, in the order set, for the block asked for.\<close>

theorem grid_filter_applied:
  assumes "grid_set k fs os" "0 \<le> a" "a \<le> b" "b < 2 ^ 53"
  shows "\<exists>e t. grid_url (lg_url (grid_of k)) (ag_state a b fs os) = Inr (lg_url (grid_of k) @ ''?request='' @ e)
    \<and> parse_search_request cr (Str (percent_decode e)) = Inr (Some t)
    \<and> log_search ask k (Some t) = (case ask [] (meant_count k fs) of
        Inl x \<Rightarrow> ([meant_count k fs], Inl x)
      | Inr counts \<Rightarrow> ([meant_count k fs, meant_page k a b fs os],
          map_sum id (found (total_of counts)) (ask [meant_count k fs] (meant_page k a b fs os))))"
proof -
  let ?v = "grid_val a b fs os" and ?q = "ag_request a b fs os"
  note ok = grid_val_ok [OF assms] and parsed = grid_val_parsed [OF assms]
  obtain s where s: "json_stringify ?v = Some s" using json_ok_text [OF ok] by blast
  obtain t where t: "json_stringify (search_request_val ?q) = Some t"
    using json_ok_text [OF json_ok_search_request [OF parsed ok]] by blast
  have v: "json_parse s = Some ?v" using json_parse_stringify [OF ok] s by simp
  have q: "json_parse t = Some (search_request_val ?q)"
    using json_parse_stringify [OF json_ok_search_request [OF parsed ok]] t by simp
  have "s \<noteq> []" "t \<noteq> []" using v q empty_no_json by auto
  then have "parse_search_request cr (Str s) = Inr (Some t)" by (simp add: parse_search_request_def v parsed t)
  moreover have "grid_url (lg_url (grid_of k)) (ag_state a b fs os) = Inr (lg_url (grid_of k) @ ''?request='' @ encode_uri_component s)"
    by (simp add: grid_url_def grid_request_built [OF assms(1)] s)
  moreover note log_search_asked [OF parsed q \<open>t \<noteq> []\<close>, of ask k, unfolded meant_statements [OF assms(1)]]
  ultimately show ?thesis by (metis percent_decode_encode)
qed

lemma grid_filter_applied_witness:
  "\<exists>e t. grid_url ''/api/hashlookups'' (ag_state 0 50 [(text_col ''md5'' ''MD5'' False, TextFilter ''startsWith'' ''a'')] [])
      = Inr (''/api/hashlookups?request='' @ e)
    \<and> parse_search_request sample_library (Str (percent_decode e)) = Inr (Some t)
    \<and> map st_sql (fst (log_search (\<lambda>_ _. Inr []) Lookups (Some t)))
      = [count_sql Lookups ''`h`.`md5` LIKE ?'', select_sql Lookups ''`h`.`md5` LIKE ?'' ''`h`.`id` DESC'']
    \<and> map st_values (fst (log_search (\<lambda>_ _. Inr []) Lookups (Some t))) = [[Str ''a%''], [Str ''a%'', num_of 50, num_of 0]]"
proof -
  let ?fs = "[(text_col ''md5'' ''MD5'' False, TextFilter ''startsWith'' ''a'')]"
  have set_up: "grid_set Lookups ?fs []" "lg_url (grid_of Lookups) = ''/api/hashlookups''"
    "meant_count Lookups ?fs = \<lparr>st_sql = count_sql Lookups ''`h`.`md5` LIKE ?'', st_values = [Str ''a%'']\<rparr>"
    "meant_page Lookups 0 50 ?fs [] = \<lparr>st_sql = select_sql Lookups ''`h`.`md5` LIKE ?'' ''`h`.`id` DESC'',
       st_values = [Str ''a%'', num_of 50, num_of 0]\<rparr>"
    by code_simp+
  from grid_filter_applied [OF set_up(1), of 0 50 sample_library "\<lambda>_ _. Inr []"] show ?thesis
    unfolding set_up by auto
qed

end
