(* ===== verification/ExpressLogs.thy ===== *)
theory ExpressLogs
  imports LogFilter
begin

text \<open>
  The first log service, \<open>legacy/mailgw-logservice/src/functions.js\<close>: the search a request becomes, and the attachment
  blocklist. Queries go to Sequelize, so a search is the object given to \<open>findAll\<close>; what the database finds for an md5 is the
  parameter \<open>blocked\<close>. The code reads the values of a request without checking them. The rewrite in \<open>LogQuery\<close> asks the database the same
  thing, up to the differences stated at the end.
\<close>

section \<open>Searching\<close>

definition prepare_res :: "jsval list \<Rightarrow> jsval" where
  "prepare_res found_rows = Obj [(''status'', Str ''success''), (''total'', num_of (int (length found_rows))), (''records'', Arr found_rows)]"

datatype seq_op = OpEq | OpStartsWith | OpLike | OpEndsWith | OpBetween | OpGt | OpGte | OpLt | OpLte

text \<open>An entry of the filter: \<open>{field: {[op]: value}}\<close>, or \<open>{field: {}}\<close> for an operator that is not known.\<close>

type_synonym seq_item = "string \<times> (seq_op \<times> jsval) option"

record seq_query =
  sq_limit :: jsval
  sq_offset :: jsval
  sq_any :: bool
  sq_items :: "seq_item list"

text \<open>The text \<open>operator == "..."\<close> compares with: none for a number, a boolean or nothing, which equal no operator name.\<close>

definition loose_text :: "jsval \<Rightarrow> string option res" where
  "loose_text v = (case v of
     Str s \<Rightarrow> Inr (Some s) | Arr _ \<Rightarrow> map_sum id Some (to_text v) | Obj _ \<Rightarrow> map_sum id Some (to_text v) | _ \<Rightarrow> Inr None)"

definition seq_condition :: "string option \<Rightarrow> jsval \<Rightarrow> (seq_op \<times> jsval) option res" where
  "seq_condition op value =
     (if op = Some ''begins'' then Inr (Some (OpStartsWith, value))
      else if op = Some ''is'' then Inr (Some (OpEq, value))
      else if op = Some ''contains'' then map_sum id (\<lambda>t. Some (OpLike, Str (''%'' @ t @ ''%''))) (to_text value)
      else if op = Some ''ends'' then Inr (Some (OpEndsWith, value))
      else if op = Some ''between'' then Inr (Some (OpBetween, value))
      else if op = Some ''='' then Inr (Some (OpEq, value))
      else if op = Some ''>'' then Inr (Some (OpGt, value))
      else if op = Some ''>='' then Inr (Some (OpGte, value))
      else if op = Some ''<'' then Inr (Some (OpLt, value))
      else if op = Some ''<='' then Inr (Some (OpLte, value))
      else if op = Some ''less'' then Inr (Some (OpLt, value))
      else if op = Some ''more'' then Inr (Some (OpGt, value))
      else Inr None)"

text \<open>The body of the \<open>forEach\<close>: nothing for an item whose value is falsy.\<close>

definition seq_item_of :: "jsval \<Rightarrow> seq_item list res" where
  "seq_item_of item = res_bind (read_prop item ''value'') (\<lambda>value.
     if \<not> truthy value then Inr []
     else res_bind (to_text (get_prop item ''field'')) (\<lambda>fld.
          res_bind (loose_text (get_prop item ''operator'')) (\<lambda>op.
          map_sum id (\<lambda>c. [(fld, c)]) (seq_condition op value))))"

definition create_query :: "jsval \<Rightarrow> jsval \<Rightarrow> jsval \<Rightarrow> jsval \<Rightarrow> seq_query res" where
  "create_query params searchLogic offset limit =
     (case params of
        Arr items \<Rightarrow>
          res_bind (map_res seq_item_of items) (\<lambda>built.
          map_sum id (\<lambda>op. \<lparr>sq_limit = (if limit = Undef then num_of 100 else limit), sq_offset = (if offset = Undef then num_of 0 else offset),
              sq_any = (op = Some ''OR''), sq_items = concat built\<rparr>)
            (loose_text searchLogic))
      | _ \<Rightarrow> Inl ''TypeError'')"

text \<open>\<open>getData\<close> up to the call of \<open>findAll\<close>; its order is always by \<open>id\<close>, newest first. A request that is no JSON, or \<open>null\<close>, is noted and
  searched for with the defaults.\<close>

definition get_data :: "string option \<Rightarrow> seq_query res" where
  "get_data request =
     (case (if truthy_str request then json_parse (the request) else None) of
        None \<Rightarrow> create_query (Arr []) (Str ''AND'') (num_of 0) (num_of 100)
      | Some q \<Rightarrow>
          (if q = Null then create_query (Arr []) (Str ''AND'') (num_of 0) (num_of 100)
           else if truthy (get_prop q ''search'')
           then create_query (get_prop q ''search'') (get_prop q ''searchLogic'') (get_prop q ''offset'') (get_prop q ''limit'')
           else create_query (Arr []) (Str ''AND'') (get_prop q ''offset'') (get_prop q ''limit'')))"

section \<open>The attachment blocklist\<close>

definition check_md5 :: "jsval list \<Rightarrow> jsval list" where
  "check_md5 items = filter truthy (map (\<lambda>el. get_prop el ''md5'') items)"

text \<open>One lookup: the verdict and the row recorded, the attachment with its verdict.\<close>

definition hash_lookup :: "(jsval \<Rightarrow> nat res) \<Rightarrow> jsval \<Rightarrow> (string \<times> jsval) res" where
  "hash_lookup blocked txn = res_bind (read_prop txn ''md5'') (\<lambda>md5. map_sum id (\<lambda>n.
     let action = (if n \<noteq> 0 then ''block'' else ''allow'')
     in (action, case txn of Obj ps \<Rightarrow> Obj (obj_put ps ''action'' (Str action)) | _ \<Rightarrow> txn)) (blocked md5))"

text \<open>The lookups of a message run side by side; the rows are those of the lookups that did not fail.\<close>

definition hash_lookups_of :: "(jsval \<Rightarrow> nat res) \<Rightarrow> jsval \<Rightarrow> string res \<times> jsval list" where
  "hash_lookups_of blocked l = (case l of
     Arr txns \<Rightarrow>
       (map_sum id (\<lambda>answers. if list_ex (\<lambda>a. fst a \<noteq> ''allow'') answers then ''block'' else ''allow'') (map_res (hash_lookup blocked) txns),
        concat (map (\<lambda>t. case hash_lookup blocked t of Inl _ \<Rightarrow> [] | Inr (_, row) \<Rightarrow> [row]) txns))
   | _ \<Rightarrow> (Inl ''TypeError'', []))"

section \<open>The same search as the rewrite\<close>

text \<open>What Sequelize makes of an entry.\<close>

definition seq_meaning :: "seq_item \<Rightarrow> ((string \<times> shape) \<times> jsval list) option" where
  "seq_meaning i = (case i of
     (fld, Some (op, v)) \<Rightarrow> (case op of
          OpEq \<Rightarrow> Some ((fld, Equals), [v])
        | OpStartsWith \<Rightarrow> Some ((fld, Like), [Str (js_string v @ ''%'')])
        | OpLike \<Rightarrow> Some ((fld, Like), [v])
        | OpEndsWith \<Rightarrow> Some ((fld, Like), [Str (''%'' @ js_string v)])
        | OpBetween \<Rightarrow> (case v of Arr vs \<Rightarrow> Some ((fld, Between), vs) | _ \<Rightarrow> None)
        | OpGt \<Rightarrow> Some ((fld, More), [v]) | OpGte \<Rightarrow> Some ((fld, AtLeast), [v])
        | OpLt \<Rightarrow> Some ((fld, Below), [v]) | OpLte \<Rightarrow> Some ((fld, AtMost), [v]))
   | (fld, None) \<Rightarrow> None)"

text \<open>A condition both services take: a column of the table, a value that is not zero, two ends for \<open>between\<close>.\<close>

definition plain_param :: "log_table \<Rightarrow> search_param \<Rightarrow> bool" where
  "plain_param k p \<longleftrightarrow> sp_field p \<in> set (columns_of k) \<and> sp_value p \<noteq> Num (Fin 0)
     \<and> (sp_operator p = ''between'' \<longrightarrow> is_list (sp_value p))"

lemma seq_item_same:
  assumes "filter_val (sp_value p)" "sp_operator p \<in> set operators" "plain_param k p"
  shows "\<exists>is. seq_item_of (search_param_val p) = Inr is \<and> map seq_meaning is = map Some (conditions_asked k [p])"
proof (cases "sp_value p = Str []")
  case True
  then show ?thesis by (simp add: seq_item_of_def truthy_def conditions_asked_def asked_def List.map_filter_simps)
next
  case False
  with falsy_filter [OF assms(1)] assms(3) have t: "truthy (sp_value p)" by (auto simp: plain_param_def)
  have a: "conditions_asked k [p] = [((sp_field p, shape_of (sp_operator p)), values_of (sp_operator p) (sp_value p))]"
    using False assms(3) by (auto simp: conditions_asked_def asked_def plain_param_def List.map_filter_simps)
  have c: "seq_item_of (search_param_val p) = map_sum id (\<lambda>c. [(sp_field p, c)]) (seq_condition (Some (sp_operator p)) (sp_value p))"
    by (simp add: seq_item_of_def t loose_text_def)
  have "\<exists>c. seq_condition (Some (sp_operator p)) (sp_value p) = Inr c
      \<and> seq_meaning (sp_field p, c) = Some ((sp_field p, shape_of (sp_operator p)), values_of (sp_operator p) (sp_value p))"
  proof -
    have pair: "sp_operator p = ''between'' \<Longrightarrow> \<exists>vs. sp_value p = Arr vs" using assms(3) by (auto simp: plain_param_def is_list_iff)
    from assms(2) show ?thesis
      unfolding operators_def by (simp only: list.set insert_iff empty_iff, elim disjE)
        (use pair in \<open>auto simp: seq_condition_def to_text_filter [OF assms(1)] seq_meaning_def shape_of_def values_of_def\<close>)
  qed
  then show ?thesis by (auto simp: a c)
qed

lemma seq_items_same:
  assumes "list_all (\<lambda>p. filter_val (sp_value p) \<and> sp_operator p \<in> set operators \<and> plain_param k p) ps"
  shows "\<exists>built. map_res seq_item_of (map search_param_val ps) = Inr built
    \<and> map seq_meaning (concat built) = map Some (conditions_asked k ps)"
  using assms
proof (induction ps)
  case (Cons p ps)
  from Cons.prems have "filter_val (sp_value p)" "sp_operator p \<in> set operators" "plain_param k p" by simp_all
  from seq_item_same [OF this] obtain one where "seq_item_of (search_param_val p) = Inr one"
      "map seq_meaning one = map Some (conditions_asked k [p])" by blast
  moreover have "conditions_asked k (p # ps) = conditions_asked k [p] @ conditions_asked k ps"
    by (simp add: conditions_asked_def List.map_filter_simps split: option.split)
  moreover from Cons obtain built where "map_res seq_item_of (map search_param_val ps) = Inr built"
      "map seq_meaning (concat built) = map Some (conditions_asked k ps)" by auto
  ultimately show ?case by simp
qed (simp add: conditions_asked_def List.map_filter_simps)

text \<open>The rewritten log service asks for what the first one asked for. For a request the console validated whose conditions name
  columns of the table, have no zero and two ends where they need them, the object the first service gave to Sequelize
  means, entry by entry, the conditions of the statement of the rewrite, joined the same way, with the same page.\<close>

theorem rewrite_same_search:
  assumes "search_request_schema v = Inr q" "json_parse t = Some (search_request_val q)" "t \<noteq> []"
    "list_all (plain_param k) (the_params q)"
  shows "\<exists>old. get_data (Some t) = Inr old \<and> map seq_meaning (sq_items old) = map Some (conditions_asked k (the_params q))
    \<and> sq_any old = (sr_search q \<noteq> None \<and> join_word q = ''OR'')
    \<and> sq_limit old = num_of (nullish (sr_limit q) 100) \<and> sq_offset old = num_of (nullish (sr_offset q) 0)"
proof -
  note fields = search_request_fields [of q]
  have parts: "list_all (\<lambda>p. filter_val (sp_value p) \<and> sp_operator p \<in> set operators \<and> plain_param k p) (the_params q)"
    using schema_parts(1) [OF assms(1)] assms(4) by (auto simp: list_all_iff)
  from seq_items_same [OF parts] obtain built where built: "map_res seq_item_of (map search_param_val (the_params q)) = Inr built"
      "map seq_meaning (concat built) = map Some (conditions_asked k (the_params q))" by blast
  have nn: "search_request_val q \<noteq> Null" by (simp add: search_request_val_def present_def)
  have page: "(if get_prop (search_request_val q) ''limit'' = Undef then num_of 100 else get_prop (search_request_val q) ''limit'')
      = num_of (nullish (sr_limit q) 100)"
    "(if get_prop (search_request_val q) ''offset'' = Undef then num_of 0 else get_prop (search_request_val q) ''offset'')
      = num_of (nullish (sr_offset q) 0)"
    by (simp_all add: fields num_of_def split: option.split)
  show ?thesis
  proof (cases "sr_search q")
    case None
    then have "the_params q = []" by (simp add: the_params_def)
    with None assms(2,3) nn page show ?thesis
      by (simp add: get_data_def create_query_def fields(1) truthy_def loose_text_def conditions_asked_def List.map_filter_simps)
  next
    case (Some ps)
    have "loose_text (get_prop (search_request_val q) ''searchLogic'') = Inr (sr_logic q)"
      by (simp add: fields loose_text_def split: option.split)
    moreover have "the_params q = ps" using Some by (simp add: the_params_def)
    moreover have "(sr_logic q = Some ''OR'') = (join_word q = ''OR'')" by (simp add: join_word_def)
    ultimately show ?thesis using Some assms(2,3) nn page built
      by (simp add: get_data_def create_query_def fields(1) truthy_def)
  qed
qed

lemma rewrite_same_search_witness:
  "\<exists>old. get_data (json_stringify (search_request_val \<lparr>sr_search = Some [\<lparr>sp_field = ''sender'', sp_operator = ''begins'', sp_value = Str ''a''\<rparr>],
        sr_logic = None, sr_sort = None, sr_limit = Some 8, sr_offset = None\<rparr>)) = Inr old
    \<and> map seq_meaning (sq_items old) = [Some ((''sender'', Like), [Str ''a%''])] \<and> sq_limit old = num_of 8 \<and> sq_offset old = num_of 0"
proof -
  let ?q = "\<lparr>sr_search = Some [\<lparr>sp_field = ''sender'', sp_operator = ''begins'', sp_value = Str ''a''\<rparr>],
        sr_logic = None, sr_sort = None, sr_limit = Some 8, sr_offset = None\<rparr>"
  have schema: "search_request_schema (search_request_val ?q) = Inr ?q" by code_simp
  have ok: "json_ok (search_request_val ?q)" by code_simp
  obtain t where t: "json_stringify (search_request_val ?q) = Some t" using json_ok_text [OF ok] by blast
  then have parse: "json_parse t = Some (search_request_val ?q)" using json_parse_stringify [OF ok] by simp
  then have "t \<noteq> []" using empty_no_json by auto
  moreover have "list_all (plain_param Deliveries) (the_params ?q)" by code_simp
  moreover have "conditions_asked Deliveries (the_params ?q) = [((''sender'', Like), [Str ''a%''])]" by code_simp
  ultimately show ?thesis using rewrite_same_search [OF schema parse, of Deliveries] t by auto
qed

text \<open>Where they differ: the first service drops a condition on zero, names any column, and takes a \<open>between\<close> with one end to the
  database.\<close>

lemma rewrite_differs:
  "seq_item_of (search_param_val \<lparr>sp_field = ''port'', sp_operator = ''='', sp_value = num_of 0\<rparr>) = Inr []"
  "conditions_asked Deliveries [\<lparr>sp_field = ''port'', sp_operator = ''='', sp_value = num_of 0\<rparr>] = [((''port'', Equals), [num_of 0])]"
  "seq_item_of (search_param_val \<lparr>sp_field = ''secret'', sp_operator = ''='', sp_value = Str ''x''\<rparr>) = Inr [(''secret'', Some (OpEq, Str ''x''))]"
  "conditions_asked Deliveries [\<lparr>sp_field = ''secret'', sp_operator = ''='', sp_value = Str ''x''\<rparr>] = []"
  "seq_item_of (search_param_val \<lparr>sp_field = ''dt'', sp_operator = ''between'', sp_value = num_of 5\<rparr>) = Inr [(''dt'', Some (OpBetween, num_of 5))]"
  by code_simp+

text \<open>The verdict of the first service: \<open>block\<close> exactly when some attachment is found.\<close>

lemma first_verdict:
  assumes "list_all (\<lambda>t. t \<noteq> Undef \<and> t \<noteq> Null) txns" "\<And>m. blocked m = Inr (hits m)"
  shows "fst (hash_lookups_of blocked (Arr txns))
    = Inr (if \<exists>t \<in> set txns. hits (get_prop t ''md5'') \<noteq> 0 then ''block'' else ''allow'')"
proof -
  have "map_res (hash_lookup blocked) txns = Inr (map (\<lambda>t. let action = (if hits (get_prop t ''md5'') \<noteq> 0 then ''block'' else ''allow'')
      in (action, case t of Obj ps \<Rightarrow> Obj (obj_put ps ''action'' (Str action)) | _ \<Rightarrow> t)) txns)"
    by (rule map_res_total) (use assms in \<open>auto simp: hash_lookup_def read_prop_def list_all_iff Let_def\<close>)
  then show ?thesis by (auto simp: hash_lookups_of_def list_ex_iff Let_def)
qed

end
