(* ===== verification/QueueTool.thy ===== *)
theory QueueTool
  imports LogQuery
begin

text \<open>
  The queue tools of the retired gateway, \<open>legacy/mailgw-config/src/\<close>: \<open>queueMetadata.ts\<close>, \<open>queueDetails.ts\<close>, \<open>queueFilter.ts\<close>,
  \<open>queueArgs.ts\<close>, \<open>queueUtil.ts\<close>, \<open>sendArgs.ts\<close>, \<open>sendMail.ts\<close> and \<open>utilTime.ts\<close>. The clock is the argument \<open>now\<close>, in
  milliseconds; a \<open>Date\<close> is its time value. What \<open>parseArgs\<close> returned or that it threw, the files of the queue directory and the regular
  expressions (\<open>re\<close>, from a source to its test or a \<open>SyntaxError\<close>) are arguments too. The printed tables are left out.
\<close>

section \<open>Time\<close>

definition js_minus :: "int \<Rightarrow> jsnum \<Rightarrow> jsnum" where
  "js_minus now x = (case x of NaN \<Rightarrow> NaN | PInf \<Rightarrow> NInf | NInf \<Rightarrow> PInf | Fin q \<Rightarrow> round_double (of_int now - q))"

definition js_div_floor :: "jsnum \<Rightarrow> int \<Rightarrow> jsnum" where
  "js_div_floor x n = (case x of
     Fin q \<Rightarrow> (case round_double (q / of_int n) of Fin r \<Rightarrow> Fin (of_int \<lfloor>r\<rfloor>) | y \<Rightarrow> y)
   | y \<Rightarrow> y)"

definition tstamp_to_date :: "jsnum \<Rightarrow> jsnum" where
  "tstamp_to_date tm = (case tm of
     Fin q \<Rightarrow> if \<bar>q\<bar> \<le> 8640000000000000 then Fin (of_int (if q < 0 then - \<lfloor>- q\<rfloor> else \<lfloor>q\<rfloor>)) else NaN
   | _ \<Rightarrow> NaN)"

definition time_diff_seconds :: "int \<Rightarrow> jsnum \<Rightarrow> jsnum" where
  "time_diff_seconds now past = js_div_floor (js_minus now past) 1000"

definition time_diff_hours :: "int \<Rightarrow> jsnum \<Rightarrow> jsnum" where
  "time_diff_hours now past = js_div_floor (js_minus now past) 3600000"

section \<open>Names of queue files\<close>

record queue_element =
  qe_arrival :: jsnum
  qe_next_attempt :: jsnum
  qe_attempts :: jsnum
  qe_pid :: jsnum
  qe_uniq :: "string option"
  qe_counter :: jsnum
  qe_host :: "string option"
  qe_age_seconds :: jsnum
  qe_age_hours :: jsnum

definition part :: "string list \<Rightarrow> nat \<Rightarrow> string option" where
  "part ps i = (if i < length ps then Some (ps ! i) else None)"

text \<open>\<open>parseInt(p)\<close> and \<open>+p\<close>; the text of \<open>undefined\<close> is no number.\<close>

definition int_part :: "string list \<Rightarrow> nat \<Rightarrow> jsnum" where
  "int_part ps i = (case part ps i of None \<Rightarrow> NaN | Some t \<Rightarrow> js_parse_int t)"

definition num_part :: "string list \<Rightarrow> nat \<Rightarrow> jsnum" where
  "num_part ps i = (case part ps i of None \<Rightarrow> NaN | Some t \<Rightarrow> js_number t)"

definition parse_filename :: "int \<Rightarrow> string \<Rightarrow> queue_element res" where
  "parse_filename now filename =
     (if filename = [] then Inl ''No filename provided''
      else let p = js_split (CHR ''_'') filename
           in Inr \<lparr>qe_arrival = tstamp_to_date (int_part p 0), qe_next_attempt = tstamp_to_date (int_part p 1),
                   qe_attempts = num_part p 2, qe_pid = num_part p 3, qe_uniq = part p 4, qe_counter = num_part p 5,
                   qe_host = part p 6, qe_age_seconds = time_diff_seconds now (int_part p 0),
                   qe_age_hours = time_diff_hours now (int_part p 0)\<rparr>)"

definition ls_queue :: "int \<Rightarrow> string list \<Rightarrow> queue_element list res" where
  "ls_queue now names = map_res (parse_filename now) names"

section \<open>Queue files\<close>

text \<open>A queue file begins with the length of its metadata, four bytes in network order. Of the object the code extends, the
  members it adds are the other fields; a primitive can not be extended.\<close>

record mail_metadata =
  md_value :: jsval
  md_queued :: jsnum
  md_filename :: string
  md_fileinfo :: queue_element

definition read_uint32_be :: "string \<Rightarrow> nat res" where
  "read_uint32_be s = (case s of
     a # b # c # d # _ \<Rightarrow> Inr (((byte a * 256 + byte b) * 256 + byte c) * 256 + byte d)
   | _ \<Rightarrow> Inl ''ERR_OUT_OF_RANGE'')"

definition read_queue_file :: "int \<Rightarrow> string \<Rightarrow> string option \<Rightarrow> mail_metadata res" where
  "read_queue_file now file content = (case content of
     None \<Rightarrow> Inl ''ENOENT''
   | Some s \<Rightarrow>
       res_bind (read_uint32_be s) (\<lambda>ln.
         (case json_parse (take ln (drop 4 s)) of
            None \<Rightarrow> Inl ''SyntaxError''
          | Some obj \<Rightarrow>
              (if \<not> (case obj of Obj _ \<Rightarrow> True | Arr _ \<Rightarrow> True | _ \<Rightarrow> False) then Inl ''TypeError''
               else map_sum id (\<lambda>info. \<lparr>md_value = obj, md_queued = tstamp_to_date (js_to_number (get_prop obj ''queue_time'')),
                      md_filename = file, md_fileinfo = info\<rparr>)
                    (parse_filename now file)))))"

section \<open>Filters\<close>

text \<open>The options of the command line, each absent or a string.\<close>

record queue_args =
  qa_dir :: "string option"
  qa_src :: "string option"
  qa_dst :: "string option"
  qa_domain :: "string option"
  qa_minage :: "string option"
  qa_maxage :: "string option"
  qa_minattempts :: "string option"
  qa_datefrom :: "string option"
  qa_dateto :: "string option"
  qa_out :: "string option"
  qa_help :: bool
  qa_meta :: bool

record queue_filter =
  qf_src :: string
  qf_dst :: string
  qf_domain :: string
  qf_minage :: jsnum
  qf_maxage :: jsnum
  qf_minattempts :: jsnum
  qf_datefrom :: "int option"
  qf_dateto :: "int option"

definition text_option :: "string option \<Rightarrow> string" where
  "text_option x = (if truthy_str x then the x else [])"

definition number_option :: "string option \<Rightarrow> jsnum" where
  "number_option x = (if truthy_str x then js_parse_int (the x) else Fin 0)"

definition get_filter :: "int \<Rightarrow> queue_args \<Rightarrow> queue_filter" where
  "get_filter now values =
     (let f = \<lparr>qf_src = text_option (qa_src values), qf_dst = text_option (qa_dst values), qf_domain = text_option (qa_domain values),
               qf_minage = number_option (qa_minage values), qf_maxage = number_option (qa_maxage values),
               qf_minattempts = number_option (qa_minattempts values), qf_datefrom = None, qf_dateto = None\<rparr>;
          f = (if truthy_str (qa_datefrom values) then f\<lparr>qf_datefrom := Some now\<rparr> else f)
      in if truthy_str (qa_dateto values) then f\<lparr>qf_datefrom := Some now\<rparr> else f)"

text \<open>What ends the tool early: an error that is not caught, or \<open>process.exit\<close> after a message.\<close>

datatype stop = Thrown js_error | Exit int string

definition thrown :: "'a res \<Rightarrow> stop + 'a" where
  "thrown r = map_sum Thrown id r"

definition num_truthy :: "jsnum \<Rightarrow> bool" where
  "num_truthy x \<longleftrightarrow> x \<noteq> NaN \<and> x \<noteq> Fin 0"

text \<open>\<open>a <= b\<close> on numbers.\<close>

fun num_le :: "jsnum \<Rightarrow> jsnum \<Rightarrow> bool" where
  "num_le NaN y = False" | "num_le x NaN = False"
| "num_le NInf y = True" | "num_le x PInf = True"
| "num_le (Fin p) (Fin q) = (p \<le> q)" | "num_le x y = False"

text \<open>\<open>v[0]\<close>; of a string only that it is no object matters.\<close>

definition first_item :: "jsval \<Rightarrow> jsval res" where
  "first_item v = (case v of
     Undef \<Rightarrow> Inl ''TypeError'' | Null \<Rightarrow> Inl ''TypeError''
   | Arr (x # _) \<Rightarrow> Inr x
   | Obj _ \<Rightarrow> Inr (get_prop v ''0'')
   | Str (c # _) \<Rightarrow> Inr (Str [c])
   | _ \<Rightarrow> Inr Undef)"

definition sender_of :: "mail_metadata \<Rightarrow> jsval res" where
  "sender_of m = read_prop (get_prop (md_value m) ''mail_from'') ''original''"

definition first_recipient :: "mail_metadata \<Rightarrow> jsval res" where
  "first_recipient m = res_bind (first_item (get_prop (md_value m) ''rcpt_to'')) (\<lambda>r. read_prop r ''original'')"

type_synonym regexes = "string \<Rightarrow> (string \<Rightarrow> bool) res"

text \<open>\<open>new RegExp(source).test(value)\<close>, the value being read after the expression is built.\<close>

definition matches_text :: "regexes \<Rightarrow> string \<Rightarrow> jsval res \<Rightarrow> bool res" where
  "matches_text re source v = res_bind (re source) (\<lambda>test. res_bind v (\<lambda>x. map_sum id test (to_text x)))"

definition mail_age :: "int \<Rightarrow> mail_metadata \<Rightarrow> jsnum" where
  "mail_age now m = time_diff_hours now (js_to_number (get_prop (md_value m) ''queue_time''))"

text \<open>The checks of the filter in their order; each one lets an item on, drops it or stops the tool.\<close>

definition and_then :: "stop + bool \<Rightarrow> (stop + bool) \<Rightarrow> stop + bool" where
  "and_then a b = (case a of Inl e \<Rightarrow> Inl e | Inr ok \<Rightarrow> if ok then b else Inr False)"

definition keep_item :: "regexes \<Rightarrow> int \<Rightarrow> queue_filter \<Rightarrow> mail_metadata \<Rightarrow> stop + bool" where
  "keep_item re now f m =
     and_then (if qf_src f \<noteq> [] then thrown (matches_text re (qf_src f) (sender_of m)) else Inr True)
    (and_then (if qf_dst f \<noteq> [] then thrown (matches_text re (qf_dst f) (first_recipient m)) else Inr True)
    (and_then (if qf_domain f \<noteq> [] then thrown (matches_text re (qf_domain f) (Inr (get_prop (md_value m) ''domain''))) else Inr True)
    (and_then (if num_truthy (qf_minage f) then Inr (num_le (qf_minage f) (mail_age now m)) else Inr True)
    (and_then (if num_truthy (qf_maxage f) then Inr (num_le (mail_age now m) (qf_maxage f)) else Inr True)
    (and_then (if num_truthy (qf_minattempts f) then Inl (Exit 10 ''Filter by --minattempts not yet implemented'') else Inr True)
    (and_then (if qf_datefrom f \<noteq> None then Inl (Exit 10 ''Filter by --datefrom not yet implemented'') else Inr True)
              (if qf_dateto f \<noteq> None then Inl (Exit 10 ''Filter by --dateto not yet implemented'') else Inr True)))))))"

fun filter_items :: "('a \<Rightarrow> stop + bool) \<Rightarrow> 'a list \<Rightarrow> stop + 'a list" where
  "filter_items keep [] = Inr []"
| "filter_items keep (x # xs) =
     (case keep x of
        Inl e \<Rightarrow> Inl e
      | Inr ok \<Rightarrow> map_sum id (\<lambda>ys. if ok then x # ys else ys) (filter_items keep xs))"

text \<open>\<open>dir\<close> is the absolute path of the directory; \<open>files\<close> are its entries with their contents, \<open>None\<close> what can not be read.\<close>

definition ls_queue_details ::
  "regexes \<Rightarrow> int \<Rightarrow> string \<Rightarrow> (string \<times> string option) list \<Rightarrow> queue_filter \<Rightarrow> stop + mail_metadata list"
where
  "ls_queue_details re now dir files f =
     (case map_res (\<lambda>(item, content). read_queue_file now (dir @ ''/'' @ item) content) files of
        Inl e \<Rightarrow> Inl (Thrown e)
      | Inr data \<Rightarrow> filter_items (keep_item re now f) data)"

section \<open>The tools\<close>

text \<open>\<open>getArgs\<close> of the queue tool: the number of arguments, what \<open>parseArgs\<close> returned (\<open>None\<close>: it threw), and the file system.\<close>

datatype node = Missing | Directory | NotDirectory

definition queue_get_args :: "nat \<Rightarrow> queue_args option \<Rightarrow> (string \<Rightarrow> node) \<Rightarrow> stop + queue_args" where
  "queue_get_args argc parsed look =
     (if argc < 3 then Inl (Exit 1 ''required option: --dir <path>'')
      else (case parsed of
          None \<Rightarrow> Inl (Exit 1 ''help'')
        | Some values \<Rightarrow>
            (if \<not> truthy_str (qa_dir values) then Inl (Exit 1 ''help'')
             else if qa_help values then Inl (Exit 1 ''help'')
             else (case look (the (qa_dir values)) of
                 Missing \<Rightarrow> Inl (Exit 2 (''Cannot open directory: '' @ the (qa_dir values)))
               | NotDirectory \<Rightarrow> Inl (Exit 3 (''Is not a directory: '' @ the (qa_dir values)))
               | Directory \<Rightarrow> Inr values))))"

text \<open>The queue tool: the items it shows and the file it writes, if it was asked to. \<open>writable\<close> is whether the write succeeds.\<close>

record queue_report =
  qr_items :: "mail_metadata list"
  qr_written :: "(string \<times> string) option"

definition queue_util ::
  "regexes \<Rightarrow> int \<Rightarrow> nat \<Rightarrow> queue_args option \<Rightarrow> (string \<Rightarrow> node) \<Rightarrow> (string \<times> string option) list \<Rightarrow> bool \<Rightarrow> stop + queue_report"
where
  "queue_util re now argc parsed look files writable =
     (case queue_get_args argc parsed look of
        Inl e \<Rightarrow> Inl e
      | Inr args \<Rightarrow>
          (case (if qa_meta args then thrown (map_sum id (\<lambda>_. ()) (ls_queue now (map fst files))) else Inr ()) of
             Inl e \<Rightarrow> Inl e
           | Inr _ \<Rightarrow>
               (case ls_queue_details re now (the (qa_dir args)) files (get_filter now args) of
                  Inl e \<Rightarrow> Inl e
                | Inr data \<Rightarrow>
                    (if truthy_str (qa_out args)
                     then (if writable
                           then Inr \<lparr>qr_items = data,
                                  qr_written = Some (the (qa_out args), js_join [CHR 0x0A] (map md_filename data) @ [CHR 0x0A])\<rparr>
                           else Inl (Exit 1 (''Error writing to file: '' @ the (qa_out args))))
                     else Inr \<lparr>qr_items = data, qr_written = None\<rparr>))))"

record send_args =
  sa_file :: "string option"
  sa_list :: "string option"
  sa_host :: "string option"
  sa_port :: "string option"
  sa_user :: "string option"
  sa_pass :: "string option"

definition send_port :: "send_args \<Rightarrow> jsnum" where
  "send_port values = (if truthy_str (sa_port values) then js_parse_int (the (sa_port values)) else Fin 25)"

definition send_get_args :: "nat \<Rightarrow> send_args option \<Rightarrow> (string \<Rightarrow> bool) \<Rightarrow> stop + send_args" where
  "send_get_args argc parsed is_file =
     (if argc < 4 then Inl (Exit 1 ''Not enough arguments'')
      else (case parsed of
          None \<Rightarrow> Inl (Exit 1 ''Error parsing arguments'')
        | Some values \<Rightarrow>
            (if \<not> truthy_str (sa_list values) \<and> \<not> truthy_str (sa_file values)
             then Inl (Exit 1 ''You should provide one of options: --file or --list'')
             else (let given = (if truthy_str (sa_list values) then the (sa_list values) else the (sa_file values))
                   in if \<not> is_file given then Inl (Exit 2 (''File not found/readable: '' @ given))
                      else if \<not> truthy_str (sa_host values) then Inl (Exit 3 ''Required option: --host'')
                      else Inr values))))"

text \<open>The mail the tool hands to the SMTP transport.\<close>

record sent_mail =
  sm_host :: "string option"
  sm_port :: jsnum
  sm_user :: "string option"
  sm_pass :: "string option"
  sm_from :: string
  sm_to :: "string list"
  sm_raw :: string

definition send_mail :: "int \<Rightarrow> nat \<Rightarrow> send_args option \<Rightarrow> (string \<Rightarrow> bool) \<Rightarrow> (string \<Rightarrow> string option) \<Rightarrow> stop + sent_mail" where
  "send_mail now argc parsed is_file contents =
     (case send_get_args argc parsed is_file of
        Inl e \<Rightarrow> Inl e
      | Inr args \<Rightarrow>
          (case (case sa_file args of None \<Rightarrow> Inl ''ERR_INVALID_ARG_TYPE'' | Some file \<Rightarrow> read_queue_file now file (contents file)) of
             Inl e \<Rightarrow> Inl (Thrown e)
           | Inr data \<Rightarrow>
               Inr \<lparr>sm_host = sa_host args, sm_port = send_port args, sm_user = sa_user args, sm_pass = sa_pass args,
                    sm_from = ''sender@example.com'', sm_to = [''recipient@example.com''],
                    sm_raw = ''From: sender@example.com'' @ line 0 ''To: recipient@example.com'' @ line 0 ''Subject: greetings''
                      @ line 0 [] @ line 0 ''Salam Aleikum!''\<rparr>))"

end
