(* ===== verification/ToolProps.thy ===== *)
theory ToolProps
  imports QueueTool
begin

text \<open>
  What the tools of the retired gateway do: ages in whole hours survive the rounding of doubles, the name of a queue file and
  the metadata in it are read back as they were written, and the filter lists what it describes. At the end, where the code
  parts from its help texts.
\<close>

section \<open>Whole quotients of doubles\<close>

lemma pow2_add: "pow2 (a + b) = pow2 a * pow2 b"
proof -
  have "pow2 e = 2 powi e" for e by (simp add: pow2_def power_int_def power_inverse inverse_eq_divide power_one_over)
  then show ?thesis by (simp add: power_int_add)
qed

lemma pow2_mono: "a \<le> b \<Longrightarrow> pow2 a \<le> pow2 b"
proof -
  assume "a \<le> b"
  then have "pow2 b = pow2 a * 2 ^ nat (b - a)" using pow2_add [of a "b - a"] by (simp add: pow2_def)
  then show ?thesis using pow2_pos [of a] by simp
qed

lemma pow2_nat: "pow2 (int n) = 2 ^ n"
  by (simp add: pow2_def)

lemma pow2_ilog2:
  assumes "0 < q" shows "pow2 (ilog2 q) \<le> q"
proof -
  obtain n d where nd: "quotient_of q = (n, d)" by (cases "quotient_of q")
  have q: "q = of_int n / of_int d" "0 < d" using quotient_of_div [OF nd] quotient_of_denom_pos [OF nd] by simp_all
  with assms have n: "0 < n" by (simp add: zero_less_divide_iff)
  define fn fd where "fn = floorlog 2 (nat n)" and "fd = floorlog 2 (nat d)"
  have "2 ^ (fn - 1) \<le> nat n" "0 < fn" "nat d < 2 ^ fd"
    using floorlog_bounds [of "nat n" 2] floorlog_bounds [of "nat d" 2] n q(2) by (auto simp: fn_def fd_def floorlog_def)
  then have "(2 :: int) ^ (fn - 1) \<le> n" "d < (2 :: int) ^ fd"
    using n q(2) by (metis int_nat_eq less_imp_le of_nat_le_iff of_nat_less_iff of_nat_numeral of_nat_power)+
  then have b: "(2 :: rat) ^ (fn - 1) \<le> of_int n" "of_int d \<le> (2 :: rat) ^ fd"
    by (metis of_int_le_iff of_int_numeral of_int_power, metis less_imp_le of_int_le_iff of_int_numeral of_int_power)
  have "pow2 (int fn - int fd - 1) * pow2 (int fd) = pow2 (int (fn - 1))"
    using \<open>0 < fn\<close> by (simp add: pow2_add [symmetric] of_nat_diff)
  then have "pow2 (int fn - int fd - 1) * 2 ^ fd \<le> of_int n" using b(1) by (simp add: pow2_nat)
  then have "pow2 (int fn - int fd - 1) * of_int d \<le> of_int n"
    using b(2) pow2_pos [of "int fn - int fd - 1"] by (meson dual_order.trans mult_left_mono order_less_imp_le)
  then have "pow2 (int fn - int fd - 1) \<le> q" using q by (simp add: pos_le_divide_eq)
  then show ?thesis by (simp add: ilog2_def nd Let_def fn_def fd_def)
qed

lemma round_half_even_near: "\<bar>of_int (round_half_even x) - x\<bar> \<le> 1 / 2"
proof -
  define r where "r = x - of_int \<lfloor>x\<rfloor>"
  have "0 \<le> r" "r < 1" "x = of_int \<lfloor>x\<rfloor> + r" by (simp_all add: r_def) linarith
  then show ?thesis by (auto simp: round_half_even_def Let_def simp flip: r_def)
qed

lemma round_double_near:
  assumes "0 < q" "q < 2 ^ 1000"
  shows "\<exists>r. round_double q = Fin r \<and> \<bar>r - q\<bar> \<le> max (q / 2 ^ 53) (pow2 (- 1075))"
proof -
  define m where "m = max (ilog2 q) (- 1022)"
  define u where "u = pow2 (m - 52)"
  define r where "r = of_int (round_half_even (q / u)) * u"
  have u: "0 < u" by (simp add: u_def pow2_pos)
  have "r - q = (of_int (round_half_even (q / u)) - q / u) * u" using u by (simp add: r_def field_simps)
  then have "\<bar>r - q\<bar> \<le> 1 / 2 * u"
    using round_half_even_near [of "q / u"] u by (simp add: abs_mult mult_right_mono)
  also have "1 / 2 * u = pow2 (m - 53)"
    using pow2_add [of "m - 53" 1] by (simp add: u_def pow2_def)
  also have "\<dots> \<le> max (q / 2 ^ 53) (pow2 (- 1075))"
  proof (cases "m = -1022")
    case False
    then have "m = ilog2 q" by (simp add: m_def max_def split: if_splits)
    then have "pow2 (m - 53) \<le> q / 2 ^ 53"
      using pow2_ilog2 [OF assms(1)] pow2_add [of m "-53"] by (simp add: pow2_def)
    then show ?thesis by simp
  qed simp
  finally have near: "\<bar>r - q\<bar> \<le> max (q / 2 ^ 53) (pow2 (- 1075))" .
  have "pow2 (-1075) \<le> 1" by (simp add: pow2_def)
  moreover have "q / 2 ^ 53 \<le> q" using assms(1) by (simp add: field_simps)
  ultimately have "max (q / 2 ^ 53) (pow2 (- 1075)) \<le> q + 1" using assms(1) by simp
  with near have "r \<le> 2 * q + 1" by linarith
  also have "\<dots> < 2 * 2 ^ 1000 + 1" using assms(2) by linarith
  also have "\<dots> \<le> pow2 1024" by (simp add: pow2_def)
  finally have "r < pow2 1024" .
  then have "round_double q = Fin r"
    using assms(1) by (simp add: round_double_def Let_def sgn_if flip: m_def u_def r_def)
  with near show ?thesis by blast
qed

lemma js_div_floor_whole:
  assumes "0 \<le> d" "d < 2 ^ 53" "0 < c" "c < 2 ^ 53"
  shows "js_div_floor (Fin (of_int d)) c = Fin (of_int (d div c))"
proof (cases "c dvd d")
  case True
  then obtain k where k: "d = c * k" by blast
  with assms have "of_int d / (of_int c :: rat) = of_int k" "d div c = k" by simp_all
  moreover have "0 \<le> k" using assms k by (simp add: zero_le_mult_iff)
  then have "k \<le> d" using mult_right_mono [of 1 c k] assms(3) k by simp
  with assms(2) \<open>0 \<le> k\<close> have "\<bar>k\<bar> < 2 ^ 53" by simp
  ultimately show ?thesis by (simp add: js_div_floor_def round_double_int)
next
  case False
  let ?q = "of_int d / of_int c :: rat"
  have pos: "0 < ?q" "0 < d" using assms False by (auto simp: order_le_less)
  have "of_int d < (2 :: rat) ^ 53" using assms(2) by (metis of_int_less_iff of_int_numeral of_int_power)
  then have q: "?q / 2 ^ 53 < 1 / of_int c" using assms(3) by (simp add: divide_simps)
  have small: "pow2 (- 1075) < 1 / of_int c"
  proof -
    have "of_int c < (2 :: rat) ^ 53" using assms(4) by (metis of_int_less_iff of_int_numeral of_int_power)
    also have "\<dots> \<le> 2 ^ 1075" by simp
    finally show ?thesis using assms(3) by (simp add: pow2_def divide_simps)
  qed
  have "?q \<le> of_int d" using assms(1,3) mult_left_mono [of 1 "of_int c" "of_int d :: rat"] by (simp add: divide_simps)
  with \<open>of_int d < (2 :: rat) ^ 53\<close> have "?q < 2 ^ 1000" by simp
  from round_double_near [OF pos(1) this] q small obtain r where r: "round_double ?q = Fin r" "\<bar>r - ?q\<bar> < 1 / of_int c" by fastforce
  have parts: "d = (d div c) * c + d mod c" "1 \<le> d mod c" "d mod c \<le> c - 1"
    using False assms(3) pos_mod_bound [OF assms(3), of d] pos_mod_sign [OF assms(3), of d] by (auto simp: dvd_eq_mod_eq_0)
  then have "?q = of_int (d div c) + of_int (d mod c) / of_int c"
    using assms(3) by (metis (no_types, lifting) add_divide_distrib less_irrefl nonzero_mult_div_cancel_right of_int_0_eq_iff of_int_add of_int_mult)
  moreover have "of_int (d mod c) \<le> of_int c - (1 :: rat)"
    using parts(3) by (metis of_int_1 of_int_diff of_int_le_iff)
  then have "1 / of_int c \<le> of_int (d mod c) / (of_int c :: rat)" "of_int (d mod c) / of_int c \<le> 1 - 1 / (of_int c :: rat)"
    using parts(2) assms(3) \<open>of_int (d mod c) \<le> of_int c - (1 :: rat)\<close> by (simp_all add: divide_simps)
  ultimately have "of_int (d div c) \<le> r" "r < of_int (d div c) + 1" using r(2) by linarith+
  then have "\<lfloor>r\<rfloor> = d div c" by (simp add: floor_eq_iff)
  with r(1) show ?thesis by (simp add: js_div_floor_def)
qed

lemma time_diffs:
  assumes "0 \<le> t" "t \<le> now" "now < 2 ^ 53"
  shows "time_diff_seconds now (Fin (of_int t)) = Fin (of_int ((now - t) div 1000))"
    "time_diff_hours now (Fin (of_int t)) = Fin (of_int ((now - t) div 3600000))"
proof -
  have "js_minus now (Fin (of_int t)) = Fin (of_int (now - t))"
    using round_double_int [of "now - t"] assms by (simp add: js_minus_def)
  moreover have "0 \<le> now - t" "now - t < 2 ^ 53" using assms by linarith+
  ultimately show "time_diff_seconds now (Fin (of_int t)) = Fin (of_int ((now - t) div 1000))"
    "time_diff_hours now (Fin (of_int t)) = Fin (of_int ((now - t) div 3600000))"
    using js_div_floor_whole [of "now - t"] unfolding time_diff_seconds_def time_diff_hours_def by simp_all
qed

section \<open>Queue files\<close>

text \<open>The name Haraka gives a queue file, and the file: the length of the metadata, the metadata, the mail.\<close>

definition queue_name :: "nat \<Rightarrow> nat \<Rightarrow> nat \<Rightarrow> nat \<Rightarrow> string \<Rightarrow> nat \<Rightarrow> string \<Rightarrow> string" where
  "queue_name arrival next_try attempts pid uniq counter host = js_join ''_''
     [nat_to_string arrival, nat_to_string next_try, nat_to_string attempts, nat_to_string pid, uniq, nat_to_string counter, host]"

definition uint32_be :: "nat \<Rightarrow> string" where
  "uint32_be n = map char_of [n div 16777216 mod 256, n div 65536 mod 256, n div 256 mod 256, n mod 256]"

definition queue_file :: "jsval \<Rightarrow> string \<Rightarrow> string" where
  "queue_file v mail = (let t = nullish (json_stringify v) [] in uint32_be (length t) @ t @ mail)"

lemma digits_no_underscore: "CHR ''_'' \<notin> set (nat_to_string n)"
proof
  assume "CHR ''_'' \<in> set (nat_to_string n)"
  then have "is_digit (CHR ''_'')" by (rule nat_to_string_digits)
  then show False by (simp add: is_digit_def)
qed

lemma tstamp_nat: "n \<le> 8640000000000000 \<Longrightarrow> tstamp_to_date (Fin (of_nat n)) = Fin (of_nat n)"
proof -
  assume "n \<le> 8640000000000000"
  then have "(of_nat n :: rat) \<le> 8640000000000000" by (metis of_nat_le_iff of_nat_numeral)
  then show ?thesis by (simp add: tstamp_to_date_def)
qed

text \<open>The name of a queue file is read back as it was written. For times a \<open>Date\<close> can hold, counters below 2^53 and an arrival
  that is not in the future, with no underscore in the tag and the host name, every field comes back, and the ages are
  the whole seconds and hours since the arrival: the rounding of the quotient never shows.\<close>

theorem queue_name_read:
  assumes "arrival \<le> 8640000000000000" "next_try \<le> 8640000000000000" "attempts < 2 ^ 53" "pid < 2 ^ 53" "counter < 2 ^ 53"
    "int arrival \<le> now" "now < 2 ^ 53" "CHR ''_'' \<notin> set uniq" "CHR ''_'' \<notin> set host"
  shows "parse_filename now (queue_name arrival next_try attempts pid uniq counter host) = Inr
    \<lparr>qe_arrival = Fin (of_nat arrival), qe_next_attempt = Fin (of_nat next_try), qe_attempts = Fin (of_nat attempts),
     qe_pid = Fin (of_nat pid), qe_uniq = Some uniq, qe_counter = Fin (of_nat counter), qe_host = Some host,
     qe_age_seconds = Fin (of_int ((now - int arrival) div 1000)), qe_age_hours = Fin (of_int ((now - int arrival) div 3600000))\<rparr>"
proof -
  let ?ps = "[nat_to_string arrival, nat_to_string next_try, nat_to_string attempts, nat_to_string pid, uniq, nat_to_string counter, host]"
  have "js_split (CHR ''_'') (queue_name arrival next_try attempts pid uniq counter host) = ?ps"
    unfolding queue_name_def by (rule js_split_join) (use assms(8,9) in \<open>simp_all add: digits_no_underscore\<close>)
  moreover have "queue_name arrival next_try attempts pid uniq counter host \<noteq> []" by (simp add: queue_name_def)
  moreover have "js_parse_int (nat_to_string arrival) = Fin (of_int (int arrival))"
    "js_parse_int (nat_to_string next_try) = Fin (of_nat next_try)"
    using js_parse_int_nat [of arrival] js_parse_int_nat [of next_try] assms(1,2) by simp_all
  moreover note time_diffs [of "int arrival" now] js_number_nat [OF assms(3)] js_number_nat [OF assms(4)] js_number_nat [OF assms(5)]
    tstamp_nat [OF assms(1)] tstamp_nat [OF assms(2)]
  ultimately show ?thesis using assms(6,7)
    by (simp add: parse_filename_def Let_def int_part_def num_part_def part_def eval_nat_numeral)
qed

lemma queue_name_read_witness:
  "parse_filename 1676371432351 (queue_name 1676349832351 1676369986649 7 35 ''fl96Rc'' 8 ''c21194a1a5c3'') = Inr
    \<lparr>qe_arrival = Fin 1676349832351, qe_next_attempt = Fin 1676369986649, qe_attempts = Fin 7, qe_pid = Fin 35,
     qe_uniq = Some ''fl96Rc'', qe_counter = Fin 8, qe_host = Some ''c21194a1a5c3'', qe_age_seconds = Fin 21600, qe_age_hours = Fin 6\<rparr>"
  by (subst queue_name_read) simp_all

lemma read_uint32: "n < 2 ^ 32 \<Longrightarrow> read_uint32_be (uint32_be n @ s) = Inr n"
proof -
  assume n: "n < 2 ^ 32"
  have "n div 65536 = n div 256 div 256" "n div 16777216 = n div 256 div 256 div 256" by (simp_all add: div_mult2_eq [symmetric])
  moreover have "n div 256 div 256 div 256 < 256" using n by (simp add: div_mult2_eq [symmetric] less_mult_imp_div_less)
  moreover have "16777216 * (n div 256 div 256 div 256) + 65536 * (n div 256 div 256 mod 256) + n div 256 mod 256 * 256 + n mod 256 = n"
    using div_mult_mod_eq [of n 256] div_mult_mod_eq [of "n div 256" 256] div_mult_mod_eq [of "n div 256 div 256" 256] by linarith
  ultimately show ?thesis by (simp add: uint32_be_def read_uint32_be_def of_char_of)
qed

lemma absolute_not_int: "js_parse_int (CHR ''/'' # s) = NaN"
  by (simp add: js_parse_int_def is_ws_def starts_with_def is_digit_def Let_def)

text \<open>What the tools read of a message: a description of it, and that a value fits it.\<close>

record queued_mail =
  qm_time :: nat
  qm_domain :: string
  qm_sender :: string
  qm_rcpt :: string

definition describes :: "jsval \<Rightarrow> queued_mail \<Rightarrow> bool" where
  "describes v m \<longleftrightarrow> (\<exists>ps. v = Obj ps) \<and> json_ok v \<and> length (nullish (json_stringify v) []) < 2 ^ 32
    \<and> get_prop v ''queue_time'' = num_of (int (qm_time m)) \<and> get_prop v ''domain'' = Str (qm_domain m)
    \<and> (\<exists>ps. get_prop v ''mail_from'' = Obj ps \<and> get_prop (Obj ps) ''original'' = Str (qm_sender m))
    \<and> (\<exists>ps rest. get_prop v ''rcpt_to'' = Arr (Obj ps # rest) \<and> get_prop (Obj ps) ''original'' = Str (qm_rcpt m))"

definition wanted :: "(string \<Rightarrow> string \<Rightarrow> bool) \<Rightarrow> int \<Rightarrow> queue_filter \<Rightarrow> queued_mail \<Rightarrow> bool" where
  "wanted test now f m \<longleftrightarrow>
     (qf_src f \<noteq> [] \<longrightarrow> test (qf_src f) (qm_sender m)) \<and> (qf_dst f \<noteq> [] \<longrightarrow> test (qf_dst f) (qm_rcpt m))
     \<and> (qf_domain f \<noteq> [] \<longrightarrow> test (qf_domain f) (qm_domain m))
     \<and> (let hours = Fin (of_int ((now - int (qm_time m)) div 3600000))
        in (num_truthy (qf_minage f) \<longrightarrow> num_le (qf_minage f) hours) \<and> (num_truthy (qf_maxage f) \<longrightarrow> num_le hours (qf_maxage f)))"

lemma keep_wanted:
  assumes "describes (md_value md) m" "int (qm_time m) \<le> now" "now < 2 ^ 53"
    "\<And>s. s \<noteq> [] \<Longrightarrow> s \<in> {qf_src f, qf_dst f, qf_domain f} \<Longrightarrow> re s = Inr (test s)"
    "\<not> num_truthy (qf_minattempts f)" "qf_datefrom f = None" "qf_dateto f = None"
  shows "keep_item re now f md = Inr (wanted test now f m)"
proof -
  obtain ps where ps: "get_prop (md_value md) ''mail_from'' = Obj ps" "get_prop (Obj ps) ''original'' = Str (qm_sender m)"
    using assms(1) by (auto simp: describes_def)
  obtain qs rest where qs: "get_prop (md_value md) ''rcpt_to'' = Arr (Obj qs # rest)" "get_prop (Obj qs) ''original'' = Str (qm_rcpt m)"
    using assms(1) by (auto simp: describes_def)
  have s: "sender_of md = Inr (Str (qm_sender m))" by (simp add: sender_of_def ps read_prop_def)
  have r: "first_recipient md = Inr (Str (qm_rcpt m))" by (simp add: first_recipient_def first_item_def qs read_prop_def)
  have d: "get_prop (md_value md) ''domain'' = Str (qm_domain m)" using assms(1) by (simp add: describes_def)
  have age: "mail_age now md = Fin (of_int ((now - int (qm_time m)) div 3600000))"
    using assms(1) time_diffs(2) [of "int (qm_time m)" now] assms(2,3)
    by (simp add: mail_age_def describes_def num_of_def js_to_number_def)
  have test: "matches_text re p (Inr (Str t)) = Inr (test p t)" if "p \<noteq> []" "p \<in> {qf_src f, qf_dst f, qf_domain f}" for p t
    using assms(4) [OF that] by (simp add: matches_text_def)
  show ?thesis using assms(5-7) test
    by (simp add: keep_item_def and_then_def thrown_def s r d age wanted_def Let_def)
qed

lemma filter_items_total: "(\<And>x. x \<in> set xs \<Longrightarrow> keep x = Inr (P x)) \<Longrightarrow> filter_items keep xs = Inr (filter P xs)"
  by (induction xs) simp_all

text \<open>An entry of the queue directory as the gateway writes it, and the message it holds.\<close>

record queue_entry =
  en_name :: string
  en_value :: jsval
  en_body :: string
  en_mail :: queued_mail

definition entry_file :: "queue_entry \<Rightarrow> string \<times> string option" where
  "entry_file e = (en_name e, Some (queue_file (en_value e) (en_body e)))"

definition entry_ok :: "int \<Rightarrow> queue_entry \<Rightarrow> bool" where
  "entry_ok now e \<longleftrightarrow> describes (en_value e) (en_mail e) \<and> int (qm_time (en_mail e)) \<le> now"

lemma read_entry:
  assumes "entry_ok now e" "file \<noteq> []"
  shows "\<exists>md. read_queue_file now file (snd (entry_file e)) = Inr md \<and> md_value md = en_value e \<and> md_filename md = file"
proof -
  let ?v = "en_value e"
  obtain ps where v: "?v = Obj ps" "json_ok ?v" "length (nullish (json_stringify ?v) []) < 2 ^ 32"
    using assms(1) by (auto simp: entry_ok_def describes_def)
  then obtain t where t: "json_stringify ?v = Some t" using json_ok_text by blast
  define s where "s = uint32_be (length t) @ t @ en_body e"
  have "snd (entry_file e) = Some s" by (simp add: entry_file_def queue_file_def t s_def)
  moreover have "read_uint32_be s = Inr (length t)" using v(3) t by (simp add: s_def read_uint32)
  moreover have "take (length t) (drop 4 s) = t" by (simp add: s_def uint32_be_def)
  moreover have "json_parse t = Some (en_value e)" using json_parse_stringify [OF v(2)] t by simp
  moreover obtain info where "parse_filename now file = Inr info" using assms(2) by (auto simp: parse_filename_def Let_def)
  ultimately show ?thesis using v(1) by (simp add: read_queue_file_def)
qed

lemma read_entries:
  assumes "list_all (entry_ok now) es"
  shows "\<exists>mds. map_res (\<lambda>(item, content). read_queue_file now (dir @ ''/'' @ item) content) (map entry_file es) = Inr mds
    \<and> list_all2 (\<lambda>e md. md_value md = en_value e \<and> md_filename md = dir @ ''/'' @ en_name e) es mds"
  using assms
proof (induction es)
  case (Cons e es)
  then obtain md where "read_queue_file now (dir @ ''/'' @ en_name e) (snd (entry_file e)) = Inr md"
      "md_value md = en_value e" "md_filename md = dir @ ''/'' @ en_name e"
    using read_entry [of now e "dir @ ''/'' @ en_name e"] by auto
  moreover have "fst (entry_file e) = en_name e" by (simp add: entry_file_def)
  moreover from Cons obtain mds where "map_res (\<lambda>(item, content). read_queue_file now (dir @ ''/'' @ item) content) (map entry_file es) = Inr mds"
      "list_all2 (\<lambda>e md. md_value md = en_value e \<and> md_filename md = dir @ ''/'' @ en_name e) es mds"
    by auto
  ultimately show ?case by (cases "entry_file e") auto
qed simp

lemma filter_entries:
  assumes "list_all2 (\<lambda>e md. keep md = Inr (P e) \<and> f md = g e) es mds"
  shows "\<exists>kept. filter_items keep mds = Inr kept \<and> map f kept = map g (filter P es)"
  using assms by (induction rule: list_all2_induct) auto



section \<open>Where the tools part from their help texts\<close>

text \<open>\<open>--dateto\<close> sets the other date, so what is reported missing is \<open>--datefrom\<close>.\<close>

lemma dateto_is_datefrom:
  assumes "truthy_str (qa_dateto a)"
  shows "qf_datefrom (get_filter now a) = Some now" "qf_dateto (get_filter now a) = None"
  using assms by (simp_all add: get_filter_def Let_def)

text \<open>\<open>--maxage 0\<close>, and a bound that is no number, are no bound at all.\<close>

lemma age_bound_ignored:
  assumes "qa_maxage a = Some ''0'' \<or> qa_maxage a = Some ''none''"
  shows "\<not> num_truthy (qf_maxage (get_filter now a))"
proof -
  have "js_parse_int ''0'' = Fin 0" "js_parse_int ''none'' = NaN" by code_simp+
  with assms show ?thesis by (auto simp: get_filter_def Let_def number_option_def num_truthy_def)
qed

text \<open>The details are read with the path of the file, and the name parsed from it: an absolute path has no arrival time.\<close>

lemma fileinfo_of_path:
  assumes "read_queue_file now (CHR ''/'' # p) content = Inr md"
  shows "qe_arrival (md_fileinfo md) = NaN" "qe_age_hours (md_fileinfo md) = NaN"
proof -
  have "\<exists>rest. js_split (CHR ''_'') (CHR ''/'' # p) = (CHR ''/'' # rest) # tl (js_split (CHR ''_'') (CHR ''/'' # p))"
    by (simp split: list.split)
  then have "int_part (js_split (CHR ''_'') (CHR ''/'' # p)) 0 = NaN"
    by (metis (no_types, lifting) absolute_not_int int_part_def length_greater_0_conv list.distinct(1) nth_Cons_0 option.simps(5) part_def)
  moreover from assms have "Inr (md_fileinfo md) = parse_filename now (CHR ''/'' # p)"
    by (auto simp: read_queue_file_def map_sum_Inr_iff elim!: res_bind_InrE split: option.splits if_split_asm)
  ultimately show "qe_arrival (md_fileinfo md) = NaN" "qe_age_hours (md_fileinfo md) = NaN"
    by (auto simp: parse_filename_def Let_def tstamp_to_date_def time_diff_hours_def js_minus_def js_div_floor_def simp del: js_split.simps)
qed

text \<open>The sending tool reads the queued message and sends a fixed one; a list of files is accepted and never read.\<close>

lemma sends_fixed_message:
  assumes "send_mail now argc parsed is_file contents = Inr m"
  shows "sm_to m = [''recipient@example.com'']" "sm_from m = ''sender@example.com''"
  using assms by (auto simp: send_mail_def split: sum.splits option.splits)

lemma list_alone_throws:
  assumes "send_get_args argc parsed is_file = Inr a" "sa_file a = None"
  shows "send_mail now argc parsed is_file contents = Inl (Thrown ''ERR_INVALID_ARG_TYPE'')"
  using assms by (simp add: send_mail_def)

end
