(* ===== verification/GatewaySetup.thy ===== *)
theory GatewaySetup
  imports Schema
begin

text \<open>
  The set-up of the retired gateway, \<open>legacy/mailgw-config/src/\<close>: \<open>lib.ts\<close>, \<open>init.ts\<close>, \<open>index.ts\<close>. The file system is a map from
  paths to directories and files; a write or a \<open>mkdir\<close> without its parent directory fails as Node's does. The help texts of
  \<open>gensh.ts\<close> are left out.
\<close>

section \<open>The configuration files\<close>

definition nl :: char where "nl = CHR 0x0A"

text \<open>An environment variable in a template literal, and \<open>value || fallback\<close>.\<close>

definition shown :: "string option \<Rightarrow> string" where
  "shown x = nullish x ''undefined''"

definition or_text :: "string option \<Rightarrow> string \<Rightarrow> string" where
  "or_text x fallback = (if truthy_str x then the x else fallback)"

definition gen_log_ini :: "env \<Rightarrow> string" where
  "gen_log_ini env = nl # js_join [nl]
    [''[main]'', [], ''; level=data, protocol, debug, info, notice, warn, error, crit, alert, emerg'',
     ''level='' @ shown (env ''LOG_LEVEL''), [],
     ''; prepend timestamps to log entries? This setting does NOT affect logs emitted'', ''; by logging plugins (like syslog).'',
     ''timestamps='' @ shown (env ''LOG_TIMESTAMPS''), [], '';  format=default, logfmt, json'',
     ''format='' @ shown (env ''LOG_FORMAT''), []]"

definition gen_smtp_ini :: "env \<Rightarrow> string" where
  "gen_smtp_ini env = nl # js_join [nl]
    [''; address to listen on (default: all IPv6 and IPv4 addresses, port 25)'',
     ''; use \"[::0]:25\" to listen on IPv6 and IPv4 (not all OSes)'', [], ''listen=0.0.0.0:'' @ shown (env ''SMTP_PORT''), [],
     ''; Note you can listen on multiple IPs/ports using commas:'', '';listen=127.0.0.1:2529,127.0.0.2:2529,127.0.0.3:2530'', [],
     ''; public IP address (default: none)'', ''; If your machine is behind a NAT, some plugins (SPF, GeoIP) gain features'',
     ''; if they know the servers public IP. If '' @ [CHR 0x27] @ ''stun'' @ [CHR 0x27] @ '' is installed, Haraka will'',
     ''; try to figure it out. If that doesn'' @ [CHR 0x27] @ ''t work, set it here.'', '';public_ip=N.N.N.N'', [],
     ''; Time in seconds to let sockets be idle with no activity'', '';inactivity_timeout=300'', [],
     ''; Drop privileges to this user/group'', '';user=smtp'', '';group=smtp'', [],
     ''; Don'' @ [CHR 0x27] @ ''t stop Haraka if plugins fail to compile'', '';ignore_bad_plugins=0'', [],
     ''; Run using cluster to fork multiple backend processes'', [], ''; nodes=cpus'', [],
     ''nodes='' @ shown (env ''NODEJS_CPU_CORES''), [], [], ''; Daemonize'', ''; daemonize=true'',
     ''; daemon_log_file=/tmp/haraka/haraka.log'', ''; daemon_pid_file=/tmp/haraka/haraka.pid'', [], ''; Spooling'',
     ''; Save memory by spooling large messages to disk'', '';spool_dir=/var/spool/haraka'',
     ''; Specify -1 to never spool to disk'', ''; Specify 0 to always spool to disk'',
     ''; Otherwise specify a size in bytes, once reached the'', ''; message will be spooled to disk to save memory.'',
     '';spool_after='', [], ''; Force Shutdown Timeout'',
     ''; - Haraka tries to close down gracefully, but if everything is shut down'',
     '';   after this time it will hard close. 30s is usually long enough to'', '';   wait for outbound connections to finish.'',
     '';force_shutdown_timeout=30'', [], ''; SMTP service extensions: https://tools.ietf.org/html/rfc1869'',
     ''; strict_rfc1869 = false'', [], ''; Advertise support for SMTPTUF8 (RFC-6531)'', '';smtputf8=true'', [], ''[headers]'',
     '';add_received=true'', '';clean_auth_results=true'', [], ''; replace header_hide_version'', '';show_version=true'', [],
     ''; replace max_header_lines'', ''max_lines=1000'', [], ''; replace max_received_count'', ''max_received=100'', []]"

definition gen_deny_includes_uuid :: "env \<Rightarrow> string" where
  "gen_deny_includes_uuid env = or_text (env ''DENY_INCLUDES_UUID'') ''1''"

definition gen_smtp_name :: "env \<Rightarrow> string" where
  "gen_smtp_name env = or_text (env ''SMTP_RELAY_NAME'') ''smtp-relay''"

definition gen_smtp_greeting :: "env \<Rightarrow> string" where
  "gen_smtp_greeting env = or_text (env ''SMTP_GREETING'') ''NGM Mail Gateway''"

definition gen_smtp_forward_ini :: string where
  "gen_smtp_forward_ini = nl # js_join [nl]
    [''enable_outbound=false'', ''host=127.0.0.1'', ''port=2525'', ''connect_timeout=60'', ''timeout=60'',
     ''max_connections=1000'', []]"

definition gen_plugins :: string where
  "gen_plugins = nl # js_join [nl]
    [''#ngmfilter'', [], ''dnsbl'', ''helo.checks'', ''headers'', [], ''#ngmFilterAttach'', [], ''npRoute'', ''npLogDelivery'',
     ''    '']"

definition gen_internal_cmd_key :: string where
  "gen_internal_cmd_key = ''231699a65eb9474718b3dd8c18108d550f34279fe86aace09dd04f2b11e61da4''"

definition gen_host_list :: "env \<Rightarrow> string" where
  "gen_host_list env = map (\<lambda>c. if c = CHR '','' then nl else c) (or_text (env ''ACCEPTED_DOMAINS'') ''localhost'') @ [nl]"

section \<open>The file system\<close>

datatype entry = Dir | File string

type_synonym disk = "string \<Rightarrow> entry option"

text \<open>The directory a path is in: all before its last slash.\<close>

definition parent :: "string \<Rightarrow> string" where
  "parent p = rev (drop 1 (dropWhile (\<lambda>c. c \<noteq> CHR ''/'') (rev p)))"

definition mkdir :: "string \<Rightarrow> disk \<Rightarrow> unit res \<times> disk" where
  "mkdir p fs =
     (if fs p \<noteq> None then (Inl ''EEXIST'', fs)
      else if fs (parent p) \<noteq> Some Dir then (Inl ''ENOENT'', fs)
      else (Inr (), fs(p \<mapsto> Dir)))"

definition write_file :: "string \<Rightarrow> string \<Rightarrow> disk \<Rightarrow> unit res \<times> disk" where
  "write_file p content fs =
     (if fs p = Some Dir then (Inl ''EISDIR'', fs)
      else if fs (parent p) \<noteq> Some Dir then (Inl ''ENOENT'', fs)
      else (Inr (), fs(p \<mapsto> File content)))"

text \<open>Steps one after the other until one throws.\<close>

fun run_steps :: "(disk \<Rightarrow> unit res \<times> disk) list \<Rightarrow> disk \<Rightarrow> unit res \<times> disk" where
  "run_steps [] fs = (Inr (), fs)"
| "run_steps (s # ss) fs = (case s fs of (Inl e, fs') \<Rightarrow> (Inl e, fs') | (Inr _, fs') \<Rightarrow> run_steps ss fs')"

definition config_files :: "env \<Rightarrow> (string \<times> string) list" where
  "config_files env =
     [(''log.ini'', gen_log_ini env), (''smtp.ini'', gen_smtp_ini env), (''deny_includes_uuid'', gen_deny_includes_uuid env),
      (''me'', gen_smtp_name env), (''smtpgreeting'', gen_smtp_greeting env), (''smtp_forward.ini'', gen_smtp_forward_ini),
      (''plugins'', gen_plugins), (''internalcmd_key'', gen_internal_cmd_key), (''host_list'', gen_host_list env)]"

definition gen_configs :: "env \<Rightarrow> string \<Rightarrow> disk \<Rightarrow> unit res \<times> disk" where
  "gen_configs env configdir = run_steps (map (\<lambda>(name, content). write_file (configdir @ ''/'' @ name) content) (config_files env))"

section \<open>Running the set-up\<close>

text \<open>How the script ends: \<open>process.exit\<close>, an error at the top level, or its end.\<close>

datatype setup_end = SetupExit int string | SetupThrown js_error | SetupDone

definition setup_init :: "env \<Rightarrow> bool \<Rightarrow> disk \<Rightarrow> setup_end option" where
  "setup_init env dotenv_found fs =
     (if \<not> dotenv_found then Some (SetupExit 1 ''File not found: .env'')
      else if \<not> truthy_str (env ''APP_DIR'') then Some (SetupExit 1 ''APP_DIR env var is not set'')
      else if fs (the (env ''APP_DIR'') @ ''/config'') \<noteq> None
           then Some (SetupExit 1 (''folder exists: '' @ the (env ''APP_DIR'') @ ''/config''))
      else None)"

definition setup_main :: "env \<Rightarrow> bool \<Rightarrow> disk \<Rightarrow> setup_end \<times> disk" where
  "setup_main env dotenv_found fs =
     (case setup_init env dotenv_found fs of
        Some e \<Rightarrow> (e, fs)
      | None \<Rightarrow>
          (let app = the (env ''APP_DIR'')
           in case run_steps [mkdir (app @ ''/config''), mkdir (app @ ''/queue''), mkdir (app @ ''/log''),
                              gen_configs env (app @ ''/config'')] fs of
                (Inl e, fs') \<Rightarrow> (SetupThrown e, fs')
              | (Inr _, fs') \<Rightarrow> (SetupDone, fs')))"

end
