(* ===== verification/SetupProps.thy ===== *)
theory SetupProps
  imports GatewaySetup
begin

text \<open>
  What the set-up of the retired gateway promises: on a machine without one it writes a whole configuration and
  touches nothing else, where there is one it does nothing, and what an interrupted set-up leaves behind.
\<close>

definition no_slash :: "string \<Rightarrow> bool" where
  "no_slash n \<longleftrightarrow> CHR ''/'' \<notin> set n"

lemma parent_in: "no_slash n \<Longrightarrow> parent (d @ ''/'' @ n) = d"
proof -
  assume "no_slash n"
  then have "dropWhile (\<lambda>c. c \<noteq> CHR ''/'') (rev n @ CHR ''/'' # rev d) = CHR ''/'' # rev d"
    by (subst dropWhile_append2) (auto simp: no_slash_def)
  then show ?thesis by (simp add: parent_def)
qed

lemma parents: "parent (a @ ''/config'') = a" "parent (a @ ''/queue'') = a" "parent (a @ ''/log'') = a"
  using parent_in [of "''config''" a] parent_in [of "''queue''" a] parent_in [of "''log''" a] by (simp_all add: no_slash_def)

definition under_dir :: "string \<Rightarrow> string \<times> string \<Rightarrow> string \<times> entry" where
  "under_dir d f = (d @ ''/'' @ fst f, File (snd f))"

lemma run_writes:
  assumes "fs d = Some Dir" "list_all (\<lambda>f. no_slash (fst f) \<and> fs (d @ ''/'' @ fst f) \<noteq> Some Dir) fl" "distinct (map fst fl)"
  shows "run_steps (map (\<lambda>(n, c). write_file (d @ ''/'' @ n) c) fl) fs = (Inr (), fs ++ map_of (map (under_dir d) fl))"
  using assms
proof (induction fl arbitrary: fs)
  case (Cons f fl)
  obtain n c where f: "f = (n, c)" by (cases f)
  let ?k = "d @ ''/'' @ n"
  have w: "write_file ?k c fs = (Inr (), fs(?k \<mapsto> File c))"
    using Cons.prems f parent_in [of n d] by (simp add: write_file_def)
  have "(fs(?k \<mapsto> File c)) d = Some Dir" using Cons.prems(1) by simp
  moreover have "list_all (\<lambda>f. no_slash (fst f) \<and> (fs(?k \<mapsto> File c)) (d @ ''/'' @ fst f) \<noteq> Some Dir) fl"
    using Cons.prems(2) by (auto simp: list_all_iff)
  ultimately have "run_steps (map (\<lambda>(n, c). write_file (d @ ''/'' @ n) c) fl) (fs(?k \<mapsto> File c))
      = (Inr (), fs(?k \<mapsto> File c) ++ map_of (map (under_dir d) fl))"
    using Cons.IH Cons.prems(3) by simp
  moreover have "fs(?k \<mapsto> File c) ++ map_of (map (under_dir d) fl) = fs ++ map_of (map (under_dir d) (f # fl))"
  proof -
    have "?k \<notin> dom (map_of (map (under_dir d) fl))"
      using Cons.prems(3) f unfolding dom_map_of_conv_image_fst by (auto simp: under_dir_def image_iff)
    then show ?thesis by (simp add: map_add_upd_left f under_dir_def)
  qed
  moreover have "run_steps (map (\<lambda>(n, c). write_file (d @ ''/'' @ n) c) (f # fl)) fs
      = run_steps (map (\<lambda>(n, c). write_file (d @ ''/'' @ n) c) fl) (fs(?k \<mapsto> File c))"
    using w f by simp
  ultimately show ?case by (simp only:)
qed simp

lemma config_files_ok: "list_all (\<lambda>f. no_slash (fst f)) (config_files env)" "distinct (map fst (config_files env))"
  by (simp_all add: config_files_def no_slash_def)

text \<open>The file system after a set-up.\<close>

definition configured :: "env \<Rightarrow> string \<Rightarrow> disk \<Rightarrow> disk" where
  "configured env a fs = fs(a @ ''/config'' \<mapsto> Dir, a @ ''/queue'' \<mapsto> Dir, a @ ''/log'' \<mapsto> Dir)
     ++ map_of (map (under_dir (a @ ''/config'')) (config_files env))"

lemma refused:
  assumes "env ''APP_DIR'' = Some a" "a \<noteq> []" "fs (a @ ''/config'') \<noteq> None"
  shows "setup_main env True fs = (SetupExit 1 (''folder exists: '' @ a @ ''/config''), fs)"
  using assms by (simp add: setup_main_def setup_init_def)

text \<open>The set-up is whole and runs once. With \<open>APP_DIR\<close> an existing directory that has none of the three folders, it ends
  well with the three directories and the nine files of the configuration, each with its content, and everything
  else as it was; a second run changes nothing and says that the folder exists.\<close>

theorem setup_complete:
  assumes "env ''APP_DIR'' = Some a" "a \<noteq> []" "fs a = Some Dir"
    "fs (a @ ''/config'') = None" "fs (a @ ''/queue'') = None" "fs (a @ ''/log'') = None" "\<And>n. fs (a @ ''/config/'' @ n) = None"
  shows "setup_main env True fs = (SetupDone, configured env a fs)"
    "setup_main env True (configured env a fs) = (SetupExit 1 (''folder exists: '' @ a @ ''/config''), configured env a fs)"
proof -
  let ?fs = "fs(a @ ''/config'' \<mapsto> Dir, a @ ''/queue'' \<mapsto> Dir, a @ ''/log'' \<mapsto> Dir)"
  have dirs: "mkdir (a @ ''/config'') fs = (Inr (), fs(a @ ''/config'' \<mapsto> Dir))"
    "mkdir (a @ ''/queue'') (fs(a @ ''/config'' \<mapsto> Dir)) = (Inr (), fs(a @ ''/config'' \<mapsto> Dir, a @ ''/queue'' \<mapsto> Dir))"
    "mkdir (a @ ''/log'') (fs(a @ ''/config'' \<mapsto> Dir, a @ ''/queue'' \<mapsto> Dir)) = (Inr (), ?fs)"
    using assms(3-6) by (simp_all add: mkdir_def parents)
  have "?fs (a @ ''/config/'' @ n) \<noteq> Some Dir" for n using assms(7) by simp
  then have "list_all (\<lambda>f. no_slash (fst f) \<and> ?fs ((a @ ''/config'') @ ''/'' @ fst f) \<noteq> Some Dir) (config_files env)"
    using config_files_ok(1) by (simp add: list_all_iff)
  then have "gen_configs env (a @ ''/config'') ?fs = (Inr (), configured env a fs)"
    unfolding gen_configs_def configured_def by (intro run_writes) (simp_all add: config_files_ok(2))
  then show "setup_main env True fs = (SetupDone, configured env a fs)"
    using assms(1,2,4) dirs by (simp add: setup_main_def setup_init_def Let_def)
  have "configured env a fs (a @ ''/config'') \<noteq> None" by (simp add: configured_def map_add_def split: option.split)
  with assms(1,2) show "setup_main env True (configured env a fs) = (SetupExit 1 (''folder exists: '' @ a @ ''/config''), configured env a fs)"
    by (rule refused)
qed

text \<open>A queue folder that is already there stops the first run after it made the configuration folder: the folder stays empty, and
  every later run refuses because it exists.\<close>

lemma half_set_up:
  assumes "env ''APP_DIR'' = Some a" "a \<noteq> []" "fs a = Some Dir" "fs (a @ ''/config'') = None" "fs (a @ ''/queue'') \<noteq> None"
  shows "setup_main env True fs = (SetupThrown ''EEXIST'', fs(a @ ''/config'' \<mapsto> Dir))"
    "setup_main env True (fs(a @ ''/config'' \<mapsto> Dir)) = (SetupExit 1 (''folder exists: '' @ a @ ''/config''), fs(a @ ''/config'' \<mapsto> Dir))"
proof -
  have "mkdir (a @ ''/config'') fs = (Inr (), fs(a @ ''/config'' \<mapsto> Dir))"
    "mkdir (a @ ''/queue'') (fs(a @ ''/config'' \<mapsto> Dir)) = (Inl ''EEXIST'', fs(a @ ''/config'' \<mapsto> Dir))"
    using assms(3-5) by (simp_all add: mkdir_def parents)
  then show "setup_main env True fs = (SetupThrown ''EEXIST'', fs(a @ ''/config'' \<mapsto> Dir))"
    using assms(1,2,4) by (simp add: setup_main_def setup_init_def Let_def)
  show "setup_main env True (fs(a @ ''/config'' \<mapsto> Dir)) = (SetupExit 1 (''folder exists: '' @ a @ ''/config''), fs(a @ ''/config'' \<mapsto> Dir))"
    by (rule refused [of env a, OF assms(1,2)]) simp
qed

end
