(* ===== verification/Certs.thy ===== *)
theory Certs
  imports Startup
begin

text \<open>
  The certificate generator, \<open>certs/src/generate.ts\<close>, around the rules it shares with the console's own certificate
  (\<open>random_serial\<close> and \<open>is_ip\<close> of \<open>Startup\<close>). The configuration file is read as the interfaces of the script type it; \<open>pem\<close> stands
  for the RSA key of the size asked for, the signature and the encoding, \<open>project\<close> is the project's directory, and \<open>now\<close> and
  \<open>bytes\<close> give each certificate its time and its random bytes. Paths are joined without being normalised.
\<close>

record cert_spec =
  cs_name :: "string option"
  cs_common_name :: "string option"
  cs_alt_names :: "string list option"
  cs_out :: "string option"
  cs_key_file :: "string option"
  cs_cert_file :: "string option"
  cs_days :: "int option"
  cs_key_size :: "int option"
  cs_organization :: "string option"

record certs_config =
  cc_defaults :: "cert_spec option"
  cc_certs :: "cert_spec list option"

definition first_of :: "'a option \<Rightarrow> 'a option \<Rightarrow> 'a option" where
  "first_of x y = (case x of None \<Rightarrow> y | Some _ \<Rightarrow> x)"

text \<open>\<open>{ ...config.defaults, ...entry }\<close>.\<close>

definition spec_of :: "cert_spec option \<Rightarrow> cert_spec \<Rightarrow> cert_spec" where
  "spec_of defaults e = (case defaults of
     None \<Rightarrow> e
   | Some d \<Rightarrow>
       \<lparr>cs_name = first_of (cs_name e) (cs_name d), cs_common_name = first_of (cs_common_name e) (cs_common_name d),
        cs_alt_names = first_of (cs_alt_names e) (cs_alt_names d), cs_out = first_of (cs_out e) (cs_out d),
        cs_key_file = first_of (cs_key_file e) (cs_key_file d), cs_cert_file = first_of (cs_cert_file e) (cs_cert_file d),
        cs_days = first_of (cs_days e) (cs_days d), cs_key_size = first_of (cs_key_size e) (cs_key_size d),
        cs_organization = first_of (cs_organization e) (cs_organization d)\<rparr>)"

text \<open>A certificate of this script; its organization is left out where the specification has none.\<close>

record made_cert =
  mc_serial :: string
  mc_not_before :: int
  mc_not_after :: int
  mc_common_name :: string
  mc_organization :: "string option"
  mc_alt_names :: "(nat \<times> string) list"
  mc_key_size :: int

definition build_alt_names :: "string list \<Rightarrow> (nat \<times> string) list" where
  "build_alt_names values = map (\<lambda>v. if is_ip v then (7, v) else (2, v)) values"

definition generate_cert :: "string \<Rightarrow> int \<Rightarrow> string \<Rightarrow> cert_spec \<Rightarrow> made_cert" where
  "generate_cert bytes now commonName spec =
     (let names = (case cs_alt_names spec of Some (n # ns) \<Rightarrow> n # ns | _ \<Rightarrow> [commonName])
      in \<lparr>mc_serial = random_serial bytes, mc_not_before = now, mc_not_after = now + nullish (cs_days spec) 825 * 24 * 60 * 60 * 1000,
          mc_common_name = commonName, mc_organization = (if truthy_str (cs_organization spec) then cs_organization spec else None),
          mc_alt_names = build_alt_names names, mc_key_size = nullish (cs_key_size spec) 2048\<rparr>)"

type_synonym written = "string \<Rightarrow> string option"

definition out_dir :: "string \<Rightarrow> string \<Rightarrow> string" where
  "out_dir project out = (if starts_with out ''/'' then out else project @ ''/'' @ out)"

definition shown_name :: "cert_spec \<Rightarrow> string" where
  "shown_name s = nullish (cs_name s) ''undefined''"

fun write_certs ::
  "(made_cert \<Rightarrow> string \<times> string) \<Rightarrow> (nat \<Rightarrow> string \<times> int) \<Rightarrow> string \<Rightarrow> cert_spec option \<Rightarrow> nat \<Rightarrow> cert_spec list \<Rightarrow> written \<Rightarrow> unit res \<times> written"
where
  "write_certs pem chance project defaults i [] fs = (Inr (), fs)"
| "write_certs pem chance project defaults i (e # es) fs =
     (let spec = spec_of defaults e
      in if \<not> truthy_str (cs_common_name spec) then (Inl (''cert '' @ [CHR 0x22] @ shown_name spec @ [CHR 0x22] @ '' is missing commonName''), fs)
         else if \<not> truthy_str (cs_out spec) then (Inl (''cert '' @ [CHR 0x22] @ shown_name spec @ [CHR 0x22] @ '' is missing out''), fs)
         else (case pem (generate_cert (fst (chance i)) (snd (chance i)) (the (cs_common_name spec)) spec) of
            (k, c) \<Rightarrow>
              (let dir = out_dir project (the (cs_out spec))
               in write_certs pem chance project defaults (Suc i) es
                    (fs(dir @ ''/'' @ nullish (cs_key_file spec) ''server.key'' \<mapsto> k,
                        dir @ ''/'' @ nullish (cs_cert_file spec) ''server.crt'' \<mapsto> c)))))"

definition generate_main ::
  "(made_cert \<Rightarrow> string \<times> string) \<Rightarrow> (nat \<Rightarrow> string \<times> int) \<Rightarrow> string \<Rightarrow> string \<Rightarrow> certs_config res \<Rightarrow> written \<Rightarrow> unit res \<times> written"
where
  "generate_main pem chance project configPath config fs =
     (case config of
        Inl e \<Rightarrow> (Inl e, fs)
      | Inr c \<Rightarrow>
          (case cc_certs c of
             Some (e # es) \<Rightarrow> write_certs pem chance project (cc_defaults c) 0 (e # es) fs
           | _ \<Rightarrow> (Inl (''no '' @ [CHR 0x22] @ ''certs'' @ [CHR 0x22] @ '' entries in '' @ configPath), fs)))"

section \<open>What a run writes\<close>

definition spec_complete :: "cert_spec option \<Rightarrow> cert_spec \<Rightarrow> bool" where
  "spec_complete defaults e \<longleftrightarrow> truthy_str (cs_common_name (spec_of defaults e)) \<and> truthy_str (cs_out (spec_of defaults e))"

definition key_path :: "string \<Rightarrow> cert_spec option \<Rightarrow> cert_spec \<Rightarrow> string" where
  "key_path project defaults e = (let s = spec_of defaults e in out_dir project (the (cs_out s)) @ ''/'' @ nullish (cs_key_file s) ''server.key'')"

definition cert_path :: "string \<Rightarrow> cert_spec option \<Rightarrow> cert_spec \<Rightarrow> string" where
  "cert_path project defaults e = (let s = spec_of defaults e in out_dir project (the (cs_out s)) @ ''/'' @ nullish (cs_cert_file s) ''server.crt'')"

lemma write_step:
  assumes "spec_complete defaults e"
  shows "\<exists>k c. write_certs pem chance project defaults i (e # es) fs
    = write_certs pem chance project defaults (Suc i) es (fs(key_path project defaults e \<mapsto> k, cert_path project defaults e \<mapsto> c))"
  using assms by (auto simp: spec_complete_def Let_def key_path_def cert_path_def split: prod.split)

lemma write_stop:
  assumes "\<not> spec_complete defaults e"
  shows "fst (write_certs pem chance project defaults i (e # es) fs) \<noteq> Inr ()" "snd (write_certs pem chance project defaults i (e # es) fs) = fs"
  using assms by (auto simp: spec_complete_def Let_def)

text \<open>A run ends well exactly when every entry is complete; whatever happens, only the paths of the complete entries before the
  first incomplete one are written.\<close>

lemma generate_outcome:
  "(fst (write_certs pem chance project defaults i es fs) = Inr ()) = list_all (spec_complete defaults) es"
  "p \<notin> key_path project defaults ` set (takeWhile (spec_complete defaults) es) \<union> cert_path project defaults ` set (takeWhile (spec_complete defaults) es)
     \<Longrightarrow> snd (write_certs pem chance project defaults i es fs) p = fs p"
proof (induction es arbitrary: i fs)
  case (Cons e es)
  {
    case 1
    show ?case
    proof (cases "spec_complete defaults e")
      case True
      from write_step [OF True, of pem chance project i es fs] obtain k c
        where w: "write_certs pem chance project defaults i (e # es) fs = write_certs pem chance project defaults (Suc i) es
          (fs(key_path project defaults e \<mapsto> k, cert_path project defaults e \<mapsto> c))"
        by blast
      show ?thesis unfolding w Cons.IH(1) using True by simp
    qed (use write_stop(1) in simp)
  next
    case 2
    show ?case
    proof (cases "spec_complete defaults e")
      case True
      from write_step [OF True, of pem chance project i es fs] obtain k c
        where w: "write_certs pem chance project defaults i (e # es) fs = write_certs pem chance project defaults (Suc i) es
          (fs(key_path project defaults e \<mapsto> k, cert_path project defaults e \<mapsto> c))"
        by blast
      from 2 True have "p \<noteq> key_path project defaults e" "p \<noteq> cert_path project defaults e" by simp_all
      moreover from 2 True have "snd (write_certs pem chance project defaults (Suc i) es fs') p = fs' p" for fs'
        by (intro Cons.IH(2)) simp
      ultimately show ?thesis unfolding w by simp
    qed (use write_stop(2) in simp)
  }
qed simp_all

text \<open>A serial number is never negative: its first hexadecimal digit, the sign bit of its first octet, is below 8.\<close>

lemma serial_positive: "the (hex_val (hd (random_serial bytes))) < 8"
proof (cases "8 \<le> the (hex_val (hd (to_hex bytes)))")
  case True
  then have "random_serial bytes = ''0'' @ to_hex bytes" by (simp add: random_serial_def)
  moreover have "hex_val (CHR ''0'') = Some 0" by (simp add: hex_val_def)
  ultimately show ?thesis by simp
qed (simp add: random_serial_def)

end
