(* ===== verification/ExpressTables.thy ===== *)
theory ExpressTables
  imports ExpressLogs
begin

text \<open>
  The tables of the first console, \<open>legacy/webui-express/db/esmmodels/\<close>, under the calls its code makes of Sequelize: \<open>create\<close>,
  \<open>findByPk\<close>, \<open>findAll\<close>, \<open>update\<close>, \<open>destroy\<close> and \<open>upsert\<close>. A model is its name and its typed attributes. A row is its key and the values of
  its attributes; \<open>id\<close> is an attribute of every model, so that \<open>create\<close> takes a key from the body it is given. The dates
  Sequelize keeps are left out. What is not decided here is a parameter: what is refused, what is read back of a value
  that was stored, the key an \<open>id\<close> stands for, what a lookup by something that is no key fails with, and the \<open>id\<close> of the
  record an \<open>upsert\<close> hands back.
\<close>

section \<open>Models\<close>

datatype column_type = IntegerColumn | StringColumn nat | TextColumn | DateColumn | DoubleColumn

record seq_model =
  sm_name :: string
  sm_columns :: "(string \<times> column_type) list"

definition sm_attributes :: "seq_model \<Rightarrow> string list" where
  "sm_attributes m = map fst (sm_columns m)"

definition relay_model :: seq_model where
  "relay_model = \<lparr>sm_name = ''Relay'',
     sm_columns = [(''group_id'', IntegerColumn), (''name'', StringColumn 255), (''host'', StringColumn 255), (''port'', IntegerColumn),
       (''auth_user'', StringColumn 255), (''auth_pass'', StringColumn 255), (''priority'', IntegerColumn)]\<rparr>"

definition relay_group_model :: seq_model where
  "relay_group_model = \<lparr>sm_name = ''RelayGroup'',
     sm_columns = [(''name'', StringColumn 255), (''description'', StringColumn 255)]\<rparr>"

definition delivery_model :: seq_model where
  "delivery_model = \<lparr>sm_name = ''Delivery'',
     sm_columns = [(''dt'', DateColumn), (''uuid'', StringColumn 255), (''sender'', StringColumn 255), (''rcpt_list'', StringColumn 255),
       (''rcpt_domain'', StringColumn 255), (''rcpt_accepted'', StringColumn 255), (''tls_forced'', IntegerColumn),
       (''tls'', IntegerColumn), (''auth'', IntegerColumn), (''host'', StringColumn 255), (''ip'', StringColumn 255),
       (''port'', IntegerColumn), (''response'', StringColumn 255), (''delay'', DoubleColumn)]\<rparr>"

definition connection_model :: seq_model where
  "connection_model = \<lparr>sm_name = ''Connection'',
     sm_columns = [(''dt'', DateColumn), (''uuid'', StringColumn 255), (''encoding'', StringColumn 255),
       (''hello_name'', StringColumn 255), (''remoteAddr'', StringColumn 255), (''remotePort'', IntegerColumn),
       (''remote_host'', StringColumn 255), (''remote_info'', StringColumn 255), (''remote_is_local'', IntegerColumn),
       (''remote_is_private'', IntegerColumn), (''using_tls'', IntegerColumn), (''tran_count'', IntegerColumn),
       (''rcpt_count_accept'', IntegerColumn), (''rcpt_count_tempfail'', IntegerColumn),
       (''rcpt_count_reject'', IntegerColumn)]\<rparr>"

definition transaction_model :: seq_model where
  "transaction_model = \<lparr>sm_name = ''Transaction'',
     sm_columns = [(''dt'', DateColumn), (''uuid'', StringColumn 255), (''action'', StringColumn 255), (''encoding'', StringColumn 255),
       (''sender'', StringColumn 255), (''rcpt_list'', StringColumn 255), (''rcpt_count_accept'', IntegerColumn),
       (''rcpt_count_tempfail'', IntegerColumn), (''rcpt_count_reject'', IntegerColumn), (''delay_data_post'', DoubleColumn),
       (''data_bytes'', IntegerColumn), (''mime_part_count'', IntegerColumn)]\<rparr>"

definition address_model :: seq_model where
  "address_model = \<lparr>sm_name = ''MailAddr'',
     sm_columns = [(''name'', StringColumn 255), (''email'', StringColumn 255)]\<rparr>"

definition header_model :: seq_model where
  "header_model = \<lparr>sm_name = ''Header'',
     sm_columns = [(''mail_id'', IntegerColumn), (''name'', StringColumn 255), (''value'', TextColumn)]\<rparr>"

definition link_model :: seq_model where
  "link_model = \<lparr>sm_name = ''linkAddrTransaction'',
     sm_columns = [(''MailAddrId'', IntegerColumn), (''TransactionId'', IntegerColumn)]\<rparr>"

definition hash_lookup_model :: seq_model where
  "hash_lookup_model = \<lparr>sm_name = ''HashLookup'',
     sm_columns = [(''txn_uuid'', StringColumn 255), (''md5'', StringColumn 255), (''contentType'', StringColumn 255),
       (''filename'', StringColumn 255), (''size'', IntegerColumn), (''action'', StringColumn 255)]\<rparr>"

definition log_model :: seq_model where
  "log_model = \<lparr>sm_name = ''Log'',
     sm_columns = [(''url'', StringColumn 255), (''path'', StringColumn 255), (''query'', StringColumn 255),
       (''src_ip'', StringColumn 255), (''src_port'', IntegerColumn), (''referer'', StringColumn 255),
       (''origin'', StringColumn 255), (''method'', StringColumn 255), (''user'', StringColumn 255),
       (''userAgent'', StringColumn 255)]\<rparr>"

definition exception_model :: seq_model where
  "exception_model = \<lparr>sm_name = ''Exception'',
     sm_columns = [(''product'', StringColumn 255), (''component'', StringColumn 255), (''info'', TextColumn)]\<rparr>"

section \<open>Rows\<close>

record seq_row =
  sr_key :: int
  sr_values :: "(string \<times> jsval) list"

definition keyed :: "int \<Rightarrow> seq_row \<Rightarrow> seq_row" where
  "keyed i r = r\<lparr>sr_key := i\<rparr>"

interpretation seq_rows: keyed_rows sr_key keyed
  by unfold_locales (simp_all add: keyed_def)

record seq_lib =
  sl_refuse :: "string \<Rightarrow> (string \<times> jsval) list \<Rightarrow> js_error option"
  sl_stored :: "string \<Rightarrow> string \<Rightarrow> jsval \<Rightarrow> jsval"
  sl_key :: "jsval \<Rightarrow> int option"
  sl_no_key :: "jsnum \<Rightarrow> js_error option"
  sl_upserted :: "seq_row table \<Rightarrow> (string \<times> jsval) list \<Rightarrow> jsval"

text \<open>The values of a body that are attributes of the model, and the row as it is read back.\<close>

definition attribute_values :: "seq_model \<Rightarrow> jsval \<Rightarrow> (string \<times> jsval) list" where
  "attribute_values m body = List.map_filter (\<lambda>a. if get_prop body a = Undef then None else Some (a, get_prop body a)) (sm_attributes m)"

definition stored_values :: "seq_lib \<Rightarrow> seq_model \<Rightarrow> (string \<times> jsval) list \<Rightarrow> (string \<times> jsval) list" where
  "stored_values lib m vs = map (\<lambda>(a, v). (a, sl_stored lib (sm_name m) a v)) vs"

definition row_val :: "seq_row \<Rightarrow> jsval" where
  "row_val r = Obj ((''id'', num_of (sr_key r)) # sr_values r)"

definition row_prop :: "seq_row \<Rightarrow> string \<Rightarrow> jsval" where
  "row_prop r k = get_prop (row_val r) k"

section \<open>Operations\<close>

definition seq_create :: "seq_lib \<Rightarrow> seq_model \<Rightarrow> jsval \<Rightarrow> seq_row table \<Rightarrow> int res \<times> seq_row table" where
  "seq_create lib m body t =
     (case body of
        Arr _ \<Rightarrow> (Inl ''TypeError'', t)
      | _ \<Rightarrow>
          (let vs = attribute_values m body; i = nullish (sl_key lib (get_prop body ''id'')) (next_id t)
           in case sl_refuse lib (sm_name m) vs of
                Some e \<Rightarrow> (Inl e, t)
              | None \<Rightarrow>
                  if i \<in> sr_key ` set (rows t) then (Inl ''SequelizeUniqueConstraintError'', t)
                  else (Inr i, \<lparr>rows = rows t @ [\<lparr>sr_key = i, sr_values = stored_values lib m vs\<rparr>], next_id = max (next_id t) (i + 1)\<rparr>)))"

definition find_by_pk :: "seq_lib \<Rightarrow> jsnum \<Rightarrow> seq_row table \<Rightarrow> seq_row option res" where
  "find_by_pk lib n t = (case sl_no_key lib n of
     Some e \<Rightarrow> Inl e
   | None \<Rightarrow> Inr (first_row (sql_select (\<lambda>r. num_is n (sr_key r)) t)))"

text \<open>\<open>findAll({where: {a: n}})\<close> for a number.\<close>

definition find_where :: "seq_lib \<Rightarrow> string \<Rightarrow> jsnum \<Rightarrow> seq_row table \<Rightarrow> seq_row list res" where
  "find_where lib a n t = (case sl_no_key lib n of
     Some e \<Rightarrow> Inl e
   | None \<Rightarrow> Inr (sql_select (\<lambda>r. n \<noteq> NaN \<and> row_prop r a = Num n) t))"

text \<open>\<open>await data.update(body); await data.save()\<close>: the key of a row stays. The row is ex_answered as the program holds it, before it is read back.\<close>

definition put_all :: "(string \<times> jsval) list \<Rightarrow> (string \<times> jsval) list \<Rightarrow> (string \<times> jsval) list" where
  "put_all vs old = foldl (\<lambda>ps (a, v). obj_put ps a v) old vs"

definition seq_update :: "seq_lib \<Rightarrow> seq_model \<Rightarrow> jsval \<Rightarrow> seq_row \<Rightarrow> seq_row table \<Rightarrow> seq_row res \<times> seq_row table" where
  "seq_update lib m body data t =
     (let vs = attribute_values m body
      in case sl_refuse lib (sm_name m) vs of
           Some e \<Rightarrow> (Inl e, t)
         | None \<Rightarrow> (Inr (data\<lparr>sr_values := put_all vs (sr_values data)\<rparr>),
                    sql_update (\<lambda>r. sr_key r = sr_key data) (\<lambda>r. r\<lparr>sr_values := put_all (stored_values lib m vs) (sr_values r)\<rparr>) t))"

definition seq_destroy :: "seq_row \<Rightarrow> seq_row table \<Rightarrow> seq_row table" where
  "seq_destroy data = sql_delete (\<lambda>r. sr_key r = sr_key data)"

section \<open>What they do\<close>

lemma seq_create_shape:
  obtains (refused) e where "seq_create lib m body t = (Inl e, t)"
  | (created) i where "i = nullish (sl_key lib (get_prop body ''id'')) (next_id t)" "i \<notin> sr_key ` set (rows t)"
    "seq_create lib m body t = (Inr i,
       \<lparr>rows = rows t @ [\<lparr>sr_key = i, sr_values = stored_values lib m (attribute_values m body)\<rparr>], next_id = max (next_id t) (i + 1)\<rparr>)"
  by (cases body; cases "sl_refuse lib (sm_name m) (attribute_values m body)";
      cases "nullish (sl_key lib (get_prop body ''id'')) (next_id t) \<in> sr_key ` set (rows t)")
    (simp_all add: seq_create_def Let_def)

lemma seq_create_keys:
  assumes "keys_ok sr_key t" "\<And>v i. sl_key lib v = Some i \<Longrightarrow> 0 < i"
  shows "keys_ok sr_key (snd (seq_create lib m body t))"
proof (cases rule: seq_create_shape [of lib m body t])
  case (created i)
  have "0 < i" using created(1) assms by (cases "sl_key lib (get_prop body ''id'')") (auto simp: keys_ok_def)
  with created(2) assms(1) show ?thesis by (force simp: created(3) keys_ok_def)
qed (simp add: assms)

lemma seq_update_keys: "keys_ok sr_key t \<Longrightarrow> keys_ok sr_key (snd (seq_update lib m body data t))"
  by (auto simp: seq_update_def Let_def seq_rows.update_ok split: option.split)

lemma seq_destroy_keys: "keys_ok sr_key t \<Longrightarrow> keys_ok sr_key (seq_destroy data t)"
  by (simp add: seq_destroy_def seq_rows.delete_ok)

lemma find_by_pk_row: "find_by_pk lib n t = Inr (Some r) \<Longrightarrow> r \<in> set (rows t) \<and> num_is n (sr_key r)"
  by (auto simp: find_by_pk_def first_row_def sql_select_def filter_eq_Cons_iff split: option.splits list.splits)

section \<open>The values of a row\<close>

lemma put_all_prop:
  assumes "distinct (map fst vs)"
  shows "get_prop (Obj (put_all vs old)) k = (if k \<in> fst ` set vs then get_prop (Obj vs) k else get_prop (Obj old) k)"
  using assms
proof (induction vs arbitrary: old)
  case (Cons v vs)
  obtain a x where v: "v = (a, x)" by fastforce
  have "get_prop (Obj (put_all (v # vs) old)) k = get_prop (Obj (put_all vs (obj_put old a x))) k" by (simp add: put_all_def v)
  also have "\<dots> = (if k \<in> fst ` set vs then get_prop (Obj vs) k else get_prop (Obj (obj_put old a x)) k)"
    using Cons by (simp add: v)
  finally have "get_prop (Obj (put_all (v # vs) old)) k = (if k \<in> fst ` set vs then get_prop (Obj vs) k else get_prop (Obj (obj_put old a x)) k)" .
  moreover have "get_prop (Obj (v # vs)) k = (if k = a then x else get_prop (Obj vs) k)" by (simp add: v get_prop_def)
  ultimately show ?case using Cons.prems by (auto simp: v get_prop_obj_put image_iff)
qed (simp add: put_all_def)

lemma attribute_values_set: "fst ` set (attribute_values m body) = {a \<in> set (sm_attributes m). get_prop body a \<noteq> Undef}"
  by (force simp: attribute_values_def List.map_filter_def)

lemma attribute_values_prop:
  assumes "distinct (sm_attributes m)" "k \<in> set (sm_attributes m)" "get_prop body k \<noteq> Undef"
  shows "distinct (map fst (attribute_values m body))"
    "get_prop (Obj (stored_values lib m (attribute_values m body))) k = sl_stored lib (sm_name m) k (get_prop body k)"
proof -
  have keys: "map fst (attribute_values m body) = filter (\<lambda>a. get_prop body a \<noteq> Undef) (sm_attributes m)"
    by (auto simp: attribute_values_def List.map_filter_def comp_def intro!: map_idI)
  then show d: "distinct (map fst (attribute_values m body))" using assms(1) by simp
  have "(k, get_prop body k) \<in> set (attribute_values m body)"
    using assms(2,3) by (force simp: attribute_values_def List.map_filter_def)
  then have "(k, sl_stored lib (sm_name m) k (get_prop body k)) \<in> set (stored_values lib m (attribute_values m body))"
    by (force simp: stored_values_def)
  moreover have "distinct (map fst (stored_values lib m (attribute_values m body)))" using d by (simp add: stored_values_def comp_def case_prod_beta)
  ultimately show "get_prop (Obj (stored_values lib m (attribute_values m body))) k = sl_stored lib (sm_name m) k (get_prop body k)"
    by (simp add: get_prop_def)
qed

end
