(* ===== verification/ExpressConsole.thy ===== *)
theory ExpressConsole
  imports FormSchemas
begin

text \<open>
  The login of the first console, \<open>legacy/webui-express/src/\<close>: \<open>app.mjs\<close> up to its gate, \<open>middleware/checkSession.mjs\<close>,
  \<open>auth/*.mjs\<close>, \<open>globals.mjs\<close> and \<open>validation/login.mjs\<close>. The sessions are an object in memory; the cookie a request carries
  is what the signed cookie \<open>session\<close> verified to, and \<open>sid\<close> is the uuid a login draws. A failing promise that nobody
  handles leaves the request without an answer. Names every object inherits open no session, since what they name has no
  \<open>email\<close>.
\<close>

section \<open>Sessions and accounts\<close>

type_synonym ex_sessions = "string \<Rightarrow> string option"

record ex_user =
  eu_email :: string
  eu_hash :: "string option"

record ex_auth_info =
  ea_email :: string
  ea_pass :: string

definition ex_auth_schema :: "library \<Rightarrow> jsval \<Rightarrow> ex_auth_info parsed" where
  "ex_auth_schema cr = z_object (\<lambda>v.
     map_sum id (\<lambda>(e, p). \<lparr>ea_email = e, ea_pass = p\<rparr>)
       (both (field v ''email'' (z_string (\<lambda>s. [at_least 4 s, at_most 50 s, (email_pattern cr s, Builtin ''invalid_format'')])))
             (field v ''pass'' (z_string (\<lambda>s. [at_least 8 s, at_most 20 s])))))"

definition ex_check_auth :: "library \<Rightarrow> ex_user list \<Rightarrow> string \<Rightarrow> string \<Rightarrow> bool res" where
  "ex_check_auth cr accounts e pass =
     (case find (\<lambda>u. eu_email u = e) accounts of
        None \<Rightarrow> Inr False
      | Some u \<Rightarrow> (case eu_hash u of None \<Rightarrow> Inl ''Illegal arguments'' | Some h \<Rightarrow> Inr (bcrypt_compare cr pass h)))"

text \<open>A reply: a page is its template and what it is rendered with, \<open>ExError\<close> the answer of Express to an error, \<open>ExUnanswered\<close>
  none at all.\<close>

datatype ex_reply =
    ExRedirect string
  | ExPage string "(string \<times> jsval) list"
  | ExJson jsval
  | ExText string
  | ExFile
  | ExNotFound
  | ExError js_error
  | ExUnanswered js_error

text \<open>A login: the reply, the session cookie it sets and the sessions it leaves.\<close>

definition ex_login ::
  "library \<Rightarrow> ex_user list \<Rightarrow> string \<Rightarrow> jsval \<Rightarrow> ex_sessions \<Rightarrow> ex_reply \<times> string option \<times> ex_sessions"
where
  "ex_login cr accounts sid body mem =
     (case ex_auth_schema cr body of
        Inl _ \<Rightarrow> (ExRedirect ''/login?msg=ValidationError'', None, mem)
      | Inr a \<Rightarrow>
          (case ex_check_auth cr accounts (ea_email a) (ea_pass a) of
             Inl e \<Rightarrow> (ExUnanswered e, None, mem)
           | Inr ok \<Rightarrow>
               (if \<not> ok then (ExRedirect ''/login?msg=InvalidAuth'', None, mem)
                else (ExRedirect ''/'', Some sid, mem(sid \<mapsto> ea_email a)))))"

definition ex_logout :: "ex_sessions \<Rightarrow> ex_reply \<times> ex_sessions" where
  "ex_logout mem = (ExRedirect ''/'', mem)"

text \<open>The gate: \<open>None\<close> lets the request on.\<close>

definition ex_check_session :: "ex_sessions \<Rightarrow> string option \<Rightarrow> ex_reply option" where
  "ex_check_session mem cookie =
     (case cookie of
        None \<Rightarrow> Some (ExRedirect ''/login'')
      | Some i \<Rightarrow> (case mem i of
            None \<Rightarrow> Some (ExRedirect ''/login'')
          | Some e \<Rightarrow> if e = [] then Some (ExRedirect ''/login'') else None))"

section \<open>The application\<close>

text \<open>What is routed before the gate, and everything behind it, which can not reach the sessions.\<close>

datatype ex_request =
    ExFormLogin
  | ExLogin string jsval
  | ExLogout
  | ExProfile
  | ExBehind "string option" ex_reply

definition ex_app :: "library \<Rightarrow> ex_user list \<Rightarrow> ex_request \<Rightarrow> ex_sessions \<Rightarrow> ex_reply \<times> ex_sessions" where
  "ex_app cr accounts r mem = (case r of
     ExFormLogin \<Rightarrow> (ExPage ''forms/login'' [], mem)
   | ExLogin sid body \<Rightarrow> (case ex_login cr accounts sid body mem of (reply, _, s) \<Rightarrow> (reply, s))
   | ExLogout \<Rightarrow> ex_logout mem
   | ExProfile \<Rightarrow> (ExPage ''util/notimpl'' [], mem)
   | ExBehind cookie reply \<Rightarrow> (case ex_check_session mem cookie of Some refused \<Rightarrow> (refused, mem) | None \<Rightarrow> (reply, mem)))"

definition ex_run :: "library \<Rightarrow> ex_user list \<Rightarrow> ex_request list \<Rightarrow> ex_sessions" where
  "ex_run cr accounts rs = foldl (\<lambda>s r. snd (ex_app cr accounts r s)) Map.empty rs"

section \<open>Who passes the gate\<close>

definition logs_in :: "library \<Rightarrow> ex_user list \<Rightarrow> string \<Rightarrow> ex_request \<Rightarrow> bool" where
  "logs_in cr accounts i r = (case r of
     ExLogin sid body \<Rightarrow> sid = i \<and> (\<exists>a. ex_auth_schema cr body = Inr a \<and> ex_check_auth cr accounts (ea_email a) (ea_pass a) = Inr True)
   | _ \<Rightarrow> False)"

lemma ex_app_session:
  "(snd (ex_app cr accounts r s) i = None) = (s i = None \<and> \<not> logs_in cr accounts i r)"
  by (cases r) (auto simp: ex_app_def ex_login_def ex_logout_def logs_in_def split: sum.splits option.splits bool.splits)

lemma ex_app_emails:
  assumes "\<forall>i. s i \<noteq> Some []" shows "\<forall>i. snd (ex_app cr accounts r s) i \<noteq> Some []"
proof -
  have "ea_email a \<noteq> []" if "ex_auth_schema cr body = Inr a" for body a
    using that by (auto simp: ex_auth_schema_def z_object_def field_def map_sum_Inr_iff z_string_Inr at_least_def js_length_def
        invalid_type_def split: jsval.splits)
  with assms show ?thesis
    by (cases r) (auto simp: ex_app_def ex_login_def ex_logout_def split: sum.splits option.splits)
qed

text \<open>The gate opens to a session that some login opened with an account's password, and to no other. It also never closes again:
  a logout clears the cookie of the browser and leaves the session, which ends only with the process.\<close>

theorem ex_gate_opens:
  "(ex_check_session (ex_run cr accounts rs) (Some i) = None) = (\<exists>r \<in> set rs. logs_in cr accounts i r)"
proof -
  have "(foldl (\<lambda>s r. snd (ex_app cr accounts r s)) s rs i = None) = (s i = None \<and> (\<forall>r \<in> set rs. \<not> logs_in cr accounts i r))" for s
    by (induction rs arbitrary: s) (auto simp: ex_app_session)
  then have opened: "(ex_run cr accounts rs i = None) = (\<forall>r \<in> set rs. \<not> logs_in cr accounts i r)" by (simp add: ex_run_def)
  have "\<forall>i. s i \<noteq> Some [] \<Longrightarrow> \<forall>i. foldl (\<lambda>s r. snd (ex_app cr accounts r s)) s rs i \<noteq> Some []" for s
    by (induction rs arbitrary: s) (simp_all add: ex_app_emails)
  then have "ex_run cr accounts rs i \<noteq> Some []" by (simp add: ex_run_def)
  with opened show ?thesis by (auto simp: ex_check_session_def split: option.splits)
qed

lemma logout_keeps_session:
  assumes "ex_check_session (ex_run cr accounts rs) (Some i) = None"
  shows "ex_check_session (ex_run cr accounts (rs @ [ExLogout])) (Some i) = None"
  using assms unfolding ex_gate_opens by auto

end
