(* ===== verification/ExpressRelays.thy ===== *)
theory ExpressRelays
  imports ExpressTables ExpressConsole
begin

text \<open>
  The relay configuration of the first console, \<open>legacy/webui-express/src/\<close> \<open>controllers/CtrlRelay.js\<close>, \<open>controllers/CtrlRelayGroup.js\<close>
  and the routes of \<open>routes/config-relay.mjs\<close>. A handler answers its reply, the rejections nobody handles and the tables it leaves. A
  rejection inside an awaited call of an \<open>async\<close> handler is ex_answered by Express (\<open>ExError\<close>); one in a chain the handler does not return
  leaves the request ex_unanswered.
\<close>

section \<open>Requests and tables\<close>

text \<open>A request as the parsers left it: \<open>ex_path\<close> are the decoded parts of its path, \<open>ex_request_param\<close> is the value of
  \<open>?request=\<close>, \<open>ex_cookie\<close> what the signed cookie \<open>session\<close> verified to, \<open>ex_sid\<close> the uuid a login draws, \<open>ex_order\<close> the order the
  database runs statements in that a handler sends side by side, and the order their results come back in;
  \<open>ex_url\<close> is the original URL, and \<open>ex_header\<close> what \<open>req.get\<close> finds.\<close>

record ex_http =
  ex_method :: string
  ex_path :: "string list"
  ex_body :: jsval
  ex_request_param :: "string option"
  ex_cookie :: "string option"
  ex_sid :: string
  ex_order :: "nat list \<times> nat list"
  ex_url :: string
  ex_protocol :: string
  ex_header :: "string \<Rightarrow> string option"
  ex_ip :: string
  ex_port :: int

record ex_tables =
  xt_groups :: "seq_row table"
  xt_relays :: "seq_row table"
  xt_deliveries :: "seq_row table"
  xt_connections :: "seq_row table"
  xt_mails :: "seq_row table"
  xt_addresses :: "seq_row table"
  xt_links :: "seq_row table"
  xt_headers :: "seq_row table"
  xt_lookups :: "seq_row table"
  xt_logs :: "seq_row table"
  xt_exceptions :: "seq_row table"

type_synonym ex_outcome = "ex_reply \<times> js_error list \<times> ex_tables"

definition ex_unanswered :: "js_error \<Rightarrow> ex_tables \<Rightarrow> ex_outcome" where
  "ex_unanswered e d = (ExUnanswered e, [e], d)"

definition ex_answered :: "ex_reply \<Rightarrow> ex_tables \<Rightarrow> ex_outcome" where
  "ex_answered reply d = (reply, [], d)"

text \<open>\<open>+req.params.id\<close>, the last part of the path.\<close>

definition param_number :: "ex_http \<Rightarrow> jsnum" where
  "param_number r = js_number (last (ex_path r))"

definition row_or_null :: "seq_row option \<Rightarrow> jsval" where
  "row_or_null x = (case x of None \<Rightarrow> Null | Some r \<Rightarrow> row_val r)"

section \<open>Relays\<close>

definition ex_relay_create :: "seq_lib \<Rightarrow> ex_http \<Rightarrow> ex_tables \<Rightarrow> ex_outcome" where
  "ex_relay_create lib r d = ex_answered (ExPage ''routing/relay-form''
     [(''action'', Str ''Create''), (''group_id'', Num (param_number r)),
      (''data'', Obj [(''host'', Str []), (''port'', num_of 25), (''priority'', num_of 10), (''auth_user'', Str []), (''auth_pass'', Str [])])]) d"

definition ex_relay_create_handle :: "seq_lib \<Rightarrow> ex_http \<Rightarrow> ex_tables \<Rightarrow> ex_outcome" where
  "ex_relay_create_handle lib r d =
     (case seq_create lib relay_model (ex_body r) (xt_relays d) of
        (Inl e, _) \<Rightarrow> ex_unanswered e d
      | (Inr _, t) \<Rightarrow> ex_answered (ExRedirect (''/config/relaygrp/'' @ num_to_string (param_number r))) (d\<lparr>xt_relays := t\<rparr>))"

definition ex_relay_edit :: "seq_lib \<Rightarrow> ex_http \<Rightarrow> ex_tables \<Rightarrow> ex_outcome" where
  "ex_relay_edit lib r d =
     (case find_by_pk lib (param_number r) (xt_relays d) of
        Inl e \<Rightarrow> ex_answered (ExError e) d
      | Inr None \<Rightarrow> ex_answered (ExError ''TypeError'') d
      | Inr (Some data) \<Rightarrow> ex_answered (ExPage ''routing/relay-form''
            [(''action'', Str ''Update''), (''data'', row_val data), (''group_id'', row_prop data ''group_id'')]) d)"

definition to_group :: "jsval \<Rightarrow> ex_tables \<Rightarrow> ex_outcome" where
  "to_group g d = (case to_text g of
     Inl e \<Rightarrow> ex_unanswered e d
   | Inr t \<Rightarrow> ex_answered (ExRedirect (''/config/relaygrp/'' @ t)) d)"

definition ex_relay_edit_handle :: "seq_lib \<Rightarrow> ex_http \<Rightarrow> ex_tables \<Rightarrow> ex_outcome" where
  "ex_relay_edit_handle lib r d =
     (case find_by_pk lib (param_number r) (xt_relays d) of
        Inl e \<Rightarrow> ex_unanswered e d
      | Inr None \<Rightarrow> ex_unanswered ''TypeError'' d
      | Inr (Some data) \<Rightarrow>
          (case seq_update lib relay_model (ex_body r) data (xt_relays d) of
             (Inl e, _) \<Rightarrow> ex_unanswered e d
           | (Inr data', t) \<Rightarrow> to_group (row_prop data' ''group_id'') (d\<lparr>xt_relays := t\<rparr>)))"

definition ex_relay_delete :: "seq_lib \<Rightarrow> ex_http \<Rightarrow> ex_tables \<Rightarrow> ex_outcome" where
  "ex_relay_delete lib r d =
     (case find_by_pk lib (param_number r) (xt_relays d) of
        Inl e \<Rightarrow> ex_unanswered e d
      | Inr x \<Rightarrow> ex_answered (ExPage ''routing/relay-delete'' [(''data'', row_or_null x)]) d)"

definition ex_relay_delete_handle :: "seq_lib \<Rightarrow> ex_http \<Rightarrow> ex_tables \<Rightarrow> ex_outcome" where
  "ex_relay_delete_handle lib r d =
     (case find_by_pk lib (param_number r) (xt_relays d) of
        Inl e \<Rightarrow> ex_unanswered e d
      | Inr None \<Rightarrow> ex_unanswered ''TypeError'' d
      | Inr (Some data) \<Rightarrow> to_group (row_prop data ''group_id'') (d\<lparr>xt_relays := seq_destroy data (xt_relays d)\<rparr>))"

section \<open>Groups\<close>

definition ex_group_create :: "seq_lib \<Rightarrow> ex_http \<Rightarrow> ex_tables \<Rightarrow> ex_outcome" where
  "ex_group_create lib r d = ex_answered (ExPage ''routing/relaygrp-form''
     [(''action'', Str ''Create''), (''data'', Obj [(''name'', Str []), (''description'', Str [])])]) d"

definition ex_group_create_handle :: "seq_lib \<Rightarrow> ex_http \<Rightarrow> ex_tables \<Rightarrow> ex_outcome" where
  "ex_group_create_handle lib r d =
     (case seq_create lib relay_group_model (ex_body r) (xt_groups d) of
        (Inl e, _) \<Rightarrow> ex_unanswered e d
      | (Inr _, t) \<Rightarrow> ex_answered (ExRedirect ''/config/relaygrp'') (d\<lparr>xt_groups := t\<rparr>))"

definition ex_group_edit :: "seq_lib \<Rightarrow> ex_http \<Rightarrow> ex_tables \<Rightarrow> ex_outcome" where
  "ex_group_edit lib r d =
     (case find_by_pk lib (param_number r) (xt_groups d) of
        Inl e \<Rightarrow> ex_unanswered e d
      | Inr x \<Rightarrow> ex_answered (ExPage ''routing/relaygrp-form'' [(''action'', Str ''Update''), (''data'', row_or_null x)]) d)"

definition ex_group_edit_handle :: "seq_lib \<Rightarrow> ex_http \<Rightarrow> ex_tables \<Rightarrow> ex_outcome" where
  "ex_group_edit_handle lib r d =
     (case find_by_pk lib (param_number r) (xt_groups d) of
        Inl e \<Rightarrow> ex_unanswered e d
      | Inr None \<Rightarrow> ex_unanswered ''TypeError'' d
      | Inr (Some data) \<Rightarrow>
          (case seq_update lib relay_group_model (ex_body r) data (xt_groups d) of
             (Inl e, _) \<Rightarrow> ex_unanswered e d
           | (Inr _, t) \<Rightarrow> ex_answered (ExRedirect ''/config/relaygrp'') (d\<lparr>xt_groups := t\<rparr>)))"

definition ex_group_delete :: "seq_lib \<Rightarrow> ex_http \<Rightarrow> ex_tables \<Rightarrow> ex_outcome" where
  "ex_group_delete lib r d =
     (case find_by_pk lib (param_number r) (xt_groups d) of
        Inl e \<Rightarrow> ex_unanswered e d
      | Inr x \<Rightarrow> ex_answered (ExPage ''routing/relaygrp-delete'' [(''data'', row_or_null x)]) d)"

definition ex_group_delete_handle :: "seq_lib \<Rightarrow> ex_http \<Rightarrow> ex_tables \<Rightarrow> ex_outcome" where
  "ex_group_delete_handle lib r d =
     (case find_by_pk lib (param_number r) (xt_groups d) of
        Inl e \<Rightarrow> ex_unanswered e d
      | Inr None \<Rightarrow> ex_unanswered ''TypeError'' d
      | Inr (Some data) \<Rightarrow> ex_answered (ExRedirect ''/config/relaygrp'') (d\<lparr>xt_groups := seq_destroy data (xt_groups d)\<rparr>))"

definition ex_group_details :: "seq_lib \<Rightarrow> ex_http \<Rightarrow> ex_tables \<Rightarrow> ex_outcome" where
  "ex_group_details lib r d =
     (case find_where lib ''group_id'' (param_number r) (xt_relays d) of
        Inl e \<Rightarrow> ex_answered (ExError e) d
      | Inr members \<Rightarrow>
          (case find_by_pk lib (param_number r) (xt_groups d) of
             Inl e \<Rightarrow> ex_unanswered e d
           | Inr x \<Rightarrow> ex_answered (ExPage ''routing/relaygrp-details''
                 [(''data'', row_or_null x), (''relays'', Arr (map row_val members))]) d))"

definition ex_group_index :: "seq_lib \<Rightarrow> ex_http \<Rightarrow> ex_tables \<Rightarrow> ex_outcome" where
  "ex_group_index lib r d = ex_answered (ExPage ''routing/index'' [(''data'', Arr (map row_val (rows (xt_groups d))))]) d"

definition ex_routing_page :: "seq_lib \<Rightarrow> ex_http \<Rightarrow> ex_tables \<Rightarrow> ex_outcome" where
  "ex_routing_page lib r d = ex_answered (ExPage ''util/notimpl'' []) d"

section \<open>Routes\<close>

text \<open>A route: its method, its path with \<open>None\<close> for a parameter, its handler. Paths are compared without case, the first route that
  fits is taken, and a \<open>HEAD\<close> goes to the route of the \<open>GET\<close>.\<close>

type_synonym 'e ex_route = "string \<times> string option list \<times> ('e \<Rightarrow> ex_http \<Rightarrow> ex_tables \<Rightarrow> ex_outcome)"

definition path_fits :: "string option list \<Rightarrow> string list \<Rightarrow> bool" where
  "path_fits = list_all2 (\<lambda>q p. case q of None \<Rightarrow> p \<noteq> [] | Some l \<Rightarrow> to_lower p = to_lower l)"

definition method_fits :: "string \<Rightarrow> string \<Rightarrow> bool" where
  "method_fits m used \<longleftrightarrow> used = m \<or> (m = ''GET'' \<and> used = ''HEAD'')"

definition ex_route_for :: "'e ex_route list \<Rightarrow> ex_http \<Rightarrow> 'e ex_route option" where
  "ex_route_for rs r = find (\<lambda>(m, p, _). method_fits m (ex_method r) \<and> path_fits p (ex_path r)) rs"

definition ex_relay_routes :: "seq_lib ex_route list" where
  "ex_relay_routes =
     [(''GET'', [Some ''config'', Some ''relay'', Some ''create'', None], ex_relay_create),
      (''POST'', [Some ''config'', Some ''relay'', Some ''create'', None], ex_relay_create_handle),
      (''GET'', [Some ''config'', Some ''relay'', Some ''edit'', None], ex_relay_edit),
      (''POST'', [Some ''config'', Some ''relay'', Some ''edit'', None], ex_relay_edit_handle),
      (''GET'', [Some ''config'', Some ''relay'', Some ''delete'', None], ex_relay_delete),
      (''POST'', [Some ''config'', Some ''relay'', Some ''delete'', None], ex_relay_delete_handle),
      (''GET'', [Some ''config'', Some ''relaygrp'', Some ''create''], ex_group_create),
      (''POST'', [Some ''config'', Some ''relaygrp'', Some ''create''], ex_group_create_handle),
      (''GET'', [Some ''config'', Some ''relaygrp'', Some ''edit'', None], ex_group_edit),
      (''POST'', [Some ''config'', Some ''relaygrp'', Some ''edit'', None], ex_group_edit_handle),
      (''GET'', [Some ''config'', Some ''relaygrp'', Some ''delete'', None], ex_group_delete),
      (''POST'', [Some ''config'', Some ''relaygrp'', Some ''delete'', None], ex_group_delete_handle),
      (''GET'', [Some ''config'', Some ''relaygrp'', None], ex_group_details),
      (''GET'', [Some ''config'', Some ''relaygrp''], ex_group_index),
      (''GET'', [Some ''config'', Some ''routing''], ex_routing_page)]"

section \<open>What an edit of a relay changes\<close>

lemma put_stored_prop:
  assumes "distinct (sm_attributes m)"
  shows "get_prop (Obj (put_all (stored_values lib m (attribute_values m body)) old)) a =
    (if a \<in> set (sm_attributes m) \<and> get_prop body a \<noteq> Undef then sl_stored lib (sm_name m) a (get_prop body a) else get_prop (Obj old) a)"
proof -
  let ?vs = "stored_values lib m (attribute_values m body)"
  have keys: "map fst ?vs = map fst (attribute_values m body)" by (simp add: stored_values_def comp_def case_prod_beta)
  have "map fst (attribute_values m body) = filter (\<lambda>a. get_prop body a \<noteq> Undef) (sm_attributes m)"
    by (auto simp: attribute_values_def List.map_filter_def comp_def intro!: map_idI)
  with assms keys have "distinct (map fst ?vs)" by simp
  from put_all_prop [OF this, of old a] have "get_prop (Obj (put_all ?vs old)) a
      = (if a \<in> set (map fst ?vs) then get_prop (Obj ?vs) a else get_prop (Obj old) a)" by simp
  then show ?thesis using attribute_values_prop(2) [OF assms, of a body lib] attribute_values_set [of m body] by (auto simp: keys)
qed

end
