(* ===== verification/ExpressMail.thy ===== *)
theory ExpressMail
  imports ExpressRelays MailPlugins
begin

text \<open>
  The record of a message in the first console, \<open>legacy/webui-express/db/rmodels/Mail.mjs\<close>. A message is four writes: its recipients
  are upserted side by side, then the transaction is created, then the links between them, then one row per header. No
  transaction of the database holds them together. The order the database runs the upserts in and the order their results
  come back in are two lists of indices of the recipients.
\<close>

section \<open>The message\<close>

definition mail_address :: "jsval \<Rightarrow> string res" where
  "mail_address addr = res_bind (read_prop addr ''user'') (\<lambda>u. res_bind (to_text u) (\<lambda>s.
     map_sum id (\<lambda>h. s @ ''@'' @ h) (to_text (get_prop addr ''host''))))"

fun mail_list_loop :: "string \<Rightarrow> jsval list \<Rightarrow> string res" where
  "mail_list_loop res [] = Inr res"
| "mail_list_loop res (a # as) = res_bind (mail_address a) (\<lambda>t. mail_list_loop (if res = [] then res @ t else res @ '','' @ t) as)"

definition mail_address_list :: "jsval \<Rightarrow> string res" where
  "mail_address_list v = (case v of Arr as \<Rightarrow> mail_list_loop [] as | _ \<Rightarrow> Inl ''TypeError'')"

definition mail_recipient :: "jsval \<Rightarrow> jsval res" where
  "mail_recipient addr = map_sum id (\<lambda>t. Obj [(''name'', get_prop addr ''user''), (''email'', Str t)]) (mail_address addr)"

definition mail_address_array :: "jsval \<Rightarrow> jsval list res" where
  "mail_address_array v = (case v of Arr as \<Rightarrow> map_res mail_recipient as | _ \<Rightarrow> Inl ''TypeError'')"

text \<open>The constructor: the transaction with its list of recipients, and the recipients.\<close>

definition new_mail :: "jsval \<Rightarrow> (jsval \<times> jsval list) res" where
  "new_mail txn = res_bind (read_prop txn ''rcpt_to'') (\<lambda>to. res_bind (mail_address_list to) (\<lambda>l.
     map_sum id (Pair (case txn of Obj ps \<Rightarrow> Obj (obj_put ps ''rcpt_list'' (Str l)) | _ \<Rightarrow> txn)) (mail_address_array to)))"

section \<open>Its recipients\<close>

definition seq_upsert :: "seq_lib \<Rightarrow> jsval \<Rightarrow> seq_row table \<Rightarrow> jsval res \<times> seq_row table" where
  "seq_upsert lib r t =
     (let vs = attribute_values address_model r; sv = stored_values lib address_model vs; e = get_prop (Obj sv) ''email'';
          t' = (if \<exists>x \<in> set (rows t). row_prop x ''email'' = e
                then sql_update (\<lambda>x. row_prop x ''email'' = e) (\<lambda>x. x\<lparr>sr_values := put_all sv (sr_values x)\<rparr>) t
                else sql_insert (\<lambda>i. \<lparr>sr_key = i, sr_values = sv\<rparr>) t)
      in case sl_refuse lib (sm_name address_model) vs of Some err \<Rightarrow> (Inl err, t) | None \<Rightarrow> (Inr (sl_upserted lib t' vs), t'))"

definition upsert_step ::
  "seq_lib \<Rightarrow> jsval list \<Rightarrow> (nat \<Rightarrow> jsval res) \<times> seq_row table \<Rightarrow> nat \<Rightarrow> (nat \<Rightarrow> jsval res) \<times> seq_row table"
where
  "upsert_step lib rcpts = (\<lambda>(ids, t) i. case seq_upsert lib (rcpts ! i) t of (x, t') \<Rightarrow> (ids(i := x), t'))"

text \<open>\<open>insertRcpts\<close> and the wait for it: the ids saved, in the order they came back, or the first rejection.\<close>

definition insert_rcpts ::
  "seq_lib \<Rightarrow> nat list \<times> nat list \<Rightarrow> jsval list \<Rightarrow> seq_row table \<Rightarrow> jsval list res \<times> seq_row table"
where
  "insert_rcpts lib ord rcpts t =
     (case foldl (upsert_step lib rcpts) (\<lambda>_. Inr Undef, t) (fst ord) of
        (ids, t') \<Rightarrow> (map_res ids (snd ord), t'))"

section \<open>The transaction, its links and its headers\<close>

definition seq_bulk_create :: "seq_lib \<Rightarrow> seq_model \<Rightarrow> jsval list \<Rightarrow> seq_row table \<Rightarrow> unit res \<times> seq_row table" where
  "seq_bulk_create lib m bodies t =
     (case List.map_filter (\<lambda>b. sl_refuse lib (sm_name m) (attribute_values m b)) bodies of
        e # _ \<Rightarrow> (Inl e, t)
      | [] \<Rightarrow> (Inr (), foldl (\<lambda>t b. sql_insert (\<lambda>i. \<lparr>sr_key = i, sr_values = stored_values lib m (attribute_values m b)\<rparr>) t) t bodies))"

definition create_mail ::
  "seq_lib \<Rightarrow> nat list \<times> nat list \<Rightarrow> jsval \<Rightarrow> jsval list \<Rightarrow> ex_tables \<Rightarrow> int res \<times> ex_tables"
where
  "create_mail lib ord txn rcpts d =
     (case insert_rcpts lib ord rcpts (xt_addresses d) of
        (saved, t) \<Rightarrow>
          (let d1 = d\<lparr>xt_addresses := t\<rparr>
           in case saved of
                Inl e \<Rightarrow> (Inl e, d1)
              | Inr ids \<Rightarrow>
                  (case seq_create lib transaction_model txn (xt_mails d1) of
                     (Inl e, _) \<Rightarrow> (Inl e, d1)
                   | (Inr i, m) \<Rightarrow>
                       (case seq_bulk_create lib link_model
                               (map (\<lambda>a. Obj [(''MailAddrId'', a), (''TransactionId'', num_of i)]) ids) (xt_links d1) of
                          (made, l) \<Rightarrow> (map_sum id (\<lambda>_. i) made, d1\<lparr>xt_mails := m, xt_links := l\<rparr>)))))"

text \<open>\<open>Object.keys(v)\<close> with what each names, and \<open>v[0]\<close>.\<close>

definition entries_of :: "jsval \<Rightarrow> (string \<times> jsval) list res" where
  "entries_of v = (case v of
     Undef \<Rightarrow> Inl ''TypeError'' | Null \<Rightarrow> Inl ''TypeError''
   | Obj ps \<Rightarrow> Inr ps
   | Arr vs \<Rightarrow> Inr (map (\<lambda>(i, x). (num_to_string (Fin (of_nat i)), x)) (enumerate 0 vs))
   | Str s \<Rightarrow> Inr (map (\<lambda>(i, x). (num_to_string (Fin (of_nat i)), Str x)) (enumerate 0 (code_points s)))
   | _ \<Rightarrow> Inr [])"

definition element_zero :: "jsval \<Rightarrow> jsval res" where
  "element_zero v = (case v of
     Undef \<Rightarrow> Inl ''TypeError'' | Null \<Rightarrow> Inl ''TypeError''
   | Obj ps \<Rightarrow> Inr (get_prop v ''0'')
   | Arr vs \<Rightarrow> Inr (case vs of [] \<Rightarrow> Undef | x # _ \<Rightarrow> x)
   | Str s \<Rightarrow> Inr (case code_points s of [] \<Rightarrow> Undef | c # _ \<Rightarrow> Str c)
   | _ \<Rightarrow> Inr Undef)"

text \<open>The loop of \<open>saveHeaders\<close>: what was sent stays sent when a later header throws. The rejections of the rows, and the error thrown.\<close>

fun header_loop ::
  "seq_lib \<Rightarrow> int \<Rightarrow> (string \<times> jsval) list \<Rightarrow> seq_row table \<Rightarrow> js_error list \<times> js_error option \<times> seq_row table"
where
  "header_loop lib i [] t = ([], None, t)"
| "header_loop lib i ((n, v) # hs) t =
     (case element_zero v of
        Inl e \<Rightarrow> ([], Some e, t)
      | Inr x \<Rightarrow>
          (case seq_create lib header_model (Obj [(''mail_id'', num_of i), (''name'', Str n), (''value'', x)]) t of
             (made, t') \<Rightarrow>
               (case header_loop lib i hs t' of (es, thrown, t'') \<Rightarrow>
                  ((case made of Inl e \<Rightarrow> e # es | Inr _ \<Rightarrow> es), thrown, t''))))"

text \<open>\<open>save\<close>: the rejections nobody handles, and the tables. \<open>Promise.all\<close> reports the first rejection and handles the others; when the
  loop throws, there is none yet.\<close>

definition save_mail ::
  "seq_lib \<Rightarrow> nat list \<times> nat list \<Rightarrow> jsval \<times> jsval list \<Rightarrow> ex_tables \<Rightarrow> js_error list \<times> ex_tables"
where
  "save_mail lib ord = (\<lambda>(txn, rcpts) d.
     (case create_mail lib ord txn rcpts d of
        (Inl e, d') \<Rightarrow> ([e], d')
      | (Inr i, d') \<Rightarrow>
          (case entries_of (get_prop txn ''headers'') of
             Inl e \<Rightarrow> ([e], d')
           | Inr hs \<Rightarrow>
               (case header_loop lib i hs (xt_headers d') of
                  (es, Some e, t) \<Rightarrow> (es @ [e], d'\<lparr>xt_headers := t\<rparr>)
                | (es, None, t) \<Rightarrow> (take 1 es, d'\<lparr>xt_headers := t\<rparr>)))))"

section \<open>The addresses\<close>

text \<open>What the address book knows: the key of the row that has an email.\<close>

definition email_keys :: "seq_row table \<Rightarrow> (jsval \<times> int) list" where
  "email_keys t = map (\<lambda>r. (row_prop r ''email'', sr_key r)) (rows t)"

definition addressed :: "seq_lib \<Rightarrow> jsval \<Rightarrow> jsval" where
  "addressed lib r = sl_stored lib ''MailAddr'' ''email'' (get_prop r ''email'')"

text \<open>The record handed back by an upsert is that of the row.\<close>

definition upserts_told :: "seq_lib \<Rightarrow> bool" where
  "upserts_told lib \<longleftrightarrow> (\<forall>t vs k. map_of (email_keys t) (get_prop (Obj (stored_values lib address_model vs)) ''email'') = Some k
     \<longrightarrow> sl_upserted lib t vs = num_of k)"

lemma recipient_email:
  fixes lib :: seq_lib
  assumes "mail_recipient a = Inr r"
  defines "sv \<equiv> stored_values lib address_model (attribute_values address_model r)"
  shows "get_prop (Obj sv) ''email'' = addressed lib r" "get_prop (Obj (put_all sv old)) ''email'' = addressed lib r"
proof -
  obtain s where r: "r = Obj [(''name'', get_prop a ''user''), (''email'', Str s)]"
    using assms(1) by (auto simp: mail_recipient_def map_sum_Inr_iff)
  have "attribute_values address_model r
      = (if get_prop a ''user'' = Undef then [] else [(''name'', get_prop a ''user'')]) @ [(''email'', Str s)]"
    by (simp add: r attribute_values_def address_model_def sm_attributes_def List.map_filter_simps get_prop_def)
  moreover have "addressed lib r = sl_stored lib ''MailAddr'' ''email'' (Str s)" by (simp add: r addressed_def get_prop_def)
  ultimately show "get_prop (Obj sv) ''email'' = addressed lib r" "get_prop (Obj (put_all sv old)) ''email'' = addressed lib r"
    by (simp_all add: sv_def stored_values_def address_model_def sm_attributes_def put_all_def get_prop_obj_put, simp_all add: get_prop_def)
qed

lemma row_prop_email: "row_prop x ''email'' = get_prop (Obj (sr_values x)) ''email''"
  by (simp add: row_prop_def row_val_def get_prop_def)

lemma upsert_book:
  fixes t :: "seq_row table"
  assumes "mail_recipient a = Inr r" "sl_refuse lib (sm_name address_model) (attribute_values address_model r) = None"
  defines "t' \<equiv> snd (seq_upsert lib r t)"
  shows "email_keys t' = (if addressed lib r \<in> fst ` set (email_keys t) then email_keys t else email_keys t @ [(addressed lib r, next_id t)])"
    "fst (seq_upsert lib r t) = Inr (sl_upserted lib t' (attribute_values address_model r))"
    "keys_ok sr_key t \<Longrightarrow> keys_ok sr_key t'"
proof -
  define sv where "sv = stored_values lib address_model (attribute_values address_model r)"
  note e = recipient_email [OF assms(1), of lib, folded sv_def]
  have t': "t' = (if \<exists>x \<in> set (rows t). row_prop x ''email'' = addressed lib r
      then sql_update (\<lambda>x. row_prop x ''email'' = addressed lib r) (\<lambda>x. x\<lparr>sr_values := put_all sv (sr_values x)\<rparr>) t
      else sql_insert (\<lambda>i. \<lparr>sr_key = i, sr_values = sv\<rparr>) t)"
    and answer: "fst (seq_upsert lib r t) = Inr (sl_upserted lib t' (attribute_values address_model r))"
    using assms(2) by (simp_all add: t'_def seq_upsert_def Let_def e sv_def [symmetric])
  show "fst (seq_upsert lib r t) = Inr (sl_upserted lib t' (attribute_values address_model r))" by (rule answer)
  show "email_keys t' = (if addressed lib r \<in> fst ` set (email_keys t) then email_keys t else email_keys t @ [(addressed lib r, next_id t)])"
    by (auto simp: t' email_keys_def row_prop_email e image_iff) metis
  show "keys_ok sr_key t'" if "keys_ok sr_key t"
    using that by (auto simp: t' seq_rows.update_ok) (force simp: keys_ok_def)
qed

lemma upsert_told:
  assumes "mail_recipient a = Inr r" "upserts_told lib" "sl_refuse lib (sm_name address_model) (attribute_values address_model r) = None"
  obtains k where "fst (seq_upsert lib r t) = Inr (num_of k)" "map_of (email_keys (snd (seq_upsert lib r t))) (addressed lib r) = Some k"
    "prefix (email_keys t) (email_keys (snd (seq_upsert lib r t)))"
    "set (email_keys (snd (seq_upsert lib r t))) \<subseteq> insert (addressed lib r, next_id t) (set (email_keys t))"
    "distinct (map fst (email_keys t)) \<Longrightarrow> distinct (map fst (email_keys (snd (seq_upsert lib r t))))"
proof -
  let ?t = "snd (seq_upsert lib r t)"
  note book = upsert_book [OF assms(1,3), of t]
  then obtain k where k: "map_of (email_keys ?t) (addressed lib r) = Some k"
    by (cases "map_of (email_keys ?t) (addressed lib r)") (auto simp: map_of_eq_None_iff split: if_splits)
  moreover from k assms(2) have "sl_upserted lib ?t (attribute_values address_model r) = num_of k"
    using recipient_email(1) [OF assms(1), of lib] by (simp add: upserts_told_def)
  ultimately show thesis using that [of k] book by (simp split: if_splits) blast
qed

text \<open>Side by side, in whatever order: every recipient has come to a row of the book that stays, and its result is the key.\<close>

lemma upserts_run:
  assumes "\<And>i. i \<in> set order \<Longrightarrow> \<exists>a. mail_recipient a = Inr (rcpts ! i)" "upserts_told lib"
    "\<And>vs. sl_refuse lib (sm_name address_model) vs = None" "foldl (upsert_step lib rcpts) (ids, t) order = (ids', t')"
  shows "prefix (email_keys t) (email_keys t')"
    "set (map fst (email_keys t')) \<subseteq> set (map fst (email_keys t)) \<union> (\<lambda>i. addressed lib (rcpts ! i)) ` set order"
    "distinct (map fst (email_keys t)) \<Longrightarrow> distinct (map fst (email_keys t'))"
    "\<And>i. i \<in> set order \<Longrightarrow> \<exists>k. ids' i = Inr (num_of k) \<and> map_of (email_keys t') (addressed lib (rcpts ! i)) = Some k"
proof -
  have "prefix (email_keys t) (email_keys t')
      \<and> set (map fst (email_keys t')) \<subseteq> set (map fst (email_keys t)) \<union> (\<lambda>i. addressed lib (rcpts ! i)) ` set order
      \<and> (distinct (map fst (email_keys t)) \<longrightarrow> distinct (map fst (email_keys t')))
      \<and> (\<forall>i \<in> set order. \<exists>k. ids' i = Inr (num_of k) \<and> map_of (email_keys t') (addressed lib (rcpts ! i)) = Some k)
      \<and> (\<forall>i. i \<notin> set order \<longrightarrow> ids' i = ids i)"
    using assms(1,4)
  proof (induction order arbitrary: ids' t' rule: rev_induct)
    case (snoc j js)
    obtain ids1 t1 where one: "foldl (upsert_step lib rcpts) (ids, t) js = (ids1, t1)" by fastforce
    from snoc.IH [OF _ one] snoc.prems(1) have before: "prefix (email_keys t) (email_keys t1)"
      "set (map fst (email_keys t1)) \<subseteq> set (map fst (email_keys t)) \<union> (\<lambda>i. addressed lib (rcpts ! i)) ` set js"
      "distinct (map fst (email_keys t)) \<Longrightarrow> distinct (map fst (email_keys t1))"
      "\<And>i. i \<in> set js \<Longrightarrow> \<exists>k. ids1 i = Inr (num_of k) \<and> map_of (email_keys t1) (addressed lib (rcpts ! i)) = Some k"
      "\<And>i. i \<notin> set js \<Longrightarrow> ids1 i = ids i" by simp_all
    from snoc.prems(1) obtain a where "mail_recipient a = Inr (rcpts ! j)" by auto
    from upsert_told [OF this assms(2) assms(3), of t1] obtain k where k: "fst (seq_upsert lib (rcpts ! j) t1) = Inr (num_of k)"
      "map_of (email_keys (snd (seq_upsert lib (rcpts ! j) t1))) (addressed lib (rcpts ! j)) = Some k"
      "prefix (email_keys t1) (email_keys (snd (seq_upsert lib (rcpts ! j) t1)))"
      "set (email_keys (snd (seq_upsert lib (rcpts ! j) t1))) \<subseteq> insert (addressed lib (rcpts ! j), next_id t1) (set (email_keys t1))"
      "distinct (map fst (email_keys t1)) \<Longrightarrow> distinct (map fst (email_keys (snd (seq_upsert lib (rcpts ! j) t1))))" by metis
    have last: "ids' = ids1(j := Inr (num_of k))" "t' = snd (seq_upsert lib (rcpts ! j) t1)"
      using snoc.prems(2) one k(1) by (auto simp: upsert_step_def split: prod.splits)
    have stays: "map_of (email_keys t') e = Some v" if "map_of (email_keys t1) e = Some v" for e v
      using that k(3) by (auto simp: last(2) prefix_def map_add_def)
    have "fst ` set (email_keys t') \<subseteq> insert (addressed lib (rcpts ! j)) (fst ` set (email_keys t1))"
      using k(4) by (force simp: last(2))
    with before(2) have grown: "set (map fst (email_keys t')) \<subseteq> set (map fst (email_keys t)) \<union> (\<lambda>i. addressed lib (rcpts ! i)) ` set (js @ [j])"
      by (simp only: set_map set_append list.set image_Un image_insert image_empty) blast
    have "\<exists>k. ids' i = Inr (num_of k) \<and> map_of (email_keys t') (addressed lib (rcpts ! i)) = Some k" if "i \<in> set (js @ [j])" for i
      using that before(4) [of i] stays k(2) by (cases "i = j") (auto simp: last simp del: map_of_eq_Some_iff)
    moreover have "prefix (email_keys t) (email_keys t')" using before(1) k(3) by (auto simp: last(2) dest: prefix_order.order_trans)
    moreover have "distinct (map fst (email_keys t)) \<Longrightarrow> distinct (map fst (email_keys t'))" using before(3) k(5) by (simp add: last(2))
    moreover have "\<And>i. i \<notin> set (js @ [j]) \<Longrightarrow> ids' i = ids i" using before(5) by (simp add: last(1))
    ultimately show ?case using grown by blast
  qed simp
  then show "prefix (email_keys t) (email_keys t')"
    "set (map fst (email_keys t')) \<subseteq> set (map fst (email_keys t)) \<union> (\<lambda>i. addressed lib (rcpts ! i)) ` set order"
    "distinct (map fst (email_keys t)) \<Longrightarrow> distinct (map fst (email_keys t'))"
    "\<And>i. i \<in> set order \<Longrightarrow> \<exists>k. ids' i = Inr (num_of k) \<and> map_of (email_keys t') (addressed lib (rcpts ! i)) = Some k"
    by blast+
qed

section \<open>What a save leaves\<close>

lemma inserted_all:
  "\<exists>new. rows (foldl (\<lambda>t b. sql_insert (\<lambda>i. \<lparr>sr_key = i, sr_values = f b\<rparr>) t) t bs) = rows t @ new \<and> map sr_values new = map f bs"
proof (induction bs arbitrary: t)
  case (Cons b bs)
  let ?t = "sql_insert (\<lambda>i. \<lparr>sr_key = i, sr_values = f b\<rparr>) t"
  from Cons.IH [of ?t] obtain new where "rows (foldl (\<lambda>t b. sql_insert (\<lambda>i. \<lparr>sr_key = i, sr_values = f b\<rparr>) t) ?t bs) = rows ?t @ new"
    "map sr_values new = map f bs" by blast
  then show ?case by (intro exI [of _ "\<lparr>sr_key = next_id t, sr_values = f b\<rparr> # new"]) simp
qed simp

lemma bulk_created:
  assumes "\<And>vs. sl_refuse lib (sm_name m) vs = None"
  obtains t' new where "seq_bulk_create lib m bs t = (Inr (), t')" "rows t' = rows t @ new"
    "map sr_values new = map (\<lambda>b. stored_values lib m (attribute_values m b)) bs"
proof -
  have "List.map_filter (\<lambda>b. sl_refuse lib (sm_name m) (attribute_values m b)) bs = []"
    by (simp add: assms List.map_filter_def)
  then show thesis using that inserted_all [of "\<lambda>b. stored_values lib m (attribute_values m b)" t bs]
    by (auto simp: seq_bulk_create_def)
qed

lemma created_next:
  assumes "keys_ok sr_key t" "\<And>vs. sl_refuse lib (sm_name m) vs = None" "sl_key lib Undef = None" "get_prop (Obj ps) ''id'' = Undef"
  shows "seq_create lib m (Obj ps) t = (Inr (next_id t),
    sql_insert (\<lambda>i. \<lparr>sr_key = i, sr_values = stored_values lib m (attribute_values m (Obj ps))\<rparr>) t)"
  using assms by (auto simp: seq_create_def Let_def sql_insert_def keys_ok_def image_iff)

definition header_row :: "seq_lib \<Rightarrow> int \<Rightarrow> string \<times> jsval \<Rightarrow> (string \<times> jsval) list" where
  "header_row lib i = (\<lambda>(n, v). stored_values lib header_model (attribute_values header_model
     (Obj [(''mail_id'', num_of i), (''name'', Str n), (''value'', case element_zero v of Inl _ \<Rightarrow> Undef | Inr x \<Rightarrow> x)])))"

lemma headers_written:
  assumes "keys_ok sr_key t" "\<And>vs. sl_refuse lib (sm_name header_model) vs = None" "sl_key lib Undef = None"
    "list_all (\<lambda>(n, v). v \<noteq> Undef \<and> v \<noteq> Null) hs"
  shows "\<exists>t' new. header_loop lib i hs t = ([], None, t') \<and> rows t' = rows t @ new \<and> map sr_values new = map (header_row lib i) hs"
  using assms(1,4)
proof (induction hs arbitrary: t)
  case (Cons h hs)
  obtain n v where h: "h = (n, v)" by fastforce
  have "v \<noteq> Undef" "v \<noteq> Null" using Cons.prems(2) by (simp_all add: h)
  then obtain x where x: "element_zero v = Inr x" by (cases v) (simp_all add: element_zero_def)
  let ?b = "[(''mail_id'', num_of i), (''name'', Str n), (''value'', x)]"
  let ?t = "sql_insert (\<lambda>j. \<lparr>sr_key = j, sr_values = stored_values lib header_model (attribute_values header_model (Obj ?b))\<rparr>) t"
  have made: "seq_create lib header_model (Obj ?b) t = (Inr (next_id t), ?t)"
    by (rule created_next [OF Cons.prems(1) assms(2,3)]) (simp add: get_prop_def)
  have "keys_ok sr_key ?t" using Cons.prems(1) by (force simp: keys_ok_def)
  from Cons.IH [OF this] Cons.prems(2) obtain t' new where "header_loop lib i hs ?t = ([], None, t')" "rows t' = rows ?t @ new"
    "map sr_values new = map (header_row lib i) hs" by auto
  then show ?case by (simp add: h x made header_row_def)
qed simp

text \<open>A message that is kept: the book only grows and has each address once, and the message is one transaction, one link for each of its
  recipients to the row that has its address, and its headers, each with the first value.\<close>

definition link_row :: "seq_lib \<Rightarrow> jsval \<Rightarrow> int \<Rightarrow> (string \<times> jsval) list" where
  "link_row lib a i = stored_values lib link_model (attribute_values link_model (Obj [(''MailAddrId'', a), (''TransactionId'', num_of i)]))"

definition mail_kept :: "seq_lib \<Rightarrow> jsval \<Rightarrow> jsval list \<Rightarrow> (string \<times> jsval) list \<Rightarrow> ex_tables \<Rightarrow> ex_tables \<Rightarrow> bool" where
  "mail_kept lib txn rcpts hs d d' \<longleftrightarrow>
     (let i = next_id (xt_mails d); book = email_keys (xt_addresses d') in
      d' = d\<lparr>xt_addresses := xt_addresses d', xt_mails := xt_mails d', xt_links := xt_links d', xt_headers := xt_headers d'\<rparr>
      \<and> prefix (email_keys (xt_addresses d)) book \<and> distinct (map fst book)
      \<and> set (map fst book) = set (map fst (email_keys (xt_addresses d))) \<union> addressed lib ` set rcpts
      \<and> rows (xt_mails d') = rows (xt_mails d) @ [\<lparr>sr_key = i, sr_values = stored_values lib transaction_model (attribute_values transaction_model txn)\<rparr>]
      \<and> (\<exists>new. rows (xt_links d') = rows (xt_links d) @ new
           \<and> mset (map sr_values new) = mset (map (\<lambda>r. link_row lib (num_of (the (map_of book (addressed lib r)))) i) rcpts))
      \<and> (\<exists>new. rows (xt_headers d') = rows (xt_headers d) @ new \<and> map sr_values new = map (header_row lib i) hs))"

lemma new_mail_parts:
  assumes "new_mail body = Inr (txn, rcpts)"
  obtains ps l as where "body = Obj ps" "txn = Obj (obj_put ps ''rcpt_list'' (Str l))" "get_prop body ''rcpt_to'' = Arr as"
    "mail_address_list (Arr as) = Inr l" "list_all2 (\<lambda>a r. mail_recipient a = Inr r) as rcpts"
proof -
  from assms obtain l where l: "mail_address_list (get_prop body ''rcpt_to'') = Inr l"
      "mail_address_array (get_prop body ''rcpt_to'') = Inr rcpts"
      "txn = (case body of Obj ps \<Rightarrow> Obj (obj_put ps ''rcpt_list'' (Str l)) | _ \<Rightarrow> body)"
    by (auto simp: new_mail_def read_prop_def map_sum_Inr_iff elim!: res_bind_InrE split: if_splits)
  then obtain as where as: "get_prop body ''rcpt_to'' = Arr as" by (cases "get_prop body ''rcpt_to''") (simp_all add: mail_address_list_def)
  then obtain ps where "body = Obj ps" by (cases body) (simp_all add: get_prop_def)
  with l as that show thesis by (simp add: mail_address_array_def map_res_Inr_iff)
qed

lemma recipients_saved:
  assumes "list_all2 (\<lambda>a r. mail_recipient a = Inr r) as rcpts" "upserts_told lib" "\<And>vs. sl_refuse lib (sm_name address_model) vs = None"
    "mset (fst ord) = mset [0..<length rcpts]" "mset (snd ord) = mset [0..<length rcpts]" "distinct (map fst (email_keys t))"
  obtains ids t' where "insert_rcpts lib ord rcpts t = (Inr ids, t')"
    "mset ids = mset (map (\<lambda>r. num_of (the (map_of (email_keys t') (addressed lib r)))) rcpts)"
    "prefix (email_keys t) (email_keys t')" "distinct (map fst (email_keys t'))"
    "set (map fst (email_keys t')) = set (map fst (email_keys t)) \<union> addressed lib ` set rcpts"
proof -
  obtain ran t' where run: "foldl (upsert_step lib rcpts) (\<lambda>_. Inr Undef, t) (fst ord) = (ran, t')" by fastforce
  have sets: "set (fst ord) = {0..<length rcpts}" "set (snd ord) = {0..<length rcpts}"
    using assms(4,5) by (metis set_mset_mset set_upt)+
  have from_body: "\<exists>a. mail_recipient a = Inr (rcpts ! i)" if "i \<in> set (fst ord)" for i
    using that assms(1) sets by (auto simp: list_all2_conv_all_nth)
  note kept = upserts_run [OF from_body assms(2,3) run]
  let ?key = "\<lambda>r. the (map_of (email_keys t') (addressed lib r))"
  have each: "ran i = Inr (num_of (?key (rcpts ! i)))" "addressed lib (rcpts ! i) \<in> set (map fst (email_keys t'))" if "i \<in> set (snd ord)" for i
    using kept(4) [of i] that sets by (force dest: map_of_SomeD)+
  have saved: "insert_rcpts lib ord rcpts t = (Inr (map (\<lambda>i. num_of (?key (rcpts ! i))) (snd ord)), t')"
    using each by (simp add: insert_rcpts_def run map_res_total)
  have "mset (map (\<lambda>i. num_of (?key (rcpts ! i))) (snd ord)) = image_mset (\<lambda>i. num_of (?key (rcpts ! i))) (mset [0..<length rcpts])"
    by (simp only: mset_map assms(5))
  also have "\<dots> = mset (map (\<lambda>r. num_of (?key r)) (map ((!) rcpts) [0..<length rcpts]))"
    by (simp only: mset_map multiset.map_comp comp_def)
  finally have keys: "mset (map (\<lambda>i. num_of (?key (rcpts ! i))) (snd ord)) = mset (map (\<lambda>r. num_of (?key r)) rcpts)"
    by (simp only: map_nth)
  have "addressed lib ` set rcpts \<subseteq> set (map fst (email_keys t'))"
    using each(2) sets by (auto simp: in_set_conv_nth simp del: set_map)
  moreover have "set (map fst (email_keys t)) \<subseteq> set (map fst (email_keys t'))"
    using kept(1) by (auto simp: prefix_def)
  moreover have "(\<lambda>i. addressed lib (rcpts ! i)) ` set (fst ord) \<subseteq> addressed lib ` set rcpts" using sets by auto
  ultimately have "set (map fst (email_keys t')) = set (map fst (email_keys t)) \<union> addressed lib ` set rcpts"
    using kept(2) by blast
  moreover have "distinct (map fst (email_keys t'))" using kept(3) assms(6) by blast
  ultimately show thesis using that saved keys kept(1) by metis
qed

text \<open>A message that nothing of is refused is kept, whatever the order its recipients are written in.\<close>

lemma message_kept:
  assumes "new_mail body = Inr (txn, rcpts)" "mset (fst ord) = mset [0..<length rcpts]" "mset (snd ord) = mset [0..<length rcpts]"
    "\<And>m vs. sl_refuse lib m vs = None" "upserts_told lib" "sl_key lib Undef = None"
    "distinct (map fst (email_keys (xt_addresses d)))" "keys_ok sr_key (xt_mails d)" "keys_ok sr_key (xt_headers d)"
    "get_prop body ''id'' = Undef" "get_prop body ''headers'' = Obj hs" "list_all (\<lambda>(n, v). v \<noteq> Undef \<and> v \<noteq> Null) hs"
  shows "\<exists>d'. save_mail lib ord (txn, rcpts) d = ([], d') \<and> mail_kept lib txn rcpts hs d d'"
proof -
  obtain ps l as where p: "body = Obj ps" "txn = Obj (obj_put ps ''rcpt_list'' (Str l))" "get_prop body ''rcpt_to'' = Arr as"
      "mail_address_list (Arr as) = Inr l" "list_all2 (\<lambda>a r. mail_recipient a = Inr r) as rcpts"
    by (rule new_mail_parts [OF assms(1)])
  obtain ids t where r: "insert_rcpts lib ord rcpts (xt_addresses d) = (Inr ids, t)"
      "mset ids = mset (map (\<lambda>r. num_of (the (map_of (email_keys t) (addressed lib r)))) rcpts)"
      "prefix (email_keys (xt_addresses d)) (email_keys t)" "distinct (map fst (email_keys t))"
      "set (map fst (email_keys t)) = set (map fst (email_keys (xt_addresses d))) \<union> addressed lib ` set rcpts"
    by (rule recipients_saved [OF p(5) assms(5,4,2,3,7)])
  let ?i = "next_id (xt_mails d)"
  have made: "seq_create lib transaction_model txn (xt_mails d) = (Inr ?i,
      sql_insert (\<lambda>i. \<lparr>sr_key = i, sr_values = stored_values lib transaction_model (attribute_values transaction_model txn)\<rparr>) (xt_mails d))"
    unfolding p(2) by (rule created_next [OF assms(8,4,6)]) (use assms(10) p(1) in \<open>simp add: get_prop_obj_put\<close>)
  let ?links = "map (\<lambda>a. Obj [(''MailAddrId'', a), (''TransactionId'', num_of ?i)]) ids"
  obtain lt new where links: "seq_bulk_create lib link_model ?links (xt_links d) = (Inr (), lt)" "rows lt = rows (xt_links d) @ new"
      "map sr_values new = map (\<lambda>b. stored_values lib link_model (attribute_values link_model b)) ?links"
    by (rule bulk_created [of lib link_model ?links "xt_links d", OF assms(4)])
  have "map sr_values new = map (\<lambda>a. link_row lib a ?i) ids" using links(3) by (simp add: link_row_def comp_def)
  then have "mset (map sr_values new) = image_mset (\<lambda>a. link_row lib a ?i) (mset ids)" by (metis mset_map)
  then have pairs: "mset (map sr_values new) = mset (map (\<lambda>r. link_row lib (num_of (the (map_of (email_keys t) (addressed lib r)))) ?i) rcpts)"
    by (simp add: r(2) multiset.map_comp comp_def)
  obtain ht hnew where heads: "header_loop lib ?i hs (xt_headers d) = ([], None, ht)" "rows ht = rows (xt_headers d) @ hnew"
      "map sr_values hnew = map (header_row lib ?i) hs"
    using headers_written [where i = ?i, OF assms(9,4,6,12)] by blast
  have "get_prop txn ''headers'' = Obj hs" using assms(11) p(1) by (simp add: p(2) get_prop_obj_put)
  then show ?thesis using heads links(2) pairs r(3-5)
    by (simp add: save_mail_def create_mail_def r(1) made links(1) entries_of_def mail_kept_def Let_def)
qed

text \<open>When an address is refused nothing of the message is kept but addresses.\<close>

lemma save_refused:
  assumes "fst (insert_rcpts lib ord rcpts (xt_addresses d)) = Inl e"
  shows "\<exists>t. save_mail lib ord (txn, rcpts) d = ([e], d\<lparr>xt_addresses := t\<rparr>)"
proof -
  obtain t where "insert_rcpts lib ord rcpts (xt_addresses d) = (Inl e, t)" using assms by (metis prod.collapse)
  then show ?thesis by (intro exI [of _ t]) (simp add: save_mail_def create_mail_def)
qed

end
