(* ===== verification/ExpressApp.thy ===== *)
theory ExpressApp
  imports ExpressMail
begin

text \<open>
  The first console as a whole, \<open>legacy/webui-express/src/\<close>: \<open>app.mjs\<close>, \<open>routes/*.mjs\<close>, \<open>middleware/logger.mjs\<close> and
  \<open>errhandler.mjs\<close>. Its state are the sessions in memory and the tables. A request is a file, or it is logged and then goes to the
  login or, behind the gate, to a route. What no handler catches becomes a row of the exceptions. The statements of a request are
  taken to run before the next request.
\<close>

section \<open>What the routes use\<close>

record ex_env =
  xe_library :: library
  xe_accounts :: "ex_user list"
  xe_seq :: seq_lib
  xe_find :: "string \<Rightarrow> seq_query \<Rightarrow> ex_tables \<Rightarrow> jsval list res"
  xe_blocked :: "jsval \<Rightarrow> nat res"
  xe_static :: "string list \<Rightarrow> bool"

section \<open>The API\<close>

definition ex_post_delivery :: "ex_env \<Rightarrow> ex_http \<Rightarrow> ex_tables \<Rightarrow> ex_outcome" where
  "ex_post_delivery env r d =
     (case seq_create (xe_seq env) delivery_model (ex_body r) (xt_deliveries d) of
        (Inl e, _) \<Rightarrow> (ExText ''OK: '', [e], d)
      | (Inr _, t) \<Rightarrow> ex_answered (ExText ''OK: '') (d\<lparr>xt_deliveries := t\<rparr>))"

definition ex_post_connection :: "ex_env \<Rightarrow> ex_http \<Rightarrow> ex_tables \<Rightarrow> ex_outcome" where
  "ex_post_connection env r d =
     (case seq_create (xe_seq env) connection_model (ex_body r) (xt_connections d) of
        (Inl e, _) \<Rightarrow> (ExText ''OK'', [e], d)
      | (Inr _, t) \<Rightarrow> ex_answered (ExText ''OK'') (d\<lparr>xt_connections := t\<rparr>))"

definition ex_post_queue :: "ex_env \<Rightarrow> ex_http \<Rightarrow> ex_tables \<Rightarrow> ex_outcome" where
  "ex_post_queue env r d =
     (case new_mail (ex_body r) of
        Inl e \<Rightarrow> ex_answered (ExError e) d
      | Inr m \<Rightarrow> (case save_mail (xe_seq env) (ex_order r) m d of (es, d') \<Rightarrow> (ExText ''OK'', es, d')))"

definition ex_list_rows :: "string \<Rightarrow> ex_env \<Rightarrow> ex_http \<Rightarrow> ex_tables \<Rightarrow> ex_outcome" where
  "ex_list_rows m env r d =
     (case get_data (ex_request_param r) of
        Inl e \<Rightarrow> ex_answered (ExError e) d
      | Inr q \<Rightarrow> (case xe_find env m q d of Inl e \<Rightarrow> ex_unanswered e d | Inr records \<Rightarrow> ex_answered (ExJson (prepare_res records)) d))"

definition ex_api_routes :: "ex_env ex_route list" where
  "ex_api_routes =
     [(''POST'', [Some ''api'', Some ''delivery''], ex_post_delivery),
      (''GET'', [Some ''api'', Some ''delivery''], ex_list_rows ''Delivery''),
      (''POST'', [Some ''api'', Some ''connection''], ex_post_connection),
      (''GET'', [Some ''api'', Some ''connection''], ex_list_rows ''Connection''),
      (''POST'', [Some ''api'', Some ''queue''], ex_post_queue),
      (''GET'', [Some ''api'', Some ''queue''], ex_list_rows ''Transaction''),
      (''GET'', [Some ''api'', Some ''hashlookups''], ex_list_rows ''v_lookup'')]"

text \<open>The orders a request comes with are orders of its recipients.\<close>

definition orders_fit :: "ex_http \<Rightarrow> bool" where
  "orders_fit r \<longleftrightarrow> (case new_mail (ex_body r) of Inl _ \<Rightarrow> True | Inr (_, rcpts) \<Rightarrow>
     mset (fst (ex_order r)) = mset [0..<length rcpts] \<and> mset (snd (ex_order r)) = mset [0..<length rcpts])"

section \<open>The attachment filter\<close>

text \<open>The lookups of the message, with their rows.\<close>

definition record_lookups :: "seq_lib \<Rightarrow> jsval list \<Rightarrow> seq_row table \<Rightarrow> js_error list \<times> seq_row table" where
  "record_lookups lib bodies t = foldl (\<lambda>(es, t) b. case seq_create lib hash_lookup_model b t of
       (Inl e, t') \<Rightarrow> (es @ [e], t') | (Inr _, t') \<Rightarrow> (es, t')) ([], t) bodies"

definition ex_post_md5 :: "ex_env \<Rightarrow> ex_http \<Rightarrow> ex_tables \<Rightarrow> ex_outcome" where
  "ex_post_md5 env r d =
     (case hash_lookups_of (xe_blocked env) (ex_body r) of (verdict, records) \<Rightarrow>
        (case record_lookups (xe_seq env) records (xt_lookups d) of (es, t) \<Rightarrow>
           (case verdict of
              Inl e \<Rightarrow> (ExUnanswered e, es @ [e], d\<lparr>xt_lookups := t\<rparr>)
            | Inr answer \<Rightarrow> (ExJson (Obj [(''action'', Str answer)]), es, d\<lparr>xt_lookups := t\<rparr>))))"

definition ex_filter_routes :: "ex_env ex_route list" where
  "ex_filter_routes = [(''POST'', [Some ''filter'', Some ''md5''], ex_post_md5)]"

section \<open>Pages\<close>

definition ex_show_page :: "string \<Rightarrow> ex_env \<Rightarrow> ex_http \<Rightarrow> ex_tables \<Rightarrow> ex_outcome" where
  "ex_show_page template env r d = ex_answered (ExPage template []) d"

definition ex_log_routes :: "ex_env ex_route list" where
  "ex_log_routes =
     [(''GET'', [Some ''log'', Some ''delivery''], ex_show_page ''log-delivery''),
      (''GET'', [Some ''log'', Some ''connection''], ex_show_page ''log-connection''),
      (''GET'', [Some ''log'', Some ''mails''], ex_show_page ''log-mails''),
      (''GET'', [Some ''log'', Some ''lookups''], ex_show_page ''log-lookups'')]"

definition ex_root_routes :: "ex_env ex_route list" where
  "ex_root_routes = [(''GET'', [], ex_show_page ''index'')]"

definition ex_routes :: "ex_env ex_route list" where
  "ex_routes = ex_root_routes @ ex_log_routes @ ex_api_routes @ ex_filter_routes
     @ map (\<lambda>(m, p, h). (m, p, \<lambda>env. h (xe_seq env))) ex_relay_routes"

section \<open>The log of requests and of exceptions\<close>

definition str_or_undef :: "string option \<Rightarrow> jsval" where
  "str_or_undef s = (case s of None \<Rightarrow> Undef | Some x \<Rightarrow> Str x)"

definition ex_log_row :: "ex_http \<Rightarrow> jsval" where
  "ex_log_row r = Obj
     [(''url'', Str (ex_protocol r @ ''://'' @ nullish (ex_header r ''host'') ''undefined'' @ ex_url r)),
      (''path'', Str (takeWhile (\<lambda>c. c \<noteq> CHR ''?'') (ex_url r))), (''query'', Str (ex_url r)), (''method'', Str (ex_method r)),
      (''contentype'', str_or_undef (ex_header r ''Content-Type'')), (''protocol'', Str (ex_protocol r)), (''src_ip'', Str (ex_ip r)),
      (''src_port'', num_of (ex_port r)),
      (''referer'', str_or_undef (if truthy_str (ex_header r ''Referrer'') then ex_header r ''Referrer'' else ex_header r ''Referer'')),
      (''userAgent'', str_or_undef (ex_header r ''User-agent'')), (''origin'', str_or_undef (ex_header r ''Origin'')), (''user'', Str ''-'')]"

definition ex_logger :: "seq_lib \<Rightarrow> ex_http \<Rightarrow> ex_tables \<Rightarrow> js_error list \<times> ex_tables" where
  "ex_logger lib r d = (case seq_create lib log_model (ex_log_row r) (xt_logs d) of
     (Inl e, _) \<Rightarrow> ([e], d) | (Inr _, t) \<Rightarrow> ([], d\<lparr>xt_logs := t\<rparr>))"

text \<open>The handler of \<open>uncaughtException\<close>. A row that is refused is not recorded; its rejection comes back to the handler.\<close>

definition note_exception :: "seq_lib \<Rightarrow> ex_tables \<Rightarrow> js_error \<Rightarrow> ex_tables" where
  "note_exception lib d e = d\<lparr>xt_exceptions := snd (seq_create lib exception_model
     (Obj [(''product'', Str ''ngm-mailgw-webui''), (''component'', Str ''webui''), (''info'', Str e)]) (xt_exceptions d))\<rparr>"

definition note_exceptions :: "seq_lib \<Rightarrow> js_error list \<Rightarrow> ex_tables \<Rightarrow> ex_tables" where
  "note_exceptions lib es d = foldl (note_exception lib) d es"

section \<open>The application\<close>

text \<open>What of the login a request is for, if it is.\<close>

definition ex_front_request :: "ex_http \<Rightarrow> ex_request option" where
  "ex_front_request r =
     (let for_path = (\<lambda>m l. method_fits m (ex_method r) \<and> path_fits [Some l] (ex_path r)) in
      if for_path ''GET'' ''login'' then Some ExFormLogin
      else if for_path ''POST'' ''login'' then Some (ExLogin (ex_sid r) (ex_body r))
      else if for_path ''GET'' ''logout'' then Some ExLogout
      else if for_path ''GET'' ''profile'' then Some ExProfile
      else None)"

definition ex_behind_gate :: "ex_env \<Rightarrow> ex_http \<Rightarrow> ex_tables \<Rightarrow> ex_outcome" where
  "ex_behind_gate env r d = (case ex_route_for ex_routes r of
     None \<Rightarrow> ex_answered ExNotFound d
   | Some (_, _, h) \<Rightarrow> h env r d)"

definition ex_is_file :: "ex_env \<Rightarrow> ex_http \<Rightarrow> bool" where
  "ex_is_file env r \<longleftrightarrow> method_fits ''GET'' (ex_method r) \<and> xe_static env (ex_path r)"

definition ex_serve :: "ex_env \<Rightarrow> ex_http \<Rightarrow> ex_sessions \<times> ex_tables \<Rightarrow> ex_reply \<times> ex_sessions \<times> ex_tables" where
  "ex_serve env r = (\<lambda>(mem, d).
     if ex_is_file env r then (ExFile, mem, d)
     else (case ex_logger (xe_seq env) r d of (es, d1) \<Rightarrow>
       (case ex_front_request r of
          Some q \<Rightarrow>
            (case ex_app (xe_library env) (xe_accounts env) q mem of (reply, mem') \<Rightarrow>
               (reply, mem', note_exceptions (xe_seq env) (es @ (case reply of ExUnanswered e \<Rightarrow> [e] | _ \<Rightarrow> [])) d1))
        | None \<Rightarrow>
            (case ex_check_session mem (ex_cookie r) of
               Some refused \<Rightarrow> (refused, mem, note_exceptions (xe_seq env) es d1)
             | None \<Rightarrow>
                 (case ex_behind_gate env r d1 of (reply, es', d2) \<Rightarrow> (reply, mem, note_exceptions (xe_seq env) (es @ es') d2))))))"

definition ex_serves :: "ex_env \<Rightarrow> ex_http list \<Rightarrow> ex_sessions \<times> ex_tables \<Rightarrow> ex_sessions \<times> ex_tables" where
  "ex_serves env rs s = foldl (\<lambda>s r. snd (ex_serve env r s)) s rs"

end
