(* ===== verification/ExpressData.thy ===== *)
theory ExpressData
  imports ExpressApp Samples
begin

text \<open>
  What the handlers of the first console do to its data: an edit of a relay, and a message the gateway reports.
\<close>

section \<open>A console to try\<close>

definition sample_lib :: seq_lib where
  "sample_lib = \<lparr>sl_refuse = (\<lambda>_ _. None), sl_stored = (\<lambda>_ _ v. v),
     sl_key = (\<lambda>v. None),
     sl_no_key = (\<lambda>n. None),
     sl_upserted = (\<lambda>t vs. case map_of (email_keys t) (get_prop (Obj vs) ''email'') of None \<Rightarrow> Undef | Some k \<Rightarrow> num_of k)\<rparr>"

definition sample_console :: ex_env where
  "sample_console = \<lparr>xe_library = sample_library, xe_accounts = [\<lparr>eu_email = ''root@x'', eu_hash = Some ''$2b$password''\<rparr>],
     xe_seq = sample_lib, xe_find = (\<lambda>_ _ _. Inr []), xe_blocked = (\<lambda>_. Inr 0), xe_static = (\<lambda>_. False)\<rparr>"

definition ex_sample_post :: "string list \<Rightarrow> jsval \<Rightarrow> string option \<Rightarrow> ex_http" where
  "ex_sample_post parts body cookie = \<lparr>ex_method = ''POST'', ex_path = parts, ex_body = body, ex_request_param = None, ex_cookie = cookie,
     ex_sid = ''s1'', ex_order = ([0, 1], [1, 0]), ex_url = ''/'', ex_protocol = ''https'', ex_header = (\<lambda>_. None), ex_ip = ''127.0.0.1'',
     ex_port = 4000\<rparr>"

definition sample_tables :: ex_tables where
  "sample_tables = \<lparr>xt_groups = empty_table, xt_relays = \<lparr>rows = [\<lparr>sr_key = 1, sr_values = [(''group_id'', num_of 1), (''host'', Str ''mx''), (''auth_pass'', Str ''secret'')]\<rparr>], next_id = 2\<rparr>,
     xt_deliveries = empty_table, xt_connections = empty_table, xt_mails = empty_table,
     xt_addresses = \<lparr>rows = [\<lparr>sr_key = 1, sr_values = [(''name'', Str ''a''), (''email'', Str ''a@x'')]\<rparr>], next_id = 2\<rparr>, xt_links = empty_table, xt_headers = empty_table,
     xt_lookups = empty_table, xt_logs = empty_table, xt_exceptions = empty_table\<rparr>"

section \<open>An edit of a relay\<close>

text \<open>An edit of a relay changes that relay and no other: its key and the attributes the body does not name stay, and each attribute
  the body names is what the body says. The form names the password each time, empty unless it was typed again, so a form sent
  back with another port empties the password.\<close>

theorem relay_edit_exact:
  assumes "find_by_pk lib (param_number r) (xt_relays d) = Inr (Some x)" "sl_refuse lib ''Relay'' (attribute_values relay_model (ex_body r)) = None"
  shows "\<exists>t. snd (snd (ex_relay_edit_handle lib r d)) = d\<lparr>xt_relays := t\<rparr> \<and> map sr_key (rows t) = map sr_key (rows (xt_relays d))
    \<and> filter (\<lambda>y. sr_key y \<noteq> sr_key x) (rows t) = filter (\<lambda>y. sr_key y \<noteq> sr_key x) (rows (xt_relays d))
    \<and> (\<exists>z \<in> set (rows t). sr_key z = sr_key x \<and> (\<forall>a. a \<noteq> ''id'' \<longrightarrow> row_prop z a =
         (if a \<in> set (sm_attributes relay_model) \<and> get_prop (ex_body r) a \<noteq> Undef then sl_stored lib ''Relay'' a (get_prop (ex_body r) a)
          else row_prop x a)))"
proof -
  have name: "sm_name relay_model = ''Relay''" by (simp add: relay_model_def sm_attributes_def)
  let ?vs = "stored_values lib relay_model (attribute_values relay_model (ex_body r))"
  let ?f = "\<lambda>y. if sr_key y = sr_key x then y\<lparr>sr_values := put_all ?vs (sr_values y)\<rparr> else y"
  obtain x' t where t: "seq_update lib relay_model (ex_body r) x (xt_relays d) = (Inr x', t)" "rows t = map ?f (rows (xt_relays d))"
    using assms(2) name by (simp add: seq_update_def Let_def)
  have "snd (snd (ex_relay_edit_handle lib r d)) = d\<lparr>xt_relays := t\<rparr>"
    by (simp add: ex_relay_edit_handle_def assms(1) t(1) to_group_def ex_unanswered_def ex_answered_def split: sum.split)
  moreover have "map sr_key (rows t) = map sr_key (rows (xt_relays d))" by (simp add: t(2))
  moreover have "filter (\<lambda>y. sr_key y \<noteq> sr_key x) (map ?f rs) = filter (\<lambda>y. sr_key y \<noteq> sr_key x) rs" for rs by (induction rs) auto
  then have "filter (\<lambda>y. sr_key y \<noteq> sr_key x) (rows t) = filter (\<lambda>y. sr_key y \<noteq> sr_key x) (rows (xt_relays d))" by (simp only: t(2))
  moreover have "?f x \<in> set (rows t)" using find_by_pk_row [OF assms(1)] t(2) by simp
  moreover have "row_prop (?f x) a = (if a \<in> set (sm_attributes relay_model) \<and> get_prop (ex_body r) a \<noteq> Undef
      then sl_stored lib ''Relay'' a (get_prop (ex_body r) a) else row_prop x a)" if "a \<noteq> ''id''" for a
  proof -
    have other: "row_prop y a = get_prop (Obj (sr_values y)) a" for y using that by (simp add: row_prop_def row_val_def get_prop_def)
    have "distinct (sm_attributes relay_model)" by (simp add: relay_model_def sm_attributes_def)
    from put_stored_prop [OF this, of lib "ex_body r" "sr_values x" a] show ?thesis by (simp add: other name)
  qed
  moreover have "sr_key (?f x) = sr_key x" by simp
  ultimately show ?thesis by blast
qed

lemma relay_edit_exact_witness:
  "let r = ex_sample_post [''config'', ''relay'', ''edit'', ''1''] (Obj [(''port'', num_of 26), (''auth_pass'', Str [])]) (Some ''s1'');
       d = snd (snd (ex_relay_edit_handle sample_lib r sample_tables))
   in \<exists>z \<in> set (rows (xt_relays d)). row_prop z ''auth_pass'' = Str [] \<and> row_prop z ''port'' = num_of 26 \<and> row_prop z ''host'' = Str ''mx''"
proof -
  let ?r = "ex_sample_post [''config'', ''relay'', ''edit'', ''1''] (Obj [(''port'', num_of 26), (''auth_pass'', Str [])]) (Some ''s1'')"
  let ?x = "\<lparr>sr_key = 1, sr_values = [(''group_id'', num_of 1), (''host'', Str ''mx''), (''auth_pass'', Str ''secret'')]\<rparr>"
  have "nat_to_string 1 = ''1''" by code_simp
  then have "param_number ?r = Fin 1" using js_number_nat [of 1] by (simp add: param_number_def ex_sample_post_def)
  then have row: "find_by_pk sample_lib (param_number ?r) (xt_relays sample_tables) = Inr (Some ?x)"
    by (simp add: find_by_pk_def sample_lib_def sample_tables_def sql_select_def num_is_def)
  have taken: "sl_refuse sample_lib ''Relay'' (attribute_values relay_model (ex_body ?r)) = None" by (simp add: sample_lib_def)
  from relay_edit_exact [OF row taken] obtain t z where t: "snd (snd (ex_relay_edit_handle sample_lib ?r sample_tables)) = sample_tables\<lparr>xt_relays := t\<rparr>"
    "z \<in> set (rows t)" and z: "\<And>a. a \<noteq> ''id'' \<Longrightarrow> row_prop z a =
         (if a \<in> set (sm_attributes relay_model) \<and> get_prop (ex_body ?r) a \<noteq> Undef then sl_stored sample_lib ''Relay'' a (get_prop (ex_body ?r) a)
          else row_prop ?x a)" by blast
  have "row_prop z ''auth_pass'' = Str []" "row_prop z ''port'' = num_of 26" "row_prop z ''host'' = Str ''mx''"
    by (simp_all add: z) (simp_all add: ex_sample_post_def relay_model_def sm_attributes_def sample_lib_def get_prop_def row_prop_def row_val_def num_of_def)
  with t show ?thesis by (auto simp: Let_def)
qed

section \<open>A message\<close>


definition sample_message :: jsval where
  "sample_message = Obj [(''uuid'', Str ''u''),
     (''rcpt_to'', Arr [Obj [(''user'', Str ''b''), (''host'', Str ''x'')], Obj [(''user'', Str ''a''), (''host'', Str ''x'')]]),
     (''headers'', Obj [(''subject'', Arr [Str ''hi''])])]"

lemma sample_lib_tells: "upserts_told sample_lib"
proof -
  have "stored_values sample_lib m vs = vs" for m vs by (simp add: stored_values_def sample_lib_def case_prod_beta)
  then show ?thesis by (simp add: upserts_told_def) (simp add: sample_lib_def)
qed

lemma sample_orders: "orders_fit (ex_sample_post [''api'', ''queue''] sample_message c)"
proof -
  let ?rcpts = "[Obj [(''name'', Str ''b''), (''email'', Str ''b@x'')], Obj [(''name'', Str ''a''), (''email'', Str ''a@x'')]]"
  have "new_mail sample_message = Inr (case sample_message of Obj ps \<Rightarrow> Obj (obj_put ps ''rcpt_list'' (Str ''b@x,a@x'')), ?rcpts)"
    by code_simp
  then show ?thesis by (simp add: orders_fit_def ex_sample_post_def upt_rec)
qed


end
