(* ===== verification/ExpressProps.thy ===== *)
theory ExpressProps
  imports ExpressData
begin

text \<open>
  What holds of the first console: who changes its data, and what its tables keep.
\<close>

section \<open>The sessions of a run\<close>

definition opened :: "ex_env \<Rightarrow> string \<Rightarrow> ex_http \<Rightarrow> bool" where
  "opened env i r \<longleftrightarrow> \<not> ex_is_file env r \<and> (case ex_front_request r of None \<Rightarrow> False | Some q \<Rightarrow> logs_in (xe_library env) (xe_accounts env) i q)"

lemma serve_session: "(fst (snd (ex_serve env r s)) i = None) = (fst s i = None \<and> \<not> opened env i r)"
proof (cases "ex_front_request r")
  case (Some q)
  have "(snd (ex_app (xe_library env) (xe_accounts env) q (fst s)) i = None)
      = (fst s i = None \<and> \<not> logs_in (xe_library env) (xe_accounts env) i q)" by (rule ex_app_session)
  with Some show ?thesis by (auto simp: ex_serve_def opened_def split: prod.splits)
qed (auto simp: ex_serve_def opened_def split: prod.split option.split)

lemma run_session: "(fst (ex_serves env rs s) i = None) = (fst s i = None \<and> (\<forall>r \<in> set rs. \<not> opened env i r))"
  by (induction rs arbitrary: s) (auto simp: ex_serves_def serve_session)

section \<open>Who changes the data\<close>

text \<open>What the console keeps beside its own logs.\<close>

definition data_tables :: "ex_tables \<Rightarrow> seq_row table list" where
  "data_tables d = [xt_groups d, xt_relays d, xt_deliveries d, xt_connections d, xt_mails d, xt_addresses d, xt_links d, xt_headers d, xt_lookups d]"

lemma data_frames:
  "data_tables (note_exceptions lib es d) = data_tables d"
  "ex_logger lib r d = (es, d1) \<Longrightarrow> data_tables d1 = data_tables d"
proof -
  have "data_tables (note_exception lib d e) = data_tables d" for d e by (simp add: note_exception_def data_tables_def)
  then show "data_tables (note_exceptions lib es d) = data_tables d" unfolding note_exceptions_def
    by (induction es arbitrary: d) simp_all
  show "ex_logger lib r d = (es, d1) \<Longrightarrow> data_tables d1 = data_tables d"
    by (auto simp: ex_logger_def data_tables_def split: prod.splits sum.splits)
qed

lemma routes_methods: "(m, p, h) \<in> set ex_routes \<Longrightarrow> m = ''GET'' \<or> m = ''POST''"
  by (auto simp: ex_routes_def ex_root_routes_def ex_log_routes_def ex_api_routes_def ex_filter_routes_def ex_relay_routes_def)

lemma get_routes_keep:
  assumes "(''GET'', p, h) \<in> set ex_routes" shows "snd (snd (h env r d)) = d"
proof -
  have pages: "snd (snd (ex_show_page t env r d)) = d" "snd (snd (ex_list_rows m env r d)) = d" for t m
    by (auto simp: ex_show_page_def ex_list_rows_def ex_answered_def ex_unanswered_def split: sum.split)
  have forms: "snd (snd (ex_relay_create lib r d)) = d" "snd (snd (ex_relay_edit lib r d)) = d" "snd (snd (ex_relay_delete lib r d)) = d"
    "snd (snd (ex_group_create lib r d)) = d" "snd (snd (ex_group_edit lib r d)) = d" "snd (snd (ex_group_delete lib r d)) = d"
    "snd (snd (ex_group_details lib r d)) = d" "snd (snd (ex_group_index lib r d)) = d" "snd (snd (ex_routing_page lib r d)) = d" for lib
    by (auto simp: ex_relay_create_def ex_relay_edit_def ex_relay_delete_def ex_group_create_def ex_group_edit_def ex_group_delete_def ex_group_details_def
        ex_group_index_def ex_routing_page_def ex_answered_def ex_unanswered_def split: sum.split option.split)
  from assms show ?thesis
    by (auto simp: ex_routes_def ex_root_routes_def ex_log_routes_def ex_api_routes_def ex_filter_routes_def ex_relay_routes_def pages forms)
qed

lemma gate_needs_session: "ex_check_session mem cookie = None \<Longrightarrow> \<exists>i. cookie = Some i \<and> mem i \<noteq> None"
  by (auto simp: ex_check_session_def split: option.splits)

lemma serve_changes:
  assumes "data_tables (snd (snd (ex_serve env r (mem, d)))) \<noteq> data_tables d"
  shows "ex_method r = ''POST'' \<and> (\<exists>i. ex_cookie r = Some i \<and> mem i \<noteq> None)"
proof -
  obtain es d1 where l: "ex_logger (xe_seq env) r d = (es, d1)" by fastforce
  note same = data_frames(1) data_frames(2) [OF l]
  have gate: "ex_check_session mem (ex_cookie r) = None" "data_tables (snd (snd (ex_behind_gate env r d1))) \<noteq> data_tables d1"
    using assms by (auto simp: ex_serve_def l same split: if_splits option.splits prod.splits)
  then obtain m p h where h: "ex_route_for ex_routes r = Some (m, p, h)" "data_tables (snd (snd (h env r d1))) \<noteq> data_tables d1"
    by (auto simp: ex_behind_gate_def ex_answered_def split: option.splits)
  then have "(m, p, h) \<in> set ex_routes" "method_fits m (ex_method r)"
    by (auto simp: ex_route_for_def find_Some_iff) (metis nth_mem)
  with h(2) get_routes_keep routes_methods have "ex_method r = ''POST''" by (fastforce simp: method_fits_def)
  with gate_needs_session [OF gate(1)] show ?thesis by blast
qed

text \<open>C23. The data of the first console changes only with a \<open>POST\<close> whose session a login opened before, with the password of an
  account. This is over whole runs from the start of the process.\<close>

theorem first_console_guarded:
  assumes "data_tables (snd (snd (ex_serve env r (ex_serves env rs (Map.empty, d))))) \<noteq> data_tables (snd (ex_serves env rs (Map.empty, d)))"
  shows "ex_method r = ''POST'' \<and> (\<exists>i. ex_cookie r = Some i \<and> (\<exists>q \<in> set rs. opened env i q))"
proof -
  obtain mem e where s: "ex_serves env rs (Map.empty, d) = (mem, e)" by fastforce
  with assms serve_changes [of env r mem e] obtain i where "ex_method r = ''POST''" "ex_cookie r = Some i" "mem i \<noteq> None" by auto
  with run_session [of env rs "(Map.empty, d)" i] s show ?thesis by auto
qed

lemma first_console_guarded_witness:
  "let login = ex_sample_post [''login''] (Obj [(''email'', Str ''root@x''), (''pass'', Str ''password'')]) None;
       group = ex_sample_post [''config'', ''relaygrp'', ''create''] (Obj [(''name'', Str ''g'')]) (Some ''s1'')
   in ex_method group = ''POST'' \<and> (\<exists>i. ex_cookie group = Some i \<and> (\<exists>q \<in> set [login]. opened sample_console i q))"
  unfolding Let_def
  by (rule first_console_guarded [where d = sample_tables]) code_simp

section \<open>What its tables keep\<close>

definition tables_keyed :: "ex_tables \<Rightarrow> bool" where
  "tables_keyed d \<longleftrightarrow> list_all (keys_ok sr_key) (data_tables d) \<and> keys_ok sr_key (xt_logs d) \<and> keys_ok sr_key (xt_exceptions d)
     \<and> distinct (map fst (email_keys (xt_addresses d)))"

definition keys_positive :: "seq_lib \<Rightarrow> bool" where
  "keys_positive lib \<longleftrightarrow> (\<forall>v i. sl_key lib v = Some i \<longrightarrow> 0 < i)"

lemma created_keyed: "keys_positive lib \<Longrightarrow> keys_ok sr_key t \<Longrightarrow> seq_create lib m body t = (x, t') \<Longrightarrow> keys_ok sr_key t'"
  using seq_create_keys [of t lib m body] by (auto simp: keys_positive_def)

lemma updated_keyed: "keys_ok sr_key t \<Longrightarrow> seq_update lib m body x t = (y, t') \<Longrightarrow> keys_ok sr_key t'"
  using seq_update_keys [of t lib m body x] by simp

lemma upserts_keyed:
  assumes "\<And>i. i \<in> set order \<Longrightarrow> \<exists>a. mail_recipient a = Inr (rcpts ! i)" "keys_ok sr_key t" "distinct (map fst (email_keys t))"
  shows "keys_ok sr_key (snd (foldl (upsert_step lib rcpts) (ids, t) order))
    \<and> distinct (map fst (email_keys (snd (foldl (upsert_step lib rcpts) (ids, t) order))))"
  using assms
proof (induction order arbitrary: ids t)
  case (Cons i js)
  from Cons.prems(1) obtain a where a: "mail_recipient a = Inr (rcpts ! i)" by auto
  have "keys_ok sr_key (snd (seq_upsert lib (rcpts ! i) t)) \<and> distinct (map fst (email_keys (snd (seq_upsert lib (rcpts ! i) t))))"
  proof (cases "sl_refuse lib (sm_name address_model) (attribute_values address_model (rcpts ! i))")
    case None
    from upsert_book [OF a None, of t] Cons.prems(2,3) show ?thesis by auto
  qed (use Cons.prems in \<open>simp add: seq_upsert_def Let_def\<close>)
  moreover have "upsert_step lib rcpts (ids, t) i
      = (ids(i := fst (seq_upsert lib (rcpts ! i) t)), snd (seq_upsert lib (rcpts ! i) t))"
    by (simp add: upsert_step_def split: prod.split)
  ultimately show ?case using Cons.IH Cons.prems(1) by simp
qed simp

lemma bulk_keyed: "keys_ok sr_key t \<Longrightarrow> keys_ok sr_key (snd (seq_bulk_create lib m bs t))"
proof -
  have "keys_ok sr_key t \<Longrightarrow> keys_ok sr_key (foldl (\<lambda>t b. sql_insert (\<lambda>i. \<lparr>sr_key = i, sr_values = f b\<rparr>) t) t bs)" for f t
  proof (induction bs arbitrary: t)
    case (Cons b bs)
    have "keys_ok sr_key (sql_insert (\<lambda>i. \<lparr>sr_key = i, sr_values = f b\<rparr>) t)" using Cons.prems by (force simp: keys_ok_def)
    then show ?case using Cons.IH by simp
  qed simp
  then show "keys_ok sr_key t \<Longrightarrow> keys_ok sr_key (snd (seq_bulk_create lib m bs t))"
    by (simp add: seq_bulk_create_def split: list.split)
qed

lemma headers_keyed:
  assumes "keys_ok sr_key t" "keys_positive lib"
  shows "keys_ok sr_key (snd (snd (header_loop lib i hs t)))"
  using assms(1)
proof (induction hs arbitrary: t)
  case (Cons h hs)
  obtain n v where h: "h = (n, v)" by fastforce
  show ?case
  proof (cases "element_zero v")
    case (Inr x)
    obtain y t' where made: "seq_create lib header_model (Obj [(''mail_id'', num_of i), (''name'', Str n), (''value'', x)]) t = (y, t')"
      by fastforce
    from created_keyed [OF assms(2) Cons.prems made] Cons.IH [of t'] show ?thesis
      by (simp add: h Inr made split: prod.split) (metis snd_conv)
  qed (simp add: h Cons.prems)
qed simp

lemma lookups_keyed:
  assumes "keys_positive lib" "keys_ok sr_key t" shows "keys_ok sr_key (snd (record_lookups lib bs t))"
proof -
  have "keys_ok sr_key (snd (foldl (\<lambda>(es, t) b. case seq_create lib hash_lookup_model b t of
       (Inl e, t') \<Rightarrow> (es @ [e], t') | (Inr _, t') \<Rightarrow> (es, t')) (es, t) bs))" if "keys_ok sr_key t" for es t
    using that
  proof (induction bs arbitrary: es t)
    case (Cons b bs)
    obtain x t' where made: "seq_create lib hash_lookup_model b t = (x, t')" by fastforce
    from created_keyed [OF assms(1) Cons.prems made] Cons.IH show ?case by (cases x) (simp_all add: made)
  qed simp
  with assms(2) show ?thesis by (simp add: record_lookups_def)
qed

lemma saved_keyed:
  assumes "keys_positive lib" "tables_keyed d" "new_mail body = Inr (txn, rcpts)" "mset (fst ord) = mset [0..<length rcpts]"
    "save_mail lib ord (txn, rcpts) d = (es, d')"
  shows "tables_keyed d'"
proof -
  obtain ran t where run: "foldl (upsert_step lib rcpts) (\<lambda>_. Inr Undef, xt_addresses d) (fst ord) = (ran, t)" by fastforce
  obtain as where as: "list_all2 (\<lambda>a r. mail_recipient a = Inr r) as rcpts" using new_mail_parts [OF assms(3)] by metis
  have "set (fst ord) = {0..<length rcpts}" using assms(4) by (metis set_mset_mset set_upt)
  then have "\<exists>a. mail_recipient a = Inr (rcpts ! i)" if "i \<in> set (fst ord)" for i
    using that as by (auto simp: list_all2_conv_all_nth)
  from upserts_keyed [where lib = lib, OF this, of "fst ord" "xt_addresses d" "\<lambda>_. Inr Undef"] assms(2)
  have t: "keys_ok sr_key t" "distinct (map fst (email_keys t))" by (simp_all add: run tables_keyed_def data_tables_def)
  obtain x m where m: "seq_create lib transaction_model txn (xt_mails d) = (x, m)" by fastforce
  then have "keys_ok sr_key m" using assms(1,2) by (auto simp: tables_keyed_def data_tables_def elim: created_keyed)
  moreover have "keys_ok sr_key (snd (seq_bulk_create lib link_model bs (xt_links d)))" for bs
    using assms(2) by (simp add: bulk_keyed tables_keyed_def data_tables_def)
  moreover have "keys_ok sr_key (snd (snd (header_loop lib i hs (xt_headers d))))" for i hs
    using assms(1,2) by (simp add: headers_keyed tables_keyed_def data_tables_def)
  ultimately show ?thesis using assms(2,5) t
    by (auto simp: save_mail_def create_mail_def insert_rcpts_def run m Let_def tables_keyed_def data_tables_def
        split: sum.splits prod.splits option.splits) (metis snd_conv)+
qed

lemma post_routes_keyed:
  assumes "(''POST'', p, h) \<in> set ex_routes" "keys_positive (xe_seq env)" "tables_keyed d" "orders_fit r" "h env r d = (reply, es, d')"
  shows "tables_keyed d'"
proof -
  note T = tables_keyed_def data_tables_def
  have K: "keys_ok sr_key (xt_relays d)" "keys_ok sr_key (xt_groups d)" "keys_ok sr_key (xt_deliveries d)" "keys_ok sr_key (xt_connections d)"
    "keys_ok sr_key (xt_lookups d)" using assms(3) by (simp_all add: T)
  note made = created_keyed [OF assms(2)]
  let ?lib = "xe_seq env"
  have relay: "ex_relay_create_handle ?lib r d = (reply, es, d') \<Longrightarrow> tables_keyed d'"
      "ex_relay_edit_handle ?lib r d = (reply, es, d') \<Longrightarrow> tables_keyed d'" "ex_relay_delete_handle ?lib r d = (reply, es, d') \<Longrightarrow> tables_keyed d'"
    using assms(3) made [OF K(1)] updated_keyed [OF K(1)] seq_destroy_keys [OF K(1)]
    by (auto simp: ex_relay_create_handle_def ex_relay_edit_handle_def ex_relay_delete_handle_def to_group_def ex_unanswered_def ex_answered_def T
        split: prod.splits sum.splits option.splits)
  have group: "ex_group_create_handle ?lib r d = (reply, es, d') \<Longrightarrow> tables_keyed d'"
      "ex_group_edit_handle ?lib r d = (reply, es, d') \<Longrightarrow> tables_keyed d'" "ex_group_delete_handle ?lib r d = (reply, es, d') \<Longrightarrow> tables_keyed d'"
    using assms(3) made [OF K(2)] updated_keyed [OF K(2)] seq_destroy_keys [OF K(2)]
    by (auto simp: ex_group_create_handle_def ex_group_edit_handle_def ex_group_delete_handle_def ex_unanswered_def ex_answered_def T
        split: prod.splits sum.splits option.splits)
  have api: "ex_post_delivery env r d = (reply, es, d') \<Longrightarrow> tables_keyed d'" "ex_post_connection env r d = (reply, es, d') \<Longrightarrow> tables_keyed d'"
    using assms(3) made [OF K(3)] made [OF K(4)]
    by (auto simp: ex_post_delivery_def ex_post_connection_def ex_answered_def T split: prod.splits sum.splits)
  have queue: "ex_post_queue env r d = (reply, es, d') \<Longrightarrow> tables_keyed d'"
  proof (cases "new_mail (ex_body r)")
    case (Inr m)
    then obtain txn rcpts where m: "new_mail (ex_body r) = Inr (txn, rcpts)" by (cases m) auto
    assume "ex_post_queue env r d = (reply, es, d')"
    then have "save_mail ?lib (ex_order r) (txn, rcpts) d = (es, d')" by (simp add: ex_post_queue_def m split: prod.splits)
    moreover have "mset (fst (ex_order r)) = mset [0..<length rcpts]" using assms(4) by (simp add: orders_fit_def m)
    ultimately show ?thesis using saved_keyed [OF assms(2,3) m] by blast
  qed (use assms(3) in \<open>auto simp: ex_post_queue_def ex_answered_def\<close>)
  have lookup: "ex_post_md5 env r d = (reply, es, d') \<Longrightarrow> tables_keyed d'"
    using assms(3) lookups_keyed [OF assms(2) K(5)]
    by (auto simp: ex_post_md5_def T split: prod.splits sum.splits) (metis snd_conv)+
  from assms(1,5) show ?thesis
    by (auto simp: ex_routes_def ex_root_routes_def ex_log_routes_def ex_api_routes_def ex_filter_routes_def ex_relay_routes_def
        relay group api queue lookup)
qed

lemma logs_keyed:
  assumes "keys_positive lib" "tables_keyed d"
  shows "tables_keyed (note_exceptions lib es d)" "ex_logger lib r d = (es, d1) \<Longrightarrow> tables_keyed d1"
proof -
  have step: "tables_keyed (note_exception lib d e)" if "tables_keyed d" for d e
    using that seq_create_keys [of "xt_exceptions d" lib exception_model] assms(1)
    by (simp add: note_exception_def tables_keyed_def data_tables_def keys_positive_def)
  have "tables_keyed d \<Longrightarrow> tables_keyed (foldl (note_exception lib) d es)" for d
    by (induction es arbitrary: d) (simp_all add: step)
  with assms(2) show "tables_keyed (note_exceptions lib es d)" by (simp add: note_exceptions_def)
  show "ex_logger lib r d = (es, d1) \<Longrightarrow> tables_keyed d1"
    using assms(2) created_keyed [OF assms(1), of "xt_logs d"]
    by (auto simp: ex_logger_def tables_keyed_def data_tables_def split: prod.splits sum.splits)
qed

lemma serve_keyed:
  assumes "keys_positive (xe_seq env)" "tables_keyed (snd s)" "orders_fit r"
  shows "tables_keyed (snd (snd (ex_serve env r s)))"
proof -
  obtain mem d where s: "s = (mem, d)" by fastforce
  obtain es d1 where l: "ex_logger (xe_seq env) r d = (es, d1)" by fastforce
  have d1: "tables_keyed d1" using logs_keyed(2) [OF assms(1) _ l] assms(2) by (simp add: s)
  have "tables_keyed (snd (snd (ex_behind_gate env r d1)))"
  proof (cases "ex_route_for ex_routes r")
    case (Some a)
    obtain m p h where a: "a = (m, p, h)" by (metis prod_cases3)
    with Some have m: "(m, p, h) \<in> set ex_routes" by (auto simp: ex_route_for_def find_Some_iff) (metis nth_mem)
    with get_routes_keep post_routes_keyed [OF _ assms(1) d1 assms(3)] routes_methods [OF m] d1
    have "tables_keyed (snd (snd (h env r d1)))" by (metis prod.collapse)
    then show ?thesis by (simp add: ex_behind_gate_def Some a)
  qed (simp add: ex_behind_gate_def ex_answered_def d1)
  then show ?thesis using d1 assms(2) logs_keyed(1) [OF assms(1)]
    by (auto simp: s ex_serve_def l split: prod.split option.split)
qed



end
