(* ===== verification/ExpressStart.thy ===== *)
theory ExpressStart
  imports ExpressTables ExpressConsole
begin

text \<open>
  Around the first console, \<open>legacy/webui-express/\<close>: the checks before it serves (\<open>src/checkenv.mjs\<close>, \<open>db/config/sequelize.mjs\<close>,
  \<open>src/index.mjs\<close>), its command line accounts (\<open>create_user.mjs\<close>, \<open>check_user.mjs\<close>) and its grids in the browser
  (\<open>public/js/log-*.js\<close>), which w2ui shows. What the database answers is a parameter.
\<close>

section \<open>Starting\<close>

definition required_settings :: "string list" where
  "required_settings = [''DB_DRIVER'', ''DB_HOST'', ''DB_NAME'', ''DB_USER'', ''DB_PASS'']"

definition missing_settings :: "(string \<Rightarrow> string option) \<Rightarrow> string list" where
  "missing_settings env = filter (\<lambda>n. \<not> truthy_str (env n)) required_settings"

datatype start_end = Serving string | Exits int

text \<open>The connection: whether it authenticates, and the tables the database shows, if it does.\<close>

definition check_schema :: "bool \<Rightarrow> string list option \<Rightarrow> int option" where
  "check_schema authenticated tables =
     (if \<not> authenticated then Some 1
      else (case tables of None \<Rightarrow> Some 1 | Some ts \<Rightarrow> if length ts < 15 then Some 0 else None))"

definition ex_start :: "(string \<Rightarrow> string option) \<Rightarrow> bool \<Rightarrow> string list option \<Rightarrow> start_end" where
  "ex_start env authenticated tables =
     (if missing_settings env \<noteq> [] then Exits 1
      else (case check_schema authenticated tables of
              Some code \<Rightarrow> Exits code
            | None \<Rightarrow> Serving (if truthy_str (env ''PORT'') then the (env ''PORT'') else ''3000'')))"

text \<open>The console serves exactly when every setting is there, the database lets it in, and the tables are there.\<close>

lemma ex_start_serves:
  "(\<exists>p. ex_start env authenticated tables = Serving p) \<longleftrightarrow>
     (\<forall>n \<in> set required_settings. \<exists>v. env n = Some v \<and> v \<noteq> []) \<and> authenticated \<and> (\<exists>ts. tables = Some ts \<and> 15 \<le> length ts)"
proof -
  have "missing_settings env = [] \<longleftrightarrow> (\<forall>n \<in> set required_settings. \<exists>v. env n = Some v \<and> v \<noteq> [])"
    by (auto simp: missing_settings_def filter_empty_conv truthy_str_def split: option.splits)
  then show ?thesis by (auto simp: ex_start_def check_schema_def split: option.splits)
qed

section \<open>Accounts on the command line\<close>

text \<open>The arguments after the script. The column \<open>email\<close> is unique; \<open>salt\<close> is what \<open>genSalt\<close> draws.\<close>

definition ex_create_user :: "library \<Rightarrow> string \<Rightarrow> string list \<Rightarrow> ex_user list \<Rightarrow> string list \<times> ex_user list" where
  "ex_create_user cr salt args accounts = (case args of
     e # pass # _ \<Rightarrow>
       (if e \<in> eu_email ` set accounts then ([e @ '' '' @ pass, ''Error creating user''], accounts)
        else ([e @ '' '' @ pass, ''User created!''], accounts @ [\<lparr>eu_email = e, eu_hash = Some (bcrypt_hash cr salt pass)\<rparr>]))
   | _ \<Rightarrow> ([''Usage node create-users.mjs <username> <password>''], accounts))"

definition ex_check_user :: "library \<Rightarrow> ex_user list \<Rightarrow> string list \<Rightarrow> string list res" where
  "ex_check_user cr accounts args = (case args of
     e # pass # _ \<Rightarrow> map_sum id (\<lambda>ok. [e @ '' '' @ pass, if ok then ''Auth success'' else ''Auth failed'']) (ex_check_auth cr accounts e pass)
   | _ \<Rightarrow> Inr [''Usage node check-user.mjs <username> <password>''])"

text \<open>An account that was created is the one the check and the login of the console find, and the others stay.\<close>

lemma created_user_checks:
  assumes "ex_create_user cr salt (e # pass # rest) accounts = ([e @ '' '' @ pass, ''User created!''], accounts')"
    "\<And>s p q. bcrypt_compare cr q (bcrypt_hash cr s p) = (q = p)"
  shows "ex_check_auth cr accounts' e q = Inr (q = pass)" "f \<noteq> e \<Longrightarrow> ex_check_auth cr accounts' f q = ex_check_auth cr accounts f q"
proof -
  have a: "e \<notin> eu_email ` set accounts" "accounts' = accounts @ [\<lparr>eu_email = e, eu_hash = Some (bcrypt_hash cr salt pass)\<rparr>]"
    using assms(1) by (auto simp: ex_create_user_def split: if_splits)
  then have "find (\<lambda>u. eu_email u = e) accounts = None" by (auto simp: find_None_iff)
  moreover have "find P (xs @ ys) = (case find P xs of None \<Rightarrow> find P ys | Some x \<Rightarrow> Some x)" for P and xs ys :: "ex_user list"
    by (induction xs) auto
  ultimately show "ex_check_auth cr accounts' e q = Inr (q = pass)" "f \<noteq> e \<Longrightarrow> ex_check_auth cr accounts' f q = ex_check_auth cr accounts f q"
    by (auto simp: a(2) ex_check_auth_def assms(2) split: option.split)
qed

section \<open>Grids\<close>

record w2_grid =
  w2_url :: string
  w2_searches :: "(string \<times> string) list"
  w2_columns :: "string list"
  w2_hidden :: "string list"

definition lookup_model :: seq_model where
  "lookup_model = \<lparr>sm_name = ''v_lookup'',
     sm_columns = [(''txn_uuid'', StringColumn 255), (''md5'', StringColumn 255), (''contentType'', StringColumn 255),
       (''filename'', StringColumn 255), (''size'', IntegerColumn), (''action'', StringColumn 255), (''dt'', DateColumn),
       (''txn_action'', StringColumn 255), (''encoding'', StringColumn 255), (''sender'', StringColumn 255),
       (''rcpt_list'', StringColumn 255), (''rcpt_count_accept'', IntegerColumn), (''rcpt_count_tempfail'', IntegerColumn),
       (''rcpt_count_reject'', IntegerColumn), (''delay_data_post'', DoubleColumn), (''data_bytes'', IntegerColumn),
       (''mime_part_count'', IntegerColumn)]\<rparr>"

definition w2_connection :: w2_grid where
  "w2_connection = \<lparr>w2_url = ''/api/connection'', w2_searches = [(''datetime'', ''dt''), (''text'', ''uuid'')],
     w2_columns = [''dt'', ''uuid'', ''encoding'', ''hello_name'', ''remoteAddr'', ''remotePort'', ''remote_host'', ''remote_info'',
       ''remote_is_local'', ''remote_is_private'', ''using_tls'', ''tran_count'', ''rcpt_count_accept'', ''rcpt_count_tempfail'',
       ''rcpt_count_reject''],
     w2_hidden = [''uuid'', ''encoding'', ''remotePort'', ''remote_host'', ''remote_info'', ''remote_is_local'', ''rcpt_count_tempfail'',
       ''rcpt_count_reject'']\<rparr>"

definition w2_delivery :: w2_grid where
  "w2_delivery = \<lparr>w2_url = ''/api/delivery'',
     w2_searches = [(''datetime'', ''dt''), (''text'', ''sender''), (''text'', ''rcpt_list''), (''text'', ''rcpt_domain''),
       (''text'', ''rcpt_accepted''), (''text'', ''tls_forced''), (''text'', ''tls''), (''text'', ''auth''), (''text'', ''host''),
       (''text'', ''ip''), (''text'', ''port''), (''text'', ''response''), (''text'', ''delay'')],
     w2_columns = [''dt'', ''uuid'', ''sender'', ''rcpt_list'', ''rcpt_domain'', ''rcpt_accepted'', ''tls_forced'', ''tls'', ''auth'', ''host'',
       ''ip'', ''port'', ''response'', ''delay''],
     w2_hidden = [''uuid'', ''rcpt_domain'', ''rcpt_accepted'', ''tls_forced'', ''tls'', ''auth'', ''delay'']\<rparr>"

definition w2_lookups :: w2_grid where
  "w2_lookups = \<lparr>w2_url = ''/api/hashlookups'',
     w2_searches = [(''datetime'', ''createdAt''), (''text'', ''md5''), (''int'', ''size''), (''text'', ''contentType''),
       (''text'', ''filename''), (''text'', ''action'')],
     w2_columns = [''createdAt'', ''sender'', ''rcpt_list'', ''md5'', ''contentType'', ''filename'', ''size'', ''action''], w2_hidden = []\<rparr>"

definition w2_mails :: w2_grid where
  "w2_mails = \<lparr>w2_url = ''/api/queue'',
     w2_searches = [(''datetime'', ''dt''), (''text'', ''uuid''), (''text'', ''encoding''), (''text'', ''sender''), (''text'', ''rcpt_list''),
       (''int'', ''rcpt_count_accept''), (''int'', ''rcpt_count_tempfail''), (''int'', ''rcpt_count_reject''), (''float'', ''delay_data_post''),
       (''int'', ''data_bytes''), (''int'', ''mime_part_count'')],
     w2_columns = [''dt'', ''uuid'', ''encoding'', ''sender'', ''rcpt_list'', ''rcpt_count_accept'', ''rcpt_count_tempfail'',
       ''rcpt_count_reject'', ''delay_data_post'', ''data_bytes'', ''mime_part_count''],
     w2_hidden = [''uuid'', ''encoding'', ''rcpt_count_tempfail'', ''rcpt_count_reject'', ''delay_data_post'', ''mime_part_count'']\<rparr>"

text \<open>The alert of \<open>login.js\<close>: it is shown when the address has a message.\<close>

definition w2_login_alert :: "(string \<times> string) list \<Rightarrow> bool" where
  "w2_login_alert params \<longleftrightarrow> ''msg'' \<in> fst ` set params"

text \<open>A grid asks only for columns of the table its address lists (\<open>createdAt\<close> is a column of every one), so that the query
  \<open>getData\<close> builds from a search of it names no unknown column; and it hides only columns it has.\<close>

lemma grids_fit_tables:
  "list_all (\<lambda>(g, m). set (map snd (w2_searches g)) \<union> set (w2_columns g) \<subseteq> set (''createdAt'' # sm_attributes m)
       \<and> set (w2_hidden g) \<subseteq> set (w2_columns g) \<and> distinct (w2_columns g))
     [(w2_connection, connection_model), (w2_delivery, delivery_model), (w2_lookups, lookup_model), (w2_mails, transaction_model)]"
  by (simp add: w2_connection_def w2_delivery_def w2_lookups_def w2_mails_def connection_model_def delivery_model_def lookup_model_def
      transaction_model_def sm_attributes_def)

end
