(* ===== verification/ExpressSchema.thy ===== *)
theory ExpressSchema
  imports ExpressStart
begin

text \<open>
  The database of the first services, \<open>legacy/mailgw-logservice/migrations/\<close>: each migration creates one table and takes it back. The
  models of the first console are compared with the tables they write to, and its check of the schema with what the
  migrations leave. The tool that runs the migrations keeps the names of those that ran in a table of its own; the view
  \<open>v_lookups\<close> is a script of SQL beside them.
\<close>

section \<open>Migrations\<close>

record table_column =
  cl_name :: string
  cl_type :: column_type
  cl_null :: bool
  cl_unique :: bool
  cl_auto :: bool

record migration =
  mi_table :: string
  mi_columns :: "table_column list"

definition key_column :: table_column where
  "key_column = \<lparr>cl_name = ''id'', cl_type = IntegerColumn, cl_null = False, cl_unique = True, cl_auto = True\<rparr>"

definition plain :: "string \<Rightarrow> column_type \<Rightarrow> table_column" where
  "plain n t = \<lparr>cl_name = n, cl_type = t, cl_null = True, cl_unique = False, cl_auto = False\<rparr>"

definition unique_column :: "string \<Rightarrow> column_type \<Rightarrow> table_column" where
  "unique_column n t = \<lparr>cl_name = n, cl_type = t, cl_null = False, cl_unique = True, cl_auto = False\<rparr>"

definition stamp :: "string \<Rightarrow> table_column" where
  "stamp n = \<lparr>cl_name = n, cl_type = DateColumn, cl_null = False, cl_unique = False, cl_auto = False\<rparr>"

definition create_connection :: migration where
  "create_connection = \<lparr>mi_table = ''Connection'',
     mi_columns = [key_column, plain ''dt'' DateColumn, plain ''uuid'' (StringColumn 255), plain ''encoding'' (StringColumn 255),
       plain ''hello_name'' (StringColumn 255), plain ''remoteAddr'' (StringColumn 255),
       plain ''remotePort'' IntegerColumn, plain ''remote_host'' (StringColumn 255),
       plain ''remote_info'' (StringColumn 255), plain ''remote_is_local'' IntegerColumn,
       plain ''remote_is_private'' IntegerColumn, plain ''using_tls'' IntegerColumn, plain ''tran_count'' IntegerColumn,
       plain ''rcpt_count_accept'' IntegerColumn, plain ''rcpt_count_tempfail'' IntegerColumn,
       plain ''rcpt_count_reject'' IntegerColumn, stamp ''createdAt'', stamp ''updatedAt'']\<rparr>"

definition create_delivery :: migration where
  "create_delivery = \<lparr>mi_table = ''Delivery'',
     mi_columns = [key_column, plain ''dt'' DateColumn, plain ''uuid'' (StringColumn 255), plain ''sender'' (StringColumn 255),
       plain ''rcpt_list'' (StringColumn 255), plain ''rcpt_domain'' (StringColumn 255),
       plain ''rcpt_accepted'' (StringColumn 255), plain ''tls_forced'' IntegerColumn, plain ''tls'' IntegerColumn,
       plain ''auth'' IntegerColumn, plain ''host'' (StringColumn 255), plain ''ip'' (StringColumn 255),
       plain ''port'' IntegerColumn, plain ''response'' (StringColumn 255), plain ''delay'' DoubleColumn,
       stamp ''createdAt'', stamp ''updatedAt'']\<rparr>"

definition create_transaction :: migration where
  "create_transaction = \<lparr>mi_table = ''Transaction'',
     mi_columns = [key_column, plain ''dt'' DateColumn, plain ''uuid'' (StringColumn 255), plain ''action'' (StringColumn 255),
       plain ''encoding'' (StringColumn 255), plain ''sender'' (StringColumn 255),
       plain ''rcpt_list'' (StringColumn 255), plain ''rcpt_count_accept'' IntegerColumn,
       plain ''rcpt_count_tempfail'' IntegerColumn, plain ''rcpt_count_reject'' IntegerColumn,
       plain ''delay_data_post'' DoubleColumn, plain ''data_bytes'' IntegerColumn,
       plain ''mime_part_count'' IntegerColumn, stamp ''createdAt'', stamp ''updatedAt'']\<rparr>"

definition create_header :: migration where
  "create_header = \<lparr>mi_table = ''Headers'',
     mi_columns = [key_column, plain ''mail_id'' IntegerColumn, plain ''name'' (StringColumn 255),
       plain ''value'' (StringColumn 255), stamp ''createdAt'', stamp ''updatedAt'']\<rparr>"

definition create_mail_addr :: migration where
  "create_mail_addr = \<lparr>mi_table = ''MailAddrs'',
     mi_columns = [key_column, plain ''name'' (StringColumn 255), unique_column ''email'' (StringColumn 255), stamp ''createdAt'',
       stamp ''updatedAt'']\<rparr>"

definition create_link_addr_transaction :: migration where
  "create_link_addr_transaction = \<lparr>mi_table = ''linkAddrTransactions'',
     mi_columns = [key_column, plain ''MailAddrId'' IntegerColumn, plain ''TransactionId'' IntegerColumn, stamp ''createdAt'',
       stamp ''updatedAt'']\<rparr>"

definition create_block_md5 :: migration where
  "create_block_md5 = \<lparr>mi_table = ''BlockMD5s'',
     mi_columns = [key_column, plain ''md5'' (StringColumn 255), plain ''comment'' (StringColumn 255), stamp ''createdAt'',
       stamp ''updatedAt'']\<rparr>"

definition create_hash_lookup :: migration where
  "create_hash_lookup = \<lparr>mi_table = ''HashLookups'',
     mi_columns = [key_column, plain ''txn_uuid'' (StringColumn 255), plain ''md5'' (StringColumn 255),
       plain ''contentType'' (StringColumn 255), plain ''filename'' (StringColumn 255), plain ''size'' IntegerColumn,
       plain ''action'' (StringColumn 255), stamp ''createdAt'', stamp ''updatedAt'']\<rparr>"

definition create_relay_group :: migration where
  "create_relay_group = \<lparr>mi_table = ''RelayGroups'',
     mi_columns = [key_column, plain ''name'' (StringColumn 255), plain ''description'' (StringColumn 255), stamp ''createdAt'',
       stamp ''updatedAt'']\<rparr>"

definition create_relay :: migration where
  "create_relay = \<lparr>mi_table = ''Relays'',
     mi_columns = [key_column, plain ''group_id'' IntegerColumn, plain ''name'' (StringColumn 255),
       plain ''host'' (StringColumn 255), plain ''port'' IntegerColumn, plain ''auth_user'' (StringColumn 255),
       plain ''auth_pass'' (StringColumn 255), plain ''priority'' IntegerColumn, stamp ''createdAt'',
       stamp ''updatedAt'']\<rparr>"

definition create_config :: migration where
  "create_config = \<lparr>mi_table = ''Configs'',
     mi_columns = [key_column, plain ''name'' (StringColumn 255), plain ''value'' (StringColumn 255), stamp ''createdAt'',
       stamp ''updatedAt'']\<rparr>"

definition create_log :: migration where
  "create_log = \<lparr>mi_table = ''Logs'',
     mi_columns = [key_column, plain ''url'' (StringColumn 2048), plain ''path'' (StringColumn 255),
       plain ''query'' (StringColumn 255), plain ''src_ip'' (StringColumn 255), plain ''src_port'' IntegerColumn,
       plain ''referer'' (StringColumn 255), plain ''origin'' (StringColumn 255), plain ''method'' (StringColumn 255),
       plain ''user'' (StringColumn 255), plain ''userAgent'' (StringColumn 255), stamp ''createdAt'',
       stamp ''updatedAt'']\<rparr>"

definition create_users :: migration where
  "create_users = \<lparr>mi_table = ''Users'',
     mi_columns = [key_column, unique_column ''email'' (StringColumn 255), plain ''hash'' (StringColumn 255), stamp ''createdAt'',
       stamp ''updatedAt'']\<rparr>"

definition create_exception :: migration where
  "create_exception = \<lparr>mi_table = ''Exceptions'',
     mi_columns = [key_column, plain ''product'' (StringColumn 255), plain ''component'' (StringColumn 255),
       plain ''info'' TextColumn, stamp ''createdAt'', stamp ''updatedAt'']\<rparr>"

text \<open>\<open>up\<close> creates the table if it is not there, \<open>down\<close> drops it if it is.\<close>

type_synonym table_definitions = "(string \<times> table_column list) list"

definition run_up :: "migration \<Rightarrow> table_definitions \<Rightarrow> table_definitions" where
  "run_up m s = (if mi_table m \<in> fst ` set s then s else s @ [(mi_table m, mi_columns m)])"

definition run_down :: "migration \<Rightarrow> table_definitions \<Rightarrow> table_definitions" where
  "run_down m s = filter (\<lambda>(t, _). t \<noteq> mi_table m) s"

text \<open>All of them, in the order of their file names.\<close>

definition first_migrations :: "migration list" where
  "first_migrations = [create_connection, create_delivery, create_transaction, create_header, create_mail_addr,
     create_link_addr_transaction, create_block_md5, create_hash_lookup, create_relay_group, create_relay, create_config,
     create_log, create_users, create_exception]"

definition migrated :: "migration list \<Rightarrow> table_definitions \<Rightarrow> table_definitions" where
  "migrated ms s = foldl (\<lambda>s m. run_up m s) s ms"

section \<open>Up and down\<close>

lemma run_up_down: "mi_table m \<notin> fst ` set s \<Longrightarrow> run_down m (run_up m s) = s"
  by (force simp: run_up_def run_down_def filter_id_conv)

lemma migrated_append:
  assumes "distinct (map mi_table ms)" "set (map mi_table ms) \<inter> fst ` set s = {}"
  shows "migrated ms s = s @ map (\<lambda>m. (mi_table m, mi_columns m)) ms"
  using assms
proof (induction ms arbitrary: s)
  case (Cons m ms)
  have "run_up m s = s @ [(mi_table m, mi_columns m)]" using Cons.prems by (auto simp: run_up_def)
  with Cons show ?case by (auto simp: migrated_def)
qed (simp add: migrated_def)

text \<open>Taking every migration back in reverse order leaves what was there before.\<close>

lemma migrations_taken_back:
  assumes "distinct (map mi_table ms)" "set (map mi_table ms) \<inter> fst ` set s = {}"
  shows "foldl (\<lambda>s m. run_down m s) (migrated ms s) (rev ms) = s"
  using assms
proof (induction ms rule: rev_induct)
  case (snoc m ms)
  have "migrated (ms @ [m]) s = run_up m (migrated ms s)" by (simp add: migrated_def)
  moreover have "mi_table m \<notin> fst ` set (migrated ms s)" using snoc.prems by (force simp: migrated_append)
  ultimately show ?case using snoc by (simp add: run_up_down)
qed (simp add: migrated_def)

section \<open>The console on the migrated database\<close>

lemma first_tables_distinct: "distinct (map mi_table first_migrations)"
  by (simp add: first_migrations_def create_connection_def create_delivery_def create_transaction_def create_header_def create_mail_addr_def
      create_link_addr_transaction_def create_block_md5_def create_hash_lookup_def create_relay_group_def create_relay_def create_config_def
      create_log_def create_users_def create_exception_def)

text \<open>The check of the schema takes the database of all migrations, with the table of those that ran, and none with fewer: fifteen tables
  are exactly all of them.\<close>

lemma schema_check_exact:
  assumes "missing_settings env = []" "n \<le> length first_migrations"
  shows "(\<exists>p. ex_start env True (Some (''SequelizeMeta'' # map fst (migrated (take n first_migrations) []))) = Serving p)
    \<longleftrightarrow> n = length first_migrations"
proof -
  have "distinct (map mi_table (take n first_migrations))" using first_tables_distinct by (metis distinct_take take_map)
  then have "length (migrated (take n first_migrations) []) = n" using assms(2) by (simp add: migrated_append)
  moreover have "length first_migrations = 14" by (simp add: first_migrations_def)
  ultimately show ?thesis using assms by (auto simp: ex_start_def check_schema_def)
qed

section \<open>Models and tables\<close>

definition user_model :: seq_model where
  "user_model = \<lparr>sm_name = ''User'', sm_columns = [(''email'', StringColumn 255), (''hash'', StringColumn 255)]\<rparr>"

definition config_model :: seq_model where
  "config_model = \<lparr>sm_name = ''Config'', sm_columns = [(''name'', StringColumn 255), (''value'', StringColumn 255)]\<rparr>"

definition block_md5_model :: seq_model where
  "block_md5_model = \<lparr>sm_name = ''BlockMD5'', sm_columns = [(''md5'', StringColumn 255), (''comment'', StringColumn 255)]\<rparr>"

text \<open>A column that holds whatever the attribute may be.\<close>

definition holds_all :: "column_type \<Rightarrow> column_type \<Rightarrow> bool" where
  "holds_all c a = (case (c, a) of (StringColumn n, StringColumn k) \<Rightarrow> k \<le> n | (TextColumn, StringColumn _) \<Rightarrow> True | _ \<Rightarrow> c = a)"

definition narrow_columns :: "seq_model \<times> migration \<Rightarrow> (string \<times> string) list" where
  "narrow_columns = (\<lambda>(m, t). map (\<lambda>(a, _). (mi_table t, a))
     (filter (\<lambda>(a, ty). \<not> (\<exists>c \<in> set (mi_columns t). cl_name c = a \<and> holds_all (cl_type c) ty)) (sm_columns m)))"

definition model_tables :: "(seq_model \<times> migration) list" where
  "model_tables = [(connection_model, create_connection), (delivery_model, create_delivery), (transaction_model, create_transaction),
     (header_model, create_header), (address_model, create_mail_addr), (link_model, create_link_addr_transaction),
     (block_md5_model, create_block_md5), (hash_lookup_model, create_hash_lookup), (relay_group_model, create_relay_group),
     (relay_model, create_relay), (config_model, create_config), (log_model, create_log), (user_model, create_users),
     (exception_model, create_exception)]"

text \<open>Every attribute of every model has its column, and each column holds what the model allows but one: the value of a header is any
  text to the model and 255 characters in the table.\<close>

lemma narrow_column: "concat (map narrow_columns model_tables) = [(''Headers'', ''value'')]"
  by code_simp

end
