(* ===== verification/FirstLogService.thy ===== *)
theory FirstLogService
  imports LogServiceProps ExpressTables
begin

text \<open>
  The routes of the first log service, \<open>legacy/mailgw-logservice/src/\<close> \<open>index.js\<close>, \<open>routes/*.js\<close> and \<open>validation/delivery.js\<close>. It
  validates a delivery and then hands Sequelize the body as it came; its other events are only printed. A rejection nobody
  handles is printed, too.
\<close>

section \<open>The delivery event\<close>

definition is_letter :: "char \<Rightarrow> bool" where
  "is_letter c \<longleftrightarrow> is_alnum c \<and> \<not> is_digit c"

definition first_domain_rx :: rx where
  "first_domain_rx = Seq (some1 (Class (\<lambda>c. is_alnum c \<or> c = CHR ''.'' \<or> c = CHR ''-'')))
     (Seq (lit (CHR ''.'')) (Seq (Class is_letter) (some1 (Class is_letter))))"

definition first_ip_rx :: rx where
  "first_ip_rx = Seq (times 3 (Seq (Seq digit (Seq (opt digit) (opt digit))) (lit (CHR ''.'')))) (Seq digit (Seq (opt digit) (opt digit)))"

definition first_domain_schema :: "jsval \<Rightarrow> string parsed" where
  "first_domain_schema = z_string (\<lambda>s. [pattern first_domain_rx s])"

definition first_ip_schema :: "jsval \<Rightarrow> string parsed" where
  "first_ip_schema = z_string (\<lambda>s. [pattern first_ip_rx s])"

definition first_schema_delivery :: "library \<Rightarrow> jsval \<Rightarrow> delivery parsed" where
  "first_schema_delivery cr = z_object (\<lambda>v.
     map_sum id (\<lambda>(u, t, s, rd, rl, ra, tf, tl, a, h, i, p, r, y). \<lparr>d_uuid = u, d_dt = t, d_sender = s, d_rcpt_domain = rd,
         d_rcpt_list = rl, d_rcpt_accepted = ra, d_tls_forced = tf, d_tls = tl, d_auth = a, d_host = h, d_ip = i, d_port = p,
         d_response = r, d_delay = y, d_gateway = None, d_route_rule = None\<rparr>)
      (both (field v ''uuid'' any_string)
      (both (field v ''dt'' z_num)
      (both (field v ''sender'' (email_schema cr))
      (both (field v ''rcpt_domain'' first_domain_schema)
      (both (field v ''rcpt_list'' (email_schema cr))
      (both (field v ''rcpt_accepted'' (email_schema cr))
      (both (field v ''tls_forced'' z_bool)
      (both (field v ''tls'' z_bool)
      (both (field v ''auth'' z_bool)
      (both (field v ''host'' first_domain_schema)
      (both (field v ''ip'' first_ip_schema)
      (both (field v ''port'' port_schema)
      (both (field v ''response'' any_string)
            (field v ''delay'' z_num)))))))))))))))"

section \<open>Its routes\<close>

text \<open>A reply is its status and its text; beside it the rejections printed and the deliveries.\<close>

type_synonym first_reply = "int \<times> string"

definition first_post_delivery :: "library \<Rightarrow> seq_lib \<Rightarrow> jsval \<Rightarrow> seq_row table \<Rightarrow> first_reply \<times> js_error list \<times> seq_row table" where
  "first_post_delivery cr lib body t =
     (case first_schema_delivery cr body of
        Inr _ \<Rightarrow> (case seq_create lib delivery_model body t of
             (Inl e, _) \<Rightarrow> ((200, ''{\"status\": \"OK\"}'' @ [CHR 0x0A]), [e], t)
           | (Inr _, t') \<Rightarrow> ((200, ''{\"status\": \"OK\"}'' @ [CHR 0x0A]), [], t'))
      | Inl _ \<Rightarrow> ((400, ''{\"status\": \"Fail\"}'' @ [CHR 0x0A]), [], t))"

text \<open>The service: paths without case, \<open>HEAD\<close> for \<open>GET\<close>, the two events that are only printed, and the fallback.\<close>

definition first_log_service :: "library \<Rightarrow> seq_lib \<Rightarrow> string \<Rightarrow> string list \<Rightarrow> jsval \<Rightarrow> seq_row table \<Rightarrow> first_reply \<times> js_error list \<times> seq_row table" where
  "first_log_service cr lib used p body t =
     (let at_path = map to_lower p in
      if at_path = [] \<and> (used = ''GET'' \<or> used = ''HEAD'') then ((200, ''{\"status\":\"OK\"}''), [], t)
      else if used = ''POST'' \<and> at_path = [''api'', ''delivery''] then first_post_delivery cr lib body t
      else if used = ''POST'' \<and> (at_path = [''api'', ''queue''] \<or> at_path = [''api'', ''connection''])
        then ((200, ''{\"status\": \"OK\"}'' @ [CHR 0x0A]), [], t)
      else ((404, ''Resourse does not exist'' @ [CHR 0x0A]), [], t))"

section \<open>What it keeps\<close>

lemma first_schema_parts:
  assumes "first_schema_delivery cr v = Inr x"
  shows "any_string (get_prop v ''uuid'') = Inr (d_uuid x)" "z_num (get_prop v ''dt'') = Inr (d_dt x)"
    "email_schema cr (get_prop v ''sender'') = Inr (d_sender x)"
    "first_domain_schema (get_prop v ''rcpt_domain'') = Inr (d_rcpt_domain x)" "email_schema cr (get_prop v ''rcpt_list'') = Inr (d_rcpt_list x)"
    "email_schema cr (get_prop v ''rcpt_accepted'') = Inr (d_rcpt_accepted x)" "z_bool (get_prop v ''tls_forced'') = Inr (d_tls_forced x)"
    "z_bool (get_prop v ''tls'') = Inr (d_tls x)" "z_bool (get_prop v ''auth'') = Inr (d_auth x)"
    "first_domain_schema (get_prop v ''host'') = Inr (d_host x)" "first_ip_schema (get_prop v ''ip'') = Inr (d_ip x)"
    "port_schema (get_prop v ''port'') = Inr (d_port x)" "any_string (get_prop v ''response'') = Inr (d_response x)"
    "z_num (get_prop v ''delay'') = Inr (d_delay x)" "\<exists>ps. v = Obj ps"
  using assms by (auto simp: first_schema_delivery_def z_object_Inr field_def map_sum_Inr_iff)

text \<open>A delivery the first service keeps has the values it validated; but its key is the one the body names, when it names one.\<close>

lemma first_delivery_kept:
  assumes "first_post_delivery cr lib body t = (reply, es, t')" "t' \<noteq> t" "\<And>m a v. sl_stored lib m a v = v"
  shows "\<exists>x i. first_schema_delivery cr body = Inr x \<and> i = nullish (sl_key lib (get_prop body ''id'')) (next_id t)
    \<and> rows t' = rows t @ [\<lparr>sr_key = i, sr_values = attribute_values delivery_model body\<rparr>]
    \<and> get_prop (Obj (attribute_values delivery_model body)) ''sender'' = Str (d_sender x)
    \<and> get_prop (Obj (attribute_values delivery_model body)) ''host'' = Str (d_host x)"
proof -
  from assms(1,2) obtain x where x: "first_schema_delivery cr body = Inr x" by (auto simp: first_post_delivery_def split: sum.splits)
  with assms(1,2) obtain i where made: "seq_create lib delivery_model body t = (Inr i, t')"
    by (auto simp: first_post_delivery_def split: prod.splits sum.splits)
  have same: "stored_values lib delivery_model vs = vs" for vs by (simp add: stored_values_def assms(3) case_prod_beta)
  have str: "get_prop body k \<noteq> Undef \<and> get_prop body k = Str s"
    if "z_string f (get_prop body k) = Inr s" for k s f using that by (auto simp: z_string_Inr)
  have "get_prop body ''sender'' = Str (d_sender x)" "get_prop body ''host'' = Str (d_host x)"
    using first_schema_parts(3,10) [OF x] str by (auto simp: email_schema_def first_domain_schema_def)
  moreover have "distinct (sm_attributes delivery_model)" "''sender'' \<in> set (sm_attributes delivery_model)" "''host'' \<in> set (sm_attributes delivery_model)"
    by (simp_all add: delivery_model_def sm_attributes_def)
  ultimately have "get_prop (Obj (attribute_values delivery_model body)) ''sender'' = Str (d_sender x)"
      "get_prop (Obj (attribute_values delivery_model body)) ''host'' = Str (d_host x)"
    using attribute_values_prop(2) [of delivery_model _ body lib] by (simp_all add: same assms(3))
  with x made show ?thesis
    by (cases rule: seq_create_shape [of lib delivery_model body t]) (auto simp: same)
qed

text \<open>The rewrite takes what the first service took, with the same values, when the hosts are host names, the octets are octets, and the two
  labels that are new are not there.\<close>

lemma rewrite_takes_first:
  assumes "first_schema_delivery cr v = Inr x" "host_schema (get_prop v ''rcpt_domain'') = Inr (d_rcpt_domain x)"
    "host_schema (get_prop v ''host'') = Inr (d_host x)" "ip_schema (get_prop v ''ip'') = Inr (d_ip x)"
    "get_prop v ''gateway'' = Undef" "get_prop v ''route_rule'' = Undef"
  shows "schema_delivery cr v = Inr x"
proof -
  note p = first_schema_parts [OF assms(1)]
  have sender: "sender_schema cr (get_prop v ''sender'') = Inr (d_sender x)"
  proof -
    have "get_prop v ''sender'' = Str (d_sender x)" using p(3) by (simp add: email_schema_def z_string_Inr)
    with p(3) show ?thesis by (cases "d_sender x = []") (simp_all add: sender_schema_def z_union_def invalid_type_def)
  qed
  have optional: "z_optional s Undef = Inr None" for s :: "jsval \<Rightarrow> string parsed" by (simp add: z_optional_def)
  have labels: "d_gateway x = None" "d_route_rule x = None" using assms(1) by (auto simp: first_schema_delivery_def z_object_Inr map_sum_Inr_iff)
  from p(15) obtain ps where "v = Obj ps" by blast
  then show ?thesis using p sender assms(2-6) optional labels
    by (simp add: schema_delivery_def z_object_Inr field_def map_sum_Inr_iff)
qed

text \<open>What only one of them takes.\<close>

lemma first_patterns:
  "rx_test first_domain_rx ''mx.example''" "rx_test first_domain_rx ''-..example''" "\<not> rx_test host_rx ''-..example''"
  "\<not> rx_test first_domain_rx ''localhost''" "rx_test host_rx ''localhost''"
  "rx_test first_ip_rx ''999.1.1.1''" "\<not> ip_text ''999.1.1.1''"
  by code_simp+

end
