(* ===== verification/LogCensor.thy ===== *)
theory LogCensor
  imports MailPlugins
begin

text \<open>
  The log lines of the plugins, \<open>legacy/mailgw/plugins/\<close> \<open>functions.js\<close> and \<open>npFilter.js\<close>: \<open>JSON.stringify\<close> with the replacer
  \<open>censor\<close>. What is logged may be one of the objects of Haraka, which refer to each other in cycles, so objects are addresses in a
  store. The replacer counts the values it lets through; from the thirtieth value on it answers a fixed text, and a reference back to
  the object the log started from is one, too. \<open>JSON.stringify\<close> itself throws at an object it is already inside of. Objects with a
  \<open>toJSON\<close> of their own are those it answers.
\<close>

section \<open>Object graphs\<close>

datatype graph_value = Leaf jsval | Ref nat

datatype graph_object = ArrayOf "graph_value list" | ObjectOf "(string \<times> graph_value) list"

type_synonym store = "nat \<Rightarrow> graph_object"

text \<open>\<open>typeof v == "object"\<close>.\<close>

definition type_object :: "graph_value \<Rightarrow> bool" where
  "type_object v = (case v of Leaf x \<Rightarrow> x = Null | Ref _ \<Rightarrow> True)"

section \<open>The replacer\<close>

text \<open>One call: the text it answers, or \<open>None\<close> when the value goes through; and its counter.\<close>

definition censor :: "graph_value \<Rightarrow> nat \<Rightarrow> graph_value \<Rightarrow> string option \<times> nat" where
  "censor whole i v =
     (if i \<noteq> 0 \<and> type_object whole \<and> type_object v \<and> whole = v then (Some ''[Circular]'', i)
      else if 29 \<le> i then (Some ''[Unknown]'', i)
      else (None, i + 1))"

text \<open>The values of an object one after the other, with the counter.\<close>

fun walk :: "(nat \<Rightarrow> graph_value \<Rightarrow> (jsval \<times> nat) res option) \<Rightarrow> nat \<Rightarrow> graph_value list \<Rightarrow> (jsval list \<times> nat) res option" where
  "walk f i [] = Some (Inr ([], i))"
| "walk f i (v # vs) = (case f i v of
     None \<Rightarrow> None
   | Some (Inl e) \<Rightarrow> Some (Inl e)
   | Some (Inr (x, j)) \<Rightarrow> map_option (map_sum id (\<lambda>(xs, k). (x # xs, k))) (walk f j vs))"

text \<open>The value written: \<open>None\<close> when the fuel is used up.\<close>

primrec censored :: "nat \<Rightarrow> store \<Rightarrow> graph_value \<Rightarrow> nat list \<Rightarrow> nat \<Rightarrow> graph_value \<Rightarrow> (jsval \<times> nat) res option" where
  "censored 0 st whole stack i v = None"
| "censored (Suc n) st whole stack i v =
     (case censor whole i v of
        (Some t, j) \<Rightarrow> Some (Inr (Str t, j))
      | (None, j) \<Rightarrow>
          (case v of
             Leaf x \<Rightarrow> Some (Inr (x, j))
           | Ref a \<Rightarrow>
               (if a \<in> set stack then Some (Inl ''TypeError'')
                else (case st a of
                        ArrayOf vs \<Rightarrow> map_option (map_sum id (\<lambda>(xs, k). (Arr xs, k))) (walk (censored n st whole (a # stack)) j vs)
                      | ObjectOf ps \<Rightarrow> map_option (map_sum id (\<lambda>(xs, k). (Obj (zip (map fst ps) xs), k)))
                                         (walk (censored n st whole (a # stack)) j (map snd ps))))))"

definition to_json :: "store \<Rightarrow> graph_value \<Rightarrow> string option res option" where
  "to_json st v = map_option (map_sum id (\<lambda>(x, _). json_stringify x)) (censored 30 st v [] 0 v)"

text \<open>\<open>jsonlog\<close> of \<open>npFilter.js\<close>: the line appended to the log, and the text ex_answered.\<close>

definition jsonlog :: "store \<Rightarrow> graph_value \<Rightarrow> (string \<times> string option) res option" where
  "jsonlog st v = map_option (map_sum id (\<lambda>s. (nullish s ''undefined'' @ [CHR 0x0A], s))) (to_json st v)"

section \<open>It returns\<close>

lemma walk_returns:
  assumes "\<And>i v. m \<le> i \<Longrightarrow> i \<le> 29 \<Longrightarrow> \<exists>r. f i v = Some r \<and> (\<forall>x j. r = Inr (x, j) \<longrightarrow> i \<le> j \<and> j \<le> 29)" "m \<le> i" "i \<le> 29"
  shows "\<exists>r. walk f i vs = Some r \<and> (\<forall>xs j. r = Inr (xs, j) \<longrightarrow> i \<le> j \<and> j \<le> 29)"
  using assms(2,3)
proof (induction vs arbitrary: i)
  case (Cons v vs)
  from assms(1) [OF Cons.prems, of v] obtain r where r: "f i v = Some r" "\<And>x j. r = Inr (x, j) \<Longrightarrow> i \<le> j \<and> j \<le> 29" by blast
  show ?case
  proof (cases r)
    case (Inr p)
    then obtain x j where p: "r = Inr (x, j)" by (cases p) auto
    with r(2) have j: "i \<le> j" "j \<le> 29" by auto
    with Cons.prems(1) have "m \<le> j" by simp
    from Cons.IH [OF this j(2)] obtain q where "walk f j vs = Some q" "\<And>xs k. q = Inr (xs, k) \<Longrightarrow> j \<le> k \<and> k \<le> 29" by blast
    with r(1) p j show ?thesis by (cases q) fastforce+
  qed (simp add: r)
qed simp

lemma written_returns:
  assumes "i \<le> 29" "30 \<le> i + n"
  shows "\<exists>r. censored n st whole stack i v = Some r \<and> (\<forall>x j. r = Inr (x, j) \<longrightarrow> i \<le> j \<and> j \<le> 29)"
  using assms
proof (induction n arbitrary: stack i v)
  case (Suc n)
  show ?case
  proof (cases "fst (censor whole i v)")
    case None
    then have c: "censor whole i v = (None, i + 1)" "i + 1 \<le> 29" by (auto simp: censor_def split: if_splits)
    have inner: "\<exists>r. walk (censored n st whole s) (i + 1) vs = Some r \<and> (\<forall>xs j. r = Inr (xs, j) \<longrightarrow> i + 1 \<le> j \<and> j \<le> 29)" for s vs
      by (rule walk_returns [where m = "i + 1"]) (use Suc.IH Suc.prems(2) c(2) in auto)
    show ?thesis
    proof (cases v)
      case (Ref a)
      have c': "censor whole i (Ref a) = (None, Suc i)" using c(1) by (simp add: Ref)
      show ?thesis
      proof (cases "a \<in> set stack")
        case False
        obtain r where r: "walk (censored n st whole (a # stack)) (i + 1) (case st a of ArrayOf vs \<Rightarrow> vs | ObjectOf ps \<Rightarrow> map snd ps) = Some r"
          "\<forall>xs j. r = Inr (xs, j) \<longrightarrow> i + 1 \<le> j \<and> j \<le> 29" using inner by blast
        show ?thesis
        proof (cases r)
          case (Inr p)
          then obtain xs k where "r = Inr (xs, k)" by (cases p) auto
          with r False show ?thesis by (cases "st a") (auto simp: c' Ref)
        qed (use r False in \<open>cases "st a"; simp add: c' Ref\<close>)
      qed (simp add: c' Ref)
    qed (use c in simp)
  next
    case (Some t)
    then have "censor whole i v = (Some t, i)" by (auto simp: censor_def split: if_splits)
    with Suc.prems(1) show ?thesis by simp
  qed
qed simp

section \<open>What is logged as it is\<close>

text \<open>The value an acyclic graph stands for, and how many values that are.\<close>

inductive stands_for :: "store \<Rightarrow> nat list \<Rightarrow> graph_value \<Rightarrow> jsval \<Rightarrow> bool" for st where
  stands_leaf: "(\<forall>xs. x \<noteq> Arr xs) \<Longrightarrow> (\<forall>ps. x \<noteq> Obj ps) \<Longrightarrow> stands_for st stack (Leaf x) x"
| stands_array: "a \<notin> set stack \<Longrightarrow> st a = ArrayOf vs \<Longrightarrow> list_all2 (stands_for st (a # stack)) vs xs
    \<Longrightarrow> stands_for st stack (Ref a) (Arr xs)"
| stands_object: "a \<notin> set stack \<Longrightarrow> st a = ObjectOf ps \<Longrightarrow> list_all2 (stands_for st (a # stack)) (map snd ps) xs
    \<Longrightarrow> stands_for st stack (Ref a) (Obj (zip (map fst ps) xs))"

fun value_count :: "jsval \<Rightarrow> nat" where
  "value_count (Arr xs) = Suc (sum_list (map value_count xs))"
| "value_count (Obj ps) = Suc (sum_list (map (\<lambda>(k, x). value_count x) ps))"
| "value_count v = 1"

lemma walk_stands:
  assumes "list_all2 (\<lambda>v x. \<forall>i. m \<le> i \<and> i + value_count x \<le> 29 \<longrightarrow> f i v = Some (Inr (x, i + value_count x))) vs xs"
    "m \<le> i" "i + sum_list (map value_count xs) \<le> 29"
  shows "walk f i vs = Some (Inr (xs, i + sum_list (map value_count xs)))"
  using assms
proof (induction vs arbitrary: i xs)
  case (Cons v vs)
  then obtain x ys where xs: "xs = x # ys" by (cases xs) auto
  with Cons.prems have "f i v = Some (Inr (x, i + value_count x))" by simp
  with Cons.IH [of ys "i + value_count x"] Cons.prems xs show ?case by (simp add: add.assoc)
qed simp

lemma written_stands:
  assumes "stands_for st stack v x" "(i = 0 \<and> whole = v) \<or> (\<exists>a. whole = Ref a \<and> a \<in> set stack)" "i + value_count x \<le> 29" "30 \<le> i + n"
  shows "censored n st whole stack i v = Some (Inr (x, i + value_count x))"
  using assms
proof (induction arbitrary: i n rule: stands_for.induct)
  case (stands_leaf x stack)
  then obtain k where n: "n = Suc k" by (cases n) auto
  have "value_count x = 1" using stands_leaf(1,2) by (cases x) auto
  with stands_leaf show ?case by (auto simp: n censor_def)
next
  case (stands_array a stack vs xs)
  then obtain k where n: "n = Suc k" by (cases n) auto
  have c: "censor whole i (Ref a) = (None, Suc i)" using stands_array by (auto simp: censor_def)
  have "whole = Ref a \<or> (\<exists>b. whole = Ref b \<and> b \<in> set (a # stack))" using stands_array.prems(1) by auto
  with stands_array.IH stands_array.prems(3) n
  have "list_all2 (\<lambda>v x. \<forall>j. Suc i \<le> j \<and> j + value_count x \<le> 29 \<longrightarrow> censored k st whole (a # stack) j v = Some (Inr (x, j + value_count x))) vs xs"
    by (elim list_all2_mono) auto
  from walk_stands [OF this, of "Suc i"] stands_array.hyps(1,2) stands_array.prems(2) show ?case by (simp add: n c)
next
  case (stands_object a stack ps xs)
  then obtain k where n: "n = Suc k" by (cases n) auto
  have c: "censor whole i (Ref a) = (None, Suc i)" using stands_object by (auto simp: censor_def)
  have len: "length ps = length xs" using stands_object.IH by (auto dest: list_all2_lengthD)
  have count: "map (\<lambda>(k, x). value_count x) (zip (map fst ps) xs) = map value_count xs"
    using len by (auto simp: list_eq_iff_nth_eq)
  have "whole = Ref a \<or> (\<exists>b. whole = Ref b \<and> b \<in> set (a # stack))" using stands_object.prems(1) by auto
  with stands_object.IH stands_object.prems(3) n
  have "list_all2 (\<lambda>v x. \<forall>j. Suc i \<le> j \<and> j + value_count x \<le> 29 \<longrightarrow> censored k st whole (a # stack) j v = Some (Inr (x, j + value_count x)))
      (map snd ps) xs" by (elim list_all2_mono) auto
  from walk_stands [OF this, of "Suc i"] stands_object.hyps(1,2) stands_object.prems(2) show ?case by (simp add: n c count)
qed



text \<open>The objects the hooks report: each value a primitive, so that they are logged whole.\<close>

definition flat_object :: "(string \<times> jsval) list \<Rightarrow> nat \<Rightarrow> graph_object" where
  "flat_object ps = (\<lambda>_. ObjectOf (map (\<lambda>(k, x). (k, Leaf x)) ps))"

lemma flat_object_logged:
  assumes "list_all (\<lambda>(k, x). (\<forall>xs. x \<noteq> Arr xs) \<and> (\<forall>qs. x \<noteq> Obj qs)) ps" "length ps \<le> 28"
  shows "to_json (flat_object ps) (Ref 0) = Some (Inr (json_stringify (Obj ps)))"
proof -
  let ?leaves = "map (\<lambda>(k, x). (k, Leaf x)) ps"
  have "list_all2 (stands_for (flat_object ps) [0]) (map snd ?leaves) (map snd ps)"
    using assms(1) by (auto simp: list_all2_conv_all_nth list_all_length case_prod_beta intro!: stands_leaf)
  then have "stands_for (flat_object ps) [] (Ref 0) (Obj (zip (map fst ?leaves) (map snd ps)))"
    by (intro stands_object) (simp_all add: flat_object_def)
  moreover have "zip (map fst ?leaves) (map snd ps) = ps" by (simp add: comp_def case_prod_beta zip_map_fst_snd)
  ultimately have "stands_for (flat_object ps) [] (Ref 0) (Obj ps)" by simp
  moreover have leaf: "value_count x = 1" if "\<forall>xs. x \<noteq> Arr xs" "\<forall>qs. x \<noteq> Obj qs" for x using that by (cases x) auto
  have "sum_list (map (\<lambda>(k, x). value_count x) ps) = length ps"
    using assms(1) by (induction ps) (auto simp: leaf)
  ultimately have "censored 30 (flat_object ps) (Ref 0) [] 0 (Ref 0) = Some (Inr (Obj ps, value_count (Obj ps)))"
    using written_stands [of "flat_object ps" "[]" "Ref 0" "Obj ps" 0 "Ref 0" 30] assms(2) by simp
  then show ?thesis by (simp add: to_json_def)
qed

text \<open>A reference back to the start is a text; a cycle that does not pass it is the error of \<open>JSON.stringify\<close>.\<close>

lemma cycles_logged:
  "to_json (\<lambda>_. ObjectOf [(''self'', Ref 0)]) (Ref 0) = Some (Inr (json_stringify (Obj [(''self'', Str ''[Circular]'')])))"
  "to_json (\<lambda>a. if a = 0 then ObjectOf [(''txn'', Ref 1)] else ObjectOf [(''self'', Ref 1)]) (Ref 0) = Some (Inl ''TypeError'')"
  by (simp_all add: to_json_def censor_def type_object_def eval_nat_numeral)

end
