(* ===== verification/Spec2Isabelle.thy ===== *)
theory Spec2Isabelle
  imports System Divergences Fleet SearchProps StartupProps JsonFuel MailProps GridProps ExpressLogs ToolProps SetupProps
    Certs ExpressProps ExpressSchema FirstLogService LogCensor
begin

text \<open>
  A verification development of mailgw, the TypeScript and JavaScript of it. At its centre is the console under
  \<open>webui-fastify/\<close>: operators sign in to it, keep relays, profiles and credentials, approve mail gateways, and deploy
  versioned configuration bundles which the gateways fetch over a signed HTTP API. Around it stand the parts under \<open>legacy/\<close>
  that the Go services replaced and that the repository keeps as their specification: the log service, the plugins and the tools
  of the Haraka gateway, and the first console.

  \<^bold>\<open>Parts and how they interact.\<close> A request enters \<open>src/app.ts\<close>, which records it in the audit log, checks the
  session and, where a route asks for it, the role, and calls a controller. The controllers read and write the tables of
  \<open>db/schema.ts\<close>. Deploying composes a bundle from the tables (\<open>src/central/bundle.ts\<close>), files it as an immutable
  version, points the gateway at it and notifies the gateway's open sockets through an in-process bus
  (\<open>src/central/notify.ts\<close>). Gateways sign their requests; \<open>src/agent/verify.ts\<close> checks them for \<open>src/routes/agent.ts\<close>. A log
  page's grid asks the console for rows, the console validates the request and passes it to the log service, and the log service
  turns it into SQL. A mail gateway posts what happens to each message to the log service and asks it about attachments.

  \<^bold>\<open>Theories.\<close> Each names the source file it models at its head.
  \<^item> Vocabulary: \<open>Prelude\<close> (strings, truthiness, results; a thrown error is \<open>Inl\<close> of its message), \<open>JsNum\<close> (numbers: exact
    rationals rounded to doubles), \<open>Json\<close>, \<open>JsonText\<close>, \<open>JsonFuel\<close> (parsing and printing JSON, their round trip, and that
    the parser's fuel is enough), \<open>Encoding\<close> (hex and Base64 of \<open>Buffer\<close>), \<open>Http\<close> (requests and replies), \<open>Rows\<close>, \<open>Regex\<close> (regular
    expressions by derivatives, against their languages).
  \<^item> State: \<open>Schema\<close>, one record per table row; a table is its rows and the next key, and its operations are the
    \<open>SELECT\<close>, \<open>INSERT\<close>, \<open>UPDATE\<close> and \<open>DELETE\<close> the queries use. The locale \<open>keyed_rows\<close> states what an automatic key promises and is
    interpreted for every table. \<open>Samples\<close> holds concrete states for the applications of the properties.
  \<^item> Bundles: \<open>Secrets\<close> (\<open>central/secrets.ts\<close>), \<open>Bundle\<close>, \<open>Canonical\<close>, \<open>Compose\<close>, \<open>Deploy\<close> (\<open>central/bundle.ts\<close>, \<open>central/notify.ts\<close>):
    what \<open>stableStringify\<close> identifies, that the text of a bundle depends on the configuration and not on row order, that a
    deploy refines \<open>mint a version or re-point\<close>, that rollbacks are exact.
  \<^item> Gateways: \<open>Verify\<close> (\<open>agent/verify.ts\<close>), \<open>AgentSchemas\<close>, \<open>AgentRoutes\<close>, \<open>AgentProps\<close> (\<open>validation/agent.ts\<close>, \<open>routes/agent.ts\<close>),
    \<open>Fleet\<close> (\<open>central/fleet.ts\<close>): the signed string determines the request, a configuration leaves only for its owner, what was
    deployed is what is served, a socket sends one frame per change.
  \<^item> People: \<open>Validation\<close>, \<open>FormSchemas\<close> (\<open>validation/login.ts\<close>, \<open>validation/config.ts\<close>), \<open>Sessions\<close> (\<open>globals.ts\<close>, \<open>auth/session.ts\<close>,
    \<open>middleware/checkSession.ts\<close>; the store is the locale \<open>session_store\<close>, interpreted on the table), \<open>Auth\<close> (\<open>auth/\<close>,
    \<open>controllers/CtrlUser.ts\<close>).
  \<^item> Operators' pages: \<open>Gateways\<close>, \<open>GatewayProps\<close> (\<open>controllers/CtrlGateway.ts\<close>), \<open>ConfigCtrl\<close>, \<open>ConfigProps\<close> (the other
    controllers), \<open>Slots\<close> (profiles against the slots they are assigned to), \<open>Search\<close>, \<open>SearchProps\<close> (\<open>validation/search.ts\<close>,
    \<open>logservice.ts\<close>, \<open>routes/api.ts\<close>, \<open>routes/log.ts\<close>, \<open>routes/root.ts\<close>), \<open>Grids\<close>, \<open>GridProps\<close> (\<open>public/js/grids/\<close>, \<open>public/js/login.js\<close>).
  \<^item> The console as a whole: \<open>Startup\<close>, \<open>StartupProps\<close> (\<open>checkenv.ts\<close>, \<open>db/index.ts\<close>, \<open>tls.ts\<close>, \<open>index.ts\<close>), \<open>App\<close> (\<open>app.ts\<close>, \<open>routes/\<close>,
    \<open>middleware/logger.ts\<close>), \<open>Effects\<close> (every route as one step of a relation indexed by the power it asks for), \<open>AppProps\<close>
    (what holds for any route), \<open>Laws\<close> and \<open>System\<close> (what holds in any state reached), \<open>Divergences\<close> (where code and comments part).
  \<^item> The log service, \<open>legacy/logservice/\<close>: \<open>LogQuery\<close>, \<open>LogQueryProps\<close>, \<open>LogFilter\<close> (\<open>query/builder.ts\<close>, \<open>query/search.ts\<close>: every statement
    is one of a described family with its values beside it, and a validated filter arrives as it was set), \<open>LogService\<close>,
    \<open>LogServiceProps\<close> (schema and rows of events, the attachment blocklist, routes and key, migrations). \<open>ExpressLogs\<close> is the search of its
    predecessor, \<open>legacy/mailgw-logservice/\<close>, and that the rewrite asks the same; \<open>FirstLogService\<close> its routes and its schema of a delivery,
    with what the rewrite takes of it.
  \<^item> The Haraka gateway, \<open>legacy/mailgw/plugins/\<close>: \<open>MailPlugins\<close>, \<open>MailProps\<close> (allowlist, routing, attachments, log events, each hook as a
    function of what Haraka passes it; the attachment hook is composed with the log service), \<open>LogCensor\<close> (the log lines: any object graph is
    written in bounded time). Its tools, \<open>legacy/mailgw-config/\<close>:
    \<open>QueueTool\<close>, \<open>ToolProps\<close>, \<open>GatewaySetup\<close>, \<open>SetupProps\<close>.
  \<^item> The first console, \<open>legacy/webui-express/\<close>: \<open>ExpressConsole\<close> (login and gate), \<open>ExpressTables\<close> (the calls of Sequelize on keyed rows),
    \<open>ExpressRelays\<close> (its relay controllers), \<open>ExpressMail\<close> (the record of a message, with the orders its writes may come in), \<open>ExpressApp\<close> (routes,
    log and the whole application), \<open>ExpressData\<close>, \<open>ExpressProps\<close> (a reported message is kept in any order of writes; data changes
    only in a session a login opened; keys stay unique), \<open>ExpressStart\<close> (start, accounts, grids), \<open>ExpressSchema\<close>
    (the migrations of \<open>legacy/mailgw-logservice/\<close> it runs on: its check of the schema is exact, and one column is narrower than its model). And \<open>Certs\<close> (\<open>certs/src/generate.ts\<close>).

  \<^bold>\<open>State and operations.\<close> A handler is a function from what it needs of the process (library, environment, clock in
  milliseconds, random values), the request and the database to its reply, the database it leaves and the listeners it
  notifies. A transaction that throws keeps the old database (\<open>run_tx\<close>). \<open>serve_route\<close> puts the gates and the error handler around
  a handler; \<open>console_step\<close> adds the timers, the command line and recorded exceptions. Requests are atomic: a handler runs to its end before the next
  starts, which is what one process with one transaction per change does up to reads that overtake each other. The log service is
  modelled the same way over its own tables (\<open>log_db\<close>), a hook of a plugin over the notes of its connection and
  transaction, a command-line tool over the file system it writes.

  \<^bold>\<open>What the lemmas show.\<close> The locale \<open>console_law\<close> proves once that a predicate kept by every kind of step holds in every state
  reached; its interpretations are the laws of accounts, sessions, configuration tables, fleet and version history: the database stays
  sound, first-run setup never reopens, versions are immutable. The properties of \<open>AppProps\<close> speak of all routes of the route
  table: without a session nothing protected runs, without an administrator nothing a gateway is given changes, looking
  changes nothing. Three properties cross the components: a bundle from the tables to the gateway that runs it, a filter from the grid in the
  browser to the SQL statement, an attachment from the SMTP hook to the blocklist and back. The theories named \<open>Props\<close> hold the properties of one component
  each, with concrete applications and, where code and documentation part, the lemma that shows it.

  \<^bold>\<open>Bounds and fuel.\<close> The JSON parser takes fuel; \<open>json_parse\<close> gives it twice the length of the text plus one and \<open>p_fuel_enough\<close>
  shows that more changes nothing. The waits for the schema and for the database are functions with their own termination proofs: every round
  moves the clock toward the deadline, or counts an attempt. Numbers are doubles: statements about them bound the integers by 2^53, below which
  they are exact, and the ages of queue files are proved exact through the rounding of the division. The writer of log lines descends thirty levels:
  its replacer lets twenty-nine values through, and \<open>written_returns\<close> shows that this is enough for every object graph.

  \<^bold>\<open>Parameters.\<close> The record \<open>library\<close> holds the packages the console calls (SHA-256, Ed25519, AES-GCM, bcrypt, cookie
  signing, zod's built-in messages and e-mail pattern, the collation of \<open>ORDER BY\<close>); \<open>ambient\<close> adds the router's choice of body parser, the
  rate limiter, \<open>fetch\<close> and the outcome of audit writes; \<open>log_parts\<close> holds what the log service's database refuses, compares as equal and
  answers; \<open>seq_lib\<close> and \<open>ex_env\<close> do so for Sequelize under the first console. The key pair and PEM text of a generated certificate, Haraka's connection, the MIME parts of a message, AG Grid's models and the
  result of \<open>parseArgs\<close> are arguments. What a property needs of them is a hypothesis of the property.

  \<^bold>\<open>Not modelled.\<close> Of the tables, \<open>createdAt\<close> and \<open>updatedAt\<close> where no code reads them; column lengths and types of MariaDB beyond
  what the schemas check, and case folding of its string comparison. Of the framework, static files, security headers,
  the counting of the rate limit and the pug templates (a page is its template's name and the values given to it). Node's event loop:
  the socket timers appear as calls of \<open>push\<close>. In the first console the statements of one request run before the
  next request, except for the recipients of a message, whose order is an argument. The archive, whose libraries are copies of what is modelled; the
  w2ui scripts no page loads; the Go services, deployment files and
  tests.
\<close>

end
